(* ===== verification/Prelude.thy ===== *)
theory Prelude
  imports Complex_Main "HOL-Library.AList" "HOL-Library.Sublist"
begin

text \<open>
  Shared vocabulary of the development: Python dictionaries as association lists in insertion
  order, the string methods the code uses, Python's \<open>min\<close> and \<open>list.sort\<close>, exceptions as
  values, and the locale of state machines whose operations keep an invariant.

  A Python float is read as the rational number it denotes (\<open>pyfloat\<close>), so comparisons and
  sums are exact and rounding is not modelled. A Python string is an Isabelle \<open>string\<close>.
\<close>

type_synonym pyfloat = rat
type_synonym ('k, 'v) dict = "('k \<times> 'v) list"

named_theorems dict_laws \<open>what a lookup returns after an update of a dictionary\<close>
named_theorems dict_inv \<open>operations that keep the keys of a dictionary distinct\<close>

section \<open>Exceptions as values\<close>

text \<open>The built-in exceptions the code raises or catches, with their message where it is used.\<close>

datatype py_error =
    FileNotFoundError
  | FileExistsError
  | IsADirectoryError
  | NotADirectoryError
  | KeyError
  | IndexError
  | TypeError
  | ValueError string
  | AttributeError string
  | ConnectionError string
  | TimeoutError string
  | RuntimeError string
  | OtherError string
  | CpipError string string

fun is_ok :: "'e + 'a \<Rightarrow> bool" where
  "is_ok (Inl _) = False"
| "is_ok (Inr _) = True"

text \<open>A list comprehension whose body may raise: the first exception ends it.\<close>

fun map_result :: "('a \<Rightarrow> 'e + 'b) \<Rightarrow> 'a list \<Rightarrow> 'e + 'b list" where
  "map_result f [] = Inr []"
| "map_result f (x # xs) =
     (case f x of
        Inl e \<Rightarrow> Inl e
      | Inr y \<Rightarrow> (case map_result f xs of Inl e \<Rightarrow> Inl e | Inr ys \<Rightarrow> Inr (y # ys)))"

lemma map_result_cong [fundef_cong]:
  "xs = ys \<Longrightarrow> (\<And>x. x \<in> set ys \<Longrightarrow> f x = g x) \<Longrightarrow> map_result f xs = map_result g ys"
  by (induction ys arbitrary: xs) (auto split: sum.splits)

lemma map_result_Inr: "(\<And>x. x \<in> set xs \<Longrightarrow> f x = Inr (g x)) \<Longrightarrow> map_result f xs = Inr (map g xs)"
  by (induction xs) auto

lemma map_result_map: "map_result f (map g xs) = map_result (\<lambda>x. f (g x)) xs"
  by (induction xs) (auto split: sum.splits)

text \<open>\<open>str(e)\<close>, empty for the exceptions raised without a message of the code's own.\<close>

fun error_text :: "py_error \<Rightarrow> string" where
  "error_text (ValueError s) = s"
| "error_text (AttributeError s) = s"
| "error_text (ConnectionError s) = s"
| "error_text (TimeoutError s) = s"
| "error_text (RuntimeError s) = s"
| "error_text (OtherError s) = s"
| "error_text (CpipError code s) = s"
| "error_text _ = []"

lemma pair_sndI: "fst x = a \<Longrightarrow> x = (a, snd x)"
  by auto

section \<open>Dictionaries\<close>

text \<open>
  A dictionary is the list of its items in insertion order. \<open>d[k] = v\<close> is
  \<open>AList.update k v d\<close>: an existing key keeps its place, a new one goes to the end, as in
  Python. \<open>del d[k]\<close> and \<open>d.pop(k, None)\<close> are \<open>AList.delete k d\<close>, and \<open>d.get(k)\<close>
  is \<open>map_of d k\<close>. The keys are distinct in every dictionary the operations build.
\<close>

abbreviation dget :: "('k, 'v) dict \<Rightarrow> 'k \<Rightarrow> 'v option" where
  "dget d k \<equiv> map_of d k"

abbreviation dset :: "'k \<Rightarrow> 'v \<Rightarrow> ('k, 'v) dict \<Rightarrow> ('k, 'v) dict" where
  "dset k v d \<equiv> AList.update k v d"

abbreviation ddel :: "'k \<Rightarrow> ('k, 'v) dict \<Rightarrow> ('k, 'v) dict" where
  "ddel k d \<equiv> AList.delete k d"

abbreviation dkeys :: "('k, 'v) dict \<Rightarrow> 'k list" where
  "dkeys d \<equiv> map fst d"

abbreviation dvals :: "('k, 'v) dict \<Rightarrow> 'v list" where
  "dvals d \<equiv> map snd d"

abbreviation dwf :: "('k, 'v) dict \<Rightarrow> bool" where
  "dwf d \<equiv> distinct (dkeys d)"

text \<open>
  The interface of a keyed table: what the code relies on when it keeps sessions, builds,
  connections or handlers in a dictionary.
\<close>

locale keyed_table =
  fixes get :: "'t \<Rightarrow> 'k \<Rightarrow> 'v option"
    and put :: "'k \<Rightarrow> 'v \<Rightarrow> 't \<Rightarrow> 't"
    and del :: "'k \<Rightarrow> 't \<Rightarrow> 't"
    and wf :: "'t \<Rightarrow> bool"
  assumes get_put: "get (put k v t) j = (if j = k then Some v else get t j)"
    and get_del: "get (del k t) j = (if j = k then None else get t j)"
    and wf_put: "wf t \<Longrightarrow> wf (put k v t)"
    and wf_del: "wf t \<Longrightarrow> wf (del k t)"
begin

lemma get_put_same: "get (put k v t) k = Some v"
  by (simp add: get_put)

lemma get_put_other: "j \<noteq> k \<Longrightarrow> get (put k v t) j = get t j"
  by (simp add: get_put)

lemma get_del_same: "get (del k t) k = None"
  by (simp add: get_del)

lemma get_del_other: "j \<noteq> k \<Longrightarrow> get (del k t) j = get t j"
  by (simp add: get_del)

lemma put_covers_put: "get (put k v (put k w t)) = get (put k v t)"
  by (auto simp: get_put fun_eq_iff)

lemma del_undoes_put: "get t k = None \<Longrightarrow> get (del k (put k v t)) = get t"
  by (auto simp: get_put get_del fun_eq_iff)

lemma put_twist: "j \<noteq> k \<Longrightarrow> get (put j v (put k w t)) = get (put k w (put j v t))"
  by (auto simp: get_put fun_eq_iff)

end

interpretation dct: keyed_table map_of AList.update AList.delete "\<lambda>d. distinct (map fst d)"
  by unfold_locales
    (auto simp: AList.update_conv' AList.delete_conv' AList.distinct_update AList.distinct_delete)

declare dct.get_put [dict_laws] dct.get_del [dict_laws]
declare dct.wf_put [dict_inv] dct.wf_del [dict_inv]

lemma set_ddel: "set (ddel k d) = {p \<in> set d. fst p \<noteq> k}"
  by (auto simp: AList.delete_eq)

lemma ddel_filter: "ddel k d = filter (\<lambda>p. fst p \<noteq> k) d"
  by (auto simp: AList.delete_eq case_prod_unfold intro!: filter_cong)

lemma ddel_absent: "dget d k = None \<Longrightarrow> ddel k d = d"
  by (induction d) (auto split: if_splits)

lemma length_ddel_less: "k \<in> set (dkeys d) \<Longrightarrow> length (ddel k d) < length d"
  by (auto simp: ddel_filter intro!: length_filter_less)

lemma set_dset: "dwf d \<Longrightarrow> set (dset k v d) = insert (k, v) {p \<in> set d. fst p \<noteq> k}"
  by (induction d) (auto, force)

lemma dget_in_set: "dget d k = Some v \<Longrightarrow> (k, v) \<in> set d"
  by (rule map_of_SomeD)

lemma dget_iff_in_set: "dwf d \<Longrightarrow> dget d k = Some v \<longleftrightarrow> (k, v) \<in> set d"
  by simp

lemma dget_None_iff: "dget d k = None \<longleftrightarrow> k \<notin> set (dkeys d)"
  by (simp add: map_of_eq_None_iff)

lemma ddel_remove1: "dwf d \<Longrightarrow> (k, v) \<in> set d \<Longrightarrow> ddel k d = remove1 (k, v) d"
proof (induction d)
  case (Cons p d)
  show ?case
  proof (cases "fst p = k")
    case True
    with Cons.prems have "p = (k, v)" by (auto simp: image_iff)
    moreover from True Cons.prems have "ddel k d = d"
      by (auto simp: ddel_filter filter_id_conv image_iff)
    ultimately show ?thesis by (simp add: ddel_filter)
  qed (use Cons in auto)
qed simp

lemma dwf_filter [dict_inv]: "dwf d \<Longrightarrow> dwf (filter P d)"
  by (simp add: distinct_map_filter)

section \<open>Strings\<close>

text \<open>\<open>s.split(c)\<close>: never empty, and joining with \<open>c\<close> gives \<open>s\<close> back.\<close>

fun split_on :: "char \<Rightarrow> string \<Rightarrow> string list" where
  "split_on c [] = [[]]"
| "split_on c (x # xs) =
     (if x = c then [] # split_on c xs
      else (case split_on c xs of [] \<Rightarrow> [[x]] | y # ys \<Rightarrow> (x # y) # ys))"

fun join :: "string \<Rightarrow> string list \<Rightarrow> string" where
  "join sep [] = []"
| "join sep [x] = x"
| "join sep (x # y # ys) = x @ sep @ join sep (y # ys)"

lemma split_on_ne [simp]: "split_on c s \<noteq> []"
  by (induction s) (auto split: list.splits)

lemma join_Cons: "ys \<noteq> [] \<Longrightarrow> join sep (x # ys) = x @ sep @ join sep ys"
  by (cases ys) auto

lemma join_split [simp]: "join [c] (split_on c s) = s"
proof (induction s)
  case (Cons x s)
  obtain y ys where eq: "split_on c s = y # ys"
    by (cases "split_on c s") auto
  with Cons show ?case by (cases ys) auto
qed simp

lemma split_on_no_sep: "c \<notin> set s \<Longrightarrow> split_on c s = [s]"
  by (induction s) auto

lemma split_on_parts: "w \<in> set (split_on c s) \<Longrightarrow> c \<notin> set w"
proof (induction s arbitrary: w)
  case (Cons x s)
  then show ?case by (cases "split_on c s") (auto split: if_splits)
qed simp

lemma split_on_append_sep: "c \<notin> set s \<Longrightarrow> split_on c (s @ c # t) = s # split_on c t"
  by (induction s) auto

lemma split_join:
  assumes "ws \<noteq> []" and "\<forall>w \<in> set ws. c \<notin> set w"
  shows "split_on c (join [c] ws) = ws"
  using assms
proof (induction ws)
  case (Cons w ws)
  then show ?case
    by (cases ws) (simp_all add: split_on_no_sep split_on_append_sep)
qed simp

lemma split_on_sublist: "w \<in> set (split_on c s) \<Longrightarrow> sublist w s"
proof (induction s arbitrary: w)
  case (Cons x s)
  obtain y ys where eq: "split_on c s = y # ys"
    by (cases "split_on c s") auto
  have pre: "prefix y s"
    by (metis Cons.IH eq join.simps(2) join_Cons join_split list.exhaust not_Cons_self2 prefixI
        prefix_order.refl)
  from Cons.prems eq show ?case
    using Cons.IH [of w] pre
    by (auto split: if_splits simp: sublist_Cons_right)
qed simp

text \<open>\<open>str.lower\<close> on ASCII letters; every other character is kept.\<close>

definition lower_char :: "char \<Rightarrow> char" where
  "lower_char c =
     (let n = of_char c :: nat in if 65 \<le> n \<and> n \<le> 90 then char_of (n + 32) else c)"

definition lower :: "string \<Rightarrow> string" where
  "lower s = map lower_char s"

text \<open>\<open>s.strip()\<close>: white space is taken off at both ends.\<close>

definition is_space :: "char \<Rightarrow> bool" where
  "is_space c \<longleftrightarrow>
     (let n = of_char c :: nat in (9 \<le> n \<and> n \<le> 13) \<or> (28 \<le> n \<and> n \<le> 32) \<or> n = 133 \<or> n = 160)"

definition strip :: "string \<Rightarrow> string" where
  "strip s = rev (dropWhile is_space (rev (dropWhile is_space s)))"

text \<open>\<open>s.replace(a, b)\<close> for single characters.\<close>

definition replace_char :: "char \<Rightarrow> char \<Rightarrow> string \<Rightarrow> string" where
  "replace_char a b s = map (\<lambda>c. if c = a then b else c) s"

section \<open>Python's min and the stable sort\<close>

text \<open>
  \<open>min(xs, key=f)\<close> is the first element with the least key, which is \<open>arg_min_list f xs\<close>, and
  \<open>xs.sort(key=f)\<close> is the stable sort \<open>sort_key f xs\<close>. Taking the first minimum out, again and
  again, lists the elements in the order the stable sort gives.
\<close>

lemma arg_min_list_le: "x \<in> set xs \<Longrightarrow> f (arg_min_list f xs) \<le> f x"
  by (cases "xs = []") (auto simp: f_arg_min_list_f)

lemma sort_key_arg_min:
  assumes "xs \<noteq> []"
  shows "sort_key f xs = arg_min_list f xs # sort_key f (remove1 (arg_min_list f xs) xs)"
  using assms
proof (induction f xs rule: arg_min_list.induct)
  case (2 f x y zs)
  let ?m = "arg_min_list f (y # zs)"
  have IH: "sort_key f (y # zs) = ?m # sort_key f (remove1 ?m (y # zs))"
    using 2 by simp
  show ?case
  proof (cases "f x \<le> f ?m")
    case True
    have "insort_key f x (sort_key f (y # zs)) = x # sort_key f (y # zs)"
      by (subst (1 2) IH) (use True in simp)
    with True show ?thesis by (simp add: Let_def)
  next
    case False
    then have ne: "x \<noteq> ?m" by auto
    have "sort_key f (x # y # zs) = ?m # insort_key f x (sort_key f (remove1 ?m (y # zs)))"
      by (simp only: sort_key_simps(2) [of f x], subst IH) (use False in simp)
    with False ne show ?thesis by (auto simp: Let_def)
  qed
qed auto

lemma length_filter_mono:
  "(\<And>x. x \<in> set xs \<Longrightarrow> P x \<Longrightarrow> Q x) \<Longrightarrow> length (filter P xs) \<le> length (filter Q xs)"
  by (induction xs) (auto intro: le_SucI)

section \<open>Dropping from the front until the rest passes a test\<close>

fun drop_until :: "('a list \<Rightarrow> bool) \<Rightarrow> 'a list \<Rightarrow> 'a list" where
  "drop_until P [] = []"
| "drop_until P (x # xs) = (if P (x # xs) then x # xs else drop_until P xs)"

lemma drop_until_holds: "P (drop_until P xs) \<or> drop_until P xs = []"
  by (induction xs) auto

lemma drop_until_suffix: "suffix (drop_until P xs) xs"
  by (induction xs) (auto intro: suffix_ConsI)

lemma drop_until_least:
  "suffix ys xs \<Longrightarrow> P ys \<Longrightarrow> length ys \<le> length (drop_until P xs)"
proof (induction xs)
  case (Cons x xs)
  show ?case
  proof (cases "ys = x # xs")
    case False
    with Cons.prems(1) have "suffix ys xs" by (auto simp: suffix_Cons)
    with Cons.IH Cons.prems show ?thesis by (auto dest: suffix_length_le)
  qed (use Cons in auto)
qed simp

section \<open>State machines and their invariants\<close>

text \<open>
  A component with state is a step function on its state; a run is a list of events. An
  invariant that every step keeps holds after every run.
\<close>

abbreviation run :: "('s \<Rightarrow> 'e \<Rightarrow> 's) \<Rightarrow> 's \<Rightarrow> 'e list \<Rightarrow> 's" where
  "run step s es \<equiv> foldl step s es"

locale kept_invariant =
  fixes step :: "'s \<Rightarrow> 'e \<Rightarrow> 's" and inv :: "'s \<Rightarrow> bool"
  assumes step_inv: "inv s \<Longrightarrow> inv (step s e)"
begin

lemma run_inv: "inv s \<Longrightarrow> inv (run step s es)"
  by (induction es arbitrary: s) (auto intro: step_inv)

lemma run_prefix_inv: "inv s \<Longrightarrow> prefix ds es \<Longrightarrow> inv (run step s ds)"
  by (auto intro: run_inv)

end

end
