(* ===== verification/Files.thy ===== *)
theory Files
  imports Prelude "HOL-Library.Word"
begin

text \<open>
  Paths and the file system, as far as the code uses \<^verbatim>\<open>pathlib\<close>, \<^verbatim>\<open>os.path\<close>,
  \<^verbatim>\<open>open\<close> and \<^verbatim>\<open>shutil\<close>. An absolute path is the list of its components below the
  root. A file system lists the existing files and directories; symbolic links, permissions and
  full disks are not modelled.
\<close>

type_synonym bytes = "8 word list"
type_synonym path = "string list"

datatype node = File bytes | Dir

type_synonym fs = "(path, node) dict"

section \<open>Pure paths\<close>

text \<open>
  \<open>Path(p) / s\<close>: \<open>s\<close> is split at slashes, empty and \<open>.\<close> components vanish, and a leading slash
  discards \<open>p\<close>. Nothing is resolved: a \<open>..\<close> component stays.
\<close>

definition path_parts :: "string \<Rightarrow> path" where
  "path_parts s = filter (\<lambda>c. c \<noteq> [] \<and> c \<noteq> ''.'') (split_on (CHR ''/'') s)"

definition path_div :: "path \<Rightarrow> string \<Rightarrow> path" where
  "path_div p s = (if prefix ''/'' s then path_parts s else p @ path_parts s)"

definition is_component :: "string \<Rightarrow> bool" where
  "is_component s \<longleftrightarrow> s \<noteq> [] \<and> s \<noteq> ''.'' \<and> CHR ''/'' \<notin> set s"

lemma path_div_component: "is_component s \<Longrightarrow> path_div p s = p @ [s]"
  by (cases s) (auto simp: is_component_def path_div_def path_parts_def split_on_no_sep)

text \<open>
  \<open>os.path.abspath(os.path.join(p, s))\<close>: the components of both, with \<open>..\<close> taking one component
  back and stopping at the root.
\<close>

fun norm_parts :: "path \<Rightarrow> string list \<Rightarrow> path" where
  "norm_parts done [] = done"
| "norm_parts done (c # cs) =
     (if c = [] \<or> c = ''.'' then norm_parts done cs
      else if c = ''..'' then norm_parts (butlast done) cs
      else norm_parts (done @ [c]) cs)"

definition abspath_join :: "path \<Rightarrow> string \<Rightarrow> path" where
  "abspath_join p s =
     (if prefix ''/'' s then norm_parts [] (split_on (CHR ''/'') s)
      else norm_parts [] (p @ split_on (CHR ''/'') s))"

text \<open>A path is normal when \<open>abspath\<close> would not change it.\<close>

definition normal_path :: "path \<Rightarrow> bool" where
  "normal_path p \<longleftrightarrow> (\<forall>c \<in> set p. c \<noteq> [] \<and> c \<noteq> ''.'' \<and> c \<noteq> ''..'')"

lemma norm_parts_append: "norm_parts acc (xs @ ys) = norm_parts (norm_parts acc xs) ys"
  by (induction acc xs rule: norm_parts.induct) auto

lemma norm_parts_normal: "normal_path p \<Longrightarrow> norm_parts acc p = acc @ p"
  by (induction p arbitrary: acc) (auto simp: normal_path_def)

lemma normal_path_butlast: "normal_path p \<Longrightarrow> normal_path (butlast p)"
  unfolding normal_path_def by (blast dest: in_set_butlastD)

lemma normal_path_append [simp]: "normal_path (p @ q) \<longleftrightarrow> normal_path p \<and> normal_path q"
  by (auto simp: normal_path_def)

lemma normal_path_norm_parts: "normal_path acc \<Longrightarrow> normal_path (norm_parts acc cs)"
proof (induction acc cs rule: norm_parts.induct)
  case (2 acc c cs)
  moreover have "normal_path [c]" if "c \<noteq> []" "c \<noteq> ''.''" "c \<noteq> ''..''"
    using that by (simp add: normal_path_def)
  ultimately show ?case by (auto simp: normal_path_butlast)
qed simp

lemma norm_parts_no_dotdot:
  "''..'' \<notin> set cs \<Longrightarrow> norm_parts acc cs = acc @ filter (\<lambda>c. c \<noteq> [] \<and> c \<noteq> ''.'') cs"
  by (induction acc cs rule: norm_parts.induct) auto

lemma norm_parts_prefix_no_dotdot: "''..'' \<notin> set cs \<Longrightarrow> prefix acc (norm_parts acc cs)"
  by (simp add: norm_parts_no_dotdot)

text \<open>\<open>os.path.commonpath([p, q]) == p\<close> for two normalised absolute paths: \<open>q\<close> is \<open>p\<close> or below.\<close>

fun commonpath :: "path \<Rightarrow> path \<Rightarrow> path" where
  "commonpath (x # xs) (y # ys) = (if x = y then x # commonpath xs ys else [])"
| "commonpath _ _ = []"

lemma commonpath_prefix: "commonpath p q = p \<longleftrightarrow> prefix p q"
  by (induction p q rule: commonpath.induct) auto

section \<open>The file system\<close>

definition fs_exists :: "fs \<Rightarrow> path \<Rightarrow> bool" where
  "fs_exists d p \<longleftrightarrow> dget d p \<noteq> None"

definition fs_is_file :: "fs \<Rightarrow> path \<Rightarrow> bool" where
  "fs_is_file d p \<longleftrightarrow> (case dget d p of Some (File _) \<Rightarrow> True | _ \<Rightarrow> False)"

definition fs_is_dir :: "fs \<Rightarrow> path \<Rightarrow> bool" where
  "fs_is_dir d p \<longleftrightarrow> dget d p = Some Dir"

text \<open>\<open>open(p, "rb").read()\<close> and \<open>Path.read_bytes\<close>.\<close>

definition fs_read :: "fs \<Rightarrow> path \<Rightarrow> py_error + bytes" where
  "fs_read d p =
     (case dget d p of
        None \<Rightarrow> Inl FileNotFoundError
      | Some Dir \<Rightarrow> Inl IsADirectoryError
      | Some (File b) \<Rightarrow> Inr b)"

text \<open>\<open>open(p, "wb").write(b)\<close>: the directory must exist, and \<open>p\<close> must not be a directory.\<close>

definition fs_write :: "path \<Rightarrow> bytes \<Rightarrow> fs \<Rightarrow> py_error + fs" where
  "fs_write p b d =
     (if fs_is_dir d p then Inl IsADirectoryError
      else if \<not> fs_is_dir d (butlast p) then Inl FileNotFoundError
      else Inr (dset p (File b) d))"

text \<open>\<open>Path.unlink(missing_ok=True)\<close> on a path that is not a directory.\<close>

definition fs_unlink :: "path \<Rightarrow> fs \<Rightarrow> fs" where
  "fs_unlink p d = ddel p d"

text \<open>\<open>shutil.rmtree(p)\<close>: \<open>p\<close> and everything below it.\<close>

definition fs_rmtree :: "path \<Rightarrow> fs \<Rightarrow> fs" where
  "fs_rmtree p d = filter (\<lambda>(q, _). \<not> prefix p q) d"

text \<open>\<open>Path.mkdir(parents=True, exist_ok=True)\<close>; a file on the way is an error.\<close>

definition fs_mkdir_p :: "path \<Rightarrow> fs \<Rightarrow> py_error + fs" where
  "fs_mkdir_p p d =
     (if (\<exists>q \<in> set (prefixes p). fs_is_file d q) then Inl FileExistsError
      else Inr (foldl (\<lambda>e q. if fs_exists e q then e else dset q Dir e) d (prefixes p)))"

text \<open>\<open>Path.rglob("*")\<close>: everything strictly below \<open>p\<close>; \<open>Path.iterdir()\<close>: its children.\<close>

definition fs_rglob :: "fs \<Rightarrow> path \<Rightarrow> path list" where
  "fs_rglob d p = filter (strict_prefix p) (dkeys d)"

definition fs_iterdir :: "fs \<Rightarrow> path \<Rightarrow> path list" where
  "fs_iterdir d p = filter (\<lambda>q. q \<noteq> [] \<and> butlast q = p) (dkeys d)"

text \<open>\<open>shutil.copy2(src, dst)\<close>: into \<open>dst\<close> when it is a directory.\<close>

definition fs_copy2 :: "path \<Rightarrow> path \<Rightarrow> fs \<Rightarrow> py_error + fs" where
  "fs_copy2 src dst d =
     (case fs_read d src of
        Inl e \<Rightarrow> Inl e
      | Inr b \<Rightarrow>
          (if fs_is_dir d dst
           then (if src = [] then Inl FileNotFoundError else fs_write (dst @ [last src]) b d)
           else fs_write dst b d))"

text \<open>\<open>shutil.copytree(src, dst)\<close>: \<open>dst\<close> must be new; its parents are made.\<close>

definition fs_copytree :: "path \<Rightarrow> path \<Rightarrow> fs \<Rightarrow> py_error + fs" where
  "fs_copytree src dst d =
     (case dget d src of
        None \<Rightarrow> Inl FileNotFoundError
      | Some (File _) \<Rightarrow> Inl NotADirectoryError
      | Some Dir \<Rightarrow>
          (if fs_exists d dst then Inl FileExistsError
           else (case fs_mkdir_p dst d of
                   Inl e \<Rightarrow> Inl e
                 | Inr d' \<Rightarrow>
                     Inr (foldl (\<lambda>e (q, n). dset (dst @ drop (length src) q) n e) d'
                            (filter (\<lambda>(q, _). strict_prefix src q) d)))))"

text \<open>The total of \<open>st_size\<close> over the files below \<open>p\<close>.\<close>

definition node_size :: "node \<Rightarrow> int" where
  "node_size n = (case n of File b \<Rightarrow> int (length b) | Dir \<Rightarrow> 0)"

definition fs_tree_size :: "fs \<Rightarrow> path \<Rightarrow> int" where
  "fs_tree_size d p = sum_list (map (\<lambda>(q, n). if strict_prefix p q then node_size n else 0) d)"

section \<open>What the operations do to a lookup\<close>

lemma dget_filter_key: "dget (filter (\<lambda>(q, _). P q) d) p = (if P p then dget d p else None)"
  by (induction d) auto

lemma dget_rmtree [dict_laws]: "dget (fs_rmtree p d) q = (if prefix p q then None else dget d q)"
  unfolding fs_rmtree_def by (subst dget_filter_key [where P = "\<lambda>q. \<not> prefix p q"]) simp

lemma dget_unlink [dict_laws]: "dget (fs_unlink p d) q = (if q = p then None else dget d q)"
  by (simp add: fs_unlink_def dict_laws)

lemma dget_write:
  "fs_write p b d = Inr e \<Longrightarrow> dget e q = (if q = p then Some (File b) else dget d q)"
  by (auto simp: fs_write_def dict_laws split: if_splits)

lemma fs_read_write [simp]: "fs_write p b d = Inr e \<Longrightarrow> fs_read e p = Inr b"
  by (simp add: fs_read_def dget_write)

lemma fs_read_write_other: "fs_write p b d = Inr e \<Longrightarrow> q \<noteq> p \<Longrightarrow> fs_read e q = fs_read d q"
  by (simp add: fs_read_def dget_write)

lemma fs_copy2_read:
  "fs_copy2 src dst d = Inr e \<Longrightarrow> \<not> fs_is_dir d dst \<Longrightarrow> fs_read d src = Inr b \<Longrightarrow>
   dget e dst = Some (File b)"
  by (auto simp: fs_copy2_def dget_write)

lemma fs_copy2_other:
  "fs_copy2 src dst d = Inr e \<Longrightarrow> \<not> fs_is_dir d dst \<Longrightarrow> q \<noteq> dst \<Longrightarrow> dget e q = dget d q"
  by (auto simp: fs_copy2_def dget_write split: sum.splits)

lemma fs_is_file_iff: "fs_is_file d p \<longleftrightarrow> (\<exists>b. dget d p = Some (File b))"
  by (auto simp: fs_is_file_def split: option.splits node.splits)

lemma fs_read_ok_iff: "fs_read d p = Inr b \<longleftrightarrow> dget d p = Some (File b)"
  by (auto simp: fs_read_def split: option.splits node.splits)

lemma fs_exists_iff: "fs_exists d p \<longleftrightarrow> fs_is_file d p \<or> fs_is_dir d p"
  by (auto simp: fs_exists_def fs_is_file_def fs_is_dir_def split: option.splits node.splits)

lemma mkdirs_dget:
  "dget (foldl (\<lambda>e q. if fs_exists e q then e else dset q Dir e) d qs) p =
     (if dget d p = None \<and> p \<in> set qs then Some Dir else dget d p)"
  by (induction qs arbitrary: d) (auto simp: fs_exists_def dict_laws)

lemma mkdir_p_dget:
  "fs_mkdir_p q d = Inr e \<Longrightarrow>
   dget e p = (if dget d p = None \<and> prefix p q then Some Dir else dget d p)"
  by (auto simp: fs_mkdir_p_def mkdirs_dget split: if_splits)

lemma mkdir_p_other: "fs_mkdir_p q d = Inr e \<Longrightarrow> dget d p \<noteq> None \<Longrightarrow> dget e p = dget d p"
  by (simp add: mkdir_p_dget)

lemma mkdir_p_file: "fs_mkdir_p q d = Inr e \<Longrightarrow> dget e p = Some (File b) \<longleftrightarrow> dget d p = Some (File b)"
  by (simp add: mkdir_p_dget)

end
