(* ===== verification/PyValues.thy ===== *)
theory PyValues
  imports Files
begin

text \<open>
  Python values as the code passes them between its parts: JSON values, and the few further types
  that \<^verbatim>\<open>runtime/serialization.py\<close> treats. Dictionaries have string keys. An object of any
  other class is \<open>PObj\<close> with its module, its class name and its \<open>repr\<close>; a NumPy array is
  \<open>PArray\<close> with the name of its type, its shape and its bytes.
\<close>

datatype pyval =
    PNone
  | PBool bool
  | PInt int
  | PFloat pyfloat
  | PStr string
  | PList "pyval list"
  | PTuple "pyval list"
  | PDict "(string \<times> pyval) list"
  | PBytes bytes
  | PComplex pyfloat pyfloat
  | PSet "pyval list"
  | PObj string string string
  | PArray string "int list" bytes

type_synonym pydict = "(string, pyval) dict"

text \<open>
  The truth value of \<open>if v:\<close>. Objects of other classes are taken as true, Python's default; arrays, which
  raise if they have several elements, are not tested anywhere.
\<close>

fun truthy :: "pyval \<Rightarrow> bool" where
  "truthy PNone = False"
| "truthy (PBool b) = b"
| "truthy (PInt i) = (i \<noteq> 0)"
| "truthy (PFloat x) = (x \<noteq> 0)"
| "truthy (PStr s) = (s \<noteq> [])"
| "truthy (PList xs) = (xs \<noteq> [])"
| "truthy (PTuple xs) = (xs \<noteq> [])"
| "truthy (PDict d) = (d \<noteq> [])"
| "truthy (PBytes b) = (b \<noteq> [])"
| "truthy (PComplex x y) = (x \<noteq> 0 \<or> y \<noteq> 0)"
| "truthy (PSet xs) = (xs \<noteq> [])"
| "truthy (PObj _ _ _) = True"
| "truthy (PArray _ _ _) = True"

text \<open>The number a value is in arithmetic; booleans count as 0 and 1.\<close>

fun as_number :: "pyval \<Rightarrow> pyfloat option" where
  "as_number (PBool b) = Some (if b then 1 else 0)"
| "as_number (PInt i) = Some (of_int i)"
| "as_number (PFloat x) = Some x"
| "as_number _ = None"

text \<open>\<open>d.get(k, default)\<close>.\<close>

definition dget_or :: "('k, 'v) dict \<Rightarrow> 'k \<Rightarrow> 'v \<Rightarrow> 'v" where
  "dget_or d k v = (case dget d k of None \<Rightarrow> v | Some w \<Rightarrow> w)"

lemma dget_or_dset [simp]: "dget_or (dset k v d) k w = v"
  by (simp add: dget_or_def dict_laws)

text \<open>\<open>round(x)\<close> and \<open>round(x, n)\<close>: to the nearest, ties to even.\<close>

definition round_half_even :: "pyfloat \<Rightarrow> int" where
  "round_half_even x =
     (let f = \<lfloor>x\<rfloor>; r = x - of_int f
      in if r < 1/2 then f else if 1/2 < r then f + 1 else if even f then f else f + 1)"

definition py_round :: "nat \<Rightarrow> pyfloat \<Rightarrow> pyfloat" where
  "py_round n x = of_int (round_half_even (x * 10 ^ n)) / 10 ^ n"

lemma round_half_even_of_int [simp]: "round_half_even (of_int i) = i"
  by (simp add: round_half_even_def)

lemma round_half_even_close: "\<bar>of_int (round_half_even x) - x\<bar> \<le> 1/2"
proof -
  define n and r where "n = \<lfloor>x\<rfloor>" and "r = x - of_int n"
  then have x: "x = of_int n + r" and r: "0 \<le> r" "r < 1"
    using floor_correct [of x] by auto
  then have "\<lfloor>x\<rfloor> = n" by (simp add: n_def)
  with x r show ?thesis
    by (auto simp: round_half_even_def Let_def abs_le_iff)
qed

text \<open>The decimal text of an integer, \<open>str(i)\<close>.\<close>

fun nat_digits :: "nat \<Rightarrow> string" where
  "nat_digits n =
     (if n < 10 then [char_of (48 + n)] else nat_digits (n div 10) @ [char_of (48 + n mod 10)])"

declare nat_digits.simps [simp del]

definition int_str :: "int \<Rightarrow> string" where
  "int_str i = (if i < 0 then CHR ''-'' # nat_digits (nat (- i)) else nat_digits (nat i))"

lemma nat_digits_ne [simp]: "nat_digits n \<noteq> []"
  by (subst nat_digits.simps) simp

definition digit_val :: "char \<Rightarrow> nat" where
  "digit_val c = of_char c - 48"

text \<open>Reading the digits back gives the number.\<close>

lemma digit_val_char [simp]: "d < 10 \<Longrightarrow> digit_val (char_of (48 + d)) = d"
  by (simp add: digit_val_def)

lemma nat_digits_read: "foldl (\<lambda>a c. 10 * a + digit_val c) 0 (nat_digits n) = n"
proof (induction n rule: nat_digits.induct)
  case (1 n)
  show ?case
  proof (cases "n < 10")
    case False
    with 1 show ?thesis by (subst nat_digits.simps) (simp add: mult_div_mod_eq)
  qed (subst nat_digits.simps, simp)
qed

lemma nat_digits_inject: "nat_digits m = nat_digits n \<longleftrightarrow> m = n"
  by (metis nat_digits_read)

definition digit :: "char \<Rightarrow> bool" where
  "digit c \<longleftrightarrow> (let n = of_char c :: nat in 48 \<le> n \<and> n \<le> 57)"

text \<open>\<open>int(s)\<close> on a decimal text: white space around it, a sign, and single underscores between digits.\<close>

definition py_int :: "string \<Rightarrow> int option" where
  "py_int s =
     (let t = strip s; sgn = (if prefix ''-'' t then -1 else 1);
          parts = split_on (CHR ''_'') (if prefix ''-'' t \<or> prefix ''+'' t then tl t else t)
      in if list_all (\<lambda>p. p \<noteq> [] \<and> list_all digit p) parts
         then Some (sgn * int (foldl (\<lambda>a c. 10 * a + digit_val c) 0 (concat parts))) else None)"

lemma of_char_digit: "d < 10 \<Longrightarrow> (of_char (char_of (48 + d) :: char) :: nat) = 48 + d"
  by simp

lemma digits_nat_digits: "list_all digit (nat_digits n)"
proof (induction n rule: nat_digits.induct)
  case (1 n)
  have one: "digit (char_of (48 + d))" if "d < 10" for d :: nat
    using that by (simp add: digit_def Let_def)
  show ?case
  proof (cases "n < 10")
    case True
    then show ?thesis using one [of n] by (subst nat_digits.simps) simp
  next
    case False
    with 1 show ?thesis using one [of "n mod 10"] by (subst nat_digits.simps) simp
  qed
qed

text \<open>Printing a number and reading it, with \<^verbatim>\<open>int\<close>, gives it back.\<close>

lemma int_str_plain: "c \<in> set (int_str i) \<Longrightarrow> \<not> is_space c \<and> c \<noteq> CHR ''_''"
  using digits_nat_digits [of "nat i"] digits_nat_digits [of "nat (- i)"]
  by (auto simp: int_str_def list_all_iff digit_def is_space_def Let_def split: if_splits)

lemma dropWhile_plain: "\<forall>c \<in> set s. \<not> P c \<Longrightarrow> dropWhile P s = s"
  by (cases s) auto

lemma strip_plain: "\<forall>c \<in> set s. \<not> is_space c \<Longrightarrow> strip s = s"
  using dropWhile_plain [of s is_space] dropWhile_plain [of "rev s" is_space] by (simp add: strip_def)

lemma py_int_str: "py_int (strip (int_str i)) = Some i"
proof -
  have strip: "strip (int_str i) = int_str i" "strip (strip (int_str i)) = int_str i"
    using int_str_plain by (simp_all add: strip_plain)
  have sign: "\<not> prefix ''-'' (nat_digits n)" "\<not> prefix ''+'' (nat_digits n)" for n
    using digits_nat_digits [of n] by (cases "nat_digits n"; auto simp: digit_def Let_def)+
  have whole: "split_on (CHR ''_'') (nat_digits n) = [nat_digits n]" for n
    using digits_nat_digits [of n] by (intro split_on_no_sep) (auto simp: list_all_iff digit_def Let_def)
  show ?thesis
  proof (cases "i < 0")
    case True
    then have s: "int_str i = CHR ''-'' # nat_digits (nat (- i))" by (simp add: int_str_def)
    show ?thesis using True strip sign whole digits_nat_digits
      by (simp add: py_int_def s nat_digits_read Let_def)
  next
    case False
    then have s: "int_str i = nat_digits (nat i)" by (simp add: int_str_def)
    show ?thesis using False strip sign whole digits_nat_digits
      by (simp add: py_int_def s nat_digits_read Let_def)
  qed
qed

text \<open>\<open>s.split()\<close>: the words between white space.\<close>

fun words :: "string \<Rightarrow> string list" where
  "words [] = []"
| "words (c # cs) =
     (if is_space c then words cs
      else (case cs of
              [] \<Rightarrow> [[c]]
            | d # _ \<Rightarrow> if is_space d then [c] # words cs
                       else (case words cs of [] \<Rightarrow> [[c]] | w # ws \<Rightarrow> (c # w) # ws)))"

text \<open>A value in an f-string; \<open>str_of\<close> is \<^verbatim>\<open>str\<close> on values that are no strings.\<close>

definition fmt :: "(pyval \<Rightarrow> string) \<Rightarrow> pyval \<Rightarrow> string" where
  "fmt str_of v = (case v of PStr s \<Rightarrow> s | _ \<Rightarrow> str_of v)"

lemma fmt_PStr [simp]: "fmt str_of (PStr s) = s"
  by (simp add: fmt_def)

text \<open>What a \<^verbatim>\<open>for\<close> loop runs over: a dictionary gives its keys and a string its characters.\<close>

fun items_of :: "pyval \<Rightarrow> py_error + pyval list" where
  "items_of (PList vs) = Inr vs"
| "items_of (PTuple vs) = Inr vs"
| "items_of (PSet vs) = Inr vs"
| "items_of (PDict d) = Inr (map (PStr \<circ> fst) d)"
| "items_of (PStr s) = Inr (map (\<lambda>c. PStr [c]) s)"
| "items_of (PBytes b) = Inr (map (PInt \<circ> uint) b)"
| "items_of _ = Inl TypeError"

section \<open>Subprocesses\<close>

text \<open>How \<^verbatim>\<open>subprocess.run\<close> ends: an exit code with both outputs, a timeout, or another exception.\<close>

datatype proc_result =
    Exited int string string
  | TimedOut
  | SpawnFailed string

section \<open>The contract of a wheel store\<close>

text \<open>
  What the installer relies on when it keeps wheels: a wheel that was put without naming a hash, or
  with the hash of its content, is found at the place \<open>put\<close> gave, and finding it moves no content.
\<close>

locale wheel_store =
  fixes put :: "string \<Rightarrow> string \<Rightarrow> path \<Rightarrow> string \<Rightarrow> 'c \<Rightarrow> (py_error + path) \<times> 'c"
    and find :: "string \<Rightarrow> string \<Rightarrow> 'c \<Rightarrow> (py_error + path option) \<times> 'c"
    and content :: "'c \<Rightarrow> path \<Rightarrow> bytes option"
    and digest :: "bytes \<Rightarrow> string"
  assumes find_put: "put pkg ver src h c = (Inr p, c') \<Longrightarrow> content c' p = Some b \<Longrightarrow>
      h = [] \<or> digest b = h \<Longrightarrow> fst (find pkg ver c') = Inr (Some p)"
    and find_content: "find pkg ver c = (Inr (Some p), c') \<Longrightarrow> content c' p = content c p \<and> content c p \<noteq> None"
    and find_again: "find pkg ver c = (Inr (Some p), c') \<Longrightarrow> fst (find pkg ver c') = Inr (Some p)"
begin

text \<open>A stored wheel is found with its content, however often it is looked up.\<close>

lemma stored_wheel_found:
  assumes "put pkg ver src h c = (Inr p, c')" and "content c' p = Some b" and "h = [] \<or> digest b = h"
  shows "\<exists>c''. find pkg ver c' = (Inr (Some p), c'') \<and> content c'' p = Some b"
proof -
  have "find pkg ver c' = (Inr (Some p), snd (find pkg ver c'))"
    using find_put [OF assms] by (rule pair_sndI)
  with find_content [OF this] assms(2) show ?thesis by metis
qed

lemma stored_wheel_found_twice:
  assumes "put pkg ver src h c = (Inr p, c')" and "content c' p = Some b" and "h = [] \<or> digest b = h"
    and "find pkg ver c' = (res, c'')"
  shows "res = Inr (Some p) \<and> fst (find pkg ver c'') = Inr (Some p)"
proof -
  from stored_wheel_found [OF assms(1-3)] assms(4) have "find pkg ver c' = (Inr (Some p), c'')" by auto
  with find_again [OF this] assms(4) show ?thesis by simp
qed

end

end
