(* ===== verification/Cache.thy ===== *)
theory Cache
  imports PyValues
begin

text \<open>
  The local package cache, \<^verbatim>\<open>client/cache.py\<close>: an index of wheels and layers with LRU eviction,
  integrity checks against SHA-256, and metadata files with a time to live.

  SHA-256 is the parameter \<open>sha\<close> of the operations that hash. The JSON files are kept as the values
  they hold: \<open>saved_index\<close> is \<^verbatim>\<open>cache.json\<close> and \<open>metas\<close> the files \<^verbatim>\<open>metadata/*.json\<close>, a
  value being None for a file that is no JSON. \<open>disk_ok\<close> says whether writing the index file
  succeeds; a failed write is swallowed, as in the code. Each call of \<^verbatim>\<open>time.time()\<close> is an argument.
\<close>

section \<open>State\<close>

text \<open>
  One item of the index. The fields the code reads with \<open>.get\<close> may be missing in a file that
  another program wrote, so they are options.
\<close>

record cache_entry =
  e_path :: path
  e_package :: "string option"
  e_version :: "string option"
  e_layer_id :: "string option"
  e_sha256 :: string
  e_size :: "int option"
  e_cached_at :: pyfloat
  e_last_accessed :: "pyfloat option"
  e_type :: "string option"

type_synonym cache_index = "(string, cache_entry) dict"

datatype index_file = NoIndex | BrokenIndex | SavedIndex cache_index

record cache =
  max_size_mb :: int
  wheels_dir :: path
  layers_dir :: path
  metadata_dir :: path
  index :: cache_index
  saved_index :: index_file
  disk_ok :: bool
  disk :: fs
  metas :: "(path, pyval option) dict"

record cache_stats =
  total_size_mb :: pyfloat
  stat_max_size_mb :: int
  num_wheels :: nat
  num_layers :: nat
  num_metadata :: nat
  utilization_pct :: pyfloat

type_synonym 'a outcome = "(py_error + 'a) \<times> cache"

section \<open>The index file\<close>

definition load_index :: "cache \<Rightarrow> cache" where
  "load_index st =
     (case saved_index st of
        NoIndex \<Rightarrow> st
      | BrokenIndex \<Rightarrow> st\<lparr>index := []\<rparr>
      | SavedIndex d \<Rightarrow> st\<lparr>index := d\<rparr>)"

definition save_index :: "cache \<Rightarrow> cache" where
  "save_index st = (if disk_ok st then st\<lparr>saved_index := SavedIndex (index st)\<rparr> else st)"

text \<open>A new manager on the same disk: it makes its directories and loads the index.\<close>

definition open_cache :: "cache \<Rightarrow> py_error + cache" where
  "open_cache st =
     (case fs_mkdir_p (wheels_dir st) (disk st) of Inl e \<Rightarrow> Inl e | Inr d1 \<Rightarrow>
      (case fs_mkdir_p (layers_dir st) d1 of Inl e \<Rightarrow> Inl e | Inr d2 \<Rightarrow>
      (case fs_mkdir_p (metadata_dir st) d2 of Inl e \<Rightarrow> Inl e | Inr d3 \<Rightarrow>
         Inr (load_index (st\<lparr>index := [], disk := d3\<rparr>)))))"

definition hash_file :: "(bytes \<Rightarrow> string) \<Rightarrow> fs \<Rightarrow> path \<Rightarrow> py_error + string" where
  "hash_file sha d p = (case fs_read d p of Inl e \<Rightarrow> Inl e | Inr b \<Rightarrow> Inr (sha b))"

definition cache_key :: "string \<Rightarrow> string \<Rightarrow> string \<Rightarrow> string" where
  "cache_key pkg ver ty = ty @ '':'' @ pkg @ '':'' @ ver"

definition layer_key :: "string \<Rightarrow> string" where
  "layer_key lid = ''layer:'' @ lid"

section \<open>Eviction\<close>

definition entry_size :: "cache_entry \<Rightarrow> int" where
  "entry_size e = (case e_size e of None \<Rightarrow> 0 | Some n \<Rightarrow> n)"

definition entry_access :: "cache_entry \<Rightarrow> pyfloat" where
  "entry_access e = (case e_last_accessed e of None \<Rightarrow> 0 | Some t \<Rightarrow> t)"

definition index_bytes :: "cache_index \<Rightarrow> int" where
  "index_bytes d = sum_list (map (entry_size \<circ> snd) d)"

definition current_size_mb :: "cache \<Rightarrow> pyfloat" where
  "current_size_mb st = of_int (index_bytes (index st)) / (1024 * 1024)"

text \<open>The least recently used item: the first with the least access time.\<close>

definition lru_item :: "cache_index \<Rightarrow> string \<times> cache_entry" where
  "lru_item d = arg_min_list (entry_access \<circ> snd) d"

definition remove_path :: "path \<Rightarrow> fs \<Rightarrow> fs" where
  "remove_path p d =
     (if fs_is_file d p then fs_unlink p d
      else if fs_is_dir d p then fs_rmtree p d
      else d)"

definition evict_one :: "cache \<Rightarrow> cache" where
  "evict_one st =
     (let (k, e) = lru_item (index st)
      in st\<lparr>disk := remove_path (e_path e) (disk st), index := ddel k (index st)\<rparr>)"

definition over_limit :: "cache \<Rightarrow> bool" where
  "over_limit st \<longleftrightarrow> current_size_mb st > of_int (max_size_mb st) * (9 / 10)"

lemma lru_item_in: "d \<noteq> [] \<Longrightarrow> lru_item d \<in> set d"
  unfolding lru_item_def by (rule arg_min_list_in)

lemma evict_one_shrinks:
  "index st \<noteq> [] \<Longrightarrow> length (index (evict_one st)) < length (index st)"
  using lru_item_in [of "index st"]
  by (auto simp: evict_one_def split: prod.splits intro!: length_ddel_less) force

text \<open>The loop of \<^verbatim>\<open>_maybe_evict\<close>; each round removes one item, so it ends.\<close>

function evict_loop :: "cache \<Rightarrow> cache" where
  "evict_loop st =
     (if over_limit st then (if index st = [] then st else evict_loop (evict_one st)) else st)"
  by pat_completeness auto
termination
  by (relation "measure (\<lambda>st. length (index st))") (auto simp: evict_one_shrinks)

declare evict_loop.simps [simp del]

definition maybe_evict :: "cache \<Rightarrow> cache" where
  "maybe_evict st = save_index (evict_loop st)"

section \<open>Wheels\<close>

definition get_wheel ::
    "(bytes \<Rightarrow> string) \<Rightarrow> string \<Rightarrow> string \<Rightarrow> pyfloat \<Rightarrow> cache \<Rightarrow> path option outcome" where
  "get_wheel sha pkg ver now st =
     (let key = cache_key pkg ver ''wheel''
      in case dget (index st) key of
           None \<Rightarrow> (Inr None, st)
         | Some e \<Rightarrow>
             (let p = e_path e
              in if \<not> fs_exists (disk st) p
                 then (Inr None, save_index (st\<lparr>index := ddel key (index st)\<rparr>))
                 else (case hash_file sha (disk st) p of
                         Inl err \<Rightarrow> (Inl err, st)
                       | Inr h \<Rightarrow>
                           if h \<noteq> e_sha256 e
                           then (Inr None,
                                 save_index (st\<lparr>disk := fs_unlink p (disk st),
                                                index := ddel key (index st)\<rparr>))
                           else (Inr (Some p),
                                 save_index
                                   (st\<lparr>index :=
                                       dset key (e\<lparr>e_last_accessed := Some now\<rparr>) (index st)\<rparr>)))))"

definition file_name :: "path \<Rightarrow> string" where
  "file_name p = (if p = [] then [] else last p)"

text \<open>\<open>dest.stat().st_size\<close>; a directory counts as empty.\<close>

definition stat_size :: "fs \<Rightarrow> path \<Rightarrow> py_error + int" where
  "stat_size d p =
     (case dget d p of None \<Rightarrow> Inl FileNotFoundError | Some n \<Rightarrow> Inr (node_size n))"

definition store_wheel ::
    "(bytes \<Rightarrow> string) \<Rightarrow> string \<Rightarrow> string \<Rightarrow> path \<Rightarrow> string \<Rightarrow> pyfloat \<Rightarrow> pyfloat \<Rightarrow> cache
     \<Rightarrow> path outcome" where
  "store_wheel sha pkg ver src sha256 now1 now2 st =
     (let st1 = maybe_evict st;
          dest = path_div (wheels_dir st1) (file_name src)
      in case (if src \<noteq> dest then fs_copy2 src dest (disk st1) else Inr (disk st1)) of
           Inl err \<Rightarrow> (Inl err, st1)
         | Inr d \<Rightarrow>
             (let st2 = st1\<lparr>disk := d\<rparr>
              in case (if sha256 \<noteq> [] then Inr sha256 else hash_file sha d dest) of
                   Inl err \<Rightarrow> (Inl err, st2)
                 | Inr actual \<Rightarrow>
                     (case stat_size d dest of
                        Inl err \<Rightarrow> (Inl err, st2)
                      | Inr n \<Rightarrow>
                          (Inr dest,
                           save_index
                             (st2\<lparr>index :=
                                 dset (cache_key pkg ver ''wheel'')
                                   \<lparr>e_path = dest, e_package = Some pkg, e_version = Some ver,
                                    e_layer_id = None, e_sha256 = actual, e_size = Some n,
                                    e_cached_at = now1, e_last_accessed = Some now2,
                                    e_type = Some ''wheel''\<rparr> (index st2)\<rparr>)))))"

section \<open>Layers\<close>

definition get_layer :: "string \<Rightarrow> pyfloat \<Rightarrow> cache \<Rightarrow> path option outcome" where
  "get_layer lid now st =
     (let key = layer_key lid
      in case dget (index st) key of
           None \<Rightarrow> (Inr None, st)
         | Some e \<Rightarrow>
             if \<not> fs_exists (disk st) (e_path e)
             then (Inr None, save_index (st\<lparr>index := ddel key (index st)\<rparr>))
             else (Inr (Some (e_path e)),
                   save_index
                     (st\<lparr>index := dset key (e\<lparr>e_last_accessed := Some now\<rparr>) (index st)\<rparr>)))"

definition replace_tree :: "path \<Rightarrow> path \<Rightarrow> fs \<Rightarrow> (py_error + fs) \<times> fs" where
  "replace_tree src dest d =
     (if fs_is_file d dest then (Inl NotADirectoryError, d)
      else let d1 = (if fs_exists d dest then fs_rmtree dest d else d)
           in (fs_copytree src dest d1, d1))"

definition store_layer ::
    "string \<Rightarrow> path \<Rightarrow> string \<Rightarrow> pyfloat \<Rightarrow> pyfloat \<Rightarrow> cache \<Rightarrow> path outcome" where
  "store_layer lid src sha256 now1 now2 st =
     (let st1 = maybe_evict st;
          dest = path_div (layers_dir st1) lid
      in case (if src \<noteq> dest then replace_tree src dest (disk st1)
               else (Inr (disk st1), disk st1)) of
           (Inl err, d) \<Rightarrow> (Inl err, st1\<lparr>disk := d\<rparr>)
         | (Inr d, _) \<Rightarrow>
             (Inr dest,
              save_index
                (st1\<lparr>disk := d,
                     index :=
                       dset (layer_key lid)
                         \<lparr>e_path = dest, e_package = None, e_version = None,
                          e_layer_id = Some lid, e_sha256 = sha256,
                          e_size = Some (fs_tree_size d dest), e_cached_at = now1,
                          e_last_accessed = Some now2, e_type = Some ''layer''\<rparr> (index st1)\<rparr>)))"

section \<open>Metadata\<close>

definition meta_file :: "cache \<Rightarrow> string \<Rightarrow> path" where
  "meta_file st pkg = path_div (metadata_dir st) (pkg @ ''.json'')"

text \<open>A JSON document that is no object has no \<open>.get\<close>; a stamp that is no number cannot be subtracted.\<close>

definition get_metadata :: "string \<Rightarrow> pyfloat \<Rightarrow> cache \<Rightarrow> pydict option outcome" where
  "get_metadata pkg now st =
     (let f = meta_file st pkg
      in case dget (metas st) f of
           None \<Rightarrow> (Inr None, st)
         | Some None \<Rightarrow> (Inr None, st)
         | Some (Some (PDict data)) \<Rightarrow>
             (case as_number (dget_or data ''_cached_at'' (PInt 0)) of
                None \<Rightarrow> (Inl TypeError, st)
              | Some t \<Rightarrow>
                  if now - t > 86400 then (Inr None, st\<lparr>metas := ddel f (metas st)\<rparr>)
                  else (Inr (Some data), st))
         | Some (Some _) \<Rightarrow> (Inl (AttributeError ''get''), st))"

definition store_metadata :: "string \<Rightarrow> pydict \<Rightarrow> pyfloat \<Rightarrow> cache \<Rightarrow> unit outcome" where
  "store_metadata pkg metadata now st =
     (let f = meta_file st pkg
      in if fs_is_dir (disk st) (butlast f)
         then (Inr (),
               st\<lparr>metas := dset f (Some (PDict (dset ''_cached_at'' (PFloat now) metadata)))
                             (metas st)\<rparr>)
         else (Inl FileNotFoundError, st))"

section \<open>Statistics and maintenance\<close>

definition count_type :: "string \<Rightarrow> cache_index \<Rightarrow> nat" where
  "count_type ty d = length (filter (\<lambda>(_, e). e_type e = Some ty) d)"

definition stats :: "cache \<Rightarrow> cache_stats" where
  "stats st =
     (let current = current_size_mb st
      in \<lparr>total_size_mb = py_round 2 current,
          stat_max_size_mb = max_size_mb st,
          num_wheels = count_type ''wheel'' (index st),
          num_layers = count_type ''layer'' (index st),
          num_metadata =
            length (filter (\<lambda>f. f \<noteq> [] \<and> butlast f = metadata_dir st \<and> suffix ''.json'' (last f))
                      (dkeys (metas st))),
          utilization_pct = py_round 1 (current / of_int (max (max_size_mb st) 1) * 100)\<rparr>)"

text \<open>Every directory is removed and made again, and with the last one go the metadata files.\<close>

definition clear_dir :: "path \<Rightarrow> fs \<Rightarrow> py_error + fs" where
  "clear_dir p d =
     (if fs_is_file d p then Inl FileExistsError else fs_mkdir_p p (fs_rmtree p d))"

definition clear :: "cache \<Rightarrow> unit outcome" where
  "clear st =
     (case clear_dir (wheels_dir st) (disk st) of Inl e \<Rightarrow> (Inl e, st) | Inr d1 \<Rightarrow>
      (case clear_dir (layers_dir st) d1 of Inl e \<Rightarrow> (Inl e, st\<lparr>disk := d1\<rparr>) | Inr d2 \<Rightarrow>
      (case clear_dir (metadata_dir st) d2 of Inl e \<Rightarrow> (Inl e, st\<lparr>disk := d2\<rparr>) | Inr d3 \<Rightarrow>
         (Inr (),
          save_index
            (st\<lparr>disk := d3,
                metas := filter (\<lambda>(f, _). \<not> prefix (metadata_dir st) f) (metas st),
                index := []\<rparr>)))))"

definition verify_entry ::
    "(bytes \<Rightarrow> string) \<Rightarrow> string \<times> cache_entry \<Rightarrow> cache \<times> string list \<Rightarrow> cache \<times> string list" where
  "verify_entry sha item acc =
     (let (key, e) = item; (st, issues) = acc; p = e_path e
      in if \<not> fs_exists (disk st) p
         then (st\<lparr>index := ddel key (index st)\<rparr>, issues @ [''Missing: '' @ key])
         else if fs_is_file (disk st) p \<and> e_sha256 e \<noteq> []
         then (case hash_file sha (disk st) p of
                 Inr h \<Rightarrow>
                   if h \<noteq> e_sha256 e
                   then (st\<lparr>disk := fs_unlink p (disk st), index := ddel key (index st)\<rparr>,
                         issues @ [''Corrupt: '' @ key @ '' (hash mismatch)''])
                   else (st, issues)
               | Inl _ \<Rightarrow> (st, issues))
         else (st, issues))"

definition verify_integrity :: "(bytes \<Rightarrow> string) \<Rightarrow> cache \<Rightarrow> string list \<times> cache" where
  "verify_integrity sha st =
     (let (st', issues) = fold (verify_entry sha) (index st) (st, [])
      in (issues, if issues \<noteq> [] then save_index st' else st'))"

section \<open>Eviction refines an abstract LRU policy\<close>

text \<open>
  The policy: sort the items by access time, oldest first, and drop from the front until the rest
  fits the limit. The loop, which looks for a minimum in every round, keeps exactly those items.
\<close>

definition evict_limit :: "cache \<Rightarrow> pyfloat" where
  "evict_limit st = of_int (max_size_mb st) * (9 / 10)"

definition fits :: "pyfloat \<Rightarrow> cache_index \<Rightarrow> bool" where
  "fits cap d \<longleftrightarrow> of_int (index_bytes d) / (1024 * 1024) \<le> cap"

definition lru_trim :: "pyfloat \<Rightarrow> cache_index \<Rightarrow> cache_index" where
  "lru_trim cap d = drop_until (fits cap) (sort_key (entry_access \<circ> snd) d)"

lemma over_limit_iff: "over_limit st \<longleftrightarrow> \<not> fits (evict_limit st) (index st)"
  by (auto simp: over_limit_def fits_def current_size_mb_def evict_limit_def)

lemma index_bytes_insort: "index_bytes (insort_key f p d) = entry_size (snd p) + index_bytes d"
  by (induction d) (auto simp: index_bytes_def)

lemma index_bytes_sort [simp]: "index_bytes (sort_key f d) = index_bytes d"
  by (induction d) (auto simp: index_bytes_insort, auto simp: index_bytes_def)

lemma fits_sort_key [simp]: "fits cap (sort_key f d) \<longleftrightarrow> fits cap d"
  by (simp add: fits_def)

lemma evict_one_frame [simp]:
  "max_size_mb (evict_one st) = max_size_mb st" "wheels_dir (evict_one st) = wheels_dir st"
  "layers_dir (evict_one st) = layers_dir st" "metadata_dir (evict_one st) = metadata_dir st"
  "disk_ok (evict_one st) = disk_ok st" "metas (evict_one st) = metas st"
  "saved_index (evict_one st) = saved_index st" "evict_limit (evict_one st) = evict_limit st"
  by (auto simp: evict_one_def evict_limit_def split: prod.splits)

lemma evict_loop_frame [simp]:
  "max_size_mb (evict_loop st) = max_size_mb st" "wheels_dir (evict_loop st) = wheels_dir st"
  "layers_dir (evict_loop st) = layers_dir st" "metadata_dir (evict_loop st) = metadata_dir st"
  "disk_ok (evict_loop st) = disk_ok st" "metas (evict_loop st) = metas st"
  "saved_index (evict_loop st) = saved_index st"
  by (induction st rule: evict_loop.induct; subst evict_loop.simps; simp)+

lemma index_evict_one:
  assumes "dwf (index st)" and "index st \<noteq> []"
  shows "index (evict_one st) = remove1 (lru_item (index st)) (index st)"
  using assms lru_item_in [OF assms(2)]
  by (auto simp: evict_one_def ddel_remove1 split: prod.splits)

lemma dwf_remove1: "dwf d \<Longrightarrow> dwf (remove1 x d)"
  by (induction d) (auto simp: notin_set_remove1 dest: set_remove1_subset [THEN subsetD])

lemma set_lru_trim: "set (lru_trim cap d) \<subseteq> set d"
  unfolding lru_trim_def
  using set_mono_suffix [OF drop_until_suffix [of "fits cap" "sort_key (entry_access \<circ> snd) d"]]
  by simp

lemma lru_trim_fits: "fits cap d \<Longrightarrow> set (lru_trim cap d) = set d"
proof -
  assume fit: "fits cap d"
  have "drop_until (fits cap) ys = ys" if "fits cap ys" for ys
    using that by (cases ys) auto
  from this [of "sort_key (entry_access \<circ> snd) d"] fit show ?thesis
    by (simp add: lru_trim_def)
qed

lemma lru_trim_step:
  assumes "\<not> fits cap d" and "distinct d" and "d \<noteq> []"
  shows "lru_trim cap d = lru_trim cap (remove1 (lru_item d) d)"
proof -
  let ?f = "entry_access \<circ> snd"
  have eq: "sort_key ?f d = lru_item d # sort_key ?f (remove1 (lru_item d) d)"
    unfolding lru_item_def by (rule sort_key_arg_min) (use assms in auto)
  have "\<not> fits cap (lru_item d # sort_key ?f (remove1 (lru_item d) d))"
    using assms(1) by (simp flip: eq)
  then show ?thesis by (simp add: lru_trim_def eq)
qed

lemma evict_loop_trim:
  "dwf (index st) \<Longrightarrow>
   index (evict_loop st) = filter (\<lambda>x. x \<in> set (lru_trim (evict_limit st) (index st))) (index st)"
proof (induction st rule: evict_loop.induct)
  case (1 st)
  have dist: "distinct (index st)" using "1.prems" by (simp add: distinct_map)
  show ?case
  proof (cases "over_limit st \<and> index st \<noteq> []")
    case True
    let ?m = "lru_item (index st)" and ?d = "remove1 (lru_item (index st)) (index st)"
    let ?S = "set (lru_trim (evict_limit st) ?d)"
    have step: "index (evict_one st) = ?d" by (rule index_evict_one) (use True "1.prems" in auto)
    have IH: "index (evict_loop (evict_one st)) = filter (\<lambda>x. x \<in> ?S) ?d"
      using "1.IH" True "1.prems" by (simp add: step dwf_remove1)
    have trim: "lru_trim (evict_limit st) (index st) = lru_trim (evict_limit st) ?d"
      by (rule lru_trim_step) (use True dist in \<open>auto simp: over_limit_iff\<close>)
    have "?m \<notin> ?S"
      using set_lru_trim [of "evict_limit st" ?d] dist by (auto simp: distinct_remove1_removeAll)
    then have "filter (\<lambda>x. x \<in> ?S) ?d = filter (\<lambda>x. x \<in> ?S) (index st)"
      using dist by (auto simp: distinct_remove1_removeAll removeAll_filter_not_eq intro!: filter_cong)
    with IH trim True show ?thesis by (subst evict_loop.simps) simp
  next
    case False
    then have same: "evict_loop st = st" by (subst evict_loop.simps) auto
    have "set (lru_trim (evict_limit st) (index st)) = set (index st)"
    proof (cases "index st = []")
      case ne: False
      with False show ?thesis by (intro lru_trim_fits) (simp add: over_limit_iff)
    qed (use set_lru_trim in fastforce)
    then show ?thesis by (simp add: same)
  qed
qed

lemma evict_loop_fits:
  "fits (evict_limit st) (index (evict_loop st)) \<or> index (evict_loop st) = []"
proof (induction st rule: evict_loop.induct)
  case (1 st)
  then show ?case by (subst (1 2) evict_loop.simps) (auto simp: over_limit_iff)
qed

subsection \<open>What eviction leaves alone\<close>

lemma save_index_frame [simp]:
  "index (save_index st) = index st" "disk (save_index st) = disk st"
  "metas (save_index st) = metas st" "disk_ok (save_index st) = disk_ok st"
  "wheels_dir (save_index st) = wheels_dir st" "layers_dir (save_index st) = layers_dir st"
  "metadata_dir (save_index st) = metadata_dir st" "max_size_mb (save_index st) = max_size_mb st"
  "evict_limit (save_index st) = evict_limit st"
  by (simp_all add: save_index_def evict_limit_def)

lemma maybe_evict_frame [simp]:
  "max_size_mb (maybe_evict st) = max_size_mb st" "wheels_dir (maybe_evict st) = wheels_dir st"
  "layers_dir (maybe_evict st) = layers_dir st" "metadata_dir (maybe_evict st) = metadata_dir st"
  "disk_ok (maybe_evict st) = disk_ok st" "metas (maybe_evict st) = metas st"
  by (simp_all add: maybe_evict_def)

lemma index_maybe_evict:
  "dwf (index st) \<Longrightarrow>
   index (maybe_evict st) = filter (\<lambda>x. x \<in> set (lru_trim (evict_limit st) (index st))) (index st)"
  by (simp add: maybe_evict_def evict_loop_trim)

lemma dwf_maybe_evict [dict_inv]: "dwf (index st) \<Longrightarrow> dwf (index (maybe_evict st))"
  by (simp only: index_maybe_evict dwf_filter)

lemma set_index_maybe_evict: "dwf (index st) \<Longrightarrow> set (index (maybe_evict st)) \<subseteq> set (index st)"
  by (auto simp: index_maybe_evict)

lemma remove_path_gone: "dget d p = None \<Longrightarrow> dget (remove_path q d) p = None"
  by (auto simp: remove_path_def dict_laws)

lemma remove_path_self: "dget (remove_path p d) p = None"
  by (auto simp: remove_path_def dict_laws fs_is_file_def fs_is_dir_def
      split: option.splits node.splits)

text \<open>A file that is gone stays gone: eviction never makes a file.\<close>

lemma evict_loop_gone: "dget (disk st) p = None \<Longrightarrow> dget (disk (evict_loop st)) p = None"
proof (induction st rule: evict_loop.induct)
  case (1 st)
  have "dget (disk (evict_one st)) p = None"
    using "1.prems" by (simp add: evict_one_def remove_path_gone split: prod.splits)
  with 1 show ?case by (subst evict_loop.simps) simp
qed

lemma evict_loop_first:
  assumes "over_limit st" and "index st \<noteq> []"
  shows "dget (disk (evict_loop st)) (e_path (snd (lru_item (index st)))) = None"
proof -
  have "dget (disk (evict_one st)) (e_path (snd (lru_item (index st)))) = None"
    by (simp add: evict_one_def remove_path_self split: prod.splits)
  with assms show ?thesis by (subst evict_loop.simps) (simp add: evict_loop_gone)
qed

lemma index_bytes_dset:
  assumes "\<forall>(k, e) \<in> set d. 0 \<le> entry_size e"
  shows "index_bytes (dset k e d) \<le> index_bytes d + entry_size e"
  using assms by (induction d) (auto simp: index_bytes_def)

lemma evicted_older:
  assumes "dwf d" and "x \<in> set d" and "x \<notin> set (lru_trim cap d)" and "y \<in> set (lru_trim cap d)"
  shows "entry_access (snd x) \<le> entry_access (snd y)"
proof -
  let ?s = "sort_key (entry_access \<circ> snd) d"
  obtain zs where zs: "?s = zs @ lru_trim cap d"
    using drop_until_suffix [of "fits cap" ?s] by (auto simp: lru_trim_def suffix_def)
  have "x \<in> set ?s" using assms(2) by simp
  with zs assms(3) have "x \<in> set zs" by (metis Un_iff set_append)
  moreover have "sorted (map (entry_access \<circ> snd) ?s)" by (rule sorted_sort_key)
  ultimately show ?thesis using assms(4) zs by (auto simp: sorted_append)
qed

section \<open>Wheels: what a lookup returns\<close>

lemma store_wheel_ok:
  assumes "store_wheel sha pkg ver src h now1 now2 st = (Inr dest, st')"
  obtains d e where "dest = path_div (wheels_dir st) (file_name src)"
    and "(if src \<noteq> dest then fs_copy2 src dest (disk (maybe_evict st))
          else Inr (disk (maybe_evict st))) = Inr d"
    and "disk st' = d"
    and "index st' = dset (cache_key pkg ver ''wheel'') e (index (maybe_evict st))"
    and "e_path e = dest" and "h \<noteq> [] \<Longrightarrow> e_sha256 e = h"
    and "h = [] \<Longrightarrow> hash_file sha d dest = Inr (e_sha256 e)"
    and "stat_size d dest = Inr (entry_size e)" and "e_last_accessed e = Some now2"
proof -
  let ?st = "maybe_evict st"
  have "dest = path_div (wheels_dir st) (file_name src)"
    using assms by (auto simp: store_wheel_def Let_def split: sum.splits if_splits)
  moreover from assms this obtain d where d:
    "(if src \<noteq> dest then fs_copy2 src dest (disk ?st) else Inr (disk ?st)) = Inr d"
    by (auto simp: store_wheel_def Let_def split: sum.splits if_splits)
  moreover from assms d calculation(1) obtain a n where an:
    "(if h \<noteq> [] then Inr h else hash_file sha d dest) = Inr a" "stat_size d dest = Inr n"
    by (auto simp: store_wheel_def Let_def split: sum.splits if_splits)
  ultimately show thesis
    using assms
    by (intro that [of d "\<lparr>e_path = dest, e_package = Some pkg, e_version = Some ver,
        e_layer_id = None, e_sha256 = a, e_size = Some n, e_cached_at = now1,
        e_last_accessed = Some now2, e_type = Some ''wheel''\<rparr>"])
      (auto simp: store_wheel_def Let_def entry_size_def split: if_splits)
qed

lemma get_wheel_present:
  assumes "dget (index st) (cache_key pkg ver ''wheel'') = Some e"
    and "dget (disk st) (e_path e) = Some (File b)"
  shows "get_wheel sha pkg ver now st =
    (if sha b = e_sha256 e
     then (Inr (Some (e_path e)),
           save_index (st\<lparr>index :=
             dset (cache_key pkg ver ''wheel'') (e\<lparr>e_last_accessed := Some now\<rparr>) (index st)\<rparr>))
     else (Inr None,
           save_index (st\<lparr>disk := fs_unlink (e_path e) (disk st),
             index := ddel (cache_key pkg ver ''wheel'') (index st)\<rparr>)))"
  using assms by (auto simp: get_wheel_def Let_def fs_exists_def hash_file_def fs_read_def)

text \<open>A small cache for the witnesses: one wheel of three bytes under \<open>/w\<close>.\<close>

definition demo_sha :: "bytes \<Rightarrow> string" where
  "demo_sha b = nat_digits (length b)"

definition demo_entry :: cache_entry where
  "demo_entry = \<lparr>e_path = [''w'', ''a.whl''], e_package = Some ''a'', e_version = Some ''1'',
     e_layer_id = None, e_sha256 = demo_sha [1, 2, 3], e_size = Some 3, e_cached_at = 5,
     e_last_accessed = Some 5, e_type = Some ''wheel''\<rparr>"

definition demo_cache :: "int \<Rightarrow> cache" where
  "demo_cache m = \<lparr>max_size_mb = m, wheels_dir = [''w''], layers_dir = [''l''],
     metadata_dir = [''m''], index = [(''wheel:a:1'', demo_entry)], saved_index = NoIndex,
     disk_ok = True,
     disk = [([], Dir), ([''w''], Dir), ([''l''], Dir), ([''m''], Dir),
             ([''w'', ''a.whl''], File [1, 2, 3]), ([''b.whl''], File [7])],
     metas = []\<rparr>"

section \<open>Integrity checks\<close>

text \<open>An item is good when its path exists and, if it is a file with a recorded hash, the hash is right.\<close>

definition entry_ok :: "(bytes \<Rightarrow> string) \<Rightarrow> fs \<Rightarrow> cache_entry \<Rightarrow> bool" where
  "entry_ok sha d e \<longleftrightarrow>
     (case dget d (e_path e) of
        None \<Rightarrow> False
      | Some Dir \<Rightarrow> True
      | Some (File b) \<Rightarrow> e_sha256 e = [] \<or> sha b = e_sha256 e)"

definition good_item :: "(bytes \<Rightarrow> string) \<Rightarrow> fs \<Rightarrow> string \<times> cache_entry \<Rightarrow> bool" where
  "good_item sha d x \<longleftrightarrow> entry_ok sha d (snd x)"

lemma verify_entry_good:
  "good_item sha (disk st) x \<Longrightarrow> verify_entry sha x (st, iss) = (st, iss)"
  by (auto simp: verify_entry_def Let_def good_item_def entry_ok_def fs_exists_def fs_is_file_def
      hash_file_def fs_read_def split: prod.splits option.splits node.splits)

lemma verify_entry_bad:
  assumes "\<not> good_item sha (disk st) x"
  obtains d msg where "verify_entry sha x (st, iss) =
      (st\<lparr>disk := d, index := ddel (fst x) (index st)\<rparr>, iss @ [msg])"
    and "\<And>q. q \<noteq> e_path (snd x) \<Longrightarrow> dget d q = dget (disk st) q"
proof (cases "fs_exists (disk st) (e_path (snd x))")
  case False
  then show thesis
    by (intro that [of "disk st" "''Missing: '' @ fst x"])
      (auto simp: verify_entry_def split: prod.splits)
next
  case True
  with assms obtain b where "dget (disk st) (e_path (snd x)) = Some (File b)"
      "e_sha256 (snd x) \<noteq> []" "sha b \<noteq> e_sha256 (snd x)"
    by (auto simp: good_item_def entry_ok_def fs_exists_def split: option.splits node.splits)
  with True show thesis
    by (intro that [of "fs_unlink (e_path (snd x)) (disk st)"
          "''Corrupt: '' @ fst x @ '' (hash mismatch)''"])
      (auto simp: verify_entry_def fs_is_file_def hash_file_def fs_read_def dict_laws
        split: prod.splits)
qed

lemma good_item_cong:
  "dget d (e_path (snd x)) = dget d' (e_path (snd x)) \<Longrightarrow> good_item sha d x = good_item sha d' x"
  by (simp add: good_item_def entry_ok_def)

lemma verify_all_good:
  "\<forall>x \<in> set xs. good_item sha (disk st) x \<Longrightarrow> fold (verify_entry sha) xs (st, iss) = (st, iss)"
  by (induction xs) (auto simp: verify_entry_good)

text \<open>
  One pass over items with different keys and different paths: the bad ones leave the index, each
  with one issue, and no file of another item changes.
\<close>

lemma ddel_item: "dwf d \<Longrightarrow> x \<in> set d \<Longrightarrow> ddel (fst x) d = filter (\<lambda>y. y \<noteq> x) d"
  unfolding ddel_filter by (intro filter_cong refl) (metis eq_key_imp_eq_value prod.collapse)

lemma good_item_elsewhere:
  assumes "\<And>q. q \<noteq> e_path (snd x) \<Longrightarrow> dget d q = dget (disk st) q"
    and "distinct (map (e_path \<circ> snd) (x # xs))" and "y \<in> set xs"
  shows "good_item sha d y = good_item sha (disk st) y"
proof (rule good_item_cong, rule assms(1))
  have "e_path (snd x) \<notin> (\<lambda>z. e_path (snd z)) ` set xs" using assms(2) by (simp add: comp_def)
  then show "e_path (snd y) \<noteq> e_path (snd x)" using assms(3) by (metis image_eqI)
qed

lemma verify_pass:
  assumes "dwf (index st)" and "set xs \<subseteq> set (index st)"
    and "distinct xs" and "distinct (map (e_path \<circ> snd) xs)"
  shows "\<exists>st' new. fold (verify_entry sha) xs (st, iss) = (st', iss @ new) \<and>
    index st' = filter (\<lambda>x. x \<in> set xs \<longrightarrow> good_item sha (disk st) x) (index st) \<and>
    length new = length (filter (\<lambda>x. \<not> good_item sha (disk st) x) xs) \<and>
    (\<forall>q. (\<forall>x \<in> set xs. e_path (snd x) = q \<longrightarrow> good_item sha (disk st) x) \<longrightarrow>
       dget (disk st') q = dget (disk st) q)"
  using assms
proof (induction xs arbitrary: st iss)
  case Nil
  then show ?case by (intro exI [of _ st] exI [of _ "[]"]) simp
next
  case (Cons x xs)
  show ?case
  proof (cases "good_item sha (disk st) x")
    case True
    obtain st' new where IH: "fold (verify_entry sha) xs (st, iss) = (st', iss @ new)"
      "index st' = filter (\<lambda>x. x \<in> set xs \<longrightarrow> good_item sha (disk st) x) (index st)"
      "length new = length (filter (\<lambda>x. \<not> good_item sha (disk st) x) xs)"
      "\<forall>q. (\<forall>x \<in> set xs. e_path (snd x) = q \<longrightarrow> good_item sha (disk st) x) \<longrightarrow>
         dget (disk st') q = dget (disk st) q"
      using Cons.IH [of st iss] Cons.prems by auto
    have "index st' = filter (\<lambda>y. y \<in> set (x # xs) \<longrightarrow> good_item sha (disk st) y) (index st)"
      unfolding IH(2) using True by (intro filter_cong) auto
    with True IH show ?thesis by (intro exI [of _ st'] exI [of _ new]) (simp add: verify_entry_good)
  next
    case False
    obtain d msg where v: "verify_entry sha x (st, iss) =
        (st\<lparr>disk := d, index := ddel (fst x) (index st)\<rparr>, iss @ [msg])"
      and d: "\<And>q. q \<noteq> e_path (snd x) \<Longrightarrow> dget d q = dget (disk st) q"
      using verify_entry_bad [OF False, of iss] by blast
    let ?st = "st\<lparr>disk := d, index := ddel (fst x) (index st)\<rparr>"
    have del: "ddel (fst x) (index st) = filter (\<lambda>y. y \<noteq> x) (index st)"
      using Cons.prems(1,2) by (intro ddel_item) auto
    note same = good_item_elsewhere [OF d Cons.prems(4)]
    obtain st' new where IH: "fold (verify_entry sha) xs (?st, iss @ [msg]) = (st', (iss @ [msg]) @ new)"
      "index st' = filter (\<lambda>x. x \<in> set xs \<longrightarrow> good_item sha d x) (ddel (fst x) (index st))"
      "length new = length (filter (\<lambda>x. \<not> good_item sha d x) xs)"
      "\<forall>q. (\<forall>x \<in> set xs. e_path (snd x) = q \<longrightarrow> good_item sha d x) \<longrightarrow> dget (disk st') q = dget d q"
      using Cons.IH [of ?st "iss @ [msg]"] Cons.prems
      by (auto simp: dict_inv del)
    have "index st' = filter (\<lambda>y. y \<in> set (x # xs) \<longrightarrow> good_item sha (disk st) y) (index st)"
      unfolding IH(2) del filter_filter using False same Cons.prems(3)
      by (intro filter_cong) auto
    moreover have "length (msg # new) = length (filter (\<lambda>x. \<not> good_item sha (disk st) x) (x # xs))"
      using False IH(3) same by (simp cong: filter_cong)
    moreover have "\<forall>q. (\<forall>y \<in> set (x # xs). e_path (snd y) = q \<longrightarrow> good_item sha (disk st) y) \<longrightarrow>
         dget (disk st') q = dget (disk st) q"
      using IH(4) d False same by (metis list.set_intros(1) list.set_intros(2))
    ultimately show ?thesis
      using IH(1) by (intro exI [of _ st'] exI [of _ "msg # new"]) (simp add: v)
  qed
qed

section \<open>The cache as a state machine\<close>

datatype cache_op =
    OpGetWheel string string pyfloat
  | OpStoreWheel string string path string pyfloat pyfloat
  | OpGetLayer string pyfloat
  | OpStoreLayer string path string pyfloat pyfloat
  | OpGetMetadata string pyfloat
  | OpStoreMetadata string pydict pyfloat
  | OpClear
  | OpVerify

fun cache_step :: "(bytes \<Rightarrow> string) \<Rightarrow> cache \<Rightarrow> cache_op \<Rightarrow> cache" where
  "cache_step sha st (OpGetWheel pkg ver now) = snd (get_wheel sha pkg ver now st)"
| "cache_step sha st (OpStoreWheel pkg ver src h t1 t2) = snd (store_wheel sha pkg ver src h t1 t2 st)"
| "cache_step sha st (OpGetLayer lid now) = snd (get_layer lid now st)"
| "cache_step sha st (OpStoreLayer lid src h t1 t2) = snd (store_layer lid src h t1 t2 st)"
| "cache_step sha st (OpGetMetadata pkg now) = snd (get_metadata pkg now st)"
| "cache_step sha st (OpStoreMetadata pkg md now) = snd (store_metadata pkg md now st)"
| "cache_step sha st OpClear = snd (clear st)"
| "cache_step sha st OpVerify = snd (verify_integrity sha st)"

text \<open>
  The invariant: distinct keys, and the index file holds the index in memory (or there is no file
  and the index is empty), as long as writing it succeeds.
\<close>

definition persisted :: "cache \<Rightarrow> bool" where
  "persisted st \<longleftrightarrow> (case saved_index st of SavedIndex d \<Rightarrow> index st = d | _ \<Rightarrow> index st = [])"

definition cache_inv :: "cache \<Rightarrow> bool" where
  "cache_inv st \<longleftrightarrow> disk_ok st \<and> dwf (index st) \<and> persisted st"

lemma cache_inv_save [intro]: "disk_ok st \<Longrightarrow> dwf (index st) \<Longrightarrow> cache_inv (save_index st)"
  by (simp add: cache_inv_def save_index_def persisted_def)

lemma cache_inv_disk [simp]: "cache_inv (st\<lparr>disk := d\<rparr>) \<longleftrightarrow> cache_inv st"
  by (simp add: cache_inv_def persisted_def split: index_file.split)

lemma cache_inv_metas [simp]: "cache_inv (st\<lparr>metas := m\<rparr>) \<longleftrightarrow> cache_inv st"
  by (simp add: cache_inv_def persisted_def split: index_file.split)

lemma cache_invD: "cache_inv st \<Longrightarrow> disk_ok st" "cache_inv st \<Longrightarrow> dwf (index st)"
  by (auto simp: cache_inv_def)

lemma cache_inv_evict: "cache_inv st \<Longrightarrow> cache_inv (maybe_evict st)"
  using dwf_maybe_evict [of st] by (auto simp: maybe_evict_def cache_inv_def persisted_def save_index_def)

lemma cache_inv_get_wheel: "cache_inv st \<Longrightarrow> cache_inv (snd (get_wheel sha pkg ver now st))"
  by (auto simp: get_wheel_def Let_def dict_inv cache_invD split: option.splits sum.splits)

lemma cache_inv_store_wheel:
  "cache_inv st \<Longrightarrow> cache_inv (snd (store_wheel sha pkg ver src h t1 t2 st))"
  using cache_inv_evict [of st]
  by (auto simp: store_wheel_def Let_def dict_inv cache_invD split: sum.splits)

lemma cache_inv_get_layer: "cache_inv st \<Longrightarrow> cache_inv (snd (get_layer lid now st))"
  by (auto simp: get_layer_def Let_def dict_inv cache_invD split: option.splits)

lemma cache_inv_store_layer:
  "cache_inv st \<Longrightarrow> cache_inv (snd (store_layer lid src h t1 t2 st))"
  using cache_inv_evict [of st]
  by (auto simp: store_layer_def Let_def dict_inv cache_invD split: sum.splits prod.splits)

lemma cache_inv_get_metadata: "cache_inv st \<Longrightarrow> cache_inv (snd (get_metadata pkg now st))"
  by (auto simp: get_metadata_def Let_def split: option.splits pyval.splits)

lemma cache_inv_clear: "cache_inv st \<Longrightarrow> cache_inv (snd (clear st))"
  by (auto simp: clear_def cache_invD split: sum.splits)

lemma cache_inv_verify: "cache_inv st \<Longrightarrow> cache_inv (snd (verify_integrity sha st))"
proof -
  assume inv: "cache_inv st"
  have "(issues' = iss \<and> st' = st1 \<or> issues' \<noteq> [] \<and> disk_ok st' \<and> dwf (index st'))"
    if "fold (verify_entry sha) xs (st1, iss) = (st', issues')" "disk_ok st1" "dwf (index st1)"
    for xs st1 iss st' issues'
    using that
  proof (induction xs arbitrary: st1 iss)
    case (Cons x xs)
    show ?case
    proof (cases "good_item sha (disk st1) x")
      case True
      with Cons show ?thesis by (simp add: verify_entry_good)
    next
      case False
      then obtain d msg where "verify_entry sha x (st1, iss) =
          (st1\<lparr>disk := d, index := ddel (fst x) (index st1)\<rparr>, iss @ [msg])"
        using verify_entry_bad by blast
      with Cons.IH [of "st1\<lparr>disk := d, index := ddel (fst x) (index st1)\<rparr>" "iss @ [msg]"] Cons.prems
      show ?thesis by (auto simp: dict_inv)
    qed
  qed simp
  from this [of "index st" st "[]"] inv show ?thesis
    by (auto simp: verify_integrity_def cache_invD split: prod.splits)
qed

interpretation cache_machine: kept_invariant "cache_step sha" cache_inv for sha
proof unfold_locales
  fix st op assume "cache_inv st"
  then show "cache_inv (cache_step sha st op)"
    by (cases op)
      (auto simp: cache_inv_get_wheel cache_inv_store_wheel cache_inv_get_layer cache_inv_store_layer
        cache_inv_get_metadata cache_inv_clear cache_inv_verify store_metadata_def Let_def)
qed

section \<open>Properties\<close>

text \<open>
  C5: eviction implements the LRU policy. What \<^verbatim>\<open>_maybe_evict\<close> leaves in the index are, in their
  old order, exactly the items that remain when the items sorted by access time are dropped from
  the oldest on until the rest fits 90 percent of the limit; the kept items fit or none is kept,
  and every evicted item was last used no later than every kept one.
\<close>

theorem eviction_is_lru:
  assumes "dwf (index st)"
  shows "index (maybe_evict st) =
           filter (\<lambda>x. x \<in> set (lru_trim (evict_limit st) (index st))) (index st) \<and>
         (fits (evict_limit st) (index (maybe_evict st)) \<or> index (maybe_evict st) = []) \<and>
         (\<forall>x \<in> set (index st) - set (index (maybe_evict st)). \<forall>y \<in> set (index (maybe_evict st)).
            entry_access (snd x) \<le> entry_access (snd y))"
proof (intro conjI ballI)
  show eq: "index (maybe_evict st) =
      filter (\<lambda>x. x \<in> set (lru_trim (evict_limit st) (index st))) (index st)"
    by (rule index_maybe_evict) (rule assms)
  show "fits (evict_limit st) (index (maybe_evict st)) \<or> index (maybe_evict st) = []"
    using evict_loop_fits [of st] by (simp add: maybe_evict_def)
  fix x y
  assume "x \<in> set (index st) - set (index (maybe_evict st))" "y \<in> set (index (maybe_evict st))"
  then show "entry_access (snd x) \<le> entry_access (snd y)"
    using evicted_older [OF assms, of x "evict_limit st" y] by (auto simp: eq)
qed

theorem eviction_is_lru_witness:
  "dwf (index (demo_cache 0)) \<and> over_limit (demo_cache 0) \<and>
   (fits (evict_limit (demo_cache 0)) (index (maybe_evict (demo_cache 0))) \<or>
    index (maybe_evict (demo_cache 0)) = [])"
proof -
  have "dwf (index (demo_cache 0))" and "over_limit (demo_cache 0)" by code_simp+
  with eviction_is_lru [of "demo_cache 0"] show ?thesis by blast
qed

lemma get_after_store:
  assumes "store_wheel sha pkg ver src h now1 now2 st = (Inr dest, st')"
    and "dget (disk st') dest = Some (File b)"
  shows "\<exists>st''. get_wheel sha pkg ver now st' =
      (Inr (if h = [] \<or> sha b = h then Some dest else None), st'') \<and>
    (h = [] \<or> sha b = h \<or> dget (disk st'') dest = None)"
proof -
  obtain d e where e: "disk st' = d"
      "index st' = dset (cache_key pkg ver ''wheel'') e (index (maybe_evict st))"
      "e_path e = dest" "h \<noteq> [] \<Longrightarrow> e_sha256 e = h"
      "h = [] \<Longrightarrow> hash_file sha d dest = Inr (e_sha256 e)"
    using store_wheel_ok [OF assms(1)] by metis
  have get: "dget (index st') (cache_key pkg ver ''wheel'') = Some e"
    by (simp add: e(2) dict_laws)
  have own: "e_sha256 e = (if h = [] then sha b else h)"
    using e(1,4,5) assms(2) by (auto simp: hash_file_def fs_read_def)
  note at = get_wheel_present [where sha = sha and now = now, OF get, unfolded e(3), OF assms(2)]
  show ?thesis
    using own by (auto simp: at dict_laws)
qed

text \<open>
  C20: a wheel stored without a given hash is found again. After a successful \<^verbatim>\<open>store_wheel\<close> the
  next \<^verbatim>\<open>get_wheel\<close> for the same package and version returns the stored path when the recorded
  hash is the file's own (always so when no hash is passed in); otherwise it returns nothing and
  deletes the file.
\<close>

theorem get_after_store_wheel:
  assumes "store_wheel sha pkg ver src h now1 now2 st = (Inr dest, st')"
    and "dget (disk st') dest = Some (File b)"
  shows "\<exists>st''. get_wheel sha pkg ver now st' =
      (Inr (if h = [] \<or> sha b = h then Some dest else None), st'') \<and>
    (h = [] \<or> sha b = h \<or> dget (disk st'') dest = None)"
  using assms by (rule get_after_store)

theorem get_after_store_wheel_witness:
  "\<exists>st'. store_wheel demo_sha ''b'' ''2'' [''b.whl''] [] 8 8 (demo_cache 1) =
       (Inr [''w'', ''b.whl''], st') \<and>
     fst (get_wheel demo_sha ''b'' ''2'' 9 st') = Inr (Some [''w'', ''b.whl''])"
proof -
  let ?r = "store_wheel demo_sha ''b'' ''2'' [''b.whl''] [] 8 8 (demo_cache 1)"
  have 1: "?r = (Inr [''w'', ''b.whl''], snd ?r)"
    by (rule pair_sndI) code_simp
  have 2: "dget (disk (snd ?r)) [''w'', ''b.whl''] = Some (File [7])"
    by code_simp
  from get_after_store_wheel [OF 1 2, of 9] 1 show ?thesis
    by (intro exI [of _ "snd ?r"]) auto
qed

text \<open>
  a hit of \<^verbatim>\<open>get_wheel\<close> is sound. A returned path is the indexed path of that package and
  version, the file is there, its content has the recorded hash, no file is touched, and only the
  access time of that item changes.
\<close>

theorem get_wheel_sound:
  assumes "get_wheel sha pkg ver now st = (Inr (Some p), st')"
  shows "\<exists>e b. dget (index st) (cache_key pkg ver ''wheel'') = Some e \<and> e_path e = p \<and>
    dget (disk st) p = Some (File b) \<and> sha b = e_sha256 e \<and> disk st' = disk st \<and>
    index st' = dset (cache_key pkg ver ''wheel'') (e\<lparr>e_last_accessed := Some now\<rparr>) (index st)"
  using assms
  by (auto simp: get_wheel_def Let_def hash_file_def fs_read_def fs_exists_def
      split: option.splits sum.splits if_splits node.splits)

theorem get_wheel_sound_witness:
  "fst (get_wheel demo_sha ''a'' ''1'' 9 (demo_cache 1)) = Inr (Some [''w'', ''a.whl'']) \<and>
   (\<exists>(e :: cache_entry) b. e_path e = [''w'', ''a.whl''] \<and> dget (disk (demo_cache 1)) [''w'', ''a.whl''] = Some (File b) \<and>
     demo_sha b = e_sha256 e)"
proof -
  let ?r = "get_wheel demo_sha ''a'' ''1'' 9 (demo_cache 1)"
  have hit: "fst ?r = Inr (Some [''w'', ''a.whl''])" by code_simp
  have "\<exists>(e :: cache_entry) b. e_path e = [''w'', ''a.whl''] \<and>
      dget (disk (demo_cache 1)) [''w'', ''a.whl''] = Some (File b) \<and> demo_sha b = e_sha256 e"
    using get_wheel_sound [OF pair_sndI [OF hit]] by fast
  then show ?thesis by (rule conjI [OF hit])
qed

text \<open>
  how large the cache gets. After a successful \<^verbatim>\<open>store_wheel\<close> the indexed bytes are at most
  90 percent of the limit (or nothing) plus the stored file: the new file is added after the
  eviction and is not counted by it, so the configured maximum itself is no bound.
\<close>

theorem store_wheel_size_bound:
  assumes "store_wheel sha pkg ver src h now1 now2 st = (Inr dest, st')"
    and "dwf (index st)" and "\<forall>(k, e) \<in> set (index st). 0 \<le> entry_size e"
  shows "\<exists>n. stat_size (disk st') dest = Inr n \<and>
    of_int (index_bytes (index st')) / (1024 * 1024) \<le>
      max (evict_limit st) 0 + of_int n / (1024 * 1024)"
proof -
  obtain d e where e: "disk st' = d"
      "index st' = dset (cache_key pkg ver ''wheel'') e (index (maybe_evict st))"
      "stat_size d dest = Inr (entry_size e)"
    using store_wheel_ok [OF assms(1)] by metis
  have pos: "\<forall>(k, e) \<in> set (index (maybe_evict st)). 0 \<le> entry_size e"
    using assms(3) set_index_maybe_evict [OF assms(2)] by blast
  have "index_bytes (index st') \<le> index_bytes (index (maybe_evict st)) + entry_size e"
    unfolding e(2) by (rule index_bytes_dset) (rule pos)
  then have "of_int (index_bytes (index st')) / (1024 * 1024) \<le>
      of_int (index_bytes (index (maybe_evict st))) / (1024 * 1024) +
      of_int (entry_size e) / (1024 * 1024 :: pyfloat)"
    by (simp flip: add_divide_distrib of_int_add add: divide_right_mono del: of_int_add)
  moreover have "of_int (index_bytes (index (maybe_evict st))) / (1024 * 1024) \<le>
      max (evict_limit st) 0"
    using evict_loop_fits [of st] by (auto simp: maybe_evict_def fits_def index_bytes_def)
  ultimately show ?thesis using e(1,3) by (intro exI [of _ "entry_size e"]) auto
qed

theorem store_wheel_size_bound_witness:
  "\<exists>n. stat_size (disk (snd (store_wheel demo_sha ''b'' ''2'' [''b.whl''] [] 8 8 (demo_cache 1))))
      [''w'', ''b.whl''] = Inr n"
proof -
  let ?r = "store_wheel demo_sha ''b'' ''2'' [''b.whl''] [] 8 8 (demo_cache 1)"
  have 1: "?r = (Inr [''w'', ''b.whl''], snd ?r)"
    by (rule pair_sndI) code_simp
  have 2: "dwf (index (demo_cache 1))" by code_simp
  have 3: "\<forall>(k, e) \<in> set (index (demo_cache 1)). 0 \<le> entry_size e" by code_simp
  from store_wheel_size_bound [OF 1 2 3] show ?thesis by blast
qed

text \<open>
  a download can be evicted before it is stored. \<^verbatim>\<open>_download_wheel\<close> writes into the wheel
  directory, so \<^verbatim>\<open>store_wheel\<close> runs with the source already at its destination. When the cache
  is over its limit and the least recently used item is an older copy of that very file, the
  eviction deletes the fresh download and \<^verbatim>\<open>store_wheel\<close> ends in FileNotFoundError.
\<close>

theorem store_wheel_evicts_download:
  assumes "over_limit st" and "index st \<noteq> []" and "is_component f"
    and "src = wheels_dir st @ [f]" and "e_path (snd (lru_item (index st))) = src"
  shows "fst (store_wheel sha pkg ver src h now1 now2 st) = Inl FileNotFoundError"
proof -
  have "dget (disk (maybe_evict st)) src = None"
    using evict_loop_first [OF assms(1,2)] assms(5) by (simp add: maybe_evict_def)
  then show ?thesis
    using assms(3,4)
    by (simp add: store_wheel_def Let_def file_name_def path_div_component hash_file_def
        fs_read_def stat_size_def)
qed

theorem store_wheel_evicts_download_witness:
  "fs_is_file (disk (demo_cache 0)) [''w'', ''a.whl''] \<and>
   fst (store_wheel demo_sha ''a'' ''1'' [''w'', ''a.whl''] [] 8 8 (demo_cache 0)) =
     Inl FileNotFoundError"
proof -
  have "over_limit (demo_cache 0)" "index (demo_cache 0) \<noteq> []" "is_component ''a.whl''"
    "[''w'', ''a.whl''] = wheels_dir (demo_cache 0) @ [''a.whl'']"
    "e_path (snd (lru_item (index (demo_cache 0)))) = [''w'', ''a.whl'']"
    by code_simp+
  note r = store_wheel_evicts_download [OF this, of demo_sha "''a''" "''1''" "[]" 8 8]
  have "fs_is_file (disk (demo_cache 0)) [''w'', ''a.whl'']" by code_simp
  with r show ?thesis by blast
qed

text \<open>
  \<^verbatim>\<open>verify_integrity\<close> repairs an index whose items have paths of their own. It removes exactly
  the items whose path is missing or whose hash is wrong, reports one issue for each, leaves every
  remaining item good, and a second run finds nothing and changes nothing.
\<close>

theorem verify_integrity_repairs:
  assumes "dwf (index st)" and "distinct (map (e_path \<circ> snd) (index st))"
    and "verify_integrity sha st = (issues, st')"
  shows "index st' = filter (good_item sha (disk st)) (index st) \<and>
         length issues = length (filter (\<lambda>x. \<not> good_item sha (disk st) x) (index st)) \<and>
         (\<forall>x \<in> set (index st'). good_item sha (disk st') x) \<and>
         verify_integrity sha st' = ([], st')"
proof -
  have "distinct (index st)" using assms(1) by (simp add: distinct_map)
  then obtain st1 new where pass: "fold (verify_entry sha) (index st) (st, []) = (st1, [] @ new)"
    "index st1 = filter (\<lambda>x. x \<in> set (index st) \<longrightarrow> good_item sha (disk st) x) (index st)"
    "length new = length (filter (\<lambda>x. \<not> good_item sha (disk st) x) (index st))"
    "\<forall>q. (\<forall>x \<in> set (index st). e_path (snd x) = q \<longrightarrow> good_item sha (disk st) x) \<longrightarrow>
       dget (disk st1) q = dget (disk st) q"
    using verify_pass [OF assms(1) subset_refl _ assms(2), where iss = "[]" and sha = sha] by auto
  have iss: "issues = new" and st': "index st' = index st1" "disk st' = disk st1"
    using assms(3) pass(1) by (auto simp: verify_integrity_def split: if_splits)
  have idx: "index st' = filter (good_item sha (disk st)) (index st)"
    unfolding st' pass(2) by (intro filter_cong) auto
  have good: "good_item sha (disk st') x" if "x \<in> set (index st')" for x
  proof -
    have x: "x \<in> set (index st)" "good_item sha (disk st) x" using that by (auto simp: idx)
    have "y = x" if "y \<in> set (index st)" "e_path (snd y) = e_path (snd x)" for y
      using assms(2) that x(1) by (metis comp_apply distinct_map inj_onD)
    with x have "dget (disk st1) (e_path (snd x)) = dget (disk st) (e_path (snd x))"
      using pass(4) by metis
    then show ?thesis using x(2) good_item_cong st'(2) by metis
  qed
  then have "fold (verify_entry sha) (index st') (st', []) = (st', [])"
    by (intro verify_all_good) auto
  then have "verify_integrity sha st' = ([], st')" by (simp add: verify_integrity_def)
  with idx iss pass(3) good show ?thesis by auto
qed

theorem verify_integrity_repairs_witness:
  "fst (verify_integrity (\<lambda>_. ''x'') (demo_cache 1)) = [''Corrupt: wheel:a:1 (hash mismatch)''] \<and>
   index (snd (verify_integrity (\<lambda>_. ''x'') (demo_cache 1))) = []"
proof -
  let ?r = "verify_integrity (\<lambda>_. ''x'') (demo_cache 1)"
  have 1: "dwf (index (demo_cache 1))" "distinct (map (e_path \<circ> snd) (index (demo_cache 1)))"
    by code_simp+
  have fst: "fst ?r = [''Corrupt: wheel:a:1 (hash mismatch)'']" by code_simp
  have "index (snd ?r) = filter (good_item (\<lambda>_. ''x'') (disk (demo_cache 1))) (index (demo_cache 1))"
    using verify_integrity_repairs [OF 1 pair_sndI [OF fst]] by blast
  also have "\<dots> = []" by code_simp
  finally show ?thesis using fst by blast
qed

text \<open>
  with a shared path the repair is incomplete. When two items of the index name one file and
  the file has the first one's hash but not the second one's, the check deletes the file on account
  of the second and keeps the first, which now points to nothing.
\<close>

theorem verify_integrity_shared_path:
  assumes "index st = [(ka, ea), (kb, eb)]" and "ka \<noteq> kb" and "e_path ea = e_path eb"
    and "dget (disk st) (e_path eb) = Some (File b)"
    and "sha b = e_sha256 ea" and "e_sha256 eb \<noteq> []" and "sha b \<noteq> e_sha256 eb"
  shows "\<exists>st'. verify_integrity sha st = ([''Corrupt: '' @ kb @ '' (hash mismatch)''], st') \<and>
    index st' = [(ka, ea)] \<and> \<not> fs_exists (disk st') (e_path ea)"
  using assms
  by (auto simp: verify_integrity_def verify_entry_def Let_def fs_exists_def fs_is_file_def
      hash_file_def fs_read_def dict_laws ddel_filter)

theorem verify_integrity_shared_path_witness:
  "\<exists>st st'. verify_integrity demo_sha st = ([''Corrupt: k2 (hash mismatch)''], st') \<and>
     \<not> fs_exists (disk st') (e_path demo_entry)"
proof -
  let ?e = "demo_entry\<lparr>e_sha256 := ''0''\<rparr>"
  let ?st = "(demo_cache 1)\<lparr>index := [(''k1'', demo_entry), (''k2'', ?e)]\<rparr>"
  note rule = verify_integrity_shared_path
    [where st = ?st and sha = demo_sha and b = "[1, 2, 3]" and ea = demo_entry and eb = ?e
       and ka = "''k1''" and kb = "''k2''"]
  have "index ?st = [(''k1'', demo_entry), (''k2'', ?e)]" "''k1'' \<noteq> ''k2''"
    "e_path demo_entry = e_path ?e" "dget (disk ?st) (e_path ?e) = Some (File [1, 2, 3])"
    "demo_sha [1, 2, 3] = e_sha256 demo_entry" "e_sha256 ?e \<noteq> []"
    "demo_sha [1, 2, 3] \<noteq> e_sha256 ?e"
    by (simp, simp, simp, code_simp, code_simp, simp, code_simp)
  from rule [OF this] show ?thesis by auto
qed



text \<open>
  metadata lives for a day. What \<^verbatim>\<open>store_metadata\<close> wrote at time \<open>t\<close> is returned, with its
  stamp, up to 86400 seconds later; after that the lookup returns nothing and the file is gone.
\<close>

theorem metadata_time_to_live:
  assumes "store_metadata pkg md t st = (Inr (), st')"
  shows "get_metadata pkg now st' =
    (if now - t \<le> 86400 then (Inr (Some (dset ''_cached_at'' (PFloat t) md)), st')
     else (Inr None, st'\<lparr>metas := ddel (meta_file st pkg) (metas st')\<rparr>))"
proof -
  have meta: "meta_file st' pkg = meta_file st pkg" "dget (metas st') (meta_file st pkg) =
      Some (Some (PDict (dset ''_cached_at'' (PFloat t) md)))"
    using assms by (auto simp: store_metadata_def Let_def meta_file_def dict_laws split: if_splits)
  then show ?thesis by (simp add: get_metadata_def)
qed

theorem metadata_time_to_live_witness:
  "fst (store_metadata ''p'' [] 100 (demo_cache 1)) = Inr () \<and>
   get_metadata ''p'' 200 (snd (store_metadata ''p'' [] 100 (demo_cache 1))) =
     (Inr (Some [(''_cached_at'', PFloat 100)]), snd (store_metadata ''p'' [] 100 (demo_cache 1)))"
proof -
  let ?r = "store_metadata ''p'' [] 100 (demo_cache 1)"
  have ok: "fst ?r = Inr ()" by code_simp
  from metadata_time_to_live [OF pair_sndI [OF ok], of 200] ok show ?thesis by simp
qed

section \<open>The cache as a wheel store\<close>

definition content_at :: "cache \<Rightarrow> path \<Rightarrow> bytes option" where
  "content_at st p = (case dget (disk st) p of Some (File b) \<Rightarrow> Some b | _ \<Rightarrow> None)"

lemma get_wheel_hit:
  assumes "get_wheel sha pkg ver now st = (Inr (Some p), st')"
  shows "\<exists>e b. dget (index st) (cache_key pkg ver ''wheel'') = Some e \<and> e_path e = p \<and>
    dget (disk st) p = Some (File b) \<and> sha b = e_sha256 e \<and> disk st' = disk st \<and>
    dget (index st') (cache_key pkg ver ''wheel'') = Some (e\<lparr>e_last_accessed := Some now\<rparr>)"
  using assms
  by (auto simp: get_wheel_def Let_def hash_file_def fs_read_def fs_exists_def save_index_def dict_laws
      split: option.splits sum.splits if_splits node.splits)

interpretation wheels: wheel_store
  "\<lambda>pkg ver src h. store_wheel sha pkg ver src h now now" "\<lambda>pkg ver. get_wheel sha pkg ver now"
  content_at sha for sha now
proof (unfold_locales, goal_cases)
  case (1 pkg ver src h c p c' b)
  then have "dget (disk c') p = Some (File b)"
    by (auto simp: content_at_def split: option.splits node.splits)
  from get_after_store [OF 1(1) this, of now] 1(3) show ?case by auto
next
  case (2 pkg ver c p c')
  from get_wheel_hit [OF 2] show ?case by (auto simp: content_at_def)
next
  case (3 pkg ver c p c')
  from get_wheel_hit [OF 3] obtain e b where e: "e_path e = p" "dget (disk c') p = Some (File b)"
    "sha b = e_sha256 e" "dget (index c') (cache_key pkg ver ''wheel'') = Some (e\<lparr>e_last_accessed := Some now\<rparr>)"
    by auto
  then show ?case by (simp add: get_wheel_def Let_def hash_file_def fs_read_def fs_exists_def)
qed

end
