(* ===== verification/RateLimiter.thy ===== *)
theory RateLimiter
  imports PyValues
begin

text \<open>
  The sliding-window rate limiter, \<^verbatim>\<open>server/auth/rate_limiter.py\<close>, and its refinement of a log of
  admitted requests.
\<close>

section \<open>State and operations\<close>

record rate_limit =
  rl_requests :: int
  rl_window :: pyfloat

text \<open>What the limiter reads of a request: the header \<^verbatim>\<open>x-forwarded-for\<close> and the peer's address.\<close>

record request =
  forwarded_for :: "string option"
  client_host :: "string option"

type_synonym windows = "(string, pyfloat list) dict"

definition client_key :: "request option \<Rightarrow> string" where
  "client_key r =
     (case r of
        None \<Rightarrow> ''rate:unknown''
      | Some q \<Rightarrow>
          ''rate:'' @
          (case forwarded_for q of
             Some f \<Rightarrow> (if f \<noteq> [] then strip (hd (split_on (CHR '','') f))
                       else case client_host q of Some h \<Rightarrow> h | None \<Rightarrow> ''unknown'')
           | None \<Rightarrow> (case client_host q of Some h \<Rightarrow> h | None \<Rightarrow> ''unknown'')))"

text \<open>Reading a key that is not in the \<open>defaultdict\<close> inserts the empty list.\<close>

definition touch :: "string \<Rightarrow> windows \<Rightarrow> windows" where
  "touch k w = (case dget w k of None \<Rightarrow> dset k [] w | Some _ \<Rightarrow> w)"

definition prune :: "pyfloat \<Rightarrow> windows \<Rightarrow> windows" where
  "prune start w = filter (\<lambda>(_, ts). \<not> (ts = [] \<or> list_all (\<lambda>t. t \<le> start) ts)) w"

definition check :: "request option \<Rightarrow> rate_limit \<Rightarrow> pyfloat \<Rightarrow> windows \<Rightarrow> bool \<times> windows" where
  "check r limit now w =
     (case r of
        None \<Rightarrow> (True, w)
      | Some _ \<Rightarrow>
          (let key = client_key r;
               start = now - rl_window limit;
               w1 = dset key (filter (\<lambda>t. t > start) (dget_or w key [])) w;
               w2 = (if length w1 > 1000 then prune start w1 else w1);
               w3 = touch key w2
           in if int (length (dget_or w3 key [])) \<ge> rl_requests limit then (False, w3)
              else (True, dset key (dget_or w3 key [] @ [now]) w3)))"

definition remaining :: "request option \<Rightarrow> rate_limit \<Rightarrow> pyfloat \<Rightarrow> windows \<Rightarrow> int" where
  "remaining r limit now w =
     (case r of
        None \<Rightarrow> rl_requests limit
      | Some _ \<Rightarrow>
          (let start = now - rl_window limit;
               current = length (filter (\<lambda>t. t > start) (dget_or w (client_key r) []))
           in max 0 (rl_requests limit - int current)))"

definition DEFAULT_LIMIT :: rate_limit where
  "DEFAULT_LIMIT = \<lparr>rl_requests = 100, rl_window = 60\<rparr>"

definition BUILD_LIMIT :: rate_limit where
  "BUILD_LIMIT = \<lparr>rl_requests = 10, rl_window = 60\<rparr>"

definition EXEC_LIMIT :: rate_limit where
  "EXEC_LIMIT = \<lparr>rl_requests = 50, rl_window = 60\<rparr>"

text \<open>The HTTP errors of the server: status, detail and headers.\<close>

datatype http_error = HTTPException nat string "(string \<times> string) list"

definition check_rate_limit ::
    "request option \<Rightarrow> rate_limit \<Rightarrow> pyfloat \<Rightarrow> windows \<Rightarrow> (http_error + unit) \<times> windows" where
  "check_rate_limit r limit now w =
     (case r of
        None \<Rightarrow> (Inr (), w)
      | Some _ \<Rightarrow>
          (case check r limit now w of
             (True, w') \<Rightarrow> (Inr (), w')
           | (False, w') \<Rightarrow>
               (Inl (HTTPException 429
                       (''Rate limit exceeded. Retry after '' @
                        int_str \<lfloor>rl_window limit\<rfloor> @ ''s'')
                       [(''Retry-After'', int_str \<lfloor>rl_window limit\<rfloor>)]), w')))"

section \<open>The reference: a log of admitted requests\<close>

text \<open>
  The reference keeps, for each client, every admitted time and admits a request when fewer than the
  limit lie in the window that ends now. The limiter forgets old times and prunes clients, and still
  takes the same decisions.
\<close>

type_synonym admitted = "string \<Rightarrow> pyfloat list"

definition recent :: "pyfloat \<Rightarrow> pyfloat list \<Rightarrow> pyfloat list" where
  "recent start ts = filter (\<lambda>t. t > start) ts"

definition ref_admits :: "admitted \<Rightarrow> string \<Rightarrow> rate_limit \<Rightarrow> pyfloat \<Rightarrow> bool" where
  "ref_admits hist key limit now \<longleftrightarrow>
     int (length (recent (now - rl_window limit) (hist key))) < rl_requests limit"

definition agrees :: "pyfloat \<Rightarrow> windows \<Rightarrow> admitted \<Rightarrow> bool" where
  "agrees start w hist \<longleftrightarrow> (\<forall>k. recent start (dget_or w k []) = recent start (hist k))"

lemma recent_recent: "s \<le> s' \<Longrightarrow> recent s' (recent s ts) = recent s' ts"
  unfolding recent_def filter_filter by (intro filter_cong) auto

lemma agrees_mono: "agrees s w hist \<Longrightarrow> s \<le> s' \<Longrightarrow> agrees s' w hist"
  unfolding agrees_def by (metis recent_recent)

lemma dget_or_dset_cases: "dget_or (dset k v w) j x = (if j = k then v else dget_or w j x)"
  by (simp add: dget_or_def dict_laws)

lemma dget_or_touch [simp]: "dget_or (touch k w) j [] = dget_or w j []"
  by (simp add: touch_def dget_or_def dict_laws split: option.splits)

lemma dwf_touch [dict_inv]: "dwf w \<Longrightarrow> dwf (touch k w)"
  by (simp add: touch_def dict_inv split: option.splits)

lemma recent_prune: "dwf w \<Longrightarrow> recent start (dget_or (prune start w) k []) = recent start (dget_or w k [])"
proof (induction w)
  case (Cons p w)
  obtain j ts where p: "p = (j, ts)" by (cases p)
  show ?case
  proof (cases "ts = [] \<or> list_all (\<lambda>t. t \<le> start) ts")
    case True
    then have old: "recent start ts = []" by (auto simp: recent_def list_all_iff filter_empty_conv)
    have "dget w j = None" using Cons.prems by (simp add: p map_of_eq_None_iff)
    moreover from this have "dget (prune start w) j = None"
      by (auto simp: prune_def map_of_eq_None_iff)
    ultimately show ?thesis
      using True Cons old by (auto simp: p prune_def dget_or_def recent_def)
  next
    case False
    with Cons show ?thesis by (auto simp: p prune_def dget_or_def)
  qed
qed (simp add: prune_def)

lemma dwf_prune [dict_inv]: "dwf w \<Longrightarrow> dwf (prune start w)"
  unfolding prune_def by (rule dict_inv)

lemma prune_entries:
  assumes "dwf w"
  shows "set (dget_or (prune start w) k []) \<subseteq> set (dget_or w k [])"
proof (cases "dget (prune start w) k")
  case (Some ts)
  then have "(k, ts) \<in> set w" by (auto simp: prune_def dest!: map_of_SomeD)
  with assms Some show ?thesis by (simp add: dget_or_def)
qed (simp add: dget_or_def)

text \<open>One check of a client takes the decision of the reference and keeps the agreement.\<close>

lemma check_refines:
  fixes limit now
  defines "start \<equiv> now - rl_window limit"
  assumes "dwf w" and "agrees s w hist" and "s \<le> start" and "0 < rl_window limit"
  obtains w' where "check (Some q) limit now w =
      (ref_admits hist (client_key (Some q)) limit now, w')"
    and "dwf w'"
    and "agrees start w' (if ref_admits hist (client_key (Some q)) limit now
      then hist(client_key (Some q) := hist (client_key (Some q)) @ [now]) else hist)"
proof -
  let ?k = "client_key (Some q)"
  define w1 where "w1 = dset ?k (recent start (dget_or w ?k [])) w"
  define w2 where "w2 = (if length w1 > 1000 then prune start w1 else w1)"
  define w3 where "w3 = touch ?k w2"
  have wf: "dwf w3" using assms(2) by (simp add: w3_def w2_def w1_def dict_inv)
  have agr: "agrees start w hist" by (rule agrees_mono [OF assms(3,4)])
  have dwf1: "dwf w1" using assms(2) by (simp add: w1_def dict_inv)
  have r3: "recent start (dget_or w3 j []) = recent start (hist j)" for j
    using agr recent_prune [OF dwf1, of start j]
    by (simp add: w3_def w2_def w1_def dget_or_dset_cases agrees_def recent_recent)
  have cur: "dget_or w3 ?k [] = recent start (hist ?k)"
  proof -
    have "\<forall>t \<in> set (dget_or w3 ?k []). t > start"
    proof -
      have "\<forall>t \<in> set (dget_or w1 ?k []). t > start" by (simp add: w1_def recent_def)
      with prune_entries [OF dwf1, of start ?k] show ?thesis by (auto simp: w3_def w2_def)
    qed
    then have "recent start (dget_or w3 ?k []) = dget_or w3 ?k []"
      by (auto simp: recent_def filter_id_conv)
    with r3 show ?thesis by metis
  qed
  have chk: "check (Some q) limit now w =
      (if int (length (dget_or w3 ?k [])) \<ge> rl_requests limit then (False, w3)
       else (True, dset ?k (dget_or w3 ?k [] @ [now]) w3))"
    by (simp add: check_def Let_def w3_def w2_def w1_def start_def recent_def)
  have dec: "ref_admits hist ?k limit now \<longleftrightarrow> \<not> int (length (dget_or w3 ?k [])) \<ge> rl_requests limit"
    by (simp add: ref_admits_def cur start_def not_le)
  show thesis
  proof (rule that)
    show "check (Some q) limit now w = (ref_admits hist ?k limit now,
        if ref_admits hist ?k limit now then dset ?k (dget_or w3 ?k [] @ [now]) w3 else w3)"
      by (simp add: chk dec)
    show "dwf (if ref_admits hist ?k limit now then dset ?k (dget_or w3 ?k [] @ [now]) w3 else w3)"
      using wf by (simp add: dict_inv)
    show "agrees start (if ref_admits hist ?k limit now then dset ?k (dget_or w3 ?k [] @ [now]) w3 else w3)
        (if ref_admits hist ?k limit now then hist(?k := hist ?k @ [now]) else hist)"
      using r3 assms(5) by (auto simp: agrees_def dget_or_dset_cases cur, auto simp: recent_def)
  qed
qed

section \<open>Runs\<close>

text \<open>A run of checks: the time, the request and the limit of the endpoint, in order.\<close>

type_synonym limiter_event = "pyfloat \<times> request \<times> rate_limit"

fun serve :: "windows \<Rightarrow> limiter_event list \<Rightarrow> bool list \<times> windows" where
  "serve w [] = ([], w)"
| "serve w ((now, q, l) # es) =
     (let (ok, w') = check (Some q) l now w; (oks, w'') = serve w' es in (ok # oks, w''))"

fun ref_serve :: "admitted \<Rightarrow> limiter_event list \<Rightarrow> bool list" where
  "ref_serve hist [] = []"
| "ref_serve hist ((now, q, l) # es) =
     (let k = client_key (Some q); ok = ref_admits hist k l now
      in ok # ref_serve (if ok then hist(k := hist k @ [now]) else hist) es)"

fun admitted_times :: "string \<Rightarrow> limiter_event list \<Rightarrow> bool list \<Rightarrow> pyfloat list" where
  "admitted_times k ((now, q, l) # es) (ok # oks) =
     (if ok \<and> client_key (Some q) = k then now # admitted_times k es oks
      else admitted_times k es oks)"
| "admitted_times k _ _ = []"

definition in_window :: "pyfloat \<Rightarrow> pyfloat \<Rightarrow> pyfloat list \<Rightarrow> int" where
  "in_window width t ts = int (length (filter (\<lambda>x. t - width < x \<and> x \<le> t) ts))"

lemma serve_refines:
  assumes "sorted (map fst es)" and "\<forall>(now, q, l) \<in> set es. rl_window l = width" and "0 < width"
    and "dwf w" and "agrees s w hist" and "\<forall>(now, q, l) \<in> set es. s \<le> now - width"
  shows "fst (serve w es) = ref_serve hist es"
  using assms
proof (induction es arbitrary: s w hist)
  case (Cons e es)
  obtain now q l where e: "e = (now, q, l)" by (cases e)
  have width: "rl_window l = width" "s \<le> now - rl_window l" "0 < rl_window l"
    using Cons.prems by (auto simp: e)
  obtain w' where w': "check (Some q) l now w = (ref_admits hist (client_key (Some q)) l now, w')"
    "dwf w'" "agrees (now - rl_window l) w' (if ref_admits hist (client_key (Some q)) l now
      then hist(client_key (Some q) := hist (client_key (Some q)) @ [now]) else hist)"
    using check_refines [OF Cons.prems(4,5) width(2,3), of q] by blast
  have "fst (serve w' es) = ref_serve (if ref_admits hist (client_key (Some q)) l now
      then hist(client_key (Some q) := hist (client_key (Some q)) @ [now]) else hist) es"
    by (rule Cons.IH [OF _ _ _ w'(2,3)])
      (use Cons.prems width in \<open>auto simp: e\<close>)
  then show ?case by (cases "serve w' es") (auto simp: e w'(1) Let_def)
qed simp

lemma ref_serve_bound:
  assumes "sorted (map fst es)" and "\<forall>(now, q, l) \<in> set es. rl_window l = width"
    and "\<forall>(now, q, l) \<in> set es. client_key (Some q) = k \<longrightarrow> rl_requests l \<le> n"
    and "\<forall>x \<in> set (hist k). \<forall>(now, q, l) \<in> set es. x \<le> now"
    and "\<forall>t. in_window width t (hist k) \<le> n"
  shows "in_window width t (hist k @ admitted_times k es (ref_serve hist es)) \<le> n"
  using assms
proof (induction es arbitrary: hist)
  case (Cons e es)
  obtain now q l where e: "e = (now, q, l)" by (cases e)
  let ?ok = "ref_admits hist (client_key (Some q)) l now"
  let ?h = "if ?ok then hist(client_key (Some q) := hist (client_key (Some q)) @ [now]) else hist"
  have bound: "in_window width u (?h k) \<le> n" for u
  proof (cases "?ok \<and> client_key (Some q) = k")
    case True
    then have few: "int (length (recent (now - width) (hist k))) < n"
      using Cons.prems(2,3) by (auto simp: ref_admits_def e)
    have old: "in_window width u (hist k) \<le> n" using Cons.prems(5) by blast
    show ?thesis
    proof (cases "now \<le> u")
      case now_le: True
      have "length (filter (\<lambda>x. u - width < x \<and> x \<le> u) (hist k)) \<le>
          length (recent (now - width) (hist k))"
        unfolding recent_def using now_le by (intro length_filter_mono) auto
      with few now_le True show ?thesis by (auto simp: in_window_def)
    qed (use old True in \<open>auto simp: in_window_def\<close>)
  qed (use Cons.prems(5) in auto)
  have "in_window width t (?h k @ admitted_times k es (ref_serve ?h es)) \<le> n"
    by (rule Cons.IH) (use Cons.prems bound in \<open>fastforce simp: e split: if_splits\<close>)+
  then show ?case by (auto simp: e Let_def split: if_splits)
qed simp

section \<open>Properties\<close>

text \<open>
  C6: the limiter implements the reference. For checks in the order of time, all with one window
  width, the limiter that forgets old times and prunes idle clients takes exactly the decisions of
  the reference that keeps every admitted request.
\<close>

theorem limiter_refines_log:
  assumes "sorted (map fst es)" and "0 < width"
    and "\<forall>(now, q, l) \<in> set es. rl_window l = width"
  shows "fst (serve [] es) = ref_serve (\<lambda>_. []) es"
proof (cases es)
  case (Cons e es')
  have "\<forall>(now, q, l) \<in> set es. fst (hd es) - width \<le> now - width"
    using assms(1) by (auto simp: Cons)
  moreover have "agrees (fst (hd es) - width) [] (\<lambda>_. [])" by (simp add: agrees_def dget_or_def)
  ultimately show ?thesis
    using serve_refines [OF assms(1,3,2), of "[]" "fst (hd es) - width" "\<lambda>_. []"] by simp
qed simp

definition demo_request :: request where
  "demo_request = \<lparr>forwarded_for = None, client_host = Some ''h''\<rparr>"

definition demo_events :: "limiter_event list" where
  "demo_events = map (\<lambda>t. (t, demo_request, \<lparr>rl_requests = 2, rl_window = 60\<rparr>)) [1, 2, 3, 70]"

theorem limiter_refines_log_witness:
  "fst (serve [] demo_events) = ref_serve (\<lambda>_. []) demo_events \<and>
   ref_serve (\<lambda>_. []) demo_events = [True, True, False, True]"
proof -
  have "sorted (map fst demo_events)" "0 < (60 :: pyfloat)"
    "\<forall>(now, q, l) \<in> set demo_events. rl_window l = 60"
    by code_simp+
  note r = limiter_refines_log [OF this]
  moreover have "fst (serve [] demo_events) = [True, True, False, True]" by code_simp
  ultimately show ?thesis by simp
qed

text \<open>
  C35: no window is overrun. With checks in the order of time and one window width, the requests of
  one client that were admitted in any time span of that width are at most the largest limit the
  client was checked against, however the spans lie.
\<close>

theorem sliding_window_bound:
  assumes "sorted (map fst es)" and "0 < width" and "0 \<le> n"
    and "\<forall>(now, q, l) \<in> set es. rl_window l = width"
    and "\<forall>(now, q, l) \<in> set es. client_key (Some q) = k \<longrightarrow> rl_requests l \<le> n"
  shows "in_window width t (admitted_times k es (fst (serve [] es))) \<le> n"
proof (cases es)
  case (Cons e es')
  have "\<forall>(now, q, l) \<in> set es. fst (hd es) - width \<le> now - width"
    using assms(1) by (auto simp: Cons)
  moreover have "agrees (fst (hd es) - width) [] (\<lambda>_. [])" by (simp add: agrees_def dget_or_def)
  ultimately have "fst (serve [] es) = ref_serve (\<lambda>_. []) es"
    using serve_refines [OF assms(1,4,2), of "[]" "fst (hd es) - width" "\<lambda>_. []"] by simp
  then show ?thesis
    using ref_serve_bound [OF assms(1,4,5), of "\<lambda>_. []" t] assms(3) by (simp add: in_window_def)
qed (use assms in \<open>simp add: in_window_def\<close>)

theorem sliding_window_bound_witness:
  "in_window 60 60 (admitted_times ''rate:h'' demo_events (fst (serve [] demo_events))) \<le> 2"
proof -
  have "sorted (map fst demo_events)" "0 < (60 :: pyfloat)" "0 \<le> (2 :: int)"
    "\<forall>(now, q, l) \<in> set demo_events. rl_window l = 60"
    "\<forall>(now, q, l) \<in> set demo_events. client_key (Some q) = ''rate:h'' \<longrightarrow> rl_requests l \<le> 2"
    by code_simp+
  from sliding_window_bound [OF this, of 60] show ?thesis .
qed

text \<open>
  \<^verbatim>\<open>remaining\<close> tells the truth about \<^verbatim>\<open>check\<close>. A request is admitted exactly when the
  remaining count for it at that moment is positive, and an admitted request costs one.
\<close>

theorem remaining_predicts_check:
  assumes "dwf w" and "0 < rl_window l" and "check (Some q) l now w = (ok, w')"
  shows "(ok \<longleftrightarrow> 0 < remaining (Some q) l now w) \<and>
    remaining (Some q) l now w' = remaining (Some q) l now w - (if ok then 1 else 0)"
proof -
  let ?k = "client_key (Some q)" and ?s = "now - rl_window l"
  define h where "h = (\<lambda>k. dget_or w k [])"
  have "agrees ?s w h" by (simp add: agrees_def h_def)
  from check_refines [OF assms(1) this order_refl assms(2), of q] obtain v where
    "check (Some q) l now w = (ref_admits h ?k l now, v)"
    "agrees ?s v (if ref_admits h ?k l now then h(?k := h ?k @ [now]) else h)" .
  with assms(3) have ok: "ok = ref_admits h ?k l now"
    and agr: "agrees ?s w' (if ok then h(?k := h ?k @ [now]) else h)"
    by simp_all
  have rem: "remaining (Some q) l now v = max 0 (rl_requests l - int (length (recent ?s (dget_or v ?k []))))"
    for v by (simp add: remaining_def recent_def Let_def)
  have "length (recent ?s (dget_or w' ?k [])) = length (recent ?s (dget_or w ?k [])) + (if ok then 1 else 0)"
  proof (cases ok)
    case True
    with agr have "recent ?s (dget_or w' ?k []) = recent ?s (dget_or w ?k [] @ [now])"
      by (auto simp: agrees_def h_def dest!: spec [of _ ?k])
    then show ?thesis using assms(2) True by (simp add: recent_def)
  next
    case False
    with agr have "recent ?s (dget_or w' ?k []) = recent ?s (dget_or w ?k [])"
      by (auto simp: agrees_def h_def dest!: spec [of _ ?k])
    then show ?thesis using False by simp
  qed
  with ok show ?thesis by (auto simp: rem ref_admits_def h_def)
qed

theorem remaining_predicts_check_witness:
  "\<exists>w'. check (Some demo_request) DEFAULT_LIMIT 9 [] = (True, w') \<and>
     remaining (Some demo_request) DEFAULT_LIMIT 9 w' = 99"
proof -
  let ?r = "check (Some demo_request) DEFAULT_LIMIT 9 []"
  have ok: "fst ?r = True" by code_simp
  have "dwf ([] :: windows)" "0 < rl_window DEFAULT_LIMIT" by code_simp+
  note r = remaining_predicts_check [OF this pair_sndI [OF ok]]
  have "remaining (Some demo_request) DEFAULT_LIMIT 9 [] = 100" by code_simp
  with r have "remaining (Some demo_request) DEFAULT_LIMIT 9 (snd ?r) = 99" by simp
  with pair_sndI [OF ok] show ?thesis by (intro exI conjI)
qed

end
