(* ===== verification/Fallback.thy ===== *)
theory Fallback
  imports PyValues
begin

text \<open>
  Retry, fallback chains and the circuit breaker, \<^verbatim>\<open>runtime/fallback.py\<close>. A callable is a function
  on the state of its environment that returns a value or raises; whether it is a coroutine makes no
  difference to the result. Sleeping is recorded as the list of the delays slept.
\<close>

type_synonym ('s, 'a) callable = "'s \<Rightarrow> (py_error + 'a) \<times> 's"

section \<open>Fallback chains\<close>

record ('s, 'a) chain =
  strategies :: "('s, 'a) callable list"
  labels :: "string list"

definition chain_add :: "('s, 'a) callable \<Rightarrow> string \<Rightarrow> ('s, 'a) chain \<Rightarrow> ('s, 'a) chain" where
  "chain_add f label c =
     (let fs = strategies c @ [f]
      in c\<lparr>strategies := fs,
           labels := labels c @ [if label \<noteq> [] then label else ''strategy_'' @ nat_digits (length fs)]\<rparr>)"

fun try_each :: "('s, 'a) callable list \<Rightarrow> py_error option \<Rightarrow> ('s, 'a) callable" where
  "try_each [] last_error s =
     (Inl (case last_error of Some e \<Rightarrow> e | None \<Rightarrow> RuntimeError ''All strategies exhausted''), s)"
| "try_each (f # fs) last_error s =
     (case f s of
        (Inr v, s') \<Rightarrow> (Inr v, s')
      | (Inl e, s') \<Rightarrow> try_each fs (Some e) s')"

definition chain_execute :: "('s, 'a) chain \<Rightarrow> ('s, 'a) callable" where
  "chain_execute c = try_each (strategies c) None"

text \<open>The state after the first callables of a list have run, each from where the one before stopped.\<close>

fun run_through :: "('s, 'a) callable list \<Rightarrow> 's \<Rightarrow> 's" where
  "run_through [] s = s"
| "run_through (f # fs) s = run_through fs (snd (f s))"

definition raises :: "('s, 'a) callable \<Rightarrow> 's \<Rightarrow> bool" where
  "raises f s \<longleftrightarrow> \<not> is_ok (fst (f s))"

lemma raises_iff: "raises f s \<longleftrightarrow> (\<exists>e. fst (f s) = Inl e)"
  by (cases "fst (f s)") (auto simp: raises_def)

lemma try_each_cases:
  "(\<exists>pre f post v. fs = pre @ f # post \<and>
     (\<forall>i < length pre. raises (pre ! i) (run_through (take i pre) s)) \<and>
     fst (f (run_through pre s)) = Inr v \<and> try_each fs last_error s = f (run_through pre s)) \<or>
   ((\<forall>i < length fs. raises (fs ! i) (run_through (take i fs) s)) \<and>
     try_each fs last_error s =
       (if fs = [] then try_each [] last_error s
        else (fst (last fs (run_through (butlast fs) s)), run_through fs s)))"
proof (induction fs arbitrary: last_error s)
  case (Cons f fs)
  show ?case
  proof (cases "fst (f s)")
    case (Inr v)
    then have "try_each (f # fs) last_error s = f s" by (cases "f s") auto
    with Inr show ?thesis
      by (intro disjI1 exI [of _ "[]"] exI [of _ f] exI [of _ fs] exI [of _ v]) simp
  next
    case (Inl e)
    then have step: "try_each (f # fs) last_error s = try_each fs (Some e) (snd (f s))"
      by (cases "f s") auto
    have r: "raises f s" using Inl by (simp add: raises_iff)
    from Cons.IH [of "snd (f s)" "Some e"] show ?thesis
    proof (elim disjE exE conjE)
      fix pre g post v
      assume *: "fs = pre @ g # post" "fst (g (run_through pre (snd (f s)))) = Inr v"
        "\<forall>i < length pre. raises (pre ! i) (run_through (take i pre) (snd (f s)))"
        "try_each fs (Some e) (snd (f s)) = g (run_through pre (snd (f s)))"
      then have "\<forall>i < length (f # pre). raises ((f # pre) ! i) (run_through (take i (f # pre)) s)"
        using r by (auto simp: less_Suc_eq_0_disj)
      with * step show ?thesis
        by (intro disjI1 exI [of _ "f # pre"] exI [of _ g] exI [of _ post] exI [of _ v]) simp
    next
      assume *: "\<forall>i < length fs. raises (fs ! i) (run_through (take i fs) (snd (f s)))"
        "try_each fs (Some e) (snd (f s)) =
          (if fs = [] then try_each [] (Some e) (snd (f s))
           else (fst (last fs (run_through (butlast fs) (snd (f s)))), run_through fs (snd (f s))))"
      then have "\<forall>i < length (f # fs). raises ((f # fs) ! i) (run_through (take i (f # fs)) s)"
        using r by (auto simp: less_Suc_eq_0_disj)
      with * step Inl show ?thesis by (intro disjI2) auto
    qed
  qed
qed simp

section \<open>Retry with exponential backoff\<close>

record retry_config =
  max_retries :: int
  base_delay :: pyfloat
  max_delay :: pyfloat
  backoff_factor :: pyfloat
  retryable :: "py_error \<Rightarrow> bool"

text \<open>
  The default catches ConnectionError, TimeoutError and OSError; the file errors are subclasses of
  OSError.
\<close>

fun default_retryable :: "py_error \<Rightarrow> bool" where
  "default_retryable (ConnectionError _) = True"
| "default_retryable (TimeoutError _) = True"
| "default_retryable FileNotFoundError = True"
| "default_retryable FileExistsError = True"
| "default_retryable IsADirectoryError = True"
| "default_retryable NotADirectoryError = True"
| "default_retryable _ = False"

definition default_retry :: retry_config where
  "default_retry = \<lparr>max_retries = 3, base_delay = 1, max_delay = 30, backoff_factor = 2,
     retryable = default_retryable\<rparr>"

text \<open>The loop with \<open>n\<close> attempts to go: the result, the final state and the delays slept.\<close>

fun retry_loop ::
    "retry_config \<Rightarrow> ('s, 'a) callable \<Rightarrow> nat \<Rightarrow> pyfloat \<Rightarrow> py_error option \<Rightarrow> 's
     \<Rightarrow> (py_error + 'a) \<times> 's \<times> pyfloat list" where
  "retry_loop cfg f 0 delay last_error s =
     (Inl (case last_error of Some e \<Rightarrow> e | None \<Rightarrow> RuntimeError ''Retry exhausted''), s, [])"
| "retry_loop cfg f (Suc n) delay last_error s =
     (case f s of
        (Inr v, s') \<Rightarrow> (Inr v, s', [])
      | (Inl e, s') \<Rightarrow>
          if \<not> retryable cfg e then (Inl e, s', [])
          else if 0 < n
          then (let (r, s'', slept) =
                      retry_loop cfg f n (min (delay * backoff_factor cfg) (max_delay cfg)) (Some e) s'
                in (r, s'', delay # slept))
          else retry_loop cfg f n delay (Some e) s')"

definition retry_async ::
    "retry_config \<Rightarrow> ('s, 'a) callable \<Rightarrow> 's \<Rightarrow> (py_error + 'a) \<times> 's \<times> pyfloat list" where
  "retry_async cfg f s = retry_loop cfg f (nat (max_retries cfg + 1)) (base_delay cfg) None s"

text \<open>The delay after failure \<open>i\<close>, started from a given delay.\<close>

fun backoff :: "retry_config \<Rightarrow> pyfloat \<Rightarrow> nat \<Rightarrow> pyfloat" where
  "backoff cfg d 0 = d"
| "backoff cfg d (Suc i) = backoff cfg (min (d * backoff_factor cfg) (max_delay cfg)) i"

lemma backoff_closed_form:
  assumes "1 \<le> backoff_factor cfg" and "0 \<le> d" and "d \<le> max_delay cfg"
  shows "backoff cfg d i = min (d * backoff_factor cfg ^ i) (max_delay cfg)"
  using assms(2,3)
proof (induction i arbitrary: d)
  case (Suc i)
  let ?c = "backoff_factor cfg" and ?m = "max_delay cfg"
  have pow: "1 \<le> ?c ^ i" using assms(1) by (rule one_le_power)
  have "0 \<le> min (d * ?c) ?m" using Suc.prems assms(1) by simp
  then have "backoff cfg d (Suc i) = min (min (d * ?c) ?m * ?c ^ i) ?m"
    using Suc.IH [of "min (d * ?c) ?m"] by simp
  also have "\<dots> = min (d * ?c ^ Suc i) ?m"
  proof (cases "d * ?c \<le> ?m")
    case True
    then show ?thesis by (simp add: min_absorb1 mult.assoc)
  next
    case False
    have a: "?m * 1 \<le> ?m * ?c ^ i" using pow Suc.prems by (intro mult_left_mono) auto
    have "?m * ?c ^ i \<le> (d * ?c) * ?c ^ i"
      using False pow by (intro mult_right_mono) auto
    then have b: "?m \<le> d * ?c ^ Suc i" using a by (simp add: mult.assoc)
    from False have "min (d * ?c) ?m = ?m" by simp
    with a b show ?thesis by (simp add: min_absorb2 del: power_Suc)
  qed
  finally show ?case .
qed simp

fun after_calls :: "('s, 'a) callable \<Rightarrow> nat \<Rightarrow> 's \<Rightarrow> 's" where
  "after_calls f 0 s = s"
| "after_calls f (Suc i) s = after_calls f i (snd (f s))"

text \<open>
  What \<open>n + 1\<close> attempts do: \<open>k\<close> retryable failures, each followed by the next delay, then the call
  whose outcome is the result; only the last possible attempt may end in a retryable failure.
\<close>

lemma retry_loop_spec:
  "\<exists>k \<le> n.
     retry_loop cfg f (Suc n) d last_error s =
       (fst (f (after_calls f k s)), snd (f (after_calls f k s)), map (backoff cfg d) [0..<k]) \<and>
     (\<forall>i < k. \<exists>e. fst (f (after_calls f i s)) = Inl e \<and> retryable cfg e) \<and>
     (\<forall>e. fst (f (after_calls f k s)) = Inl e \<longrightarrow> retryable cfg e \<longrightarrow> k = n)"
proof (induction n arbitrary: d last_error s)
  case 0
  show ?case by (cases "f s"; cases "fst (f s)") auto
next
  case (Suc n)
  show ?case
  proof (cases "\<exists>e. fst (f s) = Inl e \<and> retryable cfg e")
    case True
    then obtain e where e: "fst (f s) = Inl e" "retryable cfg e" by blast
    let ?d = "min (d * backoff_factor cfg) (max_delay cfg)"
    obtain k where k: "k \<le> n" "retry_loop cfg f (Suc n) ?d (Some e) (snd (f s)) =
        (fst (f (after_calls f k (snd (f s)))), snd (f (after_calls f k (snd (f s)))),
         map (backoff cfg ?d) [0..<k])"
      "\<forall>i < k. \<exists>e. fst (f (after_calls f i (snd (f s)))) = Inl e \<and> retryable cfg e"
      "\<forall>e. fst (f (after_calls f k (snd (f s)))) = Inl e \<longrightarrow> retryable cfg e \<longrightarrow> k = n"
      using Suc.IH by blast
    have "retry_loop cfg f (Suc (Suc n)) d last_error s =
        (let (r, s'', slept) = retry_loop cfg f (Suc n) ?d (Some e) (snd (f s)) in (r, s'', d # slept))"
      using e by (subst retry_loop.simps(2)) (simp add: split_beta del: retry_loop.simps)
    then have "retry_loop cfg f (Suc (Suc n)) d last_error s =
        (fst (f (after_calls f (Suc k) s)), snd (f (after_calls f (Suc k) s)),
         map (backoff cfg d) [0..<Suc k])"
      unfolding k(2) by (simp add: map_upt_Suc del: upt_Suc)
    moreover have "\<forall>i < Suc k. \<exists>e. fst (f (after_calls f i s)) = Inl e \<and> retryable cfg e"
      using e k(3) by (auto simp: less_Suc_eq_0_disj)
    ultimately show ?thesis using k(1,4) by (intro exI [of _ "Suc k"]) auto
  next
    case False
    then show ?thesis by (intro exI [of _ 0]) (cases "f s"; cases "fst (f s)"; auto)
  qed
qed

section \<open>The circuit breaker\<close>

datatype breaker_state = Closed | Open | HalfOpen

record breaker =
  failure_threshold :: int
  reset_timeout :: pyfloat
  failures :: int
  last_failure :: pyfloat
  bstate :: breaker_state

definition new_breaker :: "int \<Rightarrow> pyfloat \<Rightarrow> breaker" where
  "new_breaker threshold timeout = \<lparr>failure_threshold = threshold, reset_timeout = timeout,
     failures = 0, last_failure = 0, bstate = Closed\<rparr>"

text \<open>The property \<open>is_open\<close>: reading it may move the breaker from open to half-open.\<close>

definition is_open :: "pyfloat \<Rightarrow> breaker \<Rightarrow> bool \<times> breaker" where
  "is_open now b =
     (if bstate b = Open
      then (if now - last_failure b > reset_timeout b then (False, b\<lparr>bstate := HalfOpen\<rparr>) else (True, b))
      else (False, b))"

definition record_success :: "breaker \<Rightarrow> breaker" where
  "record_success b = b\<lparr>failures := 0, bstate := Closed\<rparr>"

definition record_failure :: "pyfloat \<Rightarrow> breaker \<Rightarrow> breaker" where
  "record_failure now b =
     (let b = b\<lparr>failures := failures b + 1, last_failure := now\<rparr>
      in if failures b \<ge> failure_threshold b then b\<lparr>bstate := Open\<rparr> else b)"

text \<open>\<open>call\<close>, with the clock when it starts and the clock when the function is done.\<close>

definition breaker_open_text :: string where
  "breaker_open_text =
     ''Circuit breaker is open '' @ [CHR 0xE2, CHR 0x80, CHR 0x94] @ '' cloud unavailable''"

definition breaker_call ::
    "pyfloat \<Rightarrow> pyfloat \<Rightarrow> ('s, 'a) callable \<Rightarrow> breaker \<Rightarrow> 's \<Rightarrow> (py_error + 'a) \<times> breaker \<times> 's" where
  "breaker_call now later f b s =
     (case is_open now b of
        (True, b) \<Rightarrow> (Inl (ConnectionError breaker_open_text), b, s)
      | (False, b) \<Rightarrow>
          (case f s of
             (Inr v, s') \<Rightarrow> (Inr v, record_success b, s')
           | (Inl e, s') \<Rightarrow> (Inl e, record_failure later b, s')))"

text \<open>
  Calls overlap: while one awaits its function others are admitted, refused or finish. The steps of
  a breaker with some calls in flight, and the histories of such steps on one clock.
\<close>

datatype breaker_event =
    Admit (stamp: pyfloat)
  | Refuse (stamp: pyfloat)
  | Succeed (stamp: pyfloat)
  | Fail (stamp: pyfloat)

inductive breaker_step :: "breaker \<times> nat \<Rightarrow> breaker_event \<Rightarrow> breaker \<times> nat \<Rightarrow> bool" where
  admit: "is_open t b = (False, b') \<Longrightarrow> breaker_step (b, n) (Admit t) (b', Suc n)"
| refuse: "is_open t b = (True, b') \<Longrightarrow> breaker_step (b, n) (Refuse t) (b', n)"
| succeed: "breaker_step (b, Suc n) (Succeed t) (record_success b, n)"
| fail: "breaker_step (b, Suc n) (Fail t) (record_failure t b, n)"

inductive_simps breaker_step_simps [simp]:
  "breaker_step (b, n) (Admit t) s'" "breaker_step (b, n) (Refuse t) s'"
  "breaker_step (b, n) (Succeed t) s'" "breaker_step (b, n) (Fail t) s'"

inductive_cases breaker_stepE: "breaker_step s e s'"

inductive breaker_trace :: "int \<Rightarrow> pyfloat \<Rightarrow> breaker_event list \<Rightarrow> breaker \<times> nat \<Rightarrow> bool"
  for threshold :: int and timeout :: pyfloat where
  start: "breaker_trace threshold timeout [] (new_breaker threshold timeout, 0)"
| step: "breaker_trace threshold timeout es s \<Longrightarrow> breaker_step s e s' \<Longrightarrow>
         \<forall>e' \<in> set es. stamp e' \<le> stamp e \<Longrightarrow> breaker_trace threshold timeout (es @ [e]) s'"

text \<open>What the history says: the failures since the last success, and when the last failure was.\<close>

fun is_fail :: "breaker_event \<Rightarrow> bool" where
  "is_fail (Fail _) = True"
| "is_fail _ = False"

fun is_succeed :: "breaker_event \<Rightarrow> bool" where
  "is_succeed (Succeed _) = True"
| "is_succeed _ = False"

definition fails_since_success :: "breaker_event list \<Rightarrow> nat" where
  "fails_since_success es = length (filter is_fail (takeWhile (\<lambda>e. \<not> is_succeed e) (rev es)))"

definition last_fail_at :: "breaker_event list \<Rightarrow> pyfloat" where
  "last_fail_at es = (case filter is_fail (rev es) of [] \<Rightarrow> 0 | e # _ \<Rightarrow> stamp e)"

definition history_open :: "int \<Rightarrow> pyfloat \<Rightarrow> breaker_event list \<Rightarrow> pyfloat \<Rightarrow> bool" where
  "history_open threshold timeout es now \<longleftrightarrow>
     threshold \<le> int (fails_since_success es) \<and> now - last_fail_at es \<le> timeout"

lemma history_snoc:
  "fails_since_success (es @ [e]) =
     (if is_succeed e then 0 else if is_fail e then Suc (fails_since_success es) else fails_since_success es)"
  "last_fail_at (es @ [e]) = (if is_fail e then stamp e else last_fail_at es)"
  by (cases e; simp add: fails_since_success_def last_fail_at_def)+

text \<open>What the fields of the breaker are, after any history.\<close>

definition breaker_inv :: "int \<Rightarrow> pyfloat \<Rightarrow> breaker_event list \<Rightarrow> breaker \<Rightarrow> bool" where
  "breaker_inv threshold timeout es b \<longleftrightarrow>
     failure_threshold b = threshold \<and> reset_timeout b = timeout \<and>
     failures b = int (fails_since_success es) \<and> last_failure b = last_fail_at es \<and>
     (bstate b = Closed \<longleftrightarrow> failures b < threshold) \<and>
     (bstate b = HalfOpen \<longrightarrow> (\<exists>e \<in> set es. timeout < stamp e - last_failure b))"

lemma breaker_inv_step:
  assumes "breaker_inv threshold timeout es b" and "breaker_step (b, n) e (b', n')" and "0 < threshold"
  shows "breaker_inv threshold timeout (es @ [e]) b'"
proof (cases e)
  case (Admit t)
  with assms have open': "is_open t b = (False, b')" by auto
  show ?thesis
  proof (cases "bstate b = Open")
    case True
    with open' have "b' = b\<lparr>bstate := HalfOpen\<rparr>" "timeout < t - last_failure b"
      using assms(1) by (auto simp: is_open_def breaker_inv_def split: if_splits)
    with assms(1) True Admit show ?thesis by (simp add: breaker_inv_def history_snoc)
  next
    case False
    with open' have "b' = b" by (auto simp: is_open_def)
    with assms(1) Admit show ?thesis by (auto simp: breaker_inv_def history_snoc)
  qed
next
  case (Refuse t)
  with assms(2) have "b' = b" by (auto simp: is_open_def split: if_splits)
  with assms(1) Refuse show ?thesis by (auto simp: breaker_inv_def history_snoc)
next
  case (Succeed t)
  with assms(2) have "b' = record_success b" by auto
  with assms(1,3) Succeed show ?thesis
    by (simp add: breaker_inv_def history_snoc record_success_def)
next
  case (Fail t)
  with assms(2) have b': "b' = record_failure t b" by auto
  show ?thesis
  proof (cases "bstate b = Closed")
    case True
    with b' Fail assms(1) show ?thesis
      by (auto simp: breaker_inv_def history_snoc record_failure_def Let_def)
  next
    case False
    with assms(1) have "threshold \<le> failures b" by (auto simp: breaker_inv_def)
    with b' Fail assms(1) show ?thesis
      by (simp add: breaker_inv_def history_snoc record_failure_def Let_def)
  qed
qed

lemma breaker_trace_inv:
  assumes "breaker_trace threshold timeout es s" and "0 < threshold"
  shows "breaker_inv threshold timeout es (fst s)"
  using assms
proof (induction rule: breaker_trace.induct)
  case start
  then show ?case
    by (simp add: breaker_inv_def new_breaker_def fails_since_success_def last_fail_at_def)
next
  case (step es s e s')
  then show ?case 
    using breaker_inv_step [of threshold timeout es "fst s" "snd s" e "fst s'" "snd s'"] by simp
qed

text \<open>
  C9: In every history of overlapping calls on one clock, a call starting now is refused, without
  running its function, exactly if the number of failures since the last success has reached the
  threshold and the last failure is at most the reset timeout ago; otherwise the function runs once
  and its outcome is the result.
\<close>

theorem breaker_refuses_exactly:
  assumes "breaker_trace threshold timeout es (b, n)" and "0 < threshold"
    and "\<forall>e \<in> set es. stamp e \<le> now"
  shows "if history_open threshold timeout es now
     then breaker_call now later f b s =
            (Inl (ConnectionError breaker_open_text), b, s)
     else fst (breaker_call now later f b s) = fst (f s) \<and>
          snd (snd (breaker_call now later f b s)) = snd (f s)"
proof -
  from breaker_trace_inv [OF assms(1,2)] have inv: "breaker_inv threshold timeout es b" by simp
  have "fst (is_open now b) \<longleftrightarrow> history_open threshold timeout es now"
  proof (cases "bstate b")
    case HalfOpen
    with inv obtain e where "e \<in> set es" "timeout < stamp e - last_failure b"
      by (auto simp: breaker_inv_def)
    with assms(3) have "timeout < now - last_failure b" by force
    with HalfOpen inv show ?thesis by (simp add: is_open_def history_open_def breaker_inv_def)
  qed (use inv in \<open>auto simp: is_open_def history_open_def breaker_inv_def\<close>)
  moreover have "fst (is_open now b) \<Longrightarrow> snd (is_open now b) = b"
    by (auto simp: is_open_def split: if_splits)
  ultimately show ?thesis
    by (cases "is_open now b"; cases "fst (is_open now b)"; cases "f s"; cases "fst (f s)")
      (simp_all add: breaker_call_def)
qed

lemma demo_trace: "breaker_trace 2 60 [Admit 1, Admit 2, Fail 3, Fail 4]
    (record_failure 4 (record_failure 3 (new_breaker 2 60)), 0)"
proof -
  let ?b = "new_breaker 2 60"
  have "breaker_trace 2 60 ([] @ [Admit 1]) (?b, 1)"
    by (rule breaker_trace.step [OF breaker_trace.start]) (simp_all add: is_open_def new_breaker_def)
  then have "breaker_trace 2 60 (([] @ [Admit 1]) @ [Admit 2]) (?b, 2)"
    by (rule breaker_trace.step) (simp_all add: is_open_def new_breaker_def)
  then have "breaker_trace 2 60 ((([] @ [Admit 1]) @ [Admit 2]) @ [Fail 3]) (record_failure 3 ?b, 1)"
    by (rule breaker_trace.step) simp_all
  then have "breaker_trace 2 60 (((([] @ [Admit 1]) @ [Admit 2]) @ [Fail 3]) @ [Fail 4])
      (record_failure 4 (record_failure 3 ?b), 0)"
    by (rule breaker_trace.step) simp_all
  then show ?thesis by simp
qed

theorem breaker_refuses_exactly_witness:
  "breaker_call 64 65 (\<lambda>n. (Inr n, Suc n)) (record_failure 4 (record_failure 3 (new_breaker 2 60))) (0::nat) =
     (Inl (ConnectionError breaker_open_text),
      record_failure 4 (record_failure 3 (new_breaker 2 60)), 0)"
proof -
  have "history_open 2 60 [Admit 1, Admit 2, Fail 3, Fail 4] 64" by code_simp
  with breaker_refuses_exactly [OF demo_trace, of 64 65 "\<lambda>n. (Inr n, Suc n)" "0::nat"]
  show ?thesis by simp
qed

section \<open>What the chain and the retry loop promise\<close>

text \<open>
  A fallback chain returns the value of the first strategy that does not raise, having run
  exactly the strategies up to it; if all raise, it raises the error of the last one, and if there
  are none, a RuntimeError.
\<close>

theorem chain_first_success:
  "(\<exists>pre f post v. strategies c = pre @ f # post \<and>
     (\<forall>i < length pre. raises (pre ! i) (run_through (take i pre) s)) \<and>
     fst (f (run_through pre s)) = Inr v \<and> chain_execute c s = (Inr v, run_through (pre @ [f]) s)) \<or>
   ((\<forall>i < length (strategies c). raises (strategies c ! i) (run_through (take i (strategies c)) s)) \<and>
     snd (chain_execute c s) = run_through (strategies c) s \<and>
     fst (chain_execute c s) =
       (if strategies c = [] then Inl (RuntimeError ''All strategies exhausted'')
        else fst (last (strategies c) (run_through (butlast (strategies c)) s))))"
  (is "?first \<or> ?all")
proof -
  have through: "run_through (pre @ [f]) s = snd (f (run_through pre s))"
    for pre s and f :: "('a, 'b) callable"
    by (induction pre arbitrary: s) auto
  from try_each_cases [of "strategies c" s None] show ?thesis
  proof (elim disjE exE conjE)
    fix pre f post v
    assume "strategies c = pre @ f # post" "fst (f (run_through pre s)) = Inr v"
      "\<forall>i < length pre. raises (pre ! i) (run_through (take i pre) s)"
      "try_each (strategies c) None s = f (run_through pre s)"
    then have ?first
      by (intro exI [of _ pre] exI [of _ f] exI [of _ post] exI [of _ v])
        (simp add: chain_execute_def through prod_eq_iff)
    then show ?thesis ..
  next
    assume "\<forall>i < length (strategies c). raises (strategies c ! i) (run_through (take i (strategies c)) s)"
      "try_each (strategies c) None s =
         (if strategies c = [] then try_each [] None s
          else (fst (last (strategies c) (run_through (butlast (strategies c)) s)),
                run_through (strategies c) s))"
    then have ?all by (simp add: chain_execute_def)
    then show ?thesis ..
  qed
qed

definition failing_strategy :: "(nat, int) callable" where
  "failing_strategy s = (Inl (RuntimeError ''no''), s + 1)"

definition working_strategy :: "(nat, int) callable" where
  "working_strategy s = (Inr 7, s + 1)"

theorem chain_first_success_witness:
  "chain_execute \<lparr>strategies = [failing_strategy, working_strategy], labels = [''a'', ''b'']\<rparr> 0 = (Inr 7, 2)"
  using chain_first_success [of "\<lparr>strategies = [failing_strategy, working_strategy], labels = [''a'', ''b'']\<rparr>" 0]
  by (auto simp: Cons_eq_append_conv failing_strategy_def working_strategy_def raises_def numeral_2_eq_2
      dest!: spec [of _ 1])

text \<open>
  C36: With \<open>max_retries = n\<close> the retry loop calls the function \<open>k + 1 \<le> n + 1\<close> times, where the
  first \<open>k\<close> calls failed retryably, and gives the outcome of the last call; before retry \<open>i\<close> it
  sleeps \<open>min (base_delay * backoff_factor ^ i) max_delay\<close>. It only gives up on a retryable error
  after all \<open>n + 1\<close> attempts, and a first error of another kind is raised at once.
\<close>

theorem retry_async_spec:
  assumes "0 \<le> max_retries cfg" and "1 \<le> backoff_factor cfg"
    and "0 \<le> base_delay cfg" and "base_delay cfg \<le> max_delay cfg"
  shows "\<exists>k \<le> nat (max_retries cfg).
     retry_async cfg f s =
       (fst (f (after_calls f k s)), after_calls f (Suc k) s,
        map (\<lambda>i. min (base_delay cfg * backoff_factor cfg ^ i) (max_delay cfg)) [0..<k]) \<and>
     (\<forall>i < k. \<exists>e. fst (f (after_calls f i s)) = Inl e \<and> retryable cfg e) \<and>
     (\<forall>e. fst (f (after_calls f k s)) = Inl e \<longrightarrow> retryable cfg e \<longrightarrow> k = nat (max_retries cfg))"
proof -
  have after: "after_calls f (Suc k) s = snd (f (after_calls f k s))" for k s
    by (induction k arbitrary: s) auto
  have "nat (max_retries cfg + 1) = Suc (nat (max_retries cfg))" using assms(1) by simp
  moreover have "backoff cfg (base_delay cfg) =
      (\<lambda>i. min (base_delay cfg * backoff_factor cfg ^ i) (max_delay cfg))"
    using backoff_closed_form [OF assms(2-4)] by (simp add: fun_eq_iff)
  ultimately show ?thesis
    using retry_loop_spec [of "nat (max_retries cfg)" cfg f "base_delay cfg" None s]
    unfolding after retry_async_def by simp
qed

theorem retry_async_spec_witness:
  "snd (snd (retry_async default_retry (\<lambda>n. (Inl (TimeoutError ''t'') :: py_error + nat, Suc n)) (0::nat)))
     = [1, 2, 4]"
proof -
  let ?f = "\<lambda>n. (Inl (TimeoutError ''t'') :: py_error + nat, Suc n)"
  from retry_async_spec [of default_retry ?f "0::nat"] obtain k where k:
    "snd (snd (retry_async default_retry ?f 0)) = map (\<lambda>i. min (2 ^ i) 30) [0..<k]" "k = 3"
    by (auto simp: default_retry_def)
  have "[0..<3] = [0, 1, 2 :: nat]" by (simp add: upt_rec)
  with k show ?thesis by simp
qed

end
