(* ===== verification/Models.thy ===== *)
theory Models
  imports PyValues
begin

text \<open>
  The data that client and server share: the enumerations and messages of \<^verbatim>\<open>shared/models.py\<close>
  and the tables of \<^verbatim>\<open>shared/constants.py\<close>. Field defaults that call \<^verbatim>\<open>uuid4\<close> or
  \<^verbatim>\<open>time.time\<close> are arguments of the operations that build the records. The members of each
  enumeration have the string values the wire format uses.
\<close>

section \<open>Enumerations\<close>

datatype package_strategy = LocalInstall | TermuxPkg | CloudWheel | CloudBuild | CloudExec | Hybrid

fun strategy_value :: "package_strategy \<Rightarrow> string" where
  "strategy_value LocalInstall = ''local_install''"
| "strategy_value TermuxPkg = ''termux_pkg''"
| "strategy_value CloudWheel = ''cloud_wheel''"
| "strategy_value CloudBuild = ''cloud_build''"
| "strategy_value CloudExec = ''cloud_exec''"
| "strategy_value Hybrid = ''hybrid''"

datatype build_status = Queued | Building | Succeeded | Failed | Cancelled

fun build_status_value :: "build_status \<Rightarrow> string" where
  "build_status_value Queued = ''queued''"
| "build_status_value Building = ''building''"
| "build_status_value Succeeded = ''succeeded''"
| "build_status_value Failed = ''failed''"
| "build_status_value Cancelled = ''cancelled''"

datatype execution_status =
  ExecPending | ExecRunning | ExecCompleted | ExecFailed | ExecTimeout | ExecCancelled

fun execution_status_value :: "execution_status \<Rightarrow> string" where
  "execution_status_value ExecPending = ''pending''"
| "execution_status_value ExecRunning = ''running''"
| "execution_status_value ExecCompleted = ''completed''"
| "execution_status_value ExecFailed = ''failed''"
| "execution_status_value ExecTimeout = ''timeout''"
| "execution_status_value ExecCancelled = ''cancelled''"

datatype execution_mode = ModeLocal | ModeCloud | ModeHybrid | ModeGpu | ModeBrowser

fun execution_mode_value :: "execution_mode \<Rightarrow> string" where
  "execution_mode_value ModeLocal = ''local''"
| "execution_mode_value ModeCloud = ''cloud''"
| "execution_mode_value ModeHybrid = ''hybrid''"
| "execution_mode_value ModeGpu = ''gpu''"
| "execution_mode_value ModeBrowser = ''browser''"

text \<open>The constructor of an enumeration, such as \<open>BuildStatus(s)\<close>: the member with that value.\<close>

fun enum_of :: "('e \<Rightarrow> string) \<Rightarrow> 'e list \<Rightarrow> string \<Rightarrow> py_error + 'e" where
  "enum_of val [] s = Inl (ValueError s)"
| "enum_of val (e # es) s = (if val e = s then Inr e else enum_of val es s)"

lemma enum_of_val: "inj_on val (set es) \<Longrightarrow> e \<in> set es \<Longrightarrow> enum_of val es (val e) = Inr e"
  by (induction es) (auto simp: inj_on_def)

lemma enum_of_Inr: "enum_of val es s = Inr e \<Longrightarrow> val e = s \<and> e \<in> set es"
  by (induction es) (auto split: if_splits)

lemma enum_inject [simp]:
  "strategy_value a = strategy_value b \<longleftrightarrow> a = b"
  "build_status_value c = build_status_value d \<longleftrightarrow> c = d"
  "execution_status_value x = execution_status_value y \<longleftrightarrow> x = y"
  "execution_mode_value m = execution_mode_value n \<longleftrightarrow> m = n"
     apply (cases a; cases b; simp)
    apply (cases c; cases d; simp)
   apply (cases x; cases y; simp)
  apply (cases m; cases n; simp)
  done

section \<open>Packages\<close>

record layer_info =
  li_layer_id :: string
  li_url :: string
  li_sha256 :: string
  li_size :: int
  li_content_type :: string
  li_compressed :: bool

record package_info =
  pi_name :: string
  pi_version :: string
  pi_description :: string
  pi_strategy :: package_strategy
  pi_wheel_url :: "string option"
  pi_wheel_hash :: "string option"
  pi_wheel_size :: int
  pi_layers :: "layer_info list"
  pi_dependencies :: "string list"
  pi_architectures :: "string list"
  pi_requires_gpu :: bool
  pi_cloud_only :: bool
  pi_metadata :: pydict

definition new_package_info :: "string \<Rightarrow> string \<Rightarrow> package_info" where
  "new_package_info name version =
     \<lparr>pi_name = name, pi_version = version, pi_description = '''', pi_strategy = LocalInstall,
      pi_wheel_url = None, pi_wheel_hash = None, pi_wheel_size = 0, pi_layers = [],
      pi_dependencies = [], pi_architectures = [], pi_requires_gpu = False, pi_cloud_only = False,
      pi_metadata = []\<rparr>"

record package_resolution =
  pr_package :: string
  pr_version :: string
  pr_strategy :: package_strategy
  pr_info :: "package_info option"
  pr_fallbacks :: "package_strategy list"
  pr_reason :: string

section \<open>Builds\<close>

record build_request =
  br_request_id :: string
  br_package_name :: string
  br_package_version :: string
  br_target_architecture :: string
  br_python_version :: string
  br_build_options :: pydict
  br_priority :: int
  br_created_at :: pyfloat

definition new_build_request :: "string \<Rightarrow> pyfloat \<Rightarrow> string \<Rightarrow> build_request" where
  "new_build_request uuid now package_name =
     \<lparr>br_request_id = uuid, br_package_name = package_name, br_package_version = ''latest'',
      br_target_architecture = ''aarch64'', br_python_version = ''3.11'', br_build_options = [],
      br_priority = 5, br_created_at = now\<rparr>"

record build_result =
  bs_request_id :: string
  bs_status :: build_status
  bs_package_name :: string
  bs_package_version :: string
  bs_wheel_url :: "string option"
  bs_wheel_hash :: "string option"
  bs_wheel_size :: int
  bs_build_log :: string
  bs_duration :: pyfloat
  bs_error :: "string option"

section \<open>Executions\<close>

record execution_request =
  er_request_id :: string
  er_method :: string
  er_args :: "pyval list"
  er_kwargs :: pydict
  er_mode :: execution_mode
  er_timeout :: int
  er_session_id :: "string option"
  er_requires_gpu :: bool

record execution_result =
  es_request_id :: string
  es_status :: execution_status
  es_result :: pyval
  es_result_type :: string
  es_metadata :: pydict
  es_duration_ms :: pyfloat
  es_error :: "string option"
  es_traceback :: "string option"

section \<open>Devices, sessions, accounts and health\<close>

record device_info =
  de_device_id :: string
  de_architecture :: string
  de_platform_tag :: string
  de_python_version :: string
  de_cpu_count :: int
  de_total_memory_mb :: int
  de_available_disk_mb :: int
  de_is_termux :: bool
  de_is_android :: bool
  de_has_gpu :: bool
  de_cpip_version :: string

definition new_device_info :: "string \<Rightarrow> string \<Rightarrow> string \<Rightarrow> string \<Rightarrow> device_info" where
  "new_device_info uuid architecture platform_tag python_version =
     \<lparr>de_device_id = uuid, de_architecture = architecture, de_platform_tag = platform_tag,
      de_python_version = python_version, de_cpu_count = 1, de_total_memory_mb = 0, de_available_disk_mb = 0,
      de_is_termux = False, de_is_android = False, de_has_gpu = False, de_cpip_version = []\<rparr>"

record session_info =
  si_session_id :: string
  si_device_id :: string
  si_created_at :: pyfloat
  si_last_active :: pyfloat
  si_execution_mode :: execution_mode
  si_active_packages :: "string list"
  si_cloud_modules :: "string list"

record auth_token =
  at_access_token :: string
  at_refresh_token :: string
  at_token_type :: string
  at_expires_in :: int

record user_info =
  ui_user_id :: string
  ui_email :: "string option"
  ui_api_key :: "string option"
  ui_devices :: "string list"
  ui_tier :: string

definition new_user_info :: "string \<Rightarrow> user_info" where
  "new_user_info user_id =
     \<lparr>ui_user_id = user_id, ui_email = None, ui_api_key = None, ui_devices = [], ui_tier = ''free''\<rparr>"

record health_status =
  hs_status :: string
  hs_version :: string
  hs_uptime :: pyfloat
  hs_services :: "(string, string) dict"
  hs_build_queue_size :: nat
  hs_active_executions :: nat
  hs_connected_devices :: nat

section \<open>Constants\<close>

text \<open>The constants are unfolded wherever they stand; \<open>env\<close> is the environment of the process.\<close>

definition VERSION :: string where
  [simp]: "VERSION = ''0.1.1''"

definition CODENAME :: string where
  [simp]: "CODENAME = ''nebula''"

definition API_V1_PREFIX :: string where
  [simp]: "API_V1_PREFIX = ''/api/v1''"

definition DEFAULT_API_URL :: "(string, string) dict \<Rightarrow> string" where
  [simp]: "DEFAULT_API_URL env = dget_or env ''CPIP_API_URL'' ''http://localhost:8000''"

definition DEFAULT_WS_URL :: "(string, string) dict \<Rightarrow> string" where
  [simp]: "DEFAULT_WS_URL env = dget_or env ''CPIP_WS_URL'' ''ws://localhost:8000/ws''"

definition DEFAULT_CDN_URL :: "(string, string) dict \<Rightarrow> string" where
  [simp]: "DEFAULT_CDN_URL env = dget_or env ''CPIP_CDN_URL'' ''http://localhost:8000/cdn''"

definition WS_RECONNECT_BASE_DELAY :: int where
  [simp]: "WS_RECONNECT_BASE_DELAY = 1"

definition WS_RECONNECT_MAX_DELAY :: int where
  [simp]: "WS_RECONNECT_MAX_DELAY = 60"

definition DEFAULT_CACHE_MAX_MB :: int where
  [simp]: "DEFAULT_CACHE_MAX_MB = 2048"

definition DEFAULT_WHEEL_TTL_DAYS :: int where
  [simp]: "DEFAULT_WHEEL_TTL_DAYS = 30"

definition DEFAULT_METADATA_TTL_HOURS :: int where
  [simp]: "DEFAULT_METADATA_TTL_HOURS = 24"

definition SUPPORTED_ARCHITECTURES :: "string list" where
  "SUPPORTED_ARCHITECTURES = [''aarch64'', ''armv7l'', ''x86_64'', ''arm64'']"

definition CLOUD_PREFERRED_PACKAGES :: "string list" where
  "CLOUD_PREFERRED_PACKAGES =
     [''torch'', ''torchvision'', ''torchaudio'', ''tensorflow'', ''tensorflow-gpu'', ''jax'', ''jaxlib'',
      ''opencv-python'', ''opencv-contrib-python'', ''scipy'', ''playwright'', ''chromium'',
      ''llama-cpp-python'', ''transformers'', ''diffusers'', ''triton'', ''cupy'', ''dlib'',
      ''mediapipe'', ''onnxruntime'', ''paddlepaddle'']"

definition BUILD_MAX_RETRIES :: nat where
  "BUILD_MAX_RETRIES = 3"

end
