(* ===== verification/BuildQueue.thy ===== *)
theory BuildQueue
  imports Models "HOL-Library.Multiset" "HOL-Library.Product_Lexorder"
begin

text \<open>
  The build queue of the build farm, \<^verbatim>\<open>builder/queue.py\<close>: waiting jobs ordered by priority and
  time of arrival, and the jobs a worker is processing. A request is held by value; \<open>fail\<close> changes
  the priority of the request object, which nothing else holds once its job is off the queue.
  The locale \<open>job_queue\<close> is what a worker relies on.
\<close>

section \<open>The queue\<close>

type_synonym job = "int \<times> pyfloat \<times> build_request"

record build_queue =
  waiting :: "job list"
  processing :: "(string, build_request) dict"

definition empty_queue :: build_queue where
  "empty_queue = \<lparr>waiting = [], processing = []\<rparr>"

definition job_key :: "job \<Rightarrow> int \<times> pyfloat" where
  "job_key j = (fst j, fst (snd j))"

definition job_request :: "job \<Rightarrow> build_request" where
  "job_request j = snd (snd j)"

definition push :: "pyfloat \<Rightarrow> build_request \<Rightarrow> build_queue \<Rightarrow> build_queue" where
  "push now r q = q\<lparr>waiting := sort_key job_key (waiting q @ [(br_priority r, now, r)])\<rparr>"

definition pop :: "build_queue \<Rightarrow> build_request option \<times> build_queue" where
  "pop q =
     (case waiting q of
        [] \<Rightarrow> (None, q)
      | (_, _, r) # rest \<Rightarrow>
          (Some r, q\<lparr>waiting := rest, processing := dset (br_request_id r) r (processing q)\<rparr>))"

definition complete :: "string \<Rightarrow> build_queue \<Rightarrow> build_queue" where
  "complete request_id q = q\<lparr>processing := ddel request_id (processing q)\<rparr>"

definition fail :: "pyfloat \<Rightarrow> string \<Rightarrow> build_queue \<Rightarrow> build_queue" where
  "fail now request_id q =
     (let req = dget (processing q) request_id;
          q = q\<lparr>processing := ddel request_id (processing q)\<rparr>
      in case req of
           None \<Rightarrow> q
         | Some r \<Rightarrow> push now (r\<lparr>br_priority := min (br_priority r + 1) 10\<rparr>) q)"

definition queue_size :: "build_queue \<Rightarrow> nat" where
  "queue_size q = length (waiting q)"

definition processing_count :: "build_queue \<Rightarrow> nat" where
  "processing_count q = length (processing q)"

section \<open>Order: the waiting jobs are the stable sort of the arrivals\<close>

datatype queue_event =
    Push pyfloat build_request
  | Pop
  | Done string
  | Fail pyfloat string

fun queue_step :: "build_queue \<Rightarrow> queue_event \<Rightarrow> build_queue" where
  "queue_step q (Push now r) = push now r q"
| "queue_step q Pop = snd (pop q)"
| "queue_step q (Done i) = complete i q"
| "queue_step q (Fail now i) = fail now i q"

text \<open>
  The specification keeps the waiting jobs in order of arrival, and serves the first with the least
  priority and time. It never sorts.
\<close>

definition next_job :: "job list \<Rightarrow> job option" where
  "next_job arrivals = (if arrivals = [] then None else Some (arg_min_list job_key arrivals))"

definition requeued :: "pyfloat \<Rightarrow> build_request \<Rightarrow> job" where
  "requeued now r = (let p = min (br_priority r + 1) 10 in (p, now, r\<lparr>br_priority := p\<rparr>))"

type_synonym arrivals = "job list \<times> (string, build_request) dict"

fun arrivals_step :: "arrivals \<Rightarrow> queue_event \<Rightarrow> arrivals" where
  "arrivals_step (l, pr) (Push now r) = (l @ [(br_priority r, now, r)], pr)"
| "arrivals_step (l, pr) Pop =
     (case next_job l of
        None \<Rightarrow> (l, pr)
      | Some j \<Rightarrow> (remove1 j l, dset (br_request_id (job_request j)) (job_request j) pr))"
| "arrivals_step (l, pr) (Done i) = (l, ddel i pr)"
| "arrivals_step (l, pr) (Fail now i) =
     (case dget pr i of None \<Rightarrow> (l, pr) | Some r \<Rightarrow> (l @ [requeued now r], ddel i pr))"

definition serves :: "build_queue \<Rightarrow> arrivals \<Rightarrow> bool" where
  "serves q a \<longleftrightarrow> waiting q = sort_key job_key (fst a) \<and> processing q = snd a"

lemma sort_key_snoc: "sort_key f (sort_key f xs @ [x]) = sort_key f (xs @ [x])"
proof (rule properties_for_sort_key)
  fix k
  show "filter (\<lambda>y. f k = f y) (sort_key f (xs @ [x])) = filter (\<lambda>y. f k = f y) (sort_key f xs @ [x])"
    using sort_key_stable [of f "f k"] by (simp add: eq_commute [of "f k"])
qed simp_all

lemma serves_push: "serves q a \<Longrightarrow> serves (push now r q) (fst a @ [(br_priority r, now, r)], snd a)"
  by (simp add: serves_def push_def sort_key_snoc)

lemma serves_pop:
  assumes "serves q a"
  shows "fst (pop q) = map_option job_request (next_job (fst a)) \<and> serves (snd (pop q)) (arrivals_step a Pop)"
proof (cases "fst a = []")
  case False
  obtain p t r where j: "arg_min_list job_key (fst a) = (p, t, r)" by (rule prod_cases3)
  then have "waiting q = (p, t, r) # sort_key job_key (remove1 (p, t, r) (fst a))"
    using assms sort_key_arg_min [OF False, of job_key] by (simp add: serves_def)
  then have "pop q = (Some r, q\<lparr>waiting := sort_key job_key (remove1 (p, t, r) (fst a)),
      processing := dset (br_request_id r) r (processing q)\<rparr>)"
    by (simp add: pop_def)
  with assms j False show ?thesis
    by (cases a) (simp add: serves_def next_job_def job_request_def)
qed (use assms in \<open>cases a; simp add: serves_def pop_def next_job_def\<close>)

lemma serves_step: "serves q a \<Longrightarrow> serves (queue_step q e) (arrivals_step a e)"
proof (cases e)
  case (Fail now i)
  assume s: "serves q a"
  then have p: "processing q = snd a" by (simp add: serves_def)
  show ?thesis
  proof (cases "dget (snd a) i")
    case None
    with s p Fail show ?thesis
      by (cases a) (simp add: fail_def serves_def ddel_absent)
  next
    case (Some r)
    from s have "serves (q\<lparr>processing := ddel i (processing q)\<rparr>) (fst a, ddel i (snd a))"
      by (simp add: serves_def)
    from serves_push [OF this, of now "r\<lparr>br_priority := min (br_priority r + 1) 10\<rparr>"] Some p Fail
    show ?thesis by (cases a) (simp add: fail_def requeued_def Let_def)
  qed
next
  case (Push now r)
  then show "serves q a \<Longrightarrow> ?thesis" using serves_push [of q a now r] by (cases a) simp
next
  case Pop
  then show "serves q a \<Longrightarrow> ?thesis" using serves_pop by simp
next
  case (Done i)
  then show "serves q a \<Longrightarrow> ?thesis" by (cases a) (simp add: serves_def complete_def)
qed

text \<open>
  C7: After any sequence of operations on a new queue, \<open>pop\<close> returns the waiting request with the
  least priority and, among those, the least time and the earliest arrival: the queue agrees with the
  list of arrivals that is never sorted.
\<close>

theorem queue_refines_arrivals:
  "fst (pop (run queue_step empty_queue es)) =
     map_option job_request (next_job (fst (run arrivals_step ([], []) es)))"
proof -
  have "serves (run queue_step empty_queue es) (run arrivals_step ([], []) es)"
    by (induction es rule: rev_induct)
      (simp_all add: serves_step, simp add: serves_def empty_queue_def)
  then show ?thesis by (simp add: serves_pop)
qed

section \<open>No job is lost: the contract of a job queue\<close>

locale job_queue =
  fixes put :: "'t \<Rightarrow> 'r \<Rightarrow> 'q \<Rightarrow> 'q"
    and take :: "'q \<Rightarrow> 'r option \<times> 'q"
    and finish :: "'i \<Rightarrow> 'q \<Rightarrow> 'q"
    and retry :: "'t \<Rightarrow> 'i \<Rightarrow> 'q \<Rightarrow> 'q"
    and ident :: "'r \<Rightarrow> 'i"
    and queued running :: "'q \<Rightarrow> 'i multiset"
    and inv :: "'q \<Rightarrow> bool"
  assumes put_law: "inv q \<Longrightarrow> ident r \<notin># queued q + running q \<Longrightarrow>
      inv (put t r q) \<and> queued (put t r q) = add_mset (ident r) (queued q) \<and>
      running (put t r q) = running q"
    and take_law: "inv q \<Longrightarrow> take q = (Some r, q') \<Longrightarrow>
      inv q' \<and> queued q = add_mset (ident r) (queued q') \<and>
      running q' = add_mset (ident r) (running q)"
    and take_none: "take q = (None, q') \<Longrightarrow> q' = q \<and> queued q = {#}"
    and finish_law: "inv q \<Longrightarrow>
      inv (finish i q) \<and> queued (finish i q) = queued q \<and> running (finish i q) = running q - {#i#}"
    and retry_law: "inv q \<Longrightarrow> i \<in># running q \<Longrightarrow>
      inv (retry t i q) \<and> queued (retry t i q) = add_mset i (queued q) \<and>
      running (retry t i q) = running q - {#i#}"
    and retry_none: "inv q \<Longrightarrow> i \<notin># running q \<Longrightarrow> retry t i q = q"
begin

text \<open>The jobs a queue holds, and how each operation changes them.\<close>

lemma take_keeps_jobs:
  assumes "inv q" and t: "take q = (x, q')"
  shows "inv q' \<and> queued q' + running q' = queued q + running q"
proof (cases x)
  case None
  with t have "take q = (None, q')" by simp
  from take_none [OF this] assms(1) show ?thesis by simp
next
  case (Some r)
  with t have "take q = (Some r, q')" by simp
  note law = take_law [OF assms(1) this]
  have "queued q' + running q' = queued q + running q"
    unfolding law [THEN conjunct2, THEN conjunct1] law [THEN conjunct2, THEN conjunct2]
    by (simp only: union_mset_add_mset_left union_mset_add_mset_right)
  with law show ?thesis by blast
qed

lemma retry_keeps_jobs:
  assumes "inv q"
  shows "inv (retry t i q) \<and> queued (retry t i q) + running (retry t i q) = queued q + running q"
proof (cases "i \<in># running q")
  case True
  note law = retry_law [OF assms True, of t]
  have "queued (retry t i q) + running (retry t i q) = queued q + add_mset i (running q - {#i#})"
    unfolding law [THEN conjunct2, THEN conjunct1] law [THEN conjunct2, THEN conjunct2]
    by (simp only: union_mset_add_mset_left union_mset_add_mset_right)
  with law True show ?thesis by (simp only: insert_DiffM)
next
  case False
  from retry_none [OF assms False] assms show ?thesis by simp
qed

lemma finish_keeps_others:
  assumes "inv q" and "j \<noteq> i"
  shows "count (queued (finish i q) + running (finish i q)) j = count (queued q + running q) j"
  using finish_law [OF assms(1), of i] assms(2) by simp

text \<open>A worker takes a job and either finishes it or gives it back.\<close>

lemma take_finish:
  assumes "inv q" and "take q = (Some r, q')"
  shows "inv (finish (ident r) q') \<and> queued (finish (ident r) q') = queued q - {#ident r#} \<and>
    running (finish (ident r) q') = running q"
proof -
  note law = take_law [OF assms]
  from law have "inv q'" by blast
  note fin = finish_law [OF this, of "ident r"]
  have "queued q' = queued q - {#ident r#}" "running q' - {#ident r#} = running q"
    unfolding law [THEN conjunct2, THEN conjunct1] law [THEN conjunct2, THEN conjunct2] by simp_all
  with fin show ?thesis by simp
qed

lemma take_retry:
  assumes "inv q" and "take q = (Some r, q')"
  shows "inv (retry t (ident r) q') \<and> queued (retry t (ident r) q') = queued q \<and>
    running (retry t (ident r) q') = running q"
proof -
  note law = take_law [OF assms]
  from law have i: "inv q'" and "ident r \<in># running q'" by auto
  note ret = retry_law [OF this, of t]
  have "add_mset (ident r) (queued q') = queued q" "running q' - {#ident r#} = running q"
    unfolding law [THEN conjunct2, THEN conjunct1] law [THEN conjunct2, THEN conjunct2] by simp_all
  with ret show ?thesis by simp
qed

end

definition waiting_ids :: "build_queue \<Rightarrow> string list" where
  "waiting_ids q = map (br_request_id \<circ> job_request) (waiting q)"

definition queue_inv :: "build_queue \<Rightarrow> bool" where
  "queue_inv q \<longleftrightarrow>
     distinct (waiting_ids q @ dkeys (processing q)) \<and>
     (\<forall>(i, r) \<in> set (processing q). br_request_id r = i)"

definition queued_ids :: "build_queue \<Rightarrow> string multiset" where
  "queued_ids q = mset (waiting_ids q)"

definition running_ids :: "build_queue \<Rightarrow> string multiset" where
  "running_ids q = mset (dkeys (processing q))"

lemma queued_push: "queued_ids (push now r q) = add_mset (br_request_id r) (queued_ids q)"
  by (simp add: queued_ids_def waiting_ids_def push_def mset_map job_request_def)

lemma processing_push [simp]: "processing (push now r q) = processing q"
  by (simp add: push_def)

lemma queue_inv_iff:
  "queue_inv q \<longleftrightarrow> (\<forall>i. count (queued_ids q + running_ids q) i \<le> 1) \<and>
     (\<forall>(i, r) \<in> set (processing q). br_request_id r = i)"
proof -
  have "distinct xs \<longleftrightarrow> (\<forall>i. count (mset xs) i \<le> 1)" for xs :: "string list"
    by (induction xs) (auto simp: count_mset_0_iff le_Suc_eq simp flip: not_in_iff split: if_splits)
  then show ?thesis by (simp only: queue_inv_def queued_ids_def running_ids_def mset_append)
qed

lemma mset_keys_ddel: "dwf d \<Longrightarrow> mset (dkeys (ddel i d)) = mset (dkeys d) - {#i#}"
  by (induction d) (auto simp: ddel_absent dget_None_iff image_iff)

lemma mset_keys_dset: "k \<notin> set (dkeys d) \<Longrightarrow> mset (dkeys (dset k v d)) = add_mset k (mset (dkeys d))"
  by (induction d) auto

lemma queue_inv_dwf: "queue_inv q \<Longrightarrow> dwf (processing q)"
  by (simp add: queue_inv_def)

lemma complete_laws:
  assumes "queue_inv q"
  shows "queue_inv (complete i q) \<and> queued_ids (complete i q) = queued_ids q \<and>
    running_ids (complete i q) = running_ids q - {#i#}"
proof -
  have q: "queued_ids (complete i q) = queued_ids q"
    by (simp add: complete_def queued_ids_def waiting_ids_def)
  moreover have r: "running_ids (complete i q) = running_ids q - {#i#}"
    using queue_inv_dwf [OF assms] by (simp add: running_ids_def complete_def mset_keys_ddel del: mset_map)
  moreover have "queue_inv (complete i q)"
    using assms unfolding queue_inv_iff q r
    by (auto simp: complete_def set_ddel intro: order_trans [rotated])
      (meson add_left_mono diff_le_self order_trans)
  ultimately show ?thesis by simp
qed

lemma push_laws:
  assumes "queue_inv q" and "br_request_id r \<notin># queued_ids q + running_ids q"
  shows "queue_inv (push now r q) \<and> queued_ids (push now r q) = add_mset (br_request_id r) (queued_ids q) \<and>
    running_ids (push now r q) = running_ids q"
proof -
  have r: "running_ids (push now r q) = running_ids q" by (simp add: running_ids_def)
  moreover have "queue_inv (push now r q)"
    using assms unfolding queue_inv_iff r queued_push
    by (auto simp: not_in_iff)
  ultimately show ?thesis by (simp add: queued_push)
qed

lemma pop_laws:
  assumes "queue_inv q" and "pop q = (Some r, q')"
  shows "queue_inv q' \<and> queued_ids q = add_mset (br_request_id r) (queued_ids q') \<and>
    running_ids q' = add_mset (br_request_id r) (running_ids q)"
proof -
  obtain p t rest where w: "waiting q = (p, t, r) # rest"
    and q': "q' = q\<lparr>waiting := rest, processing := dset (br_request_id r) r (processing q)\<rparr>"
    using assms(2) by (auto simp: pop_def split: list.splits)
  from assms(1) w have new: "br_request_id r \<notin> set (dkeys (processing q))"
    by (auto simp: queue_inv_def waiting_ids_def job_request_def)
  have queued: "queued_ids q = add_mset (br_request_id r) (queued_ids q')"
    by (simp add: q' w queued_ids_def waiting_ids_def job_request_def)
  have run: "running_ids q' = add_mset (br_request_id r) (running_ids q)"
    using mset_keys_dset [OF new] by (simp add: q' running_ids_def)
  have "set (processing q') = insert (br_request_id r, r) (set (processing q))"
    using new queue_inv_dwf [OF assms(1)] by (auto simp: q' set_dset image_iff)
  then have "queue_inv q'"
    using assms(1) unfolding queue_inv_iff run queued by auto
  with queued run show ?thesis by simp
qed

lemma pop_none: "pop q = (None, q') \<Longrightarrow> q' = q \<and> queued_ids q = {#}"
  by (auto simp: pop_def queued_ids_def waiting_ids_def split: list.splits)

lemma fail_laws:
  assumes "queue_inv q" and "i \<in># running_ids q"
  shows "queue_inv (fail now i q) \<and> queued_ids (fail now i q) = add_mset i (queued_ids q) \<and>
    running_ids (fail now i q) = running_ids q - {#i#}"
proof -
  from assms(2) obtain r where r: "dget (processing q) i = Some r"
    by (metis dget_None_iff not_None_eq running_ids_def set_mset_mset)
  have "br_request_id r = i"
    using assms(1) dget_in_set [OF r] by (auto simp: queue_inv_def)
  let ?r = "r\<lparr>br_priority := min (br_priority r + 1) 10\<rparr>"
  have eq: "fail now i q = push now ?r (complete i q)"
    using r by (simp add: fail_def complete_def)
  note c = complete_laws [OF assms(1), of i]
  have "i \<notin># queued_ids q + (running_ids q - {#i#})"
  proof -
    from assms(1) have "count (queued_ids q) i + count (running_ids q) i \<le> 1"
      by (simp add: queue_inv_iff)
    moreover from assms(2) have "0 < count (running_ids q) i" by simp
    ultimately have "count (queued_ids q) i = 0" "count (running_ids q) i = 1" by linarith+
    then show ?thesis by (simp add: not_in_iff)
  qed
  with c \<open>br_request_id r = i\<close> have "br_request_id ?r \<notin># queued_ids (complete i q) + running_ids (complete i q)"
    by simp
  from push_laws [OF c [THEN conjunct1] this, of now] c \<open>br_request_id r = i\<close>
  show ?thesis by (simp add: eq)
qed

lemma fail_absent: "i \<notin># running_ids q \<Longrightarrow> fail now i q = q"
  by (simp add: fail_def running_ids_def ddel_absent dget_None_iff [THEN iffD2])

interpretation jobs: job_queue push pop complete fail br_request_id queued_ids running_ids queue_inv
  by unfold_locales
    (rule push_laws pop_laws pop_none complete_laws fail_laws fail_absent; assumption)+

text \<open>
  What the queue holds after a history: the jobs that were pushed and not completed, each once.
\<close>

fun pushed :: "queue_event list \<Rightarrow> string list" where
  "pushed [] = []"
| "pushed (Push now r # es) = br_request_id r # pushed es"
| "pushed (_ # es) = pushed es"

lemma pushed_snoc: "pushed (es @ [e]) = pushed es @ pushed [e]"
  by (induction es rule: pushed.induct) auto

definition held :: "build_queue \<Rightarrow> string multiset" where
  "held q = queued_ids q + running_ids q"

lemma held_history:
  assumes "distinct (pushed es)"
  shows "queue_inv (run queue_step empty_queue es) \<and>
    set_mset (held (run queue_step empty_queue es)) \<subseteq> set (pushed es) \<and>
    (\<forall>i \<in> set (pushed es). Done i \<notin> set es \<longrightarrow> i \<in># held (run queue_step empty_queue es))"
  using assms
proof (induction es rule: rev_induct)
  case Nil
  then show ?case
    by (simp add: empty_queue_def queue_inv_def held_def queued_ids_def running_ids_def waiting_ids_def)
next
  case (snoc e es)
  let ?q = "run queue_step empty_queue es"
  from snoc have inv: "queue_inv ?q" and sub: "set_mset (held ?q) \<subseteq> set (pushed es)"
    and all: "\<forall>i \<in> set (pushed es). Done i \<notin> set es \<longrightarrow> i \<in># held ?q"
    by (auto simp: pushed_snoc)
  show ?case
  proof (cases e)
    case (Push now r)
    with snoc.prems sub have "br_request_id r \<notin># queued_ids ?q + running_ids ?q"
      by (auto simp: pushed_snoc held_def)
    from push_laws [OF inv this, of now] Push sub all show ?thesis
      by (auto simp: pushed_snoc held_def)
  next
    case Pop
    obtain x q' where p: "pop ?q = (x, q')" by (rule prod.exhaust)
    from jobs.take_keeps_jobs [OF inv p] p Pop sub all show ?thesis
      by (auto simp: pushed_snoc held_def)
  next
    case (Done i)
    have "j \<in># held (complete i ?q) \<longleftrightarrow> j \<in># held ?q" if "j \<noteq> i" for j
      using jobs.finish_keeps_others [OF inv that] by (simp only: held_def flip: count_greater_zero_iff)
    moreover have "set_mset (held (complete i ?q)) \<subseteq> set_mset (held ?q)"
      using complete_laws [OF inv, of i] by (auto simp: held_def dest: in_diffD)
    ultimately show ?thesis
      using complete_laws [OF inv, of i] Done sub all by (auto simp: pushed_snoc)
  next
    case (Fail now i)
    from jobs.retry_keeps_jobs [OF inv, of now i] Fail sub all show ?thesis
      by (auto simp: pushed_snoc held_def)
  qed
qed

text \<open>
  C15: If requests have distinct ids, then after any sequence of pushes, pops, completions and
  failures every request that was pushed and not completed is in the queue exactly once: waiting, or
  in the hands of a worker. A failed build is never dropped and never doubled.
\<close>

theorem no_job_lost:
  assumes "distinct (pushed es)" and "i \<in> set (pushed es)" and "Done i \<notin> set es"
  shows "count (queued_ids (run queue_step empty_queue es) + running_ids (run queue_step empty_queue es)) i = 1"
proof -
  let ?q = "run queue_step empty_queue es"
  from held_history [OF assms(1)] assms(2,3) have "queue_inv ?q" "i \<in># held ?q" by auto
  then have "count (held ?q) i \<le> 1" "0 < count (held ?q) i"
    unfolding queue_inv_iff count_greater_zero_iff by (simp_all add: held_def)
  then show ?thesis unfolding held_def by linarith
qed

definition demo_request :: "string \<Rightarrow> int \<Rightarrow> build_request" where
  "demo_request i p = (new_build_request i 0 ''numpy'')\<lparr>br_priority := p\<rparr>"

definition demo_events :: "queue_event list" where
  "demo_events = [Push 1 (demo_request ''a'' 5), Push 2 (demo_request ''b'' 1), Pop, Fail 3 ''b'', Pop, Done ''b'']"

theorem no_job_lost_witness:
  "count (queued_ids (run queue_step empty_queue demo_events)
     + running_ids (run queue_step empty_queue demo_events)) ''a'' = 1"
  by (rule no_job_lost) (simp_all add: demo_events_def demo_request_def new_build_request_def)

end
