(* ===== verification/Base64.thy ===== *)
theory Base64
  imports PyValues
begin

text \<open>
  Base64 as \<^verbatim>\<open>base64.b64encode\<close> and \<^verbatim>\<open>b64decode\<close> do it, the transport encoding of
  signatures and of serialized objects. Decoding ignores characters outside the alphabet, stops at
  the padding that completes a group of four, and raises when the last group is not complete.
\<close>

definition b64_char :: "nat \<Rightarrow> char" where
  "b64_char n =
     (if n < 26 then char_of (65 + n) else if n < 52 then char_of (71 + n)
      else if n < 62 then char_of (n - 4) else if n = 62 then CHR ''+'' else CHR ''/'')"

definition b64_val :: "char \<Rightarrow> nat option" where
  "b64_val c =
     (let n = of_char c :: nat
      in if 65 \<le> n \<and> n \<le> 90 then Some (n - 65) else if 97 \<le> n \<and> n \<le> 122 then Some (n - 71)
         else if 48 \<le> n \<and> n \<le> 57 then Some (n + 4)
         else if n = 43 then Some 62 else if n = 47 then Some 63 else None)"

definition pad_char :: char where
  "pad_char = CHR ''=''"

fun b64_chars :: "nat list \<Rightarrow> string" where
  "b64_chars [] = []"
| "b64_chars [a] = [b64_char (a div 4), b64_char (a mod 4 * 16), pad_char, pad_char]"
| "b64_chars [a, b] =
     [b64_char (a div 4), b64_char (a mod 4 * 16 + b div 16), b64_char (b mod 16 * 4), pad_char]"
| "b64_chars (a # b # c # rest) =
     b64_char (a div 4) # b64_char (a mod 4 * 16 + b div 16) # b64_char (b mod 16 * 4 + c div 64)
       # b64_char (c mod 64) # b64_chars rest"

definition b64encode :: "bytes \<Rightarrow> string" where
  "b64encode bs = b64_chars (map unat bs)"

text \<open>
  The decoder keeps the position in the group of four, the padding seen and the bits left over from
  the last character.
\<close>

fun b64_scan :: "nat \<Rightarrow> nat \<Rightarrow> nat \<Rightarrow> string \<Rightarrow> nat list option" where
  "b64_scan pos pads left [] = (if pos = 0 then Some [] else None)"
| "b64_scan pos pads left (c # cs) =
     (if c = pad_char
      then (if 2 \<le> pos then (if 4 \<le> pos + pads + 1 then Some [] else b64_scan pos (pads + 1) left cs)
            else b64_scan pos pads left cs)
      else (case b64_val c of
              None \<Rightarrow> b64_scan pos pads left cs
            | Some v \<Rightarrow>
                if pos = 0 then b64_scan 1 0 v cs
                else if pos = 1
                then map_option (Cons (left * 4 + v div 16)) (b64_scan 2 0 (v mod 16) cs)
                else if pos = 2
                then map_option (Cons (left * 16 + v div 4)) (b64_scan 3 0 (v mod 4) cs)
                else map_option (Cons (left * 64 + v)) (b64_scan 0 0 0 cs)))"

definition b64decode :: "string \<Rightarrow> py_error + bytes" where
  "b64decode s =
     (case b64_scan 0 0 0 s of
        None \<Rightarrow> Inl (ValueError ''Incorrect padding'')
      | Some ns \<Rightarrow> Inr (map of_nat ns))"

lemma of_char_b64_char:
  "n < 64 \<Longrightarrow> (of_char (b64_char n) :: nat) =
     (if n < 26 then 65 + n else if n < 52 then 71 + n else if n < 62 then n - 4
      else if n = 62 then 43 else 47)"
  by (auto simp: b64_char_def)

lemma b64_val_char [simp]: "n < 64 \<Longrightarrow> b64_val (b64_char n) = Some n"
  unfolding b64_val_def Let_def by (subst of_char_b64_char | assumption)+ auto

lemma b64_char_not_pad [simp]:
  assumes "n < 64"
  shows "b64_char n \<noteq> pad_char"
proof
  assume "b64_char n = pad_char"
  then have "(of_char (b64_char n) :: nat) = 61" by (simp add: pad_char_def)
  with of_char_b64_char [OF assms] assms show False by (auto split: if_splits)
qed

lemma b64_scan_quad:
  assumes "x < 64" and "y < 64"
  shows "b64_scan 0 p l [b64_char x, b64_char y, pad_char, pad_char] = Some [x * 4 + y div 16]"
    and "z < 64 \<Longrightarrow> b64_scan 0 p l [b64_char x, b64_char y, b64_char z, pad_char] =
          Some [x * 4 + y div 16, y mod 16 * 16 + z div 4]"
    and "z < 64 \<Longrightarrow> w < 64 \<Longrightarrow>
         b64_scan 0 p l (b64_char x # b64_char y # b64_char z # b64_char w # cs) =
          map_option (\<lambda>r. (x * 4 + y div 16) # (y mod 16 * 16 + z div 4) # (z mod 4 * 64 + w) # r)
            (b64_scan 0 0 0 cs)"
  using assms by (simp_all add: option.map_comp comp_def)

lemma b64_bits:
  fixes a b c :: nat
  assumes "a < 256"
  shows "a div 4 < 64" "a mod 4 * 16 < 64" "a mod 16 * 4 < 64" "a mod 64 < 64"
    and "a div 4 * 4 + (a mod 4 * 16) div 16 = a"
    and "b < 256 \<Longrightarrow> a mod 4 * 16 + b div 16 < 64" "b < 256 \<Longrightarrow> a mod 16 * 4 + b div 64 < 64"
    and "b < 256 \<Longrightarrow> a div 4 * 4 + (a mod 4 * 16 + b div 16) div 16 = a"
    and "(b mod 4 * 16 + a div 16) mod 16 * 16 + (a mod 16 * 4) div 4 = a"
    and "c < 256 \<Longrightarrow> (b mod 4 * 16 + a div 16) mod 16 * 16 + (a mod 16 * 4 + c div 64) div 4 = a"
    and "(b mod 16 * 4 + a div 64) mod 4 * 64 + a mod 64 = a"
proof -
  have d: "x div 16 < 16" "x div 64 < 4" if "x < 256" for x :: nat using that by auto
  have m: "x mod 4 \<le> 3" "x mod 16 \<le> 15" for x :: nat
    using mod_less_divisor [of 4 x] mod_less_divisor [of 16 x] by auto
  show "a div 4 < 64" "a mod 64 < 64" using assms by auto
  show "a mod 4 * 16 < 64" "a mod 16 * 4 < 64" using m [of a] by linarith+
  show "a mod 4 * 16 + b div 16 < 64" if "b < 256" using m [of a] d [OF that] by linarith
  show "a mod 16 * 4 + b div 64 < 64" if "b < 256" using m [of a] d [OF that] by linarith
  show "a div 4 * 4 + (a mod 4 * 16) div 16 = a" by simp
  show "a div 4 * 4 + (a mod 4 * 16 + b div 16) div 16 = a" if "b < 256"
    using d [OF that] by (simp add: div_mult_self3)
  show "(b mod 4 * 16 + a div 16) mod 16 * 16 + (a mod 16 * 4) div 4 = a"
    using d [OF assms] by (simp add: mod_mult_self3)
  show "(b mod 4 * 16 + a div 16) mod 16 * 16 + (a mod 16 * 4 + c div 64) div 4 = a" if "c < 256"
    using d [OF assms] d [OF that] by (simp add: mod_mult_self3 div_mult_self3)
  show "(b mod 16 * 4 + a div 64) mod 4 * 64 + a mod 64 = a"
    using d [OF assms] by (simp add: mod_mult_self3)
qed

lemma b64_scan_chars: "\<forall>n \<in> set ns. n < 256 \<Longrightarrow> b64_scan 0 0 0 (b64_chars ns) = Some ns"
proof (induction ns rule: b64_chars.induct)
  case (2 a)
  then have "a < 256" by simp
  then show ?case by (simp only: b64_chars.simps b64_scan_quad(1) b64_bits)
next
  case (3 a b)
  then have "a < 256" "b < 256" by auto
  then show ?case by (simp only: b64_chars.simps b64_scan_quad(2) b64_bits)
next
  case (4 a b c rest)
  then have "a < 256" "b < 256" "c < 256" "b64_scan 0 0 0 (b64_chars rest) = Some rest" by auto
  then show ?case by (simp only: b64_chars.simps b64_scan_quad(3) b64_bits option.map)
qed simp

theorem b64_roundtrip [simp]: "b64decode (b64encode bs) = Inr bs"
proof -
  have "\<forall>n \<in> set (map unat bs). n < 256"
    by (auto intro: order_less_le_trans [OF unsigned_less])
  then have "b64_scan 0 0 0 (b64encode bs) = Some (map unat bs)"
    unfolding b64encode_def by (rule b64_scan_chars)
  then show ?thesis by (simp add: b64decode_def comp_def)
qed

end
