(* ===== verification/BuildWorker.thy ===== *)
theory BuildWorker
  imports BuildQueue Base64
begin

text \<open>
  The build worker and what it drives: the cross compiler (\<^verbatim>\<open>builder/compiler.py\<close>), the wheel
  scanner (\<^verbatim>\<open>builder/scanner.py\<close>), the signer (\<^verbatim>\<open>builder/signer.py\<close>) and the loop of
  \<^verbatim>\<open>builder/worker.py\<close>.

  Parameters: \<open>run_process\<close> is what a command does to the file system and how it ends, \<open>read_zip\<close>
  the member table of a zip file (None for bytes that are no zip), \<open>sha256hex\<close> the hash, and
  \<open>ed_sign\<close> and \<open>ed_verify\<close> the Ed25519 operations of the \<^verbatim>\<open>cryptography\<close> package. Logging is
  left out.
\<close>

record toolbox =
  run_process :: "string list \<Rightarrow> fs \<Rightarrow> proc_result \<times> fs"
  read_zip :: "bytes \<Rightarrow> (string \<times> int) list option"
  sha256hex :: "bytes \<Rightarrow> string"
  ed_sign :: "bytes \<Rightarrow> bytes \<Rightarrow> bytes"
  ed_verify :: "bytes \<Rightarrow> bytes \<Rightarrow> bytes \<Rightarrow> bool"

section \<open>The cross compiler\<close>

record compile_result =
  cr_success :: bool
  cr_wheel_path :: "path option"
  cr_log :: string
  cr_error :: string
  cr_duration :: pyfloat

record compiler =
  docker_image :: string
  use_docker :: bool

definition new_compiler :: "string option \<Rightarrow> compiler" where
  "new_compiler env_use_docker =
     \<lparr>docker_image = ''cpip/builder-arm64:latest'',
      use_docker = (lower (case env_use_docker of None \<Rightarrow> ''true'' | Some s \<Rightarrow> s) = ''true'')\<rparr>"

definition build_dir :: path where
  "build_dir = [''tmp'', ''cpip-builds'']"

definition build_command :: "compiler \<Rightarrow> string \<Rightarrow> string \<Rightarrow> string \<Rightarrow> string \<Rightarrow> string list" where
  "build_command c package version python_version target_arch =
     (let version_spec = (if version \<noteq> ''latest'' then ''=='' @ version else '''')
      in if use_docker c
         then [''docker'', ''run'', ''--rm'',
               ''-e'', ''PACKAGE='' @ package @ version_spec,
               ''-e'', ''PYTHON_VERSION='' @ python_version,
               ''-e'', ''TARGET_ARCH='' @ target_arch,
               ''-v'', ''/tmp/cpip-builds:/output'', docker_image c, ''build'']
         else [''pip'', ''wheel'', package @ version_spec, ''--no-deps'', ''-w'', ''/tmp/cpip-builds''])"

text \<open>
  \<open>glob(f"{name}*.whl")\<close> for a name without wildcards of its own: the entries that start with the
  name and end in \<^verbatim>\<open>.whl\<close>, in the order the directory lists them.
\<close>

definition wheel_matches :: "string \<Rightarrow> string \<Rightarrow> bool" where
  "wheel_matches stem file \<longleftrightarrow> prefix stem file \<and> suffix ''.whl'' (drop (length stem) file)"

definition find_wheels :: "fs \<Rightarrow> string \<Rightarrow> path list" where
  "find_wheels d package =
     filter (\<lambda>p. wheel_matches (replace_char (CHR ''-'') (CHR ''_'') package) (last p))
       (fs_iterdir d build_dir)"

definition compile ::
    "toolbox \<Rightarrow> compiler \<Rightarrow> pyfloat \<Rightarrow> string \<Rightarrow> string \<Rightarrow> string \<Rightarrow> string \<Rightarrow> fs
     \<Rightarrow> (py_error + compile_result) \<times> fs" where
  "compile tb c dur package version python_version target_arch d =
     (case fs_mkdir_p build_dir d of
        Inl e \<Rightarrow> (Inl e, d)
      | Inr d1 \<Rightarrow>
          (case run_process tb (build_command c package version python_version target_arch) d1 of
             (Exited code out err, d2) \<Rightarrow>
               if code = 0
               then (let wheels = find_wheels d2 package
                     in (Inr \<lparr>cr_success = True,
                              cr_wheel_path = (if wheels \<noteq> [] then Some (wheels ! 0) else None),
                              cr_log = out, cr_error = '''', cr_duration = dur\<rparr>, d2))
               else (Inr \<lparr>cr_success = False, cr_wheel_path = None, cr_log = out, cr_error = err,
                          cr_duration = dur\<rparr>, d2)
           | (TimedOut, d2) \<Rightarrow>
               (Inr \<lparr>cr_success = False, cr_wheel_path = None, cr_log = '''',
                     cr_error = ''Build timed out (1hr limit)'', cr_duration = 3600\<rparr>, d2)
           | (SpawnFailed e, d2) \<Rightarrow>
               (Inr \<lparr>cr_success = False, cr_wheel_path = None, cr_log = '''', cr_error = e,
                     cr_duration = dur\<rparr>, d2)))"

section \<open>The scanner\<close>

record scan_result =
  sc_package :: string
  sc_clean :: bool
  sc_issues :: "string list"
  sc_sha256 :: string
  sc_file_count :: nat
  sc_total_size :: int

definition unsafe_name :: "string \<Rightarrow> bool" where
  "unsafe_name name \<longleftrightarrow> prefix ''/'' name \<or> sublist ''..'' name"

definition script_name :: "string \<Rightarrow> bool" where
  "script_name name \<longleftrightarrow> (\<exists>e \<in> set [''.sh'', ''.bat'', ''.cmd'', ''.ps1'']. suffix e name)"

definition max_member :: int where
  "max_member = 500 * 1024 * 1024"

text \<open>One member; \<open>getinfo\<close> finds the last member of that name.\<close>

definition scan_name :: "(string \<times> int) list \<Rightarrow> scan_result \<Rightarrow> string \<Rightarrow> scan_result" where
  "scan_name members res name =
     (let res = (if unsafe_name name
                 then res\<lparr>sc_clean := False, sc_issues := sc_issues res @ [''Path traversal: '' @ name]\<rparr>
                 else res);
          res = (if script_name name
                 then res\<lparr>sc_issues := sc_issues res @ [''Script file: '' @ name]\<rparr> else res);
          file_size = (case map_of (rev members) name of None \<Rightarrow> 0 | Some n \<Rightarrow> n)
      in if max_member < file_size
         then res\<lparr>sc_issues := sc_issues res @
                [''Oversized file: '' @ name @ '' ('' @ int_str file_size @ '' bytes)'']\<rparr>
         else res)"

definition scan_wheel :: "toolbox \<Rightarrow> fs \<Rightarrow> path \<Rightarrow> py_error + scan_result" where
  "scan_wheel tb d p =
     (case fs_read d p of
        Inl e \<Rightarrow> Inl e
      | Inr data \<Rightarrow>
          (let res = \<lparr>sc_package = (if p = [] then '''' else last p), sc_clean = True, sc_issues = [],
                      sc_sha256 = sha256hex tb data, sc_file_count = 0, sc_total_size = 0\<rparr>
           in case read_zip tb data of
                None \<Rightarrow> Inr (res\<lparr>sc_clean := False, sc_issues := [''Not a valid zip/wheel file'']\<rparr>)
              | Some members \<Rightarrow>
                  Inr (foldl (scan_name members)
                         (res\<lparr>sc_file_count := length members,
                              sc_total_size := sum_list (map snd members)\<rparr>)
                         (map fst members))))"

section \<open>The signer\<close>

record signer =
  private_key :: "bytes option"
  public_key :: "bytes option"

definition sign_file :: "toolbox \<Rightarrow> signer \<Rightarrow> fs \<Rightarrow> path \<Rightarrow> py_error + string" where
  "sign_file tb sg d p =
     (case private_key sg of
        None \<Rightarrow> Inl (ValueError ''No private key available'')
      | Some k \<Rightarrow>
          (case fs_read d p of
             Inl e \<Rightarrow> Inl e
           | Inr data \<Rightarrow> Inr (b64encode (ed_sign tb k data))))"

definition verify_file :: "toolbox \<Rightarrow> signer \<Rightarrow> fs \<Rightarrow> path \<Rightarrow> string \<Rightarrow> py_error + bool" where
  "verify_file tb sg d p signature_b64 =
     (case public_key sg of
        None \<Rightarrow> Inl (ValueError ''No public key available'')
      | Some k \<Rightarrow>
          (case fs_read d p of
             Inl e \<Rightarrow> Inl e
           | Inr data \<Rightarrow>
               (case b64decode signature_b64 of
                  Inl e \<Rightarrow> Inl e
                | Inr signature \<Rightarrow> Inr (ed_verify tb k signature data))))"

text \<open>
  Keys: a signer is made from a new private key or from the PEM text of one, and both its keys can be
  exported. The key formats and the public key of a private one are parameters.
\<close>

definition new_signer :: "(bytes \<Rightarrow> bytes) \<Rightarrow> bytes \<Rightarrow> signer" where
  "new_signer public_of k = \<lparr>private_key = Some k, public_key = Some (public_of k)\<rparr>"

definition signer_from_key_file ::
    "(bytes \<Rightarrow> py_error + bytes) \<Rightarrow> (bytes \<Rightarrow> bytes) \<Rightarrow> fs \<Rightarrow> path \<Rightarrow> py_error + signer" where
  "signer_from_key_file read_private public_of d p =
     (case fs_read d p of
        Inl e \<Rightarrow> Inl e
      | Inr data \<Rightarrow> map_sum id (new_signer public_of) (read_private data))"

definition export_public_key :: "(bytes \<Rightarrow> string) \<Rightarrow> signer \<Rightarrow> py_error + string" where
  "export_public_key public_pem sg =
     (case public_key sg of None \<Rightarrow> Inl (ValueError ''No public key'') | Some k \<Rightarrow> Inr (public_pem k))"

definition export_private_key :: "(bytes \<Rightarrow> string) \<Rightarrow> signer \<Rightarrow> py_error + string" where
  "export_private_key private_pem sg =
     (case private_key sg of None \<Rightarrow> Inl (ValueError ''No private key'') | Some k \<Rightarrow> Inr (private_pem k))"

section \<open>The worker\<close>

definition process_build ::
    "toolbox \<Rightarrow> compiler \<Rightarrow> signer \<Rightarrow> pyfloat \<Rightarrow> pyfloat \<Rightarrow> build_request \<Rightarrow> build_queue \<times> fs
     \<Rightarrow> build_queue \<times> fs" where
  "process_build tb c sg dur now req st =
     (let (q, d) = st;
          give_back = (\<lambda>d. (fail now (br_request_id req) q, d))
      in case compile tb c dur (br_package_name req) (br_package_version req)
                (br_python_version req) (br_target_architecture req) d of
           (Inl e, d) \<Rightarrow> give_back d
         | (Inr res, d) \<Rightarrow>
             (case (if cr_success res then cr_wheel_path res else None) of
                None \<Rightarrow> give_back d
              | Some wheel \<Rightarrow>
                  (case scan_wheel tb d wheel of
                     Inl e \<Rightarrow> give_back d
                   | Inr scan \<Rightarrow>
                       if \<not> sc_clean scan then give_back d
                       else (case sign_file tb sg d wheel of
                               Inl e \<Rightarrow> give_back d
                             | Inr signature \<Rightarrow> (complete (br_request_id req) q, d)))))"

text \<open>One round of the loop in \<open>start\<close>; with an empty queue the worker sleeps.\<close>

definition worker_step ::
    "toolbox \<Rightarrow> compiler \<Rightarrow> signer \<Rightarrow> build_queue \<times> fs \<Rightarrow> pyfloat \<times> pyfloat \<Rightarrow> build_queue \<times> fs" where
  "worker_step tb c sg st clock =
     (case pop (fst st) of
        (Some req, q) \<Rightarrow> process_build tb c sg (fst clock) (snd clock) req (q, snd st)
      | (None, q) \<Rightarrow> (q, snd st))"

text \<open>
  The loop: before every round it looks at the flag that \<open>stop\<close> clears. A round is given by whether the worker
  has been told to stop by then, and the clock.
\<close>

fun worker_run ::
    "toolbox \<Rightarrow> compiler \<Rightarrow> signer \<Rightarrow> (bool \<times> pyfloat \<times> pyfloat) list \<Rightarrow> build_queue \<times> fs \<Rightarrow> build_queue \<times> fs" where
  "worker_run tb c sg [] st = st"
| "worker_run tb c sg ((stopped, clock) # rounds) st =
     (if stopped then st else worker_run tb c sg rounds (worker_step tb c sg st clock))"

section \<open>The scanner is right about path traversal\<close>

lemma scan_name_clean:
  "sc_clean (scan_name members res name) \<longleftrightarrow> sc_clean res \<and> \<not> unsafe_name name"
  by (simp add: scan_name_def Let_def)

lemma scan_names_clean:
  "sc_clean (foldl (scan_name members) res names) \<longleftrightarrow> sc_clean res \<and> (\<forall>n \<in> set names. \<not> unsafe_name n)"
  by (induction names arbitrary: res) (auto simp: scan_name_clean)

lemma scan_clean_iff:
  "scan_wheel tb d p = Inr scan \<Longrightarrow>
   sc_clean scan \<longleftrightarrow>
     (case fs_read d p of
        Inl _ \<Rightarrow> False
      | Inr data \<Rightarrow>
          (case read_zip tb data of
             None \<Rightarrow> False
           | Some members \<Rightarrow> \<forall>n \<in> set (map fst members). \<not> unsafe_name n))"
  by (cases "fs_read d p"; cases "read_zip tb (projr (fs_read d p))")
    (auto simp add: scan_wheel_def Let_def scan_names_clean simp del: set_map)

lemma safe_name_stays_inside:
  assumes "\<not> unsafe_name name" and "normal_path target"
  shows "prefix target (abspath_join target name) \<and> normal_path (abspath_join target name)"
proof -
  let ?cs = "split_on (CHR ''/'') name"
  have "''..'' \<notin> set ?cs"
    using assms(1) split_on_sublist [of "''..''" "CHR ''/''" name] by (auto simp: unsafe_name_def)
  then have "prefix target (norm_parts target ?cs)"
    by (rule norm_parts_prefix_no_dotdot)
  moreover have "abspath_join target name = norm_parts target ?cs"
    using assms norm_parts_normal [OF assms(2), of "[]"]
    by (simp add: abspath_join_def unsafe_name_def norm_parts_append)
  ultimately show ?thesis using assms(2) by (simp add: normal_path_norm_parts)
qed

text \<open>
  C38: If the scanner calls a wheel clean, the wheel is a zip file and unpacking any of its members
  below a directory stays below that directory, wherever the directory is.
\<close>

theorem clean_wheel_unpacks_inside:
  assumes "scan_wheel tb d p = Inr scan" and "sc_clean scan"
    and "normal_path target"
  shows "\<exists>data members. fs_read d p = Inr data \<and> read_zip tb data = Some members \<and>
    (\<forall>(name, size) \<in> set members. prefix target (abspath_join target name))"
proof -
  from scan_clean_iff [OF assms(1)] assms(2) obtain data members where
    m: "fs_read d p = Inr data" "read_zip tb data = Some members"
    "\<forall>n \<in> set (map fst members). \<not> unsafe_name n"
    by (auto split: sum.splits option.splits)
  have "prefix target (abspath_join target name)" if "(name, size) \<in> set members" for name size
    using that m(3) safe_name_stays_inside [OF _ assms(3)] by (force intro!: imageI)
  with m show ?thesis by blast
qed

definition demo_tools :: toolbox where
  "demo_tools =
     \<lparr>run_process = (\<lambda>cmd d. (Exited 0 '''' '''', dset (build_dir @ [''numpy-2.0.whl'']) (File [1]) d)),
      read_zip = (\<lambda>b. if b = [1] then Some [(''numpy/core.py'', 10), (''install.sh'', 5)] else None),
      sha256hex = (\<lambda>b. if b = [1] then ''one'' else ''other''),
      ed_sign = (\<lambda>k b. k @ b),
      ed_verify = (\<lambda>k s b. s = k @ b)\<rparr>"

definition demo_signer :: signer where
  "demo_signer = \<lparr>private_key = Some [7], public_key = Some [7]\<rparr>"

definition demo_disk :: fs where
  "demo_disk = [(build_dir @ [''numpy-2.0.whl''], File [1])]"

theorem clean_wheel_unpacks_inside_witness:
  "prefix [''site-packages''] (abspath_join [''site-packages''] ''numpy/core.py'')"
proof -
  let ?scan = "scan_wheel demo_tools demo_disk (build_dir @ [''numpy-2.0.whl''])"
  have ok: "?scan = Inr (projr ?scan)" and clean: "sc_clean (projr ?scan)" by code_simp+
  have "normal_path [''site-packages'']" by code_simp
  from clean_wheel_unpacks_inside [OF ok clean this] obtain data members where
    *: "fs_read demo_disk (build_dir @ [''numpy-2.0.whl'']) = Inr data"
    "read_zip demo_tools data = Some members"
    "\<forall>(name, size) \<in> set members. prefix [''site-packages''] (abspath_join [''site-packages''] name)"
    by blast
  from *(1) have "data = [1]" by (simp add: demo_disk_def fs_read_def)
  with *(2) have "(''numpy/core.py'', 10) \<in> set members" by (auto simp: demo_tools_def)
  with *(3) show ?thesis by blast
qed

section \<open>Signatures verify\<close>

text \<open>
  The signature that \<open>sign_file\<close> gives for a file verifies, with the public key of the same pair,
  for every file with the same content, and for no file with other content that the Ed25519 check
  refuses: \<open>verify_file\<close> says exactly what the check says of the raw signature.
\<close>

theorem signature_roundtrip:
  assumes "private_key sg = Some k" and "public_key sg = Some pk"
    and "sign_file tb sg d p = Inr s" and "fs_read d p = Inr data" and "fs_read d' p' = Inr data'"
    and "\<And>m. ed_verify tb pk (ed_sign tb k m) m"
  shows "verify_file tb sg d' p' s = Inr (ed_verify tb pk (ed_sign tb k data) data') \<and>
    (data' = data \<longrightarrow> verify_file tb sg d' p' s = Inr True)"
  using assms by (auto simp: sign_file_def verify_file_def)

theorem signature_roundtrip_witness:
  "verify_file demo_tools demo_signer demo_disk (build_dir @ [''numpy-2.0.whl''])
     (projr (sign_file demo_tools demo_signer demo_disk (build_dir @ [''numpy-2.0.whl'']))) = Inr True"
proof -
  let ?p = "build_dir @ [''numpy-2.0.whl'']"
  have r: "fs_read demo_disk ?p = Inr [1]" by (simp add: demo_disk_def fs_read_def)
  have s: "sign_file demo_tools demo_signer demo_disk ?p =
      Inr (projr (sign_file demo_tools demo_signer demo_disk ?p))"
    by (simp add: sign_file_def r demo_signer_def)
  have v: "\<And>m. ed_verify demo_tools [7] (ed_sign demo_tools [7] m) m" by (simp add: demo_tools_def)
  show ?thesis
    using signature_roundtrip [OF _ _ s r r v] by (simp add: demo_signer_def v)
qed

section \<open>What a build does to its job\<close>

text \<open>When a round publishes: the command succeeded, left a wheel, and the wheel is clean and signed.\<close>

definition build_passes ::
    "toolbox \<Rightarrow> compiler \<Rightarrow> signer \<Rightarrow> pyfloat \<Rightarrow> build_request \<Rightarrow> fs \<Rightarrow> bool" where
  "build_passes tb c sg dur req d =
     (case compile tb c dur (br_package_name req) (br_package_version req)
             (br_python_version req) (br_target_architecture req) d of
        (Inr res, d) \<Rightarrow>
          cr_success res \<and>
          (case cr_wheel_path res of
             None \<Rightarrow> False
           | Some wheel \<Rightarrow>
               (case scan_wheel tb d wheel of Inl _ \<Rightarrow> False | Inr scan \<Rightarrow> sc_clean scan) \<and>
               is_ok (sign_file tb sg d wheel))
      | _ \<Rightarrow> False)"

lemma process_build_queue:
  "fst (process_build tb c sg dur now req (q, d)) =
     (if build_passes tb c sg dur req d then complete (br_request_id req) q
      else fail now (br_request_id req) q)"
  by (auto simp: process_build_def build_passes_def Let_def
      split: prod.splits sum.splits option.splits if_splits)

lemma worker_step_settles:
  assumes "queue_inv q" and "pop q = (Some req, q')"
  shows "queue_inv (fst (worker_step tb c sg (q, d) (dur, now)))"
    "queued_ids (fst (worker_step tb c sg (q, d) (dur, now))) =
      (if build_passes tb c sg dur req d then queued_ids q - {#br_request_id req#} else queued_ids q)"
  using jobs.take_finish [OF assms] jobs.take_retry [OF assms, of now]
  by (simp_all add: worker_step_def assms(2) process_build_queue)

text \<open>
  C37: A round of the worker on a queue with waiting jobs takes one job and settles it: if its build
  produced a wheel that is clean and could be signed, the job leaves the queue, and otherwise it waits
  again. No other job is touched, and nothing stays in the worker's hands.
\<close>

theorem worker_settles_one_job:
  assumes "queue_inv q" and "pop q = (Some req, q')"
  shows "queue_inv (fst (worker_step tb c sg (q, d) (dur, now))) \<and>
    running_ids (fst (worker_step tb c sg (q, d) (dur, now))) = running_ids q \<and>
    queued_ids (fst (worker_step tb c sg (q, d) (dur, now))) =
      (if build_passes tb c sg dur req d then queued_ids q - {#br_request_id req#} else queued_ids q)"
  using jobs.take_finish [OF assms] jobs.take_retry [OF assms, of now]
  by (simp add: worker_step_def assms(2) process_build_queue)

text \<open>
  However long the worker runs and whenever it is told to stop, it leaves no job in its hands, and every job it did
  not finish is in the queue.
\<close>

theorem worker_stops_clean:
  assumes "queue_inv (fst st)"
  shows "queue_inv (fst (worker_run tb c sg rounds st)) \<and>
    running_ids (fst (worker_run tb c sg rounds st)) = running_ids (fst st) \<and>
    queued_ids (fst (worker_run tb c sg rounds st)) \<subseteq># queued_ids (fst st)"
  using assms
proof (induction rounds arbitrary: st)
  case (Cons r rounds)
  obtain stopped dur now where r: "r = (stopped, dur, now)" by (cases r)
  obtain q d where st: "st = (q, d)" by (cases st)
  let ?st = "worker_step tb c sg st (dur, now)"
  have "queue_inv (fst ?st) \<and> running_ids (fst ?st) = running_ids q \<and> queued_ids (fst ?st) \<subseteq># queued_ids q"
  proof (cases "pop q")
    case (Pair job q')
    show ?thesis
    proof (cases job)
      case None
      with Pair Cons.prems st pop_none [of q q'] show ?thesis by (simp add: worker_step_def)
    next
      case (Some req)
      with Pair Cons.prems st worker_step_settles [of q req q'] jobs.take_finish [of q req q'] jobs.take_retry [of q req q' now]
      show ?thesis by (auto simp: worker_step_def process_build_queue)
    qed
  qed
  with Cons.IH [of ?st] Cons.prems r st show ?case by (auto intro: subset_mset.order_trans)
qed simp

lemma worker_idle: "pop q = (None, q') \<Longrightarrow> worker_step tb c sg (q, d) t = (q', d)"
  by (simp add: worker_step_def)

definition demo_compiler :: compiler where
  "demo_compiler = new_compiler None"

definition demo_queue :: build_queue where
  "demo_queue = push 2 (demo_request ''b'' 1) (push 1 (demo_request ''a'' 5) empty_queue)"

lemma demo_queue_inv: "queue_inv demo_queue"
  by (simp add: demo_queue_def queue_inv_def waiting_ids_def push_def empty_queue_def
      job_request_def demo_request_def new_build_request_def job_key_def)

theorem worker_settles_one_job_witness:
  "queued_ids (fst (worker_step demo_tools demo_compiler demo_signer (demo_queue, []) (1, 9))) = {#''a''#}"
proof -
  have p: "fst (pop demo_queue) = Some (demo_request ''b'' 1)" by code_simp
  have b: "build_passes demo_tools demo_compiler demo_signer 1 (demo_request ''b'' 1) []" by code_simp
  have ids: "queued_ids demo_queue = {#''b'', ''a''#}"
    by (simp add: demo_queue_def queued_push) (simp add: demo_request_def new_build_request_def
        queued_ids_def waiting_ids_def empty_queue_def)
  from worker_settles_one_job [OF demo_queue_inv pair_sndI [OF p],
      of demo_tools demo_compiler demo_signer "[]" 1 9] b ids
  show ?thesis by (simp add: demo_request_def new_build_request_def)
qed

theorem worker_stops_clean_witness:
  "running_ids (fst (worker_run demo_tools demo_compiler demo_signer [(False, 1, 9), (True, 1, 10)] (demo_queue, []))) =
     running_ids demo_queue"
  using worker_stops_clean [of "(demo_queue, [])" demo_tools demo_compiler demo_signer "[(False, 1, 9), (True, 1, 10)]"]
    demo_queue_inv by simp

text \<open>
  A build that cannot pass is never given up: however many rounds the worker makes, the same jobs
  are still queued, and \<open>BUILD_MAX_RETRIES\<close> plays no role.
\<close>

theorem failing_builds_retry_forever:
  assumes "queue_inv q"
    and "\<And>cmd d code o' e'. fst (run_process tb cmd d) = Exited code o' e' \<Longrightarrow> code \<noteq> 0"
  shows "queued_ids (fst (run (worker_step tb c sg) (q, d) clock)) = queued_ids q"
proof -
  have no: "\<not> build_passes tb c sg dur req d" for dur req d
  proof -
    have "\<not> cr_success res" if "compile tb c dur p v py arch d = (Inr res, d')" for p v py arch res d'
    proof (cases "fs_mkdir_p build_dir d")
      case (Inr d1)
      then show ?thesis
        using that assms(2) [of "build_command c p v py arch" d1]
        by (cases "run_process tb (build_command c p v py arch) d1";
            cases "fst (run_process tb (build_command c p v py arch) d1)")
          (auto simp: compile_def)
    qed (use that in \<open>simp add: compile_def\<close>)
    then show ?thesis unfolding build_passes_def by (auto split: prod.splits sum.splits)
  qed
  have "queue_inv (fst (run (worker_step tb c sg) (q, d) clock)) \<and>
      queued_ids (fst (run (worker_step tb c sg) (q, d) clock)) = queued_ids q"
  proof (induction clock rule: rev_induct)
    case (snoc t clock)
    obtain qa da where st: "run (worker_step tb c sg) (q, d) clock = (qa, da)" by (rule prod.exhaust)
    obtain x qb where p: "pop qa = (x, qb)" by (rule prod.exhaust)
    from snoc st have inv: "queue_inv qa" and ids: "queued_ids qa = queued_ids q" by auto
    show ?case
    proof (cases x)
      case None
      with p pop_none [of qa qb] worker_idle [of qa] st inv ids show ?thesis by simp
    next
      case (Some req)
      with worker_step_settles [OF inv, of req qb tb c sg da "fst t" "snd t"] p st ids no
      show ?thesis by simp
    qed
  qed (use assms(1) in simp)
  then show ?thesis ..
qed

definition broken_tools :: toolbox where
  "broken_tools = demo_tools\<lparr>run_process := (\<lambda>cmd d. (Exited 1 [] ''no compiler'', d))\<rparr>"

theorem failing_builds_retry_forever_witness:
  "queued_ids (fst (run (worker_step broken_tools demo_compiler demo_signer) (demo_queue, [])
     [(1, 1), (1, 2), (1, 3), (1, 4), (1, 5), (1, 6), (1, 7), (1, 8)])) = {#''a'', ''b''#}"
proof -
  have ids: "queued_ids demo_queue = {#''a'', ''b''#}"
    by (simp add: demo_queue_def queued_push) (simp add: demo_request_def new_build_request_def
        queued_ids_def waiting_ids_def empty_queue_def)
  show ?thesis
    by (subst failing_builds_retry_forever [OF demo_queue_inv])
      (auto simp: broken_tools_def ids)
qed

section \<open>Which wheel a build reports\<close>

text \<open>
  After a successful command the compiler reports the first wheel listed in the shared build
  directory whose name starts with the package's name, whatever version was asked for: if the wheel
  of another package with a longer name, or of another version, is listed first, that one is
  reported, scanned and signed.
\<close>

theorem compile_reports_first_match:
  assumes "fs_mkdir_p build_dir d = Inr d1"
    and "run_process tb (build_command c package version python_version arch) d1 = (Exited 0 out err, d2)"
    and "fs_iterdir d2 build_dir = pre @ (build_dir @ [file]) # post"
    and "\<forall>p \<in> set pre. \<not> prefix stem (last p)"
    and "stem = replace_char (CHR ''-'') (CHR ''_'') package" and "file = stem @ rest @ ''.whl''"
  shows "\<exists>res. fst (compile tb c dur package version python_version arch d) = Inr res \<and>
    cr_success res \<and> cr_wheel_path res = Some (build_dir @ [stem @ rest @ ''.whl''])"
proof -
  have "filter (\<lambda>p. wheel_matches stem (last p)) pre = []"
    using assms(4) by (auto simp: filter_empty_conv wheel_matches_def)
  moreover have "wheel_matches stem file"
    by (simp add: assms(6) wheel_matches_def suffix_def)
  ultimately have "find_wheels d2 package =
      (build_dir @ [file]) # filter (\<lambda>p. wheel_matches stem (last p)) post"
    using assms(3,5) by (simp add: find_wheels_def)
  with assms(1,2,6) show ?thesis by (simp add: compile_def)
qed

definition stale_disk :: fs where
  "stale_disk = [([], Dir), ([''tmp''], Dir), (build_dir, Dir), (build_dir @ [''numpy_financial-1.0.whl''], File [9])]"

theorem compile_reports_first_match_witness:
  "\<exists>res. fst (compile demo_tools demo_compiler 1 ''numpy'' ''2.0'' ''3.11'' ''aarch64'' stale_disk) = Inr res \<and>
    cr_success res \<and> cr_wheel_path res = Some (build_dir @ [''numpy'' @ ''_financial-1.0'' @ ''.whl''])"
proof (rule compile_reports_first_match)
  show "fs_mkdir_p build_dir stale_disk = Inr stale_disk" by code_simp
  show "run_process demo_tools (build_command demo_compiler ''numpy'' ''2.0'' ''3.11'' ''aarch64'') stale_disk =
      (Exited 0 [] [], stale_disk @ [(build_dir @ [''numpy-2.0.whl''], File [1])])"
    by (simp add: demo_tools_def stale_disk_def build_dir_def)
  show "fs_iterdir (stale_disk @ [(build_dir @ [''numpy-2.0.whl''], File [1])]) build_dir =
      [] @ (build_dir @ [''numpy_financial-1.0.whl'']) # [build_dir @ [''numpy-2.0.whl'']]"
    by code_simp
  show "''numpy'' = replace_char (CHR ''-'') (CHR ''_'') ''numpy''" by code_simp
  show "''numpy_financial-1.0.whl'' = ''numpy'' @ ''_financial-1.0'' @ ''.whl''" by simp
qed simp

end
