(* ===== verification/Auth.thy ===== *)
theory Auth
  imports RateLimiter Models
begin

text \<open>
  Tokens and authentication of the server: \<^verbatim>\<open>server/auth/jwt_handler.py\<close>,
  \<^verbatim>\<open>server/auth/middleware.py\<close> and \<^verbatim>\<open>server/api/auth.py\<close>.

  The JWT package is the parameter \<open>jwt_lib\<close>: encoding claims with a secret, and decoding a token at
  a time, None standing for \<^verbatim>\<open>JWTError\<close>. What is assumed of it is \<open>jwt_law\<close>. Fresh identifiers and
  the clock are arguments. A handler returns its result or the HTTP error.
\<close>

section \<open>The configuration of the server\<close>

record server_config =
  sc_host :: string
  sc_port :: int
  debug :: bool
  sc_database_url :: string
  sc_redis_url :: string
  jwt_secret :: string
  sc_cors_origins :: "string list"

text \<open>Read when the module is imported; a port that is no number stops the server there.\<close>

definition server_config_from_env :: "(string, string) dict \<Rightarrow> py_error + server_config" where
  "server_config_from_env env =
     (case py_int (dget_or env ''CPIP_PORT'' ''8000'') of
        None \<Rightarrow> Inl (ValueError (''invalid literal for int() with base 10: '' @ dget_or env ''CPIP_PORT'' ''8000''))
      | Some port \<Rightarrow>
          Inr \<lparr>sc_host = dget_or env ''CPIP_HOST'' ''0.0.0.0'', sc_port = port,
               debug = (lower (dget_or env ''CPIP_DEBUG'' ''false'') = ''true''),
               sc_database_url = dget_or env ''DATABASE_URL'' ''sqlite+aiosqlite:///./cpip.db'',
               sc_redis_url = dget_or env ''REDIS_URL'' ''redis://localhost:6379/0'',
               jwt_secret = dget_or env ''JWT_SECRET'' ''cpip-dev-secret-change-in-production'',
               sc_cors_origins = [''*'']\<rparr>)"

record jwt_lib =
  jwt_encode :: "pydict \<Rightarrow> string \<Rightarrow> string"
  jwt_decode :: "string \<Rightarrow> string \<Rightarrow> pyfloat \<Rightarrow> pydict option"

section \<open>Tokens\<close>

definition access_minutes :: nat where
  "access_minutes = 60"

definition refresh_days :: nat where
  "refresh_days = 30"

text \<open>The claims carry the expiry as whole seconds, as JWT does.\<close>

definition access_claims :: "pyfloat \<Rightarrow> pydict \<Rightarrow> pyfloat option \<Rightarrow> pydict" where
  "access_claims now data expires_delta =
     (let delta = (case expires_delta of
                     None \<Rightarrow> of_nat (access_minutes * 60)
                   | Some x \<Rightarrow> if x = 0 then of_nat (access_minutes * 60) else x)
      in dset ''type'' (PStr ''access'') (dset ''exp'' (PInt \<lfloor>now + delta\<rfloor>) data))"

definition refresh_claims :: "pyfloat \<Rightarrow> pydict \<Rightarrow> pydict" where
  "refresh_claims now data =
     dset ''type'' (PStr ''refresh'')
       (dset ''exp'' (PInt \<lfloor>now + of_nat (refresh_days * 86400)\<rfloor>) data)"

definition create_access_token ::
    "jwt_lib \<Rightarrow> server_config \<Rightarrow> pyfloat \<Rightarrow> pydict \<Rightarrow> pyfloat option \<Rightarrow> string" where
  "create_access_token J cfg now data expires_delta =
     jwt_encode J (access_claims now data expires_delta) (jwt_secret cfg)"

definition create_refresh_token :: "jwt_lib \<Rightarrow> server_config \<Rightarrow> pyfloat \<Rightarrow> pydict \<Rightarrow> string" where
  "create_refresh_token J cfg now data = jwt_encode J (refresh_claims now data) (jwt_secret cfg)"

definition decode_token :: "jwt_lib \<Rightarrow> server_config \<Rightarrow> pyfloat \<Rightarrow> string \<Rightarrow> pydict option" where
  "decode_token J cfg now token = jwt_decode J token (jwt_secret cfg) now"

definition token_data :: "string \<Rightarrow> string \<Rightarrow> pydict" where
  "token_data user_id device_id = [(''sub'', PStr user_id), (''device_id'', PStr device_id)]"

definition create_token_pair ::
    "jwt_lib \<Rightarrow> server_config \<Rightarrow> pyfloat \<Rightarrow> string \<Rightarrow> string \<Rightarrow> pydict" where
  "create_token_pair J cfg now user_id device_id =
     (let data = token_data user_id device_id
      in [(''access_token'', PStr (create_access_token J cfg now data None)),
          (''refresh_token'', PStr (create_refresh_token J cfg now data)),
          (''token_type'', PStr ''bearer''),
          (''expires_in'', PInt (int access_minutes * 60))])"

section \<open>The middleware\<close>

definition get_current_user ::
    "jwt_lib \<Rightarrow> server_config \<Rightarrow> pyfloat \<Rightarrow> string option \<Rightarrow> http_error + pydict" where
  "get_current_user J cfg now credentials =
     (case credentials of
        None \<Rightarrow>
          if debug cfg
          then Inr [(''sub'', PStr ''anonymous''), (''device_id'', PStr ''local''), (''tier'', PStr ''dev'')]
          else Inl (HTTPException 401 ''Not authenticated'' [])
      | Some c \<Rightarrow>
          if debug cfg \<and> prefix ''dev_'' c
          then Inr [(''sub'', PStr ''dev-user''), (''device_id'', PStr (drop 4 c)), (''tier'', PStr ''dev'')]
          else (case decode_token J cfg now c of
                  None \<Rightarrow> Inl (HTTPException 401 ''Invalid token'' [])
                | Some payload \<Rightarrow>
                    if payload = [] then Inl (HTTPException 401 ''Invalid token'' [])
                    else Inr payload))"

definition require_auth ::
    "jwt_lib \<Rightarrow> server_config \<Rightarrow> pyfloat \<Rightarrow> string option \<Rightarrow> http_error + pydict" where
  "require_auth J cfg now credentials =
     (case get_current_user J cfg now credentials of
        Inl e \<Rightarrow> Inl e
      | Inr user \<Rightarrow>
          (if dget user ''sub'' = Some (PStr ''anonymous'')
           then Inl (HTTPException 401 ''Authentication required'' []) else Inr user))"

section \<open>The endpoints\<close>

definition login ::
    "jwt_lib \<Rightarrow> server_config \<Rightarrow> pyfloat \<Rightarrow> string \<Rightarrow> string \<Rightarrow> string \<Rightarrow> string \<Rightarrow> http_error + pydict" where
  "login J cfg now uuid_device uuid_hex api_key device_id =
     (let device_id = (if device_id \<noteq> [] then device_id else uuid_device);
          user_id = ''user_'' @ take 8 uuid_hex
      in Inr (dset ''device_id'' (PStr device_id) (create_token_pair J cfg now user_id device_id)))"

definition register_user ::
    "jwt_lib \<Rightarrow> server_config \<Rightarrow> pyfloat \<Rightarrow> string \<Rightarrow> string \<Rightarrow> string \<Rightarrow> string option \<Rightarrow> http_error + pydict" where
  "register_user J cfg now user_id key_hex device_id email =
     Inr (dset ''device_id'' (PStr device_id)
       (dset ''api_key'' (PStr (''cpip_'' @ key_hex))
         (dset ''user_id'' (PStr user_id) (create_token_pair J cfg now user_id device_id))))"

text \<open>A payload without \<^verbatim>\<open>sub\<close> is a KeyError in the handler, which the framework answers with 500.\<close>

definition refresh :: "jwt_lib \<Rightarrow> server_config \<Rightarrow> pyfloat \<Rightarrow> string \<Rightarrow> http_error + pydict" where
  "refresh J cfg now refresh_token =
     (case decode_token J cfg now refresh_token of
        None \<Rightarrow> Inl (HTTPException 401 ''Invalid refresh token'' [])
      | Some payload \<Rightarrow>
          (if payload = [] \<or> dget payload ''type'' \<noteq> Some (PStr ''refresh'')
           then Inl (HTTPException 401 ''Invalid refresh token'' [])
           else (case (dget payload ''sub'', dget_or payload ''device_id'' (PStr [])) of
                   (Some (PStr user), PStr device) \<Rightarrow> Inr (create_token_pair J cfg now user device)
                 | _ \<Rightarrow> Inl (HTTPException 500 ''Internal Server Error'' []))))"

definition get_me :: "pydict \<Rightarrow> pydict" where
  "get_me user =
     [(''user_id'', dget_or user ''sub'' PNone), (''device_id'', dget_or user ''device_id'' PNone),
      (''tier'', dget_or user ''tier'' (PStr ''free''))]"

section \<open>What tokens are good for\<close>

text \<open>
  What the JWT package promises for a token it made: with the same secret it decodes to its claims
  until the second in \<^verbatim>\<open>exp\<close> is over, and then it is refused.
\<close>

definition jwt_law :: "jwt_lib \<Rightarrow> string \<Rightarrow> pydict \<Rightarrow> bool" where
  "jwt_law J secret claims \<longleftrightarrow>
     (\<forall>now. jwt_decode J (jwt_encode J claims secret) secret now =
        (case dget claims ''exp'' of
           Some (PInt e) \<Rightarrow> if \<lfloor>now\<rfloor> \<le> e then Some claims else None
         | _ \<Rightarrow> Some claims))"

lemma claims_fields [simp]:
  "dget (access_claims now data d) ''type'' = Some (PStr ''access'')"
  "dget (refresh_claims now data) ''type'' = Some (PStr ''refresh'')"
  "dget (access_claims now (token_data u v) d) ''sub'' = Some (PStr u)"
  "dget (refresh_claims now (token_data u v)) ''sub'' = Some (PStr u)"
  "dget (refresh_claims now (token_data u v)) ''device_id'' = Some (PStr v)"
  "dget (access_claims now data None) ''exp'' = Some (PInt \<lfloor>now + 3600\<rfloor>)"
  "dget (refresh_claims now data) ''exp'' = Some (PInt \<lfloor>now + 2592000\<rfloor>)"
  by (simp_all add: access_claims_def refresh_claims_def token_data_def dict_laws Let_def
      access_minutes_def refresh_days_def)

lemma claims_ne [simp]: "access_claims now data d \<noteq> []" "refresh_claims now data \<noteq> []"
  using claims_fields(1,2) by (metis map_of.simps(1) option.distinct(1))+

text \<open>
  Outside debug mode an access token authenticates its user for the 60 minutes of its life, to
  the second, and is refused afterwards.
\<close>

theorem access_token_lifetime:
  assumes "\<not> debug cfg" and "user_id \<noteq> ''anonymous''"
    and "jwt_law J (jwt_secret cfg) (access_claims now (token_data user_id device_id) None)"
  shows "require_auth J cfg later (Some (create_access_token J cfg now (token_data user_id device_id) None)) =
    (if \<lfloor>later\<rfloor> \<le> \<lfloor>now + 3600\<rfloor> then Inr (access_claims now (token_data user_id device_id) None)
     else Inl (HTTPException 401 ''Invalid token'' []))"
  using assms
  by (simp add: require_auth_def get_current_user_def decode_token_def create_access_token_def jwt_law_def)

text \<open>A JWT package that knows the tokens of one user, for the witnesses.\<close>

definition demo_jwt :: "pyfloat \<Rightarrow> jwt_lib" where
  "demo_jwt t = (let data = token_data ''user_1'' ''phone'' in
     \<lparr>jwt_encode = (\<lambda>c s. if dget c ''type'' = Some (PStr ''refresh'') then ''r'' else ''a''),
      jwt_decode = (\<lambda>token s now.
        if token = ''a'' then (if \<lfloor>now\<rfloor> \<le> \<lfloor>t + 3600\<rfloor> then Some (access_claims t data None) else None)
        else if token = ''r'' then (if \<lfloor>now\<rfloor> \<le> \<lfloor>t + 2592000\<rfloor> then Some (refresh_claims t data) else None)
        else None)\<rparr>)"

lemma demo_jwt_law:
  "jwt_law (demo_jwt t) s (access_claims t (token_data ''user_1'' ''phone'') None)"
  "jwt_law (demo_jwt t) s (refresh_claims t (token_data ''user_1'' ''phone''))"
  by (simp_all add: jwt_law_def demo_jwt_def Let_def)

definition demo_config :: server_config where
  "demo_config = projr (server_config_from_env [])"

lemma demo_config_no_debug [simp]: "\<not> debug demo_config"
  by code_simp

theorem access_token_lifetime_witness:
  "require_auth (demo_jwt 0) demo_config 3601
     (Some (create_access_token (demo_jwt 0) demo_config 0 (token_data ''user_1'' ''phone'') None)) =
   Inl (HTTPException 401 ''Invalid token'' [])"
  using access_token_lifetime [OF demo_config_no_debug _ demo_jwt_law(1), where later = 3601 and now = 0]
  by simp

text \<open>
  A refresh token is accepted wherever an access token is: outside debug mode it authenticates its
  user for 30 days, so the 60 minutes of the access token bound nothing.
\<close>

theorem refresh_token_authenticates:
  assumes "\<not> debug cfg" and "user_id \<noteq> ''anonymous''"
    and "jwt_law J (jwt_secret cfg) (refresh_claims now (token_data user_id device_id))"
    and "later \<le> now + 30 * 86400"
  shows "require_auth J cfg later (Some (create_refresh_token J cfg now (token_data user_id device_id))) =
    Inr (refresh_claims now (token_data user_id device_id))"
  using assms floor_mono [OF assms(4)]
  by (simp add: require_auth_def get_current_user_def decode_token_def create_refresh_token_def jwt_law_def)

theorem refresh_token_authenticates_witness:
  "is_ok (require_auth (demo_jwt 0) demo_config 86400
     (Some (create_refresh_token (demo_jwt 0) demo_config 0 (token_data ''user_1'' ''phone''))))"
  using refresh_token_authenticates [OF demo_config_no_debug _ demo_jwt_law(2), where later = 86400 and now = 0]
  by simp

text \<open>
  The refresh endpoint gives a new pair for the same user and device exactly to refresh tokens
  that have not expired; an access token is refused.
\<close>

theorem refresh_needs_refresh_token:
  assumes "jwt_law J (jwt_secret cfg) (refresh_claims now (token_data user_id device_id))"
    and "jwt_law J (jwt_secret cfg) (access_claims now (token_data user_id device_id) None)"
  shows "refresh J cfg later (create_refresh_token J cfg now (token_data user_id device_id)) =
      (if \<lfloor>later\<rfloor> \<le> \<lfloor>now + 2592000\<rfloor> then Inr (create_token_pair J cfg later user_id device_id)
       else Inl (HTTPException 401 ''Invalid refresh token'' [])) \<and>
    refresh J cfg later (create_access_token J cfg now (token_data user_id device_id) None) =
      Inl (HTTPException 401 ''Invalid refresh token'' [])"
  using assms
  by (simp add: refresh_def decode_token_def create_refresh_token_def create_access_token_def
      jwt_law_def dget_or_def)

theorem refresh_needs_refresh_token_witness:
  "refresh (demo_jwt 0) demo_config 60 (create_access_token (demo_jwt 0) demo_config 0
     (token_data ''user_1'' ''phone'') None) = Inl (HTTPException 401 ''Invalid refresh token'' [])"
  using refresh_needs_refresh_token [OF demo_jwt_law(2,1), where cfg = demo_config and later = 60 and now = 0]
  by simp

text \<open>
  Login never looks at the API key: outside debug mode as well, any key, the empty one included,
  gets a token that authenticates a new user.
\<close>

theorem login_accepts_any_key:
  assumes "\<not> debug cfg" and "device \<noteq> []" and "later \<le> now + 3600"
    and "jwt_law J (jwt_secret cfg) (access_claims now (token_data (''user_'' @ take 8 hex) device) None)"
  shows "\<exists>tokens token. login J cfg now uuid hex api_key device = Inr tokens \<and>
    dget tokens ''access_token'' = Some (PStr token) \<and>
    require_auth J cfg later (Some token) =
      Inr (access_claims now (token_data (''user_'' @ take 8 hex) device) None)"
proof -
  have "\<lfloor>later\<rfloor> \<le> \<lfloor>now + 3600\<rfloor>" using assms(3) by (rule floor_mono)
  then have "require_auth J cfg later (Some (create_access_token J cfg now
      (token_data (''user_'' @ take 8 hex) device) None)) =
      Inr (access_claims now (token_data (''user_'' @ take 8 hex) device) None)"
    using access_token_lifetime [OF assms(1) _ assms(4)]
    by (simp add: require_auth_def get_current_user_def decode_token_def create_access_token_def
        assms(1) jwt_law_def assms(4) [unfolded jwt_law_def])
  with assms(2) show ?thesis
    by (simp add: login_def create_token_pair_def Let_def dict_laws)
qed

theorem login_accepts_any_key_witness:
  "is_ok (login (demo_jwt 0) demo_config 0 ''u'' ''1'' [] ''phone'')"
proof -
  have "jwt_law (demo_jwt 0) (jwt_secret demo_config)
      (access_claims 0 (token_data (''user_'' @ take 8 ''1'') ''phone'') None)"
    using demo_jwt_law(1) [of 0] by simp
  from login_accepts_any_key [OF demo_config_no_debug _ _ this, where later = 60 and uuid = "''u''" and api_key = "[]"]
  show ?thesis by auto
qed

end
