(* ===== verification/Services.thy ===== *)
theory Services
  imports Auth
begin

text \<open>
  The services of the server and their REST endpoints: builds
  (\<^verbatim>\<open>server/services/build_service.py\<close>, \<^verbatim>\<open>server/api/builds.py\<close>), packages
  (\<^verbatim>\<open>package_service.py\<close>, \<^verbatim>\<open>api/packages.py\<close>) and executions
  (\<^verbatim>\<open>execution_service.py\<close>, \<^verbatim>\<open>api/execution.py\<close>).

  The framework resolves the authentication dependency before it runs a handler. The modules a
  server can import are the parameter \<open>python_env\<close>; what the called function does beside returning is
  not modelled.
\<close>

section \<open>The build service\<close>

record build_service =
  builds :: "(string, build_result) dict"
  build_ids :: "string list"

definition new_build_service :: build_service where
  "new_build_service = \<lparr>builds = [], build_ids = []\<rparr>"

definition submit_build :: "build_request \<Rightarrow> build_service \<Rightarrow> build_result \<times> build_service" where
  "submit_build req sv =
     (let res = \<lparr>bs_request_id = br_request_id req, bs_status = Queued,
                 bs_package_name = br_package_name req, bs_package_version = br_package_version req,
                 bs_wheel_url = None, bs_wheel_hash = None, bs_wheel_size = 0, bs_build_log = '''',
                 bs_duration = 0, bs_error = None\<rparr>
      in (res, sv\<lparr>builds := dset (br_request_id req) res (builds sv),
                  build_ids := build_ids sv @ [br_request_id req]\<rparr>))"

definition get_build :: "build_service \<Rightarrow> string \<Rightarrow> build_result option" where
  "get_build sv build_id = dget (builds sv) build_id"

text \<open>\<open>xs[-limit:]\<close>: the whole list for 0, and \<open>xs[k:]\<close> for a limit \<open>-k\<close>.\<close>

definition slice_tail :: "int \<Rightarrow> 'a list \<Rightarrow> 'a list" where
  "slice_tail limit xs =
     (if limit = 0 then xs
      else if 0 < limit then drop (length xs - nat limit) xs
      else drop (nat (- limit)) xs)"

definition list_builds :: "int \<Rightarrow> build_service \<Rightarrow> build_result list" where
  "list_builds limit sv = slice_tail limit (dvals (builds sv))"

definition cancel_build :: "string \<Rightarrow> build_service \<Rightarrow> bool \<times> build_service" where
  "cancel_build build_id sv =
     (case dget (builds sv) build_id of
        None \<Rightarrow> (False, sv)
      | Some build \<Rightarrow>
          (if bs_status build = Succeeded \<or> bs_status build = Failed then (False, sv)
           else (True, sv\<lparr>builds := dset build_id (build\<lparr>bs_status := Cancelled\<rparr>) (builds sv),
                          build_ids := remove1 build_id (build_ids sv)\<rparr>)))"

section \<open>The build endpoints\<close>

record http_caller =
  caller :: "request option"
  credentials :: "string option"

definition create_build ::
    "jwt_lib \<Rightarrow> server_config \<Rightarrow> pyfloat \<Rightarrow> http_caller \<Rightarrow> build_request \<Rightarrow> windows \<times> build_service
     \<Rightarrow> (http_error + build_result) \<times> windows \<times> build_service" where
  "create_build J cfg now c req st =
     (case require_auth J cfg now (credentials c) of
        Inl e \<Rightarrow> (Inl e, st)
      | Inr user \<Rightarrow>
          (case check_rate_limit (caller c) BUILD_LIMIT now (fst st) of
             (Inl e, w) \<Rightarrow> (Inl e, w, snd st)
           | (Inr _, w) \<Rightarrow> (let (res, sv) = submit_build req (snd st) in (Inr res, w, sv))))"

definition get_build_endpoint :: "build_service \<Rightarrow> string \<Rightarrow> http_error + build_result" where
  "get_build_endpoint sv build_id =
     (case get_build sv build_id of
        None \<Rightarrow> Inl (HTTPException 404 ''Build not found'' [])
      | Some res \<Rightarrow> Inr res)"

definition list_builds_endpoint :: "int \<Rightarrow> build_service \<Rightarrow> build_result list" where
  "list_builds_endpoint limit sv = list_builds limit sv"

definition cancel_build_endpoint ::
    "jwt_lib \<Rightarrow> server_config \<Rightarrow> pyfloat \<Rightarrow> http_caller \<Rightarrow> string \<Rightarrow> build_service
     \<Rightarrow> (http_error + string) \<times> build_service" where
  "cancel_build_endpoint J cfg now c build_id sv =
     (case require_auth J cfg now (credentials c) of
        Inl e \<Rightarrow> (Inl e, sv)
      | Inr user \<Rightarrow>
          (case cancel_build build_id sv of
             (True, sv') \<Rightarrow> (Inr ''cancelled'', sv')
           | (False, sv') \<Rightarrow> (Inl (HTTPException 404 ''Build not found or already completed'' []), sv')))"

section \<open>The states the build service reaches\<close>

datatype build_event = Submit build_request | CancelBuild string

fun build_step :: "build_service \<Rightarrow> build_event \<Rightarrow> build_service" where
  "build_step sv (Submit req) = snd (submit_build req sv)"
| "build_step sv (CancelBuild i) = snd (cancel_build i sv)"

definition service_inv :: "build_service \<Rightarrow> bool" where
  "service_inv sv \<longleftrightarrow>
     dwf (builds sv) \<and> set (build_ids sv) \<subseteq> set (dkeys (builds sv)) \<and>
     (\<forall>(i, b) \<in> set (builds sv). bs_request_id b = i \<and> (bs_status b = Queued \<or> bs_status b = Cancelled) \<and>
        (bs_status b = Queued \<longrightarrow> i \<in> set (build_ids sv)))"

lemma dkeys_dset: "set (dkeys (dset k v d)) = insert k (set (dkeys d))"
  by (simp add: dom_update)

lemma service_inv_step: "service_inv sv \<Longrightarrow> service_inv (build_step sv e)"
proof (cases e)
  case (Submit req)
  assume "service_inv sv"
  with Submit show ?thesis
    by (auto simp: service_inv_def submit_build_def Let_def set_dset dkeys_dset dict_inv)
next
  case (CancelBuild i)
  assume inv: "service_inv sv"
  show ?thesis
  proof (cases "dget (builds sv) i")
    case None
    with inv CancelBuild show ?thesis by (simp add: cancel_build_def)
  next
    case (Some b)
    from inv have "dwf (builds sv)" by (simp add: service_inv_def)
    moreover from inv Some have "bs_request_id b = i" "bs_status b \<noteq> Succeeded" "bs_status b \<noteq> Failed"
      by (auto simp: service_inv_def dest: dget_in_set)
    ultimately show ?thesis
      using inv Some CancelBuild set_remove1_subset [of i "build_ids sv"]
      by (auto simp: service_inv_def cancel_build_def set_dset dkeys_dset dict_inv)
  qed
qed

interpretation build_machine: kept_invariant build_step service_inv
  by unfold_locales (rule service_inv_step)

text \<open>
  Whatever sequence of submissions and cancellations the service gets, each stored build carries
  its own id and is queued or cancelled, a queued one being in the queue of ids: no build ever starts,
  succeeds or fails, because nothing hands the queue to a build worker.
\<close>

theorem builds_never_finish:
  "\<forall>(i, b) \<in> set (builds (run build_step new_build_service es)).
     bs_request_id b = i \<and> (bs_status b = Queued \<or> bs_status b = Cancelled) \<and>
     (bs_status b = Queued \<longrightarrow> i \<in> set (build_ids (run build_step new_build_service es)))"
proof -
  have "service_inv new_build_service" by (simp add: service_inv_def new_build_service_def)
  from build_machine.run_inv [OF this, of es] show ?thesis by (simp add: service_inv_def)
qed

theorem builds_never_finish_witness:
  "case snd (hd (builds (run build_step new_build_service [Submit (new_build_request ''b1'' 50 ''six'')]))) of
     b \<Rightarrow> bs_status b = Queued \<or> bs_status b = Cancelled"
  using builds_never_finish [of "[Submit (new_build_request ''b1'' 50 ''six'')]"]
  by (simp add: submit_build_def new_build_service_def Let_def)

section \<open>The package service\<close>

definition seed_package ::
    "string \<Rightarrow> string \<Rightarrow> string \<Rightarrow> package_strategy \<Rightarrow> bool \<Rightarrow> bool \<Rightarrow> string list \<Rightarrow> string list \<Rightarrow> package_info" where
  "seed_package name version description strategy requires_gpu cloud_only archs deps =
     (new_package_info name version)\<lparr>pi_description := description, pi_strategy := strategy,
        pi_requires_gpu := requires_gpu, pi_cloud_only := cloud_only, pi_architectures := archs,
        pi_dependencies := deps\<rparr>"

definition registry :: "(string, package_info) dict" where
  "registry =
     [(''torch'', seed_package ''torch'' ''2.4.0'' ''PyTorch deep learning framework'' Hybrid True False
         [''aarch64'', ''x86_64''] [''numpy'', ''typing_extensions'']),
      (''tensorflow'', seed_package ''tensorflow'' ''2.16.0'' ''TensorFlow ML framework'' CloudExec True True
         [''x86_64''] [''numpy'', ''protobuf'', ''grpcio'']),
      (''opencv-python'', seed_package ''opencv-python'' ''4.9.0'' ''OpenCV computer vision library'' CloudWheel
         False False [''aarch64'', ''x86_64''] [''numpy'']),
      (''scipy'', seed_package ''scipy'' ''1.13.0'' ''Scientific computing library'' CloudWheel False False
         [''aarch64'', ''x86_64''] [''numpy'']),
      (''playwright'', seed_package ''playwright'' ''1.44.0'' ''Browser automation'' CloudExec False True
         [''x86_64''] []),
      (''numpy'', seed_package ''numpy'' ''1.26.4'' ''Numerical computing'' LocalInstall False False
         [''aarch64'', ''x86_64''] [])]"

definition get_package :: "string \<Rightarrow> string \<Rightarrow> string \<Rightarrow> string \<Rightarrow> package_info option" where
  "get_package name arch python version =
     (case dget registry name of
        Some info \<Rightarrow>
          Some (if arch \<notin> set (pi_architectures info) then info\<lparr>pi_strategy := CloudExec\<rparr> else info)
      | None \<Rightarrow>
          Some (if name \<notin> set CLOUD_PREFERRED_PACKAGES then new_package_info name ''latest''
                else (new_package_info name ''latest'')\<lparr>pi_strategy := CloudExec, pi_cloud_only := True\<rparr>))"

definition get_wheel_url :: "string \<Rightarrow> string \<Rightarrow> string \<Rightarrow> string option" where
  "get_wheel_url name arch python =
     (case dget registry name of
        Some info \<Rightarrow> (case pi_wheel_url info of Some u \<Rightarrow> if u \<noteq> [] then Some u else None | None \<Rightarrow> None)
      | None \<Rightarrow> None)"

definition get_layers :: "string \<Rightarrow> layer_info list" where
  "get_layers name = (case dget registry name of Some info \<Rightarrow> pi_layers info | None \<Rightarrow> [])"

type_synonym listing = "string \<times> string \<times> string"

definition listing_of :: "string \<times> package_info \<Rightarrow> listing" where
  "listing_of item = (fst item, pi_version (snd item), strategy_value (pi_strategy (snd item)))"

definition matches_query :: "string \<Rightarrow> string \<Rightarrow> bool" where
  "matches_query query name \<longleftrightarrow> sublist (lower query) (lower name) \<or> query = []"

fun search_items :: "string \<Rightarrow> int \<Rightarrow> (string \<times> package_info) list \<Rightarrow> listing list \<Rightarrow> listing list" where
  "search_items query limit [] results = results"
| "search_items query limit (item # items) results =
     (if matches_query query (fst item)
      then (let results = results @ [listing_of item]
            in if limit \<le> int (length results) then results else search_items query limit items results)
      else search_items query limit items results)"

definition search :: "string \<Rightarrow> string \<Rightarrow> int \<Rightarrow> listing list" where
  "search query arch limit = search_items query limit registry []"

definition get_catalog :: "string \<Rightarrow> listing list" where
  "get_catalog arch = map listing_of registry"

definition get_wheel_endpoint ::
    "pyfloat \<Rightarrow> request option \<Rightarrow> string \<Rightarrow> string \<Rightarrow> string \<Rightarrow> windows \<Rightarrow> (http_error + string) \<times> windows" where
  "get_wheel_endpoint now r name arch python w =
     (case check_rate_limit r DEFAULT_LIMIT now w of
        (Inl e, w) \<Rightarrow> (Inl e, w)
      | (Inr _, w) \<Rightarrow>
          (case get_wheel_url name arch python of
             None \<Rightarrow> (Inl (HTTPException 404 ''No wheel available'' []), w)
           | Some url \<Rightarrow> (Inr url, w)))"

definition get_package_endpoint ::
    "pyfloat \<Rightarrow> request option \<Rightarrow> string \<Rightarrow> string \<Rightarrow> string \<Rightarrow> string \<Rightarrow> windows
     \<Rightarrow> (http_error + package_info) \<times> windows" where
  "get_package_endpoint now r name arch python version w =
     (case check_rate_limit r DEFAULT_LIMIT now w of
        (Inl e, w) \<Rightarrow> (Inl e, w)
      | (Inr _, w) \<Rightarrow>
          (case get_package name arch python version of
             None \<Rightarrow> (Inl (HTTPException 404 (''Package '' @ [CHR 0x27] @ name @ [CHR 0x27] @ '' not found'') []), w)
           | Some info \<Rightarrow> (Inr info, w)))"

text \<open>The framework refuses a limit above 100 before the handler runs.\<close>

definition search_packages_endpoint ::
    "pyfloat \<Rightarrow> request option \<Rightarrow> string \<Rightarrow> string \<Rightarrow> int \<Rightarrow> windows
     \<Rightarrow> (http_error + listing list \<times> nat) \<times> windows" where
  "search_packages_endpoint now r q arch limit w =
     (if 100 < limit then (Inl (HTTPException 422 ''Unprocessable Entity'' []), w)
      else case check_rate_limit r DEFAULT_LIMIT now w of
             (Inl e, w) \<Rightarrow> (Inl e, w)
           | (Inr _, w) \<Rightarrow> (let results = search q arch limit in (Inr (results, length results), w)))"

definition get_catalog_endpoint ::
    "pyfloat \<Rightarrow> request option \<Rightarrow> string \<Rightarrow> windows \<Rightarrow> (http_error + listing list) \<times> windows" where
  "get_catalog_endpoint now r arch w =
     (case check_rate_limit r DEFAULT_LIMIT now w of
        (Inl e, w) \<Rightarrow> (Inl e, w)
      | (Inr _, w) \<Rightarrow> (Inr (get_catalog arch), w))"

definition get_layers_endpoint ::
    "pyfloat \<Rightarrow> request option \<Rightarrow> string \<Rightarrow> windows \<Rightarrow> (http_error + string \<times> layer_info list) \<times> windows" where
  "get_layers_endpoint now r name w =
     (case check_rate_limit r DEFAULT_LIMIT now w of
        (Inl e, w) \<Rightarrow> (Inl e, w)
      | (Inr _, w) \<Rightarrow> (Inr (name, get_layers name), w))"

lemma search_items_take:
  "limit > int (length results) \<Longrightarrow>
   search_items query limit items results =
     results @ take (nat limit - length results)
       (map listing_of (filter (\<lambda>item. matches_query query (fst item)) items))"
proof (induction items arbitrary: results)
  case (Cons item items)
  show ?case
  proof (cases "matches_query query (fst item)")
    case True
    then have step: "nat limit - length results = Suc (nat limit - Suc (length results))"
      using Cons.prems by linarith
    show ?thesis
    proof (cases "limit \<le> int (Suc (length results))")
      case True
      then have "nat limit - Suc (length results) = 0" by linarith
      with True \<open>matches_query query (fst item)\<close> step show ?thesis by simp
    next
      case False
      then show ?thesis
        using Cons.IH [of "results @ [listing_of item]"] True step by simp
    qed
  qed (use Cons in simp)
qed simp

lemma search_items_first:
  "limit \<le> int (length results) + 1 \<Longrightarrow>
   search_items query limit items results =
     results @ take 1 (map listing_of (filter (\<lambda>item. matches_query query (fst item)) items))"
  by (induction items) auto

text \<open>
  A search returns, in registry order, the first matches of the query, as many as the limit
  allows, but never fewer than one of them: a limit of zero or less counts as one.
\<close>

theorem search_limit:
  "search query arch limit =
     take (nat (max limit 1)) (map listing_of (filter (\<lambda>item. matches_query query (fst item)) registry))"
proof (cases "0 < limit")
  case True
  then have "max limit 1 = limit" by simp
  with True show ?thesis by (simp add: search_def search_items_take)
next
  case False
  then show ?thesis by (simp add: search_def search_items_first max_def)
qed

text \<open>
  Every package name resolves to some strategy, and a package of the registry asked for on an
  architecture it does not support resolves to cloud execution. No package has a wheel to download:
  the wheel endpoint answers 404 whenever it is not rate limited.
\<close>

theorem package_lookup:
  "(\<exists>info. get_package name arch python version = Some info \<and> pi_name info = name \<and>
     pi_wheel_url info = None \<and>
     (\<forall>seed. dget registry name = Some seed \<longrightarrow>
        pi_strategy info =
          (if arch \<in> set (pi_architectures seed) then pi_strategy seed else CloudExec))) \<and>
   fst (get_wheel_endpoint now r name arch python w) =
     (case fst (check_rate_limit r DEFAULT_LIMIT now w) of
        Inl e \<Rightarrow> Inl e
      | Inr _ \<Rightarrow> Inl (HTTPException 404 ''No wheel available'' []))"
proof -
  have seeds: "\<forall>(n, info) \<in> set registry. pi_name info = n \<and> pi_wheel_url info = None"
    by (simp add: registry_def seed_package_def new_package_info_def)
  then have named: "pi_name seed = name \<and> pi_wheel_url seed = None"
    if "dget registry name = Some seed" for seed
    using that by (auto dest: dget_in_set)
  then have "get_wheel_url name arch python = None"
    by (auto simp: get_wheel_url_def split: option.splits)
  moreover have "\<exists>info. get_package name arch python version = Some info \<and> pi_name info = name \<and>
      pi_wheel_url info = None \<and> (\<forall>seed. dget registry name = Some seed \<longrightarrow>
        pi_strategy info = (if arch \<in> set (pi_architectures seed) then pi_strategy seed else CloudExec))"
    using named by (cases "dget registry name") (auto simp: get_package_def new_package_info_def)
  ultimately show ?thesis
    by (auto simp: get_wheel_endpoint_def split: prod.splits sum.splits)
qed

theorem package_lookup_witness:
  "map_option pi_strategy (get_package ''tensorflow'' ''aarch64'' ''3.11'' ''latest'') = Some CloudExec"
proof -
  have "dget registry ''tensorflow'' =
      Some (seed_package ''tensorflow'' ''2.16.0'' ''TensorFlow ML framework'' CloudExec True True
         [''x86_64''] [''numpy'', ''protobuf'', ''grpcio''])"
    by (simp add: registry_def)
  with package_lookup [of "''tensorflow''" "''aarch64''" "''3.11''" "''latest''" 0 None "[]"]
  show ?thesis by (auto simp: seed_package_def)
qed

section \<open>The execution service\<close>

record 'o python_env =
  import_module :: "string \<Rightarrow> py_error + 'o"
  get_attr :: "'o \<Rightarrow> string \<Rightarrow> py_error + 'o"
  is_callable :: "'o \<Rightarrow> bool"
  call_object :: "'o \<Rightarrow> pyval list \<Rightarrow> pydict \<Rightarrow> py_error + pyval"
  object_value :: "'o \<Rightarrow> pyval"

type_synonym results = "(string, execution_result) dict"

definition ALLOWED_MODULES :: "string list" where
  "ALLOWED_MODULES =
     [''torch'', ''tensorflow'', ''jax'', ''cv2'', ''scipy'', ''numpy'', ''pandas'', ''sklearn'',
      ''transformers'', ''diffusers'', ''onnxruntime'', ''playwright'', ''math'', ''json'']"

fun get_attrs :: "'o python_env \<Rightarrow> 'o \<Rightarrow> string list \<Rightarrow> py_error + 'o" where
  "get_attrs env obj [] = Inr obj"
| "get_attrs env obj (attr # attrs) =
     (case get_attr env obj attr of Inl e \<Rightarrow> Inl e | Inr obj' \<Rightarrow> get_attrs env obj' attrs)"

definition execute_sandboxed :: "'o python_env \<Rightarrow> execution_request \<Rightarrow> py_error + pyval" where
  "execute_sandboxed env req =
     (let method_parts = split_on (CHR ''.'') (er_method req)
      in if length method_parts < 2 then Inl (ValueError (''Invalid method: '' @ er_method req))
         else if hd method_parts \<notin> set ALLOWED_MODULES
         then Inl (ValueError (''Module '' @ [CHR 0x27] @ hd method_parts @ [CHR 0x27]
                    @ '' is not allowed for remote execution''))
         else (case import_module env (hd method_parts) of
                 Inl e \<Rightarrow> Inl e
               | Inr m \<Rightarrow>
                   (case get_attrs env m (tl method_parts) of
                      Inl e \<Rightarrow> Inl e
                    | Inr obj \<Rightarrow>
                        if is_callable env obj then call_object env obj (er_args req) (er_kwargs req)
                        else Inr (object_value env obj))))"

definition execute_call ::
    "'o python_env \<Rightarrow> pyfloat \<Rightarrow> string \<Rightarrow> execution_request \<Rightarrow> results \<Rightarrow> execution_result \<times> results" where
  "execute_call env duration tb req rs =
     (let base = \<lparr>es_request_id = er_request_id req, es_status = ExecCompleted, es_result = PNone,
                  es_result_type = ''python'', es_metadata = [],
                  es_duration_ms = py_round 2 (duration * 1000), es_error = None, es_traceback = None\<rparr>;
          res = (case execute_sandboxed env req of
                   Inr v \<Rightarrow> base\<lparr>es_result := v\<rparr>
                 | Inl e \<Rightarrow> base\<lparr>es_status := ExecFailed, es_error := Some (error_text e),
                                  es_traceback := Some tb\<rparr>)
      in (res, dset (er_request_id req) res rs))"

definition get_result :: "results \<Rightarrow> string \<Rightarrow> execution_result option" where
  "get_result rs execution_id = dget rs execution_id"

definition cancel_execution :: "string \<Rightarrow> results \<Rightarrow> results" where
  "cancel_execution execution_id rs =
     (case dget rs execution_id of
        None \<Rightarrow> rs
      | Some res \<Rightarrow>
          (if es_status res = ExecPending \<or> es_status res = ExecRunning
           then dset execution_id (res\<lparr>es_status := ExecCancelled\<rparr>) rs else rs))"

definition submit_execution_endpoint ::
    "jwt_lib \<Rightarrow> server_config \<Rightarrow> 'o python_env \<Rightarrow> pyfloat \<Rightarrow> pyfloat \<Rightarrow> string \<Rightarrow> http_caller \<Rightarrow> execution_request
     \<Rightarrow> windows \<times> results \<Rightarrow> (http_error + execution_result) \<times> windows \<times> results" where
  "submit_execution_endpoint J cfg env now duration tb c req st =
     (case require_auth J cfg now (credentials c) of
        Inl e \<Rightarrow> (Inl e, st)
      | Inr user \<Rightarrow>
          (case check_rate_limit (caller c) EXEC_LIMIT now (fst st) of
             (Inl e, w) \<Rightarrow> (Inl e, w, snd st)
           | (Inr _, w) \<Rightarrow>
               (let (res, rs) = execute_call env duration tb req (snd st) in (Inr res, w, rs))))"

definition get_execution_endpoint :: "results \<Rightarrow> string \<Rightarrow> http_error + execution_result" where
  "get_execution_endpoint rs execution_id =
     (case get_result rs execution_id of
        None \<Rightarrow> Inl (HTTPException 404 ''Execution not found'' [])
      | Some res \<Rightarrow> Inr res)"

definition cancel_execution_endpoint ::
    "jwt_lib \<Rightarrow> server_config \<Rightarrow> pyfloat \<Rightarrow> http_caller \<Rightarrow> string \<Rightarrow> results \<Rightarrow> (http_error + string) \<times> results" where
  "cancel_execution_endpoint J cfg now c execution_id rs =
     (case require_auth J cfg now (credentials c) of
        Inl e \<Rightarrow> (Inl e, rs)
      | Inr user \<Rightarrow> (Inr ''cancelled'', cancel_execution execution_id rs))"

definition health_check :: "pyfloat \<Rightarrow> nat \<Rightarrow> nat \<Rightarrow> health_status" where
  "health_check uptime devices sessions =
     \<lparr>hs_status = ''ok'', hs_version = VERSION, hs_uptime = py_round 1 uptime,
      hs_services = [(''api'', ''ok''), (''websocket'', ''ok''), (''database'', ''ok'')],
      hs_build_queue_size = 0, hs_active_executions = sessions, hs_connected_devices = devices\<rparr>"

section \<open>What the allowlist stops and what it does not\<close>

text \<open>
  A method without a module part, or whose first component is not on the allowlist, is refused
  with a FAILED result before anything is imported: the result does not depend on the modules the
  server has. The result is stored under the request's id.
\<close>

theorem execution_gate:
  assumes "length (split_on (CHR ''.'') (er_method req)) < 2 \<or>
    hd (split_on (CHR ''.'') (er_method req)) \<notin> set ALLOWED_MODULES"
  shows "execute_call env duration tb req rs = execute_call env' duration tb req rs \<and>
    es_status (fst (execute_call env duration tb req rs)) = ExecFailed \<and>
    get_result (snd (execute_call env duration tb req rs)) (er_request_id req) =
      Some (fst (execute_call env duration tb req rs))"
  using assms
  by (auto simp: execute_call_def execute_sandboxed_def Let_def get_result_def dict_laws)

definition demo_execution :: "string \<Rightarrow> execution_request" where
  "demo_execution m = \<lparr>er_request_id = ''x1'', er_method = m, er_args = [PStr ''id''], er_kwargs = [],
     er_mode = ModeCloud, er_timeout = 300, er_session_id = None, er_requires_gpu = False\<rparr>"

text \<open>A server whose module \<^verbatim>\<open>numpy\<close> imports \<^verbatim>\<open>os\<close>: the objects are the dotted paths.\<close>

definition demo_env :: "string list python_env" where
  "demo_env = \<lparr>import_module = (\<lambda>m. Inr [m]),
     get_attr = (\<lambda>p a. if p @ [a] \<in> set [[''numpy'', ''os''], [''numpy'', ''os'', ''system'']]
                       then Inr (p @ [a]) else Inl (AttributeError a)),
     is_callable = (\<lambda>p. p = [''numpy'', ''os'', ''system'']),
     call_object = (\<lambda>p args kw. Inr (PList args)), object_value = (\<lambda>p. PNone)\<rparr>"

theorem execution_gate_witness:
  "es_status (fst (execute_call demo_env 0 [] (demo_execution ''os.system'') [])) = ExecFailed"
proof -
  have "hd (split_on (CHR ''.'') (er_method (demo_execution ''os.system''))) \<notin> set ALLOWED_MODULES"
    by code_simp
  then show ?thesis using execution_gate [of "demo_execution ''os.system''" demo_env 0 "[]" "[]"] by blast
qed

text \<open>
  The allowlist looks at the first component only. Whatever attributes follow, if the path leads
  from an allowed module to a callable, the callable is called with the caller's arguments and its
  value is returned as COMPLETED: a function of another module that an allowed module imports, such as
  \<^verbatim>\<open>numpy.os.system\<close>, can be called.
\<close>

theorem allowlist_is_first_component_only:
  assumes "split_on (CHR ''.'') (er_method req) = m # attrs" and "attrs \<noteq> []"
    and "m \<in> set ALLOWED_MODULES"
    and "import_module env m = Inr mo" and "get_attrs env mo attrs = Inr obj" and "is_callable env obj"
    and "call_object env obj (er_args req) (er_kwargs req) = Inr v"
  shows "es_status (fst (execute_call env duration tb req rs)) = ExecCompleted \<and>
    es_result (fst (execute_call env duration tb req rs)) = v"
  using assms by (auto simp: execute_call_def execute_sandboxed_def Let_def Suc_le_eq)

theorem allowlist_is_first_component_only_witness:
  "es_result (fst (execute_call demo_env 0 [] (demo_execution ''numpy.os.system'') [])) = PList [PStr ''id'']"
proof -
  have "split_on (CHR ''.'') (er_method (demo_execution ''numpy.os.system'')) = ''numpy'' # [''os'', ''system'']"
    by code_simp
  from allowlist_is_first_component_only [OF this, where env = demo_env and mo = "[''numpy'']"
      and obj = "[''numpy'', ''os'', ''system'']" and v = "PList [PStr ''id'']"]
  show ?thesis by (simp add: ALLOWED_MODULES_def demo_env_def demo_execution_def)
qed

datatype exec_event = Execute pyfloat string execution_request | CancelExec string

definition exec_step :: "'o python_env \<Rightarrow> results \<Rightarrow> exec_event \<Rightarrow> results" where
  "exec_step env rs e =
     (case e of
        Execute duration tb req \<Rightarrow> snd (execute_call env duration tb req rs)
      | CancelExec i \<Rightarrow> cancel_execution i rs)"

definition results_inv :: "results \<Rightarrow> bool" where
  "results_inv rs \<longleftrightarrow> dwf rs \<and>
     (\<forall>(i, r) \<in> set rs. es_request_id r = i \<and> (es_status r = ExecCompleted \<or> es_status r = ExecFailed))"

lemma cancel_noop: "results_inv rs \<Longrightarrow> cancel_execution i rs = rs"
  by (auto simp: results_inv_def cancel_execution_def split: option.splits dest: dget_in_set)

lemma results_inv_step: "results_inv rs \<Longrightarrow> results_inv (exec_step env rs e)"
proof (cases e)
  case (Execute duration tb req)
  assume "results_inv rs"
  with Execute show ?thesis
    by (auto simp: exec_step_def execute_call_def Let_def results_inv_def set_dset dict_inv split: sum.splits)
qed (simp add: exec_step_def cancel_noop)

interpretation exec_machine: kept_invariant "exec_step env" results_inv for env
  by unfold_locales (rule results_inv_step)

text \<open>
  In every state the execution service reaches, cancelling changes nothing, whichever id is given,
  yet the endpoint answers every authenticated caller that the execution is cancelled.
\<close>

theorem cancel_execution_is_noop:
  assumes "require_auth J cfg now (credentials c) = Inr user"
  shows "cancel_execution_endpoint J cfg now c i (run (exec_step env) [] es) =
    (Inr ''cancelled'', run (exec_step env) [] es)"
proof -
  have "results_inv []" by (simp add: results_inv_def)
  from exec_machine.run_inv [OF this, of env es] assms show ?thesis
    by (simp add: cancel_execution_endpoint_def cancel_noop)
qed

theorem cancel_execution_is_noop_witness:
  "fst (cancel_execution_endpoint (demo_jwt 0) (demo_config\<lparr>debug := True\<rparr>) 0
     \<lparr>caller = None, credentials = Some ''dev_phone''\<rparr> ''no such id'' (run (exec_step demo_env) [] [])) =
   Inr ''cancelled''"
proof -
  have "require_auth (demo_jwt 0) (demo_config\<lparr>debug := True\<rparr>) 0
      (credentials \<lparr>caller = None, credentials = Some ''dev_phone''\<rparr>) =
      Inr [(''sub'', PStr ''dev-user''), (''device_id'', PStr ''phone''), (''tier'', PStr ''dev'')]"
    by (simp add: require_auth_def get_current_user_def)
  from cancel_execution_is_noop [OF this, of "''no such id''" demo_env "[]"] show ?thesis by simp
qed

end
