(* ===== verification/Serialization.thy ===== *)
theory Serialization
  imports Base64
begin

text \<open>
  The serialization of arguments and results for the RPC transport, \<^verbatim>\<open>runtime/serialization.py\<close>.
  Values become JSON values with type tags, and back. The packages are parameters:
  \<open>dumps\<close> pickles, \<open>loads\<close> unpickles and builds NumPy arrays and tensors.
\<close>

definition PICKLE_ALLOWLIST :: "string list" where
  "PICKLE_ALLOWLIST =
     [''builtins'', ''collections'', ''datetime'', ''decimal'', ''fractions'', ''numbers'', ''re'', ''uuid'']"

definition allowlisted :: "string \<Rightarrow> bool" where
  "allowlisted modname = (hd (split_on (CHR ''.'') modname) \<in> set PICKLE_ALLOWLIST)"

definition type_key :: string where
  "type_key = ''__type__''"

section \<open>Serializing\<close>

definition serialize_pickle :: "(pyval \<Rightarrow> bytes) \<Rightarrow> string \<Rightarrow> string \<Rightarrow> pyval \<Rightarrow> pyval" where
  "serialize_pickle dumps modname cls v =
     PDict [(type_key, PStr ''pickle''), (''data'', PStr (b64encode (dumps v))),
            (''class'', PStr (modname @ ''.'' @ cls))]"

fun serialize_value :: "(pyval \<Rightarrow> bytes) \<Rightarrow> pyval \<Rightarrow> pyval" where
  "serialize_value dumps (PList vs) =
     PDict [(type_key, PStr ''list''), (''values'', PList (map (serialize_value dumps) vs))]"
| "serialize_value dumps (PTuple vs) =
     PDict [(type_key, PStr ''list''), (''values'', PList (map (serialize_value dumps) vs))]"
| "serialize_value dumps (PDict d) =
     PDict [(type_key, PStr ''dict''), (''items'', PDict (map (\<lambda>(k, v). (k, serialize_value dumps v)) d))]"
| "serialize_value dumps (PBytes b) =
     PDict [(type_key, PStr ''bytes''), (''data'', PStr (b64encode b))]"
| "serialize_value dumps (PComplex x y) =
     PDict [(type_key, PStr ''complex''), (''real'', PFloat x), (''imag'', PFloat y)]"
| "serialize_value dumps (PSet vs) =
     PDict [(type_key, PStr ''set''), (''values'', PList (map (serialize_value dumps) vs))]"
| "serialize_value dumps (PObj modname cls repr) =
     (if allowlisted modname then serialize_pickle dumps modname cls (PObj modname cls repr)
      else PDict [(type_key, PStr ''repr''), (''value'', PStr repr), (''class'', PStr cls)])"
| "serialize_value dumps (PArray dtype shape data) =
     PDict [(type_key, PStr ''ndarray''), (''dtype'', PStr dtype), (''shape'', PList (map PInt shape)),
            (''data'', PStr (b64encode data))]"
| "serialize_value dumps v = v"

fun serialize_args :: "(pyval \<Rightarrow> bytes) \<Rightarrow> pyval \<Rightarrow> pyval" where
  "serialize_args dumps (PList vs) = PList (map (serialize_value dumps) vs)"
| "serialize_args dumps (PTuple vs) = PList (map (serialize_value dumps) vs)"
| "serialize_args dumps (PDict d) = PDict (map (\<lambda>(k, v). (k, serialize_value dumps v)) d)"
| "serialize_args dumps v = serialize_value dumps v"

section \<open>Deserializing\<close>

text \<open>Iteration over a value, and hashing, which sets need.\<close>

fun py_iter :: "pyval \<Rightarrow> py_error + pyval list" where
  "py_iter (PStr s) = Inr (map (\<lambda>c. PStr [c]) s)"
| "py_iter (PList vs) = Inr vs"
| "py_iter (PTuple vs) = Inr vs"
| "py_iter (PSet vs) = Inr vs"
| "py_iter (PDict d) = Inr (map (\<lambda>kv. PStr (fst kv)) d)"
| "py_iter (PBytes b) = Inr (map (\<lambda>w. PInt (uint w)) b)"
| "py_iter _ = Inl TypeError"

fun hashable :: "pyval \<Rightarrow> bool" where
  "hashable (PList _) = False"
| "hashable (PDict _) = False"
| "hashable (PSet _) = False"
| "hashable (PArray _ _ _) = False"
| "hashable (PTuple vs) = (\<forall>v \<in> set vs. hashable v)"
| "hashable _ = True"

fun dedup :: "pyval list \<Rightarrow> pyval list" where
  "dedup [] = []"
| "dedup (v # vs) = v # filter (\<lambda>w. w \<noteq> v) (dedup vs)"

definition build_set :: "pyval list \<Rightarrow> py_error + pyval" where
  "build_set vs = (if \<forall>v \<in> set vs. hashable v then Inr (PSet (dedup vs)) else Inl TypeError)"

definition get_field :: "pydict \<Rightarrow> string \<Rightarrow> py_error + pyval" where
  "get_field d k = (case dget d k of None \<Rightarrow> Inl KeyError | Some v \<Rightarrow> Inr v)"

definition decode_field :: "pydict \<Rightarrow> string \<Rightarrow> py_error + bytes" where
  "decode_field d k =
     (case get_field d k of
        Inl e \<Rightarrow> Inl e
      | Inr v \<Rightarrow> (case v of PStr s \<Rightarrow> b64decode s | _ \<Rightarrow> Inl TypeError))"

definition build_complex :: "pydict \<Rightarrow> py_error + pyval" where
  "build_complex d =
     (case (get_field d ''real'', get_field d ''imag'') of
        (Inr x, Inr y) \<Rightarrow>
          (case (as_number x, as_number y) of
             (Some a, Some b) \<Rightarrow> Inr (PComplex a b)
           | _ \<Rightarrow> Inl TypeError)
      | _ \<Rightarrow> Inl KeyError)"

text \<open>
  The packages the receiver calls: \<^verbatim>\<open>pickle.loads\<close>, NumPy's \<^verbatim>\<open>frombuffer\<close> and
  \<^verbatim>\<open>reshape\<close> (None if NumPy is not installed), and PyTorch's \<^verbatim>\<open>from_numpy\<close>.
\<close>

record decoders =
  unpickle :: "bytes \<Rightarrow> py_error + pyval"
  numpy :: "((bytes \<Rightarrow> pyval \<Rightarrow> py_error + pyval) \<times> (pyval \<Rightarrow> pyval \<Rightarrow> py_error + pyval)) option"
  torch :: "(pyval \<Rightarrow> py_error + pyval) option"

definition build_array ::
    "(bytes \<Rightarrow> pyval \<Rightarrow> py_error + pyval) \<Rightarrow> (pyval \<Rightarrow> pyval \<Rightarrow> py_error + pyval) \<Rightarrow> (py_error + pyval) \<Rightarrow> pydict
     \<Rightarrow> py_error + pyval" where
  "build_array frombuffer reshape dtype d =
     (case decode_field d ''data'' of
        Inl e \<Rightarrow> Inl e
      | Inr b \<Rightarrow>
          (case dtype of
             Inl e \<Rightarrow> Inl e
           | Inr t \<Rightarrow>
               (case frombuffer b t of
                  Inl e \<Rightarrow> Inl e
                | Inr arr \<Rightarrow> (case get_field d ''shape'' of Inl e \<Rightarrow> Inl e | Inr shape \<Rightarrow> reshape arr shape))))"

definition deserialize_numpy :: "decoders \<Rightarrow> pydict \<Rightarrow> py_error + pyval" where
  "deserialize_numpy loads d =
     (case numpy loads of
        None \<Rightarrow> Inr (PDict d)
      | Some (frombuffer, reshape) \<Rightarrow> build_array frombuffer reshape (get_field d ''dtype'') d)"

definition deserialize_tensor :: "decoders \<Rightarrow> pydict \<Rightarrow> py_error + pyval" where
  "deserialize_tensor loads d =
     (case (torch loads, numpy loads) of
        (Some from_numpy, Some (frombuffer, reshape)) \<Rightarrow>
          (case build_array frombuffer reshape (Inr (dget_or d ''numpy_dtype'' (PStr ''float32''))) d of
             Inl e \<Rightarrow> Inl e
           | Inr arr \<Rightarrow> from_numpy arr)
      | _ \<Rightarrow> deserialize_numpy loads d)"

definition deserialize_pickle :: "decoders \<Rightarrow> pydict \<Rightarrow> py_error + pyval" where
  "deserialize_pickle loads d =
     (case dget_or d ''class'' (PStr []) of
        PStr path \<Rightarrow>
          if \<not> allowlisted path then Inr (PDict d)
          else (case decode_field d ''data'' of Inl e \<Rightarrow> Inl e | Inr b \<Rightarrow> unpickle loads b)
      | _ \<Rightarrow> Inl (AttributeError ''split''))"

text \<open>The tags that do not recurse; an unknown tag leaves the dictionary as it is.\<close>

definition deserialize_leaf :: "decoders \<Rightarrow> pyval \<Rightarrow> pydict \<Rightarrow> py_error + pyval" where
  "deserialize_leaf loads tag d =
     (if tag = PStr ''bytes'' then map_sum id PBytes (decode_field d ''data'')
      else if tag = PStr ''complex'' then build_complex d
      else if tag = PStr ''ndarray'' then deserialize_numpy loads d
      else if tag = PStr ''tensor'' then deserialize_tensor loads d
      else if tag = PStr ''pickle'' then deserialize_pickle loads d
      else if tag = PStr ''repr'' then Inr (dget_or d ''value'' (PStr []))
      else Inr (PDict d))"

definition elements :: "pyval \<Rightarrow> pyval list option" where
  "elements v = (case v of PList vs \<Rightarrow> Some vs | PTuple vs \<Rightarrow> Some vs | PSet vs \<Rightarrow> Some vs | _ \<Rightarrow> None)"

lemma size_elements: "elements v = Some vs \<Longrightarrow> x \<in> set vs \<Longrightarrow> size x < size v"
  by (auto simp: elements_def split: pyval.splits dest!: size_list_estimation' [where f = size, OF _ order_refl]
      intro: le_imp_less_Suc)

lemma size_item: "(k, v) \<in> set d \<Longrightarrow> size v < size (PDict d)"
proof -
  assume "(k, v) \<in> set d"
  then have "size_prod (\<lambda>_. 0) size (k, v) \<le> size_list (size_prod (\<lambda>_. 0) size) d"
    by (rule size_list_estimation') simp
  then show ?thesis by simp
qed

lemma size_field: "dget_or d k (PList []) = v \<Longrightarrow> elements v = Some vs \<Longrightarrow> x \<in> set vs \<Longrightarrow> size x < size (PDict d)"
proof -
  assume v: "dget_or d k (PList []) = v" "elements v = Some vs" "x \<in> set vs"
  then have "dget d k = Some v" by (auto simp: dget_or_def elements_def split: option.splits)
  from size_item [OF dget_in_set [OF this]] size_elements [OF v(2,3)] show ?thesis by simp
qed

function deserialize :: "decoders \<Rightarrow> pyval \<Rightarrow> py_error + pyval" where
  "deserialize loads (PList vs) = map_sum id PList (map_result (deserialize loads) vs)"
| "deserialize loads (PDict d) =
     (let tag = dget_or d type_key PNone
      in if truthy tag
         then (if tag = PStr ''list'' \<or> tag = PStr ''set''
               then (let out = (case elements (dget_or d ''values'' (PList [])) of
                                  Some vs \<Rightarrow> map_result (deserialize loads) vs
                                | None \<Rightarrow> py_iter (dget_or d ''values'' (PList [])))
                     in case out of
                          Inl e \<Rightarrow> Inl e
                        | Inr vs \<Rightarrow> if tag = PStr ''set'' then build_set vs else Inr (PList vs))
               else if tag = PStr ''dict''
               then (case dget_or d ''items'' (PDict []) of
                       PDict items \<Rightarrow>
                         map_sum id PDict
                           (map_result (\<lambda>kv. map_sum id (Pair (fst kv)) (deserialize loads (snd kv))) items)
                     | _ \<Rightarrow> Inl (AttributeError ''items''))
               else deserialize_leaf loads tag d)
         else map_sum id PDict
                (map_result (\<lambda>kv. map_sum id (Pair (fst kv)) (deserialize loads (snd kv))) d))"
| "deserialize loads PNone = Inr PNone"
| "deserialize loads (PBool b) = Inr (PBool b)"
| "deserialize loads (PInt i) = Inr (PInt i)"
| "deserialize loads (PFloat x) = Inr (PFloat x)"
| "deserialize loads (PStr s) = Inr (PStr s)"
| "deserialize loads (PTuple vs) = Inr (PTuple vs)"
| "deserialize loads (PBytes b) = Inr (PBytes b)"
| "deserialize loads (PComplex x y) = Inr (PComplex x y)"
| "deserialize loads (PSet vs) = Inr (PSet vs)"
| "deserialize loads (PObj m c r) = Inr (PObj m c r)"
| "deserialize loads (PArray t sh b) = Inr (PArray t sh b)"
  by pat_completeness auto

termination
proof (relation "measure (size \<circ> snd)", goal_cases)
  case (2 loads vs v)
  then show ?case using size_elements [of "PList vs" vs v] by (simp add: elements_def)
next
  case (3 loads d tag vs v)
  then show ?case using size_field [of d "''values''" _ vs v] by simp
next
  case (4 loads d tag items kv)
  then have "dget d ''items'' = Some (PDict items)"
    by (auto simp: dget_or_def split: option.splits)
  from size_item [OF dget_in_set [OF this]] size_item [of "fst kv" "snd kv" items] 4 show ?case by simp
next
  case (5 loads d tag kv)
  then show ?case using size_item [of "fst kv" "snd kv" d] by simp
qed simp

section \<open>Round trips\<close>

text \<open>
  What arrives: tuples have become lists, and objects that are not pickled their \<^verbatim>\<open>repr\<close>.
\<close>

fun received :: "pyval \<Rightarrow> pyval" where
  "received (PList vs) = PList (map received vs)"
| "received (PTuple vs) = PList (map received vs)"
| "received (PDict d) = PDict (map (\<lambda>(k, v). (k, received v)) d)"
| "received (PSet vs) = PSet (map received vs)"
| "received (PObj m c r) = (if allowlisted m then PObj m c r else PStr r)"
| "received v = v"

text \<open>
  What can be sent: sets whose received members are hashable and distinct, objects that pickling
  keeps, and arrays that NumPy builds again from their bytes and shape.
\<close>

fun transportable :: "(pyval \<Rightarrow> bytes) \<Rightarrow> decoders \<Rightarrow> pyval \<Rightarrow> bool" where
  "transportable dumps loads (PList vs) = (\<forall>v \<in> set vs. transportable dumps loads v)"
| "transportable dumps loads (PTuple vs) = (\<forall>v \<in> set vs. transportable dumps loads v)"
| "transportable dumps loads (PDict d) = (\<forall>kv \<in> set d. transportable dumps loads (snd kv))"
| "transportable dumps loads (PSet vs) =
     ((\<forall>v \<in> set vs. transportable dumps loads v \<and> hashable (received v)) \<and> distinct (map received vs))"
| "transportable dumps loads (PObj m c r) =
     (allowlisted m \<longrightarrow> allowlisted (m @ ''.'' @ c) \<and> unpickle loads (dumps (PObj m c r)) = Inr (PObj m c r))"
| "transportable dumps loads (PArray t sh b) =
     (case numpy loads of
        None \<Rightarrow> False
      | Some (frombuffer, reshape) \<Rightarrow>
          (case frombuffer b (PStr t) of
             Inl e \<Rightarrow> False
           | Inr arr \<Rightarrow> reshape arr (PList (map PInt sh)) = Inr (PArray t sh b)))"
| "transportable dumps loads v = True"

lemma dedup_distinct: "distinct vs \<Longrightarrow> dedup vs = vs"
  by (induction vs) (auto simp: filter_id_conv)

lemma type_key_neq [simp]: "''imag'' \<noteq> type_key" "''real'' \<noteq> type_key" "''data'' \<noteq> type_key" "''class'' \<noteq> type_key" "type_key \<noteq> ''data''"
  by (simp_all add: type_key_def)

lemma tag_facts [simp]:
  "dget_or ((type_key, PStr t) # d) type_key v = PStr t"
  "dget_or [(type_key, x), (''values'', y)] ''values'' v = y"
  "dget_or [(type_key, x), (''items'', y)] ''items'' v = y"
  "dget_or [(type_key, x), (''data'', y), (''class'', z)] ''class'' v = z"
  "dget_or [(type_key, x), (''value'', y), (''class'', z)] ''value'' v = y"
  "dget [(type_key, x), (''data'', y)] ''data'' = Some y"
  "dget [(type_key, x), (''data'', y), (''class'', z)] ''data'' = Some y"
  "dget [(type_key, x), (''real'', y), (''imag'', z)] ''real'' = Some y"
  "dget [(type_key, x), (''real'', y), (''imag'', z)] ''imag'' = Some z"
  by (simp_all add: dget_or_def type_key_def)

lemma elements_PList [simp]: "elements (PList vs) = Some vs"
  by (simp add: elements_def)

lemma deserialize_own_array:
  assumes "transportable dumps loads (PArray t sh b)"
  shows "deserialize_numpy loads [(type_key, PStr ''ndarray''), (''dtype'', PStr t), (''shape'', PList (map PInt sh)),
    (''data'', PStr (b64encode b))] = Inr (PArray t sh b)"
proof -
  let ?d = "[(type_key, PStr ''ndarray''), (''dtype'', PStr t), (''shape'', PList (map PInt sh)), (''data'', PStr (b64encode b))]"
  have "dget ?d ''dtype'' = Some (PStr t)" "dget ?d ''shape'' = Some (PList (map PInt sh))"
    "dget ?d ''data'' = Some (PStr (b64encode b))"
    by (simp_all add: type_key_def)
  then show ?thesis
    using assms
    by (auto simp: deserialize_numpy_def build_array_def decode_field_def get_field_def
        split: option.splits prod.splits sum.splits)
qed

lemma deserialize_serialize:
  "transportable dumps loads v \<Longrightarrow> deserialize loads (serialize_value dumps v) = Inr (received v)"
proof (induction v rule: received.induct)
  case (1 vs)
  then have "map_result (deserialize loads) (map (serialize_value dumps) vs) = Inr (map received vs)"
    by (simp add: map_result_map map_result_Inr)
  then show ?case by (simp add: Let_def)
next
  case (2 vs)
  then have "map_result (deserialize loads) (map (serialize_value dumps) vs) = Inr (map received vs)"
    by (simp add: map_result_map map_result_Inr)
  then show ?case by (simp add: Let_def)
next
  case (3 d)
  have "map_result (\<lambda>kv. map_sum id (Pair (fst kv)) (deserialize loads (snd kv)))
      (map (\<lambda>(k, v). (k, serialize_value dumps v)) d) = Inr (map (\<lambda>(k, v). (k, received v)) d)"
    unfolding map_result_map using 3 by (intro map_result_Inr) (force simp: split_beta)
  then show ?case by (simp add: Let_def)
next
  case (4 vs)
  then have "map_result (deserialize loads) (map (serialize_value dumps) vs) = Inr (map received vs)"
    by (simp add: map_result_map map_result_Inr)
  with 4 show ?case by (simp add: Let_def build_set_def dedup_distinct)
next
  case (5 m c r)
  then show ?case
    by (auto simp: Let_def serialize_pickle_def deserialize_leaf_def deserialize_pickle_def
        decode_field_def get_field_def)
qed (simp_all add: Let_def deserialize_leaf_def decode_field_def get_field_def build_complex_def
    deserialize_own_array del: transportable.simps(6))

text \<open>
  C12: What is serialized, sent and deserialized arrives as the same value, with tuples turned into
  lists and unpickled objects into their \<^verbatim>\<open>repr\<close>: for every nesting of lists, tuples,
  dictionaries, byte strings, complex numbers, arrays that NumPy builds again from their bytes, objects that
  pickling keeps, and sets of hashable members.
\<close>

theorem serialization_roundtrip:
  assumes "transportable dumps loads v"
  shows "deserialize loads (serialize_value dumps v) = Inr (received v)"
  using assms by (rule deserialize_serialize)

definition no_decoders :: decoders where
  "no_decoders = \<lparr>unpickle = (\<lambda>b. Inl TypeError), numpy = None, torch = None\<rparr>"

text \<open>A receiver with NumPy, for arrays of bytes.\<close>

definition byte_decoders :: decoders where
  "byte_decoders = \<lparr>unpickle = (\<lambda>b. Inl TypeError),
     numpy = Some (\<lambda>b t. Inr (PArray ''uint8'' [int (length b)] b),
       \<lambda>arr sh. case (arr, sh) of (PArray t _ b, PList [PInt n, PInt m]) \<Rightarrow> Inr (PArray t [n, m] b) | _ \<Rightarrow> Inl TypeError),
     torch = None\<rparr>"

definition demo_value :: pyval where
  "demo_value = PDict [(type_key, PTuple [PInt 1, PBytes [255, 0]]), (''z'', PSet [PComplex 1 2, PNone]),
     (''a'', PArray ''uint8'' [2, 1] [7, 8])]"

theorem serialization_roundtrip_witness:
  "deserialize byte_decoders (serialize_value (\<lambda>v. []) demo_value) =
     Inr (PDict [(type_key, PList [PInt 1, PBytes [255, 0]]), (''z'', PSet [PComplex 1 2, PNone]),
       (''a'', PArray ''uint8'' [2, 1] [7, 8])])"
proof -
  have "transportable (\<lambda>v. []) byte_decoders demo_value" by (simp add: demo_value_def byte_decoders_def)
  from serialization_roundtrip [OF this] show ?thesis by (simp add: demo_value_def)
qed

text \<open>
  A set with a tuple in it, which Python allows, is serialized but cannot be received: the tuple
  arrives as a list, and building the set raises a TypeError.
\<close>

theorem set_of_tuples_not_received:
  assumes "PTuple ws \<in> set vs" and "\<forall>v \<in> set vs. transportable dumps loads v"
  shows "deserialize loads (serialize_value dumps (PSet vs)) = Inl TypeError"
proof -
  have "map_result (deserialize loads) (map (serialize_value dumps) vs) = Inr (map received vs)"
    using assms(2) by (simp add: map_result_map map_result_Inr deserialize_serialize)
  moreover have "\<not> (\<forall>v \<in> set (map received vs). hashable v)"
    using assms(1) by (force intro!: bexI [of _ "PTuple ws"])
  ultimately show ?thesis by (auto simp: Let_def build_set_def)
qed

theorem set_of_tuples_not_received_witness:
  "deserialize no_decoders (serialize_value (\<lambda>v. []) (PSet [PTuple [PInt 1, PInt 2]])) = Inl TypeError"
  by (rule set_of_tuples_not_received) simp_all

text \<open>
  The allowlist of the pickle decoder checks the class name that the message itself gives: whoever
  writes the message gets any bytes unpickled by naming an allowed class, and a message that names
  another class is returned as it is, without unpickling.
\<close>

theorem pickle_allowlist_trusts_sender:
  "deserialize loads (PDict [(type_key, PStr ''pickle''), (''data'', PStr (b64encode payload)),
     (''class'', PStr cls)]) =
   (if allowlisted cls then unpickle loads payload
    else Inr (PDict [(type_key, PStr ''pickle''), (''data'', PStr (b64encode payload)), (''class'', PStr cls)]))"
  by (simp add: Let_def deserialize_leaf_def deserialize_pickle_def decode_field_def get_field_def)

end
