(* ===== verification/Protocol.thy ===== *)
theory Protocol
  imports Models
begin

text \<open>
  The messages of the WebSocket protocol, \<^verbatim>\<open>shared/protocol.py\<close>. A message holds Python values,
  since a decoded message may carry any JSON value in any field; only its type is checked. The JSON
  and msgpack texts are not modelled: what is sent is the dictionary of \<open>to_dict\<close>, and the text
  received is either no JSON or the value it denotes.
\<close>

datatype message_type =
    CALL | RESULT | ERROR | STREAM_START | STREAM_CHUNK | STREAM_END | HEARTBEAT | HEARTBEAT_ACK
  | SESSION_INIT | SESSION_ACK | SESSION_END | NOTIFY | LOG | PROGRESS

fun message_type_value :: "message_type \<Rightarrow> string" where
  "message_type_value CALL = ''rpc.call''"
| "message_type_value RESULT = ''rpc.result''"
| "message_type_value ERROR = ''rpc.error''"
| "message_type_value STREAM_START = ''rpc.stream.start''"
| "message_type_value STREAM_CHUNK = ''rpc.stream.chunk''"
| "message_type_value STREAM_END = ''rpc.stream.end''"
| "message_type_value HEARTBEAT = ''rpc.heartbeat''"
| "message_type_value HEARTBEAT_ACK = ''rpc.heartbeat.ack''"
| "message_type_value SESSION_INIT = ''session.init''"
| "message_type_value SESSION_ACK = ''session.ack''"
| "message_type_value SESSION_END = ''session.end''"
| "message_type_value NOTIFY = ''rpc.notify''"
| "message_type_value LOG = ''rpc.log''"
| "message_type_value PROGRESS = ''rpc.progress''"

definition message_types :: "message_type list" where
  "message_types =
     [CALL, RESULT, ERROR, STREAM_START, STREAM_CHUNK, STREAM_END, HEARTBEAT, HEARTBEAT_ACK,
      SESSION_INIT, SESSION_ACK, SESSION_END, NOTIFY, LOG, PROGRESS]"

lemma message_types_all: "t \<in> set message_types"
  by (cases t) (simp_all add: message_types_def)

lemma message_types_distinct: "distinct (map message_type_value message_types)"
  by (simp add: message_types_def)

section \<open>Messages\<close>

record rpc_message =
  m_type :: message_type
  m_id :: pyval
  m_method :: pyval
  m_params :: pyval
  m_result :: pyval
  m_error :: pyval
  m_timestamp :: pyval
  m_metadata :: pyval

text \<open>\<open>v or w\<close>.\<close>

definition py_or :: "pyval \<Rightarrow> pyval \<Rightarrow> pyval" where
  "py_or v w = (if truthy v then v else w)"

text \<open>The constructor, with the id and the time it takes when none are given.\<close>

definition new_message ::
    "string \<Rightarrow> pyfloat \<Rightarrow> message_type \<Rightarrow> pyval \<Rightarrow> pyval \<Rightarrow> pyval \<Rightarrow> pyval \<Rightarrow> pyval \<Rightarrow> pyval \<Rightarrow> pyval \<Rightarrow> rpc_message" where
  "new_message uuid now ty meth params res err ident metadata timestamp =
     \<lparr>m_type = ty, m_id = py_or ident (PStr uuid), m_method = meth, m_params = py_or params (PDict []),
      m_result = res, m_error = err, m_timestamp = py_or timestamp (PFloat now),
      m_metadata = py_or metadata (PDict [])\<rparr>"

definition to_dict :: "rpc_message \<Rightarrow> pydict" where
  "to_dict m =
     [(''jsonrpc'', PStr ''2.0''), (''type'', PStr (message_type_value (m_type m))),
      (''id'', m_id m), (''timestamp'', m_timestamp m)]
     @ (if truthy (m_method m) then [(''method'', m_method m)] else [])
     @ (if truthy (m_params m) then [(''params'', m_params m)] else [])
     @ (if m_result m \<noteq> PNone then [(''result'', m_result m)] else [])
     @ (if truthy (m_error m) then [(''error'', m_error m)] else [])
     @ (if truthy (m_metadata m) then [(''metadata'', m_metadata m)] else [])"

text \<open>\<open>MessageType(v)\<close> finds the member with that value; \<open>data.get(k)\<close> is None for a missing key.\<close>

definition parse_type :: "pyval \<Rightarrow> py_error + message_type" where
  "parse_type v =
     (case v of PStr s \<Rightarrow> enum_of message_type_value message_types s | _ \<Rightarrow> Inl (ValueError ''type''))"

definition from_dict :: "string \<Rightarrow> pyfloat \<Rightarrow> pydict \<Rightarrow> py_error + rpc_message" where
  "from_dict uuid now d =
     (case parse_type (dget_or d ''type'' (PStr ''rpc.call'')) of
        Inl e \<Rightarrow> Inl e
      | Inr ty \<Rightarrow>
          Inr (new_message uuid now ty (dget_or d ''method'' PNone) (dget_or d ''params'' PNone)
            (dget_or d ''result'' PNone) (dget_or d ''error'' PNone) (dget_or d ''id'' PNone)
            (dget_or d ''metadata'' PNone) (dget_or d ''timestamp'' PNone)))"

text \<open>\<open>from_json\<close>: the argument is the JSON value of the text, None if there is none.\<close>

definition from_json :: "string \<Rightarrow> pyfloat \<Rightarrow> pyval option \<Rightarrow> py_error + rpc_message" where
  "from_json uuid now text =
     (case text of
        None \<Rightarrow> Inl (ValueError ''JSONDecodeError'')
      | Some v \<Rightarrow> (case v of PDict d \<Rightarrow> from_dict uuid now d | _ \<Rightarrow> Inl (AttributeError ''get'')))"

text \<open>
  What a value has become when its JSON text is read: tuples are lists, and whatever JSON does not have is
  its \<^verbatim>\<open>str\<close>. The text of a message is this value.
\<close>

fun jsonify :: "(pyval \<Rightarrow> string) \<Rightarrow> pyval \<Rightarrow> pyval" where
  "jsonify str_of (PList vs) = PList (map (jsonify str_of) vs)"
| "jsonify str_of (PTuple vs) = PList (map (jsonify str_of) vs)"
| "jsonify str_of (PDict d) = PDict (map (\<lambda>(k, v). (k, jsonify str_of v)) d)"
| "jsonify str_of PNone = PNone"
| "jsonify str_of (PBool b) = PBool b"
| "jsonify str_of (PInt i) = PInt i"
| "jsonify str_of (PFloat x) = PFloat x"
| "jsonify str_of (PStr s) = PStr s"
| "jsonify str_of v = PStr (str_of v)"

definition to_json :: "(pyval \<Rightarrow> string) \<Rightarrow> rpc_message \<Rightarrow> pyval option" where
  "to_json str_of m = Some (jsonify str_of (PDict (to_dict m)))"

text \<open>
  The binary form: msgpack where it is installed, and otherwise the JSON text. Both packages are parameters, the
  latter as the printing and reading of the text's value.
\<close>

record msgpack =
  packb :: "pydict \<Rightarrow> bytes"
  unpackb :: "bytes \<Rightarrow> py_error + pyval"

definition to_bytes ::
    "msgpack option \<Rightarrow> (pyval option \<Rightarrow> bytes) \<Rightarrow> (pyval \<Rightarrow> string) \<Rightarrow> rpc_message \<Rightarrow> bytes" where
  "to_bytes mp print str_of m =
     (case mp of Some p \<Rightarrow> packb p (to_dict m) | None \<Rightarrow> print (to_json str_of m))"

definition from_bytes ::
    "msgpack option \<Rightarrow> (bytes \<Rightarrow> pyval option) \<Rightarrow> string \<Rightarrow> pyfloat \<Rightarrow> bytes \<Rightarrow> py_error + rpc_message" where
  "from_bytes mp parse uuid now raw =
     (case mp of
        None \<Rightarrow> from_json uuid now (parse raw)
      | Some p \<Rightarrow>
          (case unpackb p raw of
             Inr (PDict d) \<Rightarrow>
               (case from_dict uuid now d of Inr m \<Rightarrow> Inr m | Inl e \<Rightarrow> from_json uuid now (parse raw))
           | _ \<Rightarrow> from_json uuid now (parse raw)))"

section \<open>The helper constructors\<close>

definition make_call :: "string \<Rightarrow> pyfloat \<Rightarrow> string \<Rightarrow> pydict option \<Rightarrow> pydict \<Rightarrow> rpc_message" where
  "make_call uuid now meth params kwargs =
     new_message uuid now CALL (PStr meth) (PDict (case params of Some p \<Rightarrow> p | None \<Rightarrow> kwargs))
       PNone PNone PNone PNone PNone"

definition make_result :: "string \<Rightarrow> pyfloat \<Rightarrow> pyval \<Rightarrow> pyval \<Rightarrow> rpc_message" where
  "make_result uuid now call_id res =
     new_message uuid now RESULT PNone PNone res PNone call_id PNone PNone"

definition make_error :: "string \<Rightarrow> pyfloat \<Rightarrow> pyval \<Rightarrow> string \<Rightarrow> string \<Rightarrow> pyval \<Rightarrow> rpc_message" where
  "make_error uuid now call_id code msg data =
     new_message uuid now ERROR PNone PNone PNone
       (PDict [(''code'', PStr code), (''message'', PStr msg), (''data'', data)]) call_id PNone PNone"

definition make_heartbeat :: "string \<Rightarrow> pyfloat \<Rightarrow> rpc_message" where
  "make_heartbeat uuid now = new_message uuid now HEARTBEAT PNone PNone PNone PNone PNone PNone PNone"

definition make_heartbeat_ack :: "string \<Rightarrow> pyfloat \<Rightarrow> pyval \<Rightarrow> rpc_message" where
  "make_heartbeat_ack uuid now ping_id =
     new_message uuid now HEARTBEAT_ACK PNone PNone PNone PNone ping_id PNone PNone"

definition make_stream_start :: "string \<Rightarrow> pyfloat \<Rightarrow> pyval \<Rightarrow> pyval \<Rightarrow> rpc_message" where
  "make_stream_start uuid now call_id metadata =
     new_message uuid now STREAM_START PNone PNone PNone PNone call_id metadata PNone"

definition make_stream_chunk :: "string \<Rightarrow> pyfloat \<Rightarrow> pyval \<Rightarrow> pyval \<Rightarrow> int \<Rightarrow> rpc_message" where
  "make_stream_chunk uuid now call_id data idx =
     new_message uuid now STREAM_CHUNK PNone PNone data PNone call_id
       (PDict [(''index'', PInt idx)]) PNone"

definition make_stream_end :: "string \<Rightarrow> pyfloat \<Rightarrow> pyval \<Rightarrow> rpc_message" where
  "make_stream_end uuid now call_id =
     new_message uuid now STREAM_END PNone PNone PNone PNone call_id PNone PNone"

definition make_notification :: "string \<Rightarrow> pyfloat \<Rightarrow> string \<Rightarrow> pyval \<Rightarrow> rpc_message" where
  "make_notification uuid now meth params =
     new_message uuid now NOTIFY (PStr meth) params PNone PNone PNone PNone PNone"

definition make_log :: "string \<Rightarrow> pyfloat \<Rightarrow> string \<Rightarrow> string \<Rightarrow> string \<Rightarrow> rpc_message" where
  "make_log uuid now level msg source =
     new_message uuid now LOG PNone
       (PDict [(''level'', PStr level), (''message'', PStr msg), (''source'', PStr source)])
       PNone PNone PNone PNone PNone"

definition progress_percent :: "int \<Rightarrow> int \<Rightarrow> pyfloat" where
  "progress_percent current tot = py_round 1 (of_int current / of_int (max tot 1) * 100)"

definition make_progress :: "string \<Rightarrow> pyfloat \<Rightarrow> string \<Rightarrow> int \<Rightarrow> int \<Rightarrow> string \<Rightarrow> rpc_message" where
  "make_progress uuid now task current tot msg =
     new_message uuid now PROGRESS PNone
       (PDict [(''task'', PStr task), (''current'', PInt current), (''total'', PInt tot),
               (''message'', PStr msg), (''percent'', PFloat (progress_percent current tot))])
       PNone PNone PNone PNone PNone"

definition make_session_init :: "string \<Rightarrow> pyfloat \<Rightarrow> pydict \<Rightarrow> rpc_message" where
  "make_session_init uuid now device_info =
     new_message uuid now SESSION_INIT PNone (PDict device_info) PNone PNone PNone PNone PNone"

lemmas make_defs =
  make_call_def make_result_def make_error_def make_heartbeat_def make_heartbeat_ack_def
  make_stream_start_def make_stream_chunk_def make_stream_end_def make_notification_def
  make_log_def make_progress_def make_session_init_def

lemma new_message_sel [simp]:
  "m_type (new_message u t ty me p r e i md ts) = ty"
  "m_id (new_message u t ty me p r e i md ts) = py_or i (PStr u)"
  "m_method (new_message u t ty me p r e i md ts) = me"
  "m_params (new_message u t ty me p r e i md ts) = py_or p (PDict [])"
  "m_result (new_message u t ty me p r e i md ts) = r"
  "m_error (new_message u t ty me p r e i md ts) = e"
  "m_timestamp (new_message u t ty me p r e i md ts) = py_or ts (PFloat t)"
  "m_metadata (new_message u t ty me p r e i md ts) = py_or md (PDict [])"
  by (simp_all add: new_message_def)

section \<open>The wire format\<close>

lemma dget_to_dict:
  "dget (to_dict m) ''type'' = Some (PStr (message_type_value (m_type m)))"
  "dget (to_dict m) ''id'' = Some (m_id m)"
  "dget (to_dict m) ''timestamp'' = Some (m_timestamp m)"
  "dget_or (to_dict m) ''method'' PNone = (if truthy (m_method m) then m_method m else PNone)"
  "dget_or (to_dict m) ''params'' PNone = (if truthy (m_params m) then m_params m else PNone)"
  "dget_or (to_dict m) ''result'' PNone = m_result m"
  "dget_or (to_dict m) ''error'' PNone = (if truthy (m_error m) then m_error m else PNone)"
  "dget_or (to_dict m) ''metadata'' PNone = (if truthy (m_metadata m) then m_metadata m else PNone)"
  by (simp_all add: to_dict_def dget_or_def)

lemma parse_type_value [simp]: "parse_type (PStr (message_type_value t)) = Inr t"
  using message_types_distinct
  by (simp add: parse_type_def enum_of_val message_types_all distinct_map)

text \<open>The fields a constructed message always has: an id, a time, and dictionaries.\<close>

definition well_built :: "rpc_message \<Rightarrow> bool" where
  "well_built m \<longleftrightarrow> truthy (m_id m) \<and> truthy (m_timestamp m) \<and>
     (truthy (m_params m) \<or> m_params m = PDict []) \<and> (truthy (m_metadata m) \<or> m_metadata m = PDict [])"

lemma new_message_well_built:
  "uuid \<noteq> [] \<Longrightarrow> now \<noteq> 0 \<Longrightarrow> well_built (new_message uuid now ty me p r e i md ts)"
  by (simp add: well_built_def py_or_def)

definition drop_falsy :: "pyval \<Rightarrow> pyval" where
  "drop_falsy v = py_or v PNone"

lemma from_to_dict:
  assumes "well_built m"
  shows "from_dict uuid now (to_dict m) =
    Inr (m\<lparr>m_method := drop_falsy (m_method m), m_error := drop_falsy (m_error m)\<rparr>)"
  using assms
  by (auto simp: from_dict_def dget_to_dict dget_or_def [of _ "''type''"] dget_or_def [of _ "''id''"]
      dget_or_def [of _ "''timestamp''"] new_message_def py_or_def drop_falsy_def well_built_def)

text \<open>The values JSON has.\<close>

fun json :: "pyval \<Rightarrow> bool" where
  "json (PList vs) = (\<forall>v \<in> set vs. json v)"
| "json (PDict d) = (\<forall>kv \<in> set d. json (snd kv))"
| "json (PTuple vs) = False"
| "json (PBytes b) = False"
| "json (PComplex x y) = False"
| "json (PSet vs) = False"
| "json (PObj m c r) = False"
| "json (PArray t sh b) = False"
| "json v = True"

lemma jsonify_json: "json v \<Longrightarrow> jsonify str_of v = v"
proof (induction v rule: json.induct)
  case (2 d)
  then have "map (\<lambda>(k, v). (k, jsonify str_of v)) d = map id d"
    by (intro map_cong refl) (force simp: split_beta)
  then show ?case by simp
qed (auto intro: map_idI)

lemma json_jsonify: "json (jsonify str_of v)"
  by (induction str_of v rule: jsonify.induct) auto

lemma jsonify_None [simp]: "jsonify str_of v = PNone \<longleftrightarrow> v = PNone"
  by (cases v) simp_all

text \<open>Every field of a message but its result is JSON.\<close>

definition json_fields :: "rpc_message \<Rightarrow> bool" where
  "json_fields m \<longleftrightarrow> json (m_id m) \<and> json (m_method m) \<and> json (m_params m) \<and> json (m_error m) \<and>
     json (m_timestamp m) \<and> json (m_metadata m)"

lemma jsonify_to_dict:
  "json_fields m \<Longrightarrow>
   jsonify str_of (PDict (to_dict m)) = PDict (to_dict (m\<lparr>m_result := jsonify str_of (m_result m)\<rparr>))"
  by (simp add: to_dict_def json_fields_def jsonify_json)

lemma from_to_json:
  assumes "well_built m" and "json_fields m"
  shows "from_json uuid now (to_json str_of m) =
    Inr (m\<lparr>m_method := drop_falsy (m_method m), m_error := drop_falsy (m_error m),
           m_result := jsonify str_of (m_result m)\<rparr>)"
  using from_to_dict [of "m\<lparr>m_result := jsonify str_of (m_result m)\<rparr>" uuid now] assms
  by (simp add: from_json_def to_json_def jsonify_to_dict well_built_def del: jsonify.simps)

text \<open>
  A message built by the constructor survives the wire: the receiver rebuilds it with the same id,
  type, time, parameters and metadata, whatever id and time the receiver would make up, and with its result
  as JSON has it, which is the result itself if that is JSON; only a method or an error that is empty
  arrives as None.
\<close>

theorem message_roundtrip:
  assumes "uuid \<noteq> []" and "now \<noteq> 0" and "m = new_message uuid now ty me p r e i md ts" and "json_fields m"
  shows "from_json uuid' now' (to_json str_of m) =
      Inr (m\<lparr>m_method := drop_falsy (m_method m), m_error := drop_falsy (m_error m),
             m_result := jsonify str_of (m_result m)\<rparr>) \<and>
    (json (m_result m) \<longrightarrow> jsonify str_of (m_result m) = m_result m)"
  using from_to_json [OF _ assms(4)] new_message_well_built [OF assms(1,2)] assms(3) by (simp add: jsonify_json)

theorem message_roundtrip_witness:
  "from_json ''x'' 9 (to_json (\<lambda>v. []) (make_call ''u1'' 5 ''echo'' None [(''a'', PInt 1)])) =
     Inr (make_call ''u1'' 5 ''echo'' None [(''a'', PInt 1)])"
proof -
  have m: "make_call ''u1'' 5 ''echo'' None [(''a'', PInt 1)] =
      new_message ''u1'' 5 CALL (PStr ''echo'') (PDict [(''a'', PInt 1)]) PNone PNone PNone PNone PNone"
    by (simp add: make_call_def)
  have "json_fields (make_call ''u1'' 5 ''echo'' None [(''a'', PInt 1)])"
    by (simp add: make_call_def json_fields_def py_or_def)
  from message_roundtrip [OF _ _ m this, of "''x''" 9 "\<lambda>v. []"] show ?thesis
    by (simp add: make_call_def drop_falsy_def py_or_def new_message_def)
qed

text \<open>
  The binary form survives too, also from a sender without msgpack to a receiver with it, as long as each
  package reads what it printed and msgpack refuses the text of a JSON object, which it takes for a number
  with data behind it.
\<close>

lemma bytes_roundtrip:
  assumes "well_built m" and "json_fields m" and "json (m_result m)"
    and "\<And>v. parse (print (Some v)) = Some v"
    and "\<And>p d. receiver = Some p \<Longrightarrow> \<forall>q. sender = Some q \<longrightarrow> unpackb p (packb q d) = Inr (PDict d)"
    and "\<And>p d. receiver = Some p \<Longrightarrow> sender = None \<Longrightarrow> unpackb p (print (Some (PDict d))) = Inl e"
    and "receiver = None \<Longrightarrow> sender = None"
  shows "from_bytes receiver parse uuid now (to_bytes sender print str_of m) =
    Inr (m\<lparr>m_method := drop_falsy (m_method m), m_error := drop_falsy (m_error m)\<rparr>)"
proof -
  have d: "jsonify str_of (PDict (to_dict m)) = PDict (to_dict m)"
    using assms(2,3) by (simp add: jsonify_to_dict jsonify_json del: jsonify.simps)
  show ?thesis
    using assms from_to_dict [OF assms(1), of uuid now]
    by (cases receiver; cases sender)
      (auto simp: from_bytes_def to_bytes_def from_json_def to_json_def d simp del: jsonify.simps)
qed

text \<open>
  A dictionary is read as a message exactly if its type is missing or one of the protocol's; every
  message read has an id, a time and a type, and reading what it prints gives it back.
\<close>

theorem reading_messages:
  assumes "uuid \<noteq> []" and "now \<noteq> 0"
  shows "(is_ok (from_dict uuid now d) \<longleftrightarrow>
      (\<exists>t. dget_or d ''type'' (PStr ''rpc.call'') = PStr (message_type_value t))) \<and>
    (\<forall>m. from_dict uuid now d = Inr m \<longrightarrow> well_built m \<and>
       from_dict uuid' now' (to_dict m) =
         Inr (m\<lparr>m_method := drop_falsy (m_method m), m_error := drop_falsy (m_error m)\<rparr>))"
proof -
  have "is_ok (parse_type v) \<longleftrightarrow> (\<exists>t. v = PStr (message_type_value t))" for v
  proof
    assume "is_ok (parse_type v)"
    then obtain t where "parse_type v = Inr t" by (cases "parse_type v") auto
    then show "\<exists>t. v = PStr (message_type_value t)"
      by (cases v) (auto simp: parse_type_def dest!: enum_of_Inr)
  qed auto
  then have "is_ok (from_dict uuid now d) \<longleftrightarrow>
      (\<exists>t. dget_or d ''type'' (PStr ''rpc.call'') = PStr (message_type_value t))"
    by (auto simp: from_dict_def split: sum.splits) (metis is_ok.simps)+
  moreover have "well_built m" if "from_dict uuid now d = Inr m" for m
    using that new_message_well_built [OF assms] by (auto simp: from_dict_def split: sum.splits)
  ultimately show ?thesis by (simp add: from_to_dict)
qed

theorem reading_messages_witness:
  "is_ok (from_dict ''u'' 1 [(''type'', PStr ''rpc.heartbeat'')])"
proof -
  have "dget_or [(''type'', PStr ''rpc.heartbeat'')] ''type'' (PStr ''rpc.call'') =
      PStr (message_type_value HEARTBEAT)"
    by (simp add: dget_or_def)
  with reading_messages [of "''u''" 1 "[(''type'', PStr ''rpc.heartbeat'')]", THEN conjunct1]
  show ?thesis by fastforce
qed

text \<open>
  The percentage of a progress message lies between 0 and 100 when the current count lies between 0
  and the total, a total of zero included.
\<close>

theorem progress_in_range:
  assumes "0 \<le> current" and "current \<le> max tot 1"
  shows "0 \<le> progress_percent current tot \<and> progress_percent current tot \<le> 100"
proof -
  let ?x = "of_int current / of_int (max tot 1) * 100 * 10 :: rat"
  have pos: "(0::rat) < of_int (max tot 1)" by simp
  have "0 \<le> ?x" using assms(1) by simp
  moreover have "(of_int current :: rat) \<le> of_int (max tot 1)"
    using assms(2) by (simp only: of_int_le_iff)
  then have "of_int current / of_int (max tot 1) \<le> (1::rat)" using pos by (simp only: divide_le_eq_1_pos)
  then have "?x \<le> 1 * 100 * 10" by (intro mult_right_mono) simp_all
  then have "?x \<le> 1000" by simp
  ultimately have "- 1 < (of_int (round_half_even ?x) :: rat)" "(of_int (round_half_even ?x) :: rat) < 1001"
    using round_half_even_close [of ?x] by linarith+
  then have "0 \<le> round_half_even ?x" "round_half_even ?x \<le> 1000" by linarith+
  then show ?thesis by (simp add: progress_percent_def py_round_def)
qed

theorem progress_in_range_witness:
  "progress_percent 1 3 \<le> 100 \<and> progress_percent 1 3 = 333 / 10"
  using progress_in_range [of 1 3] by (simp add: progress_percent_def) code_simp

end
