(* ===== verification/Rpc.thy ===== *)
theory Rpc
  imports Protocol Serialization
begin

text \<open>
  Remote calls, both ends: the dispatcher of the server (\<^verbatim>\<open>server/ws/rpc.py\<close>) and the session of
  the client that connects, sends and waits for the replies (\<^verbatim>\<open>runtime/interceptor.py\<close>). The event
  loop and its thread are not modelled: what arrives while a call waits is a list of events; a future is an id that has an outcome, is cancelled by a timeout, or waits.
  \<open>str_of\<close> stands for \<^verbatim>\<open>str\<close> on values that are no strings.
\<close>

type_synonym handler = "pyval \<Rightarrow> py_error + pyval"
type_synonym dispatcher = "(string, handler) dict"

section \<open>The dispatcher\<close>

definition register :: "string \<Rightarrow> handler \<Rightarrow> dispatcher \<Rightarrow> dispatcher" where
  "register meth h d = dset meth h d"

text \<open>What the server makes up for a reply: its id if none is given, the time, the duration, a trace.\<close>

record reply_env =
  re_uuid :: string
  re_now :: pyfloat
  re_seconds :: pyfloat
  re_trace :: string
  re_str :: "pyval \<Rightarrow> string"

definition dispatch :: "reply_env \<Rightarrow> dispatcher \<Rightarrow> rpc_message \<Rightarrow> py_error + rpc_message" where
  "dispatch env d msg =
     (let meth = py_or (m_method msg) (PStr [])
      in if \<not> hashable meth then Inl TypeError
         else (case (case meth of PStr s \<Rightarrow> dget d s | _ \<Rightarrow> None) of
                 None \<Rightarrow>
                   Inr (make_error (re_uuid env) (re_now env) (m_id msg) ''METHOD_NOT_FOUND''
                          (''Unknown method: '' @ fmt (re_str env) meth) PNone)
               | Some h \<Rightarrow>
                   (case h (m_params msg) of
                      Inr v \<Rightarrow>
                        Inr ((make_result (re_uuid env) (re_now env) (m_id msg) v)
                               \<lparr>m_metadata := PDict [(''duration_ms'',
                                  PFloat (py_round 2 (re_seconds env * 1000)))]\<rparr>)
                    | Inl e \<Rightarrow>
                        Inr (make_error (re_uuid env) (re_now env) (m_id msg) ''EXECUTION_ERROR''
                               (error_text e) (PStr (re_trace env))))))"

definition handle_ping :: "pyfloat \<Rightarrow> handler" where
  "handle_ping now params = Inr (PDict [(''pong'', PBool True), (''timestamp'', PFloat now)])"

definition handle_echo :: handler where
  "handle_echo params = Inr params"

definition builtin_dispatcher :: "pyfloat \<Rightarrow> dispatcher" where
  "builtin_dispatcher now = register ''echo'' handle_echo (register ''ping'' (handle_ping now) [])"

section \<open>The client session\<close>

record cloud_session =
  session_id :: string
  connected :: bool
  socket :: "bool option"
  pending :: "string list"
  outcomes :: "(string, py_error + pyval) dict"
  cancelled :: "string list"

definition new_session :: "string \<Rightarrow> cloud_session" where
  "new_session sid =
     \<lparr>session_id = sid, connected = False, socket = None, pending = [], outcomes = [], cancelled = []\<rparr>"

definition exec_call ::
    "(pyval \<Rightarrow> bytes) \<Rightarrow> string \<Rightarrow> pyfloat \<Rightarrow> string \<Rightarrow> pyval list \<Rightarrow> pydict \<Rightarrow> cloud_session
     \<Rightarrow> rpc_message \<times> cloud_session" where
  "exec_call dumps uuid now meth args kwargs s =
     (let msg = make_call uuid now ''exec.call''
            (Some [(''session_id'', PStr (session_id s)), (''method'', PStr meth),
                   (''args'', serialize_args dumps (PTuple args)),
                   (''kwargs'', if kwargs \<noteq> [] then serialize_args dumps (PDict kwargs) else PDict [])]) []
      in (msg, s\<lparr>pending := uuid # removeAll uuid (pending s)\<rparr>))"

definition settle :: "string \<Rightarrow> py_error + pyval \<Rightarrow> cloud_session \<Rightarrow> cloud_session" where
  "settle i out s =
     (if dget (outcomes s) i = None \<and> i \<notin> set (cancelled s)
      then s\<lparr>outcomes := dset i out (outcomes s)\<rparr> else s)"

text \<open>
  One message of the receive loop. A reply takes its call out of the pending ones before the reply is
  looked at: an error that is neither empty nor a dictionary settles nothing.
\<close>

definition receive :: "(pyval \<Rightarrow> string) \<Rightarrow> rpc_message \<Rightarrow> cloud_session \<Rightarrow> cloud_session" where
  "receive str_of msg s =
     (case m_id msg of
        PStr i \<Rightarrow>
          if (m_type msg = RESULT \<or> m_type msg = ERROR) \<and> i \<in> set (pending s)
          then (let s = s\<lparr>pending := removeAll i (pending s)\<rparr>
                in if m_type msg = RESULT then settle i (Inr (m_result msg)) s
                   else if truthy (m_error msg)
                   then (case m_error msg of
                           PDict d \<Rightarrow>
                             settle i (Inl (RuntimeError (fmt str_of (dget_or d ''message'' (PStr ''Remote error''))))) s
                         | _ \<Rightarrow> s)
                   else settle i (Inl (RuntimeError ''Remote error'')) s)
          else s
      | _ \<Rightarrow> s)"

text \<open>The wait gives up after 300 seconds: the future is cancelled, and stays among the pending ones.\<close>

definition give_up :: "string \<Rightarrow> cloud_session \<Rightarrow> cloud_session" where
  "give_up i s =
     (if dget (outcomes s) i = None then s\<lparr>cancelled := i # cancelled s\<rparr> else s)"

definition await_result ::
    "decoders \<Rightarrow> string \<Rightarrow> cloud_session \<Rightarrow> (py_error + pyval) option" where
  "await_result loads i s =
     map_option (\<lambda>out. case out of Inl e \<Rightarrow> Inl e | Inr v \<Rightarrow> deserialize loads v) (dget (outcomes s) i)"

section \<open>Connecting, sending, waiting\<close>

text \<open>
  A session connects when it is not connected: \<open>socket\<close> is None before the first connection and says then
  whether the last one is open. A connection that breaks is noticed by the receive loop; of one that the server
  closes in good order the loop just ends.
\<close>

definition session_connect :: "bool \<Rightarrow> cloud_session \<Rightarrow> cloud_session" where
  "session_connect reachable s =
     (if connected s then s
      else if reachable then s\<lparr>socket := Some True, connected := True\<rparr> else s\<lparr>connected := False\<rparr>)"

datatype session_event =
    Incoming rpc_message
  | Broken
  | ClosedByServer

definition on_event :: "(pyval \<Rightarrow> string) \<Rightarrow> cloud_session \<Rightarrow> session_event \<Rightarrow> cloud_session" where
  "on_event str_of s e =
     (if socket s \<noteq> Some True then s
      else case e of
        Incoming m \<Rightarrow> receive str_of m s
      | Broken \<Rightarrow> s\<lparr>socket := Some False, connected := False\<rparr>
      | ClosedByServer \<Rightarrow> s\<lparr>socket := Some False\<rparr>)"

text \<open>
  A call: what is sent, what the caller gets, and the session afterwards. \<open>es\<close> are the events of the 300
  seconds the caller waits at most, up to the first that settles the call. A message to a closed connection raises;
  without any connection nothing is sent, and the caller waits all the same.
\<close>

definition execute ::
    "bool \<Rightarrow> (pyval \<Rightarrow> bytes) \<Rightarrow> decoders \<Rightarrow> (pyval \<Rightarrow> string) \<Rightarrow> string \<Rightarrow> pyfloat \<Rightarrow> string \<Rightarrow> pyval list \<Rightarrow> pydict
     \<Rightarrow> session_event list \<Rightarrow> cloud_session \<Rightarrow> rpc_message option \<times> (py_error + pyval) \<times> cloud_session" where
  "execute reachable dumps loads str_of uuid now meth args kwargs es s =
     (case exec_call dumps uuid now meth args kwargs (session_connect reachable s) of
        (msg, s1) \<Rightarrow>
          if socket s1 = Some False then (None, Inl (ConnectionError ''ConnectionClosed''), s1)
          else (let s2 = foldl (on_event str_of) s1 es
                in (if socket s1 = None then None else Some msg,
                    case await_result loads uuid s2 of
                      Some out \<Rightarrow> out
                    | None \<Rightarrow> Inl (TimeoutError (''Cloud execution of '' @ meth @ '' timed out'')),
                    give_up uuid s2)))"

definition get_module_dir :: "(py_error + pyval) \<Rightarrow> pyval" where
  "get_module_dir out = (case out of Inl e \<Rightarrow> PList [] | Inr v \<Rightarrow> v)"

text \<open>\<^verbatim>\<open>dir\<close> of a proxied module asks the server for its names; whatever fails gives none.\<close>

definition proxy_dir ::
    "bool \<Rightarrow> (pyval \<Rightarrow> bytes) \<Rightarrow> decoders \<Rightarrow> (pyval \<Rightarrow> string) \<Rightarrow> string \<Rightarrow> pyfloat \<Rightarrow> string
     \<Rightarrow> session_event list \<Rightarrow> cloud_session \<Rightarrow> pyval \<times> cloud_session" where
  "proxy_dir reachable dumps loads str_of uuid now name es s =
     (case execute reachable dumps loads str_of uuid now ''__dir__'' [PStr name] [] es s of
        (sent, out, s') \<Rightarrow> (get_module_dir out, s'))"

definition session_close :: "cloud_session \<Rightarrow> cloud_session" where
  "session_close s = s\<lparr>socket := map_option (\<lambda>_. False) (socket s), connected := False\<rparr>"

section \<open>The dispatcher answers\<close>

lemma dispatch_id: "dispatch env d msg = Inr reply \<Longrightarrow> truthy (m_id msg) \<Longrightarrow> m_id reply = m_id msg"
  by (auto simp: dispatch_def make_result_def make_error_def py_or_def Let_def
      split: if_splits option.splits sum.splits)

text \<open>
  The dispatcher answers every call whose method is a string or missing with exactly one message
  that carries the id of the call: a RESULT with what the handler returned, an EXECUTION_ERROR with the
  text of what it raised, or METHOD_NOT_FOUND if no handler has the name.
\<close>

theorem dispatch_replies:
  assumes "truthy (m_id msg)" and "py_or (m_method msg) (PStr []) = PStr meth"
  shows "\<exists>reply. dispatch env d msg = Inr reply \<and> m_id reply = m_id msg \<and>
    (case dget d meth of
       None \<Rightarrow> m_type reply = ERROR \<and> m_result reply = PNone \<and>
         m_error reply = PDict [(''code'', PStr ''METHOD_NOT_FOUND''),
           (''message'', PStr (''Unknown method: '' @ meth)), (''data'', PNone)]
     | Some h \<Rightarrow>
         (case h (m_params msg) of
            Inr v \<Rightarrow> m_type reply = RESULT \<and> m_result reply = v \<and> m_error reply = PNone
          | Inl e \<Rightarrow> m_type reply = ERROR \<and> m_result reply = PNone \<and>
              m_error reply = PDict [(''code'', PStr ''EXECUTION_ERROR''),
                (''message'', PStr (error_text e)), (''data'', PStr (re_trace env))]))"
  using assms
  by (auto simp: dispatch_def make_result_def make_error_def py_or_def Let_def
      split: option.splits sum.splits)

definition demo_env :: reply_env where
  "demo_env = \<lparr>re_uuid = ''srv'', re_now = 9, re_seconds = 1/1000, re_trace = ''tb'', re_str = (\<lambda>v. ''?'')\<rparr>"

theorem dispatch_replies_witness:
  "m_result (projr (dispatch demo_env (builtin_dispatcher 9)
     (make_call ''u1'' 5 ''echo'' None [(''a'', PInt 1)]))) = PDict [(''a'', PInt 1)]"
  using dispatch_replies [of "make_call ''u1'' 5 ''echo'' None [(''a'', PInt 1)]" "''echo''" demo_env
      "builtin_dispatcher 9"]
  by (auto simp: make_call_def py_or_def builtin_dispatcher_def register_def handle_echo_def)

section \<open>A call from end to end\<close>

text \<open>
  The call is printed, read and dispatched by the server, and the reply is printed, read and received by
  the client.
\<close>

definition remote_call ::
    "reply_env \<Rightarrow> dispatcher \<Rightarrow> (pyval \<Rightarrow> string) \<Rightarrow> rpc_message \<Rightarrow> cloud_session \<Rightarrow> cloud_session" where
  "remote_call env d str_of msg s =
     (case from_json (re_uuid env) (re_now env) (to_json (re_str env) msg) of
        Inl e \<Rightarrow> s
      | Inr heard \<Rightarrow>
          (case dispatch env d heard of
             Inl e \<Rightarrow> s
           | Inr reply \<Rightarrow>
               (case from_json '''' 0 (to_json (re_str env) reply) of
                  Inl e \<Rightarrow> s
                | Inr answer \<Rightarrow> receive str_of answer s)))"

lemma serialize_json: "json (serialize_value dumps v)"
  by (induction v rule: received.induct) (auto simp: serialize_pickle_def)

lemma serialize_args_json: "json (serialize_args dumps (PTuple args))" "json (serialize_args dumps (PDict kwargs))"
  using serialize_json by auto

lemma exec_call_json: "json (PDict (to_dict (fst (exec_call dumps uuid now meth args kwargs s))))"
  using serialize_args_json [of dumps]
  by (auto simp: exec_call_def make_call_def to_dict_def py_or_def Let_def simp del: serialize_args.simps)


lemma exec_call_message:
  assumes "uuid \<noteq> []" and "now \<noteq> 0"
  shows "from_json u t (to_json str_of (fst (exec_call dumps uuid now meth args kwargs s))) =
    Inr (fst (exec_call dumps uuid now meth args kwargs s))"
  unfolding to_json_def jsonify_json [OF exec_call_json]
  by (simp add: from_json_def exec_call_def make_call_def Let_def
      from_to_dict [OF new_message_well_built [OF assms]])
    (simp add: drop_falsy_def py_or_def new_message_def)

lemma reply_well_built:
  assumes "dispatch env d msg = Inr reply" and "truthy (m_id msg)" and "re_now env \<noteq> 0" and "json (m_id msg)"
  shows "well_built reply \<and> json_fields reply"
  using assms
  by (auto simp: dispatch_def make_result_def make_error_def py_or_def Let_def well_built_def json_fields_def
      split: if_splits option.splits sum.splits)

text \<open>
  A call made over the wire settles its own future and no other: with what the server's handler for
  \<^verbatim>\<open>exec.call\<close> returns for the call's parameters, or with a RuntimeError carrying the text of
  what it raised; if the server has no such handler, with the error that the method is unknown.
\<close>

theorem remote_call_outcome:
  assumes "uuid \<noteq> []" and "now \<noteq> 0" and "re_now env \<noteq> 0"
    and "dget (outcomes s) uuid = None" and "uuid \<notin> set (cancelled s)"
    and "exec_call dumps uuid now meth args kwargs s = (msg, s')"
  shows "outcomes (remote_call env d str_of msg s') =
    dset uuid
      (case dget d ''exec.call'' of
         None \<Rightarrow> Inl (RuntimeError ''Unknown method: exec.call'')
       | Some h \<Rightarrow> map_sum (\<lambda>e. RuntimeError (error_text e)) (jsonify (re_str env)) (h (m_params msg)))
      (outcomes s)"
proof -
  have msg: "from_json (re_uuid env) (re_now env) (to_json (re_str env) msg) = Inr msg"
    using exec_call_message [OF assms(1,2), of _ _ _ dumps meth args kwargs s] assms(6) by simp
  have sel: "m_id msg = PStr uuid" "m_method msg = PStr ''exec.call''" "outcomes s' = outcomes s"
    "uuid \<in> set (pending s')" "cancelled s' = cancelled s"
    using assms(1,6) by (auto simp: exec_call_def make_call_def Let_def py_or_def)
  have "truthy (m_id msg)" "py_or (m_method msg) (PStr []) = PStr ''exec.call''"
    using assms(1) by (simp_all add: sel py_or_def)
  from dispatch_replies [OF this, of env d] obtain reply where
    reply: "dispatch env d msg = Inr reply" "m_id reply = PStr uuid"
    and out: "case dget d ''exec.call'' of
       None \<Rightarrow> m_type reply = ERROR \<and> m_result reply = PNone \<and>
         m_error reply = PDict [(''code'', PStr ''METHOD_NOT_FOUND''),
           (''message'', PStr (''Unknown method: '' @ ''exec.call'')), (''data'', PNone)]
     | Some h \<Rightarrow>
         (case h (m_params msg) of
            Inr v \<Rightarrow> m_type reply = RESULT \<and> m_result reply = v \<and> m_error reply = PNone
          | Inl e \<Rightarrow> m_type reply = ERROR \<and> m_result reply = PNone \<and>
              m_error reply = PDict [(''code'', PStr ''EXECUTION_ERROR''),
                (''message'', PStr (error_text e)), (''data'', PStr (re_trace env))])"
    by (auto simp: sel)
  have "truthy (m_id msg)" "json (m_id msg)" using assms(1) by (simp_all add: sel)
  with reply_well_built [OF reply(1) _ assms(3)] have "well_built reply" "json_fields reply" by simp_all
  from from_to_json [OF this]
  have "from_json '''' 0 (to_json (re_str env) reply) =
      Inr (reply\<lparr>m_method := drop_falsy (m_method reply), m_error := drop_falsy (m_error reply),
             m_result := jsonify (re_str env) (m_result reply)\<rparr>)" .
  then have "remote_call env d str_of msg s' =
      receive str_of (reply\<lparr>m_method := drop_falsy (m_method reply), m_error := drop_falsy (m_error reply),
        m_result := jsonify (re_str env) (m_result reply)\<rparr>) s'"
    using msg reply(1) by (simp add: remote_call_def)
  then show ?thesis
    using out reply(2) sel assms(4,5)
    by (auto simp: receive_def settle_def Let_def drop_falsy_def py_or_def dget_or_def
        split: option.splits sum.splits)
qed

theorem remote_call_outcome_witness:
  "outcomes (remote_call demo_env (register ''exec.call'' handle_echo []) (\<lambda>v. '''')
     (fst (exec_call (\<lambda>v. []) ''u1'' 5 ''math.sqrt'' [PInt 4] [] (new_session ''s'')))
     (snd (exec_call (\<lambda>v. []) ''u1'' 5 ''math.sqrt'' [PInt 4] [] (new_session ''s'')))) =
   [(''u1'', Inr (PDict [(''session_id'', PStr ''s''), (''method'', PStr ''math.sqrt''),
      (''args'', PList [PInt 4]), (''kwargs'', PDict [])]))]"
proof -
  let ?c = "exec_call (\<lambda>v. []) ''u1'' 5 ''math.sqrt'' [PInt 4] [] (new_session ''s'')"
  have "?c = (fst ?c, snd ?c)" by simp
  from remote_call_outcome [OF _ _ _ _ _ this, where env = demo_env
      and d = "register ''exec.call'' handle_echo []" and str_of = "\<lambda>v. []"]
  show ?thesis
    by (simp add: demo_env_def new_session_def register_def handle_echo_def exec_call_def make_call_def
        Let_def py_or_def)
qed

text \<open>
  Against the server as it is, whose dispatcher knows \<^verbatim>\<open>ping\<close> and \<^verbatim>\<open>echo\<close> only, every
  remote execution of the client fails: the proxied function raises that \<^verbatim>\<open>exec.call\<close> is an
  unknown method, whatever is called with whatever arguments.
\<close>

theorem cloud_execution_always_fails:
  assumes "uuid \<noteq> []" and "now \<noteq> 0" and "re_now env \<noteq> 0"
    and "dget (outcomes s) uuid = None" and "uuid \<notin> set (cancelled s)"
    and "exec_call dumps uuid now meth args kwargs s = (msg, s')"
  shows "await_result loads uuid (remote_call env (builtin_dispatcher started) str_of msg s') =
    Some (Inl (RuntimeError ''Unknown method: exec.call''))"
proof -
  have "dget (builtin_dispatcher started) ''exec.call'' = None"
    by (simp add: builtin_dispatcher_def register_def)
  then have "outcomes (remote_call env (builtin_dispatcher started) str_of msg s') =
      dset uuid (Inl (RuntimeError ''Unknown method: exec.call'')) (outcomes s)"
    using remote_call_outcome [OF assms] by simp
  then show ?thesis by (simp add: await_result_def dict_laws)
qed

theorem cloud_execution_always_fails_witness:
  "await_result no_decoders ''u1''
     (remote_call demo_env (builtin_dispatcher 9) (\<lambda>v. '''')
       (fst (exec_call (\<lambda>v. []) ''u1'' 5 ''math.sqrt'' [PInt 4] [] (new_session ''s'')))
       (snd (exec_call (\<lambda>v. []) ''u1'' 5 ''math.sqrt'' [PInt 4] [] (new_session ''s'')))) =
   Some (Inl (RuntimeError ''Unknown method: exec.call''))"
  by (rule cloud_execution_always_fails [OF _ _ _ _ _ prod.collapse [symmetric]])
    (simp_all add: demo_env_def new_session_def)

section \<open>Futures settle once\<close>

lemma receive_keeps: "dget (outcomes s) i = Some out \<Longrightarrow> dget (outcomes (receive str_of msg s)) i = Some out"
  by (auto simp: receive_def settle_def Let_def dict_laws split: pyval.splits)

text \<open>
  A future settles at most once and only by a reply with its own id: whatever messages arrive, an
  outcome once set stays, and an outcome that appears was pending and is carried by a RESULT or an ERROR
  with that id.
\<close>

theorem futures_settle_once:
  "(dget (outcomes s) i = Some out \<longrightarrow>
      dget (outcomes (foldl (\<lambda>s m. receive str_of m s) s msgs)) i = Some out) \<and>
   (dget (outcomes s) i = None \<longrightarrow>
      dget (outcomes (foldl (\<lambda>s m. receive str_of m s) s msgs)) i \<noteq> None \<longrightarrow>
      i \<in> set (pending s) \<and> i \<notin> set (cancelled s) \<and>
      (\<exists>m \<in> set msgs. m_id m = PStr i \<and> (m_type m = RESULT \<or> m_type m = ERROR)))"
proof (induction msgs arbitrary: s)
  case (Cons m msgs)
  have new: "i \<in> set (pending s) \<and> i \<notin> set (cancelled s) \<and> m_id m = PStr i \<and>
      (m_type m = RESULT \<or> m_type m = ERROR)"
    if "dget (outcomes s) i = None" "dget (outcomes (receive str_of m s)) i \<noteq> None"
    using that by (auto simp: receive_def settle_def Let_def dict_laws split: pyval.splits if_splits)
  have sub: "set (pending (receive str_of m s)) \<subseteq> set (pending s)"
    "cancelled (receive str_of m s) = cancelled s"
    by (auto simp: receive_def settle_def Let_def split: pyval.splits if_splits)
  from Cons.IH [of "receive str_of m s"] new sub receive_keeps [of s i] show ?case
    by (cases "dget (outcomes s) i"; cases "dget (outcomes (receive str_of m s)) i") auto
qed simp

theorem futures_settle_once_witness:
  "dget (outcomes (foldl (\<lambda>s m. receive (\<lambda>v. []) m s) ((new_session ''s'')\<lparr>outcomes := [(''a'', Inr PNone)]\<rparr>)
     [make_result ''x'' 1 (PStr ''a'') (PInt 5)])) ''a'' = Some (Inr PNone)"
  using futures_settle_once [of "(new_session ''s'')\<lparr>outcomes := [(''a'', Inr PNone)]\<rparr>" "''a''" "Inr PNone"
      "\<lambda>v. []" "[make_result ''x'' 1 (PStr ''a'') (PInt 5)]"]
  by simp

section \<open>When the connection is gone\<close>

lemma exec_call_frame [simp]:
  "exec_call dumps uuid now meth args kwargs s = (msg, s') \<Longrightarrow>
   socket s' = socket s \<and> connected s' = connected s \<and> outcomes s' = outcomes s"
  by (auto simp: exec_call_def Let_def)

lemma exec_call_same:
  "session_id s = session_id s' \<Longrightarrow>
   fst (exec_call dumps uuid now meth args kwargs s) = fst (exec_call dumps uuid now meth args kwargs s')"
  by (simp add: exec_call_def Let_def)

lemma no_connection_no_event: "socket s \<noteq> Some True \<Longrightarrow> foldl (on_event str_of) s es = s"
  by (induction es) (simp_all add: on_event_def)

text \<open>A sequence of calls of a session, each with whether the server is reachable and what happens meanwhile.\<close>

record call_input =
  ci_reachable :: bool
  ci_uuid :: string
  ci_now :: pyfloat
  ci_method :: string
  ci_args :: "pyval list"
  ci_kwargs :: pydict
  ci_events :: "session_event list"

fun run_calls ::
    "(pyval \<Rightarrow> bytes) \<Rightarrow> decoders \<Rightarrow> (pyval \<Rightarrow> string) \<Rightarrow> call_input list \<Rightarrow> cloud_session
     \<Rightarrow> (rpc_message option \<times> (py_error + pyval)) list" where
  "run_calls dumps loads str_of [] s = []"
| "run_calls dumps loads str_of (c # cs) s =
     (case execute (ci_reachable c) dumps loads str_of (ci_uuid c) (ci_now c) (ci_method c) (ci_args c)
             (ci_kwargs c) (ci_events c) s of
        (sent, out, s') \<Rightarrow> (sent, out) # run_calls dumps loads str_of cs s')"

lemma closed_calls_fail:
  "connected s \<Longrightarrow> socket s = Some False \<Longrightarrow>
   run_calls dumps loads str_of cs s = replicate (length cs) (None, Inl (ConnectionError ''ConnectionClosed''))"
proof (induction cs arbitrary: s)
  case (Cons c cs)
  obtain msg s' where c: "exec_call dumps (ci_uuid c) (ci_now c) (ci_method c) (ci_args c) (ci_kwargs c) s = (msg, s')"
    by fastforce
  with Cons.prems have "socket s' = Some False" "connected s'" by simp_all
  with Cons c show ?case by (simp add: execute_def session_connect_def)
qed simp

text \<open>
  What becomes of a session without its connection. After the server has closed it in good order, the
  session never recovers: every later call, as many as there are and however reachable the server is, raises at once
  without being sent. After the connection broke, the next call connects again and is sent. And a session that
  never reached the server sends nothing, but has the caller wait for the timeout.
\<close>

theorem session_without_connection:
  "(connected s \<and> socket s = Some True \<longrightarrow>
      run_calls dumps loads str_of cs (on_event str_of s ClosedByServer) =
        replicate (length cs) (None, Inl (ConnectionError ''ConnectionClosed''))) \<and>
   (socket s = Some True \<longrightarrow>
      fst (execute True dumps loads str_of uuid now meth args kwargs es (on_event str_of s Broken)) =
        Some (fst (exec_call dumps uuid now meth args kwargs s))) \<and>
   (\<not> connected s \<and> socket s = None \<and> dget (outcomes s) uuid = None \<longrightarrow>
      (case execute False dumps loads str_of uuid now meth args kwargs es s of
         (sent, out, s') \<Rightarrow> sent = None \<and>
           out = Inl (TimeoutError (''Cloud execution of '' @ meth @ '' timed out'')) \<and> uuid \<in> set (cancelled s')))"
proof (intro conjI impI)
  assume "connected s \<and> socket s = Some True"
  then show "run_calls dumps loads str_of cs (on_event str_of s ClosedByServer) =
      replicate (length cs) (None, Inl (ConnectionError ''ConnectionClosed''))"
    by (intro closed_calls_fail) (simp_all add: on_event_def)
next
  assume s: "socket s = Some True"
  let ?s = "session_connect True (on_event str_of s Broken)"
  obtain msg s1 where call: "exec_call dumps uuid now meth args kwargs ?s = (msg, s1)" by fastforce
  have "socket ?s = Some True" "session_id ?s = session_id s" using s by (simp_all add: on_event_def session_connect_def)
  with call exec_call_frame [OF call] exec_call_same [of ?s s dumps uuid now meth args kwargs]
  show "fst (execute True dumps loads str_of uuid now meth args kwargs es (on_event str_of s Broken)) =
      Some (fst (exec_call dumps uuid now meth args kwargs s))"
    by (simp add: execute_def Let_def)
next
  assume s: "\<not> connected s \<and> socket s = None \<and> dget (outcomes s) uuid = None"
  obtain msg s1 where call: "exec_call dumps uuid now meth args kwargs (session_connect False s) = (msg, s1)"
    by fastforce
  then have s1: "socket s1 = None" "dget (outcomes s1) uuid = None" using s by (simp_all add: session_connect_def)
  then have "foldl (on_event str_of) s1 es = s1" by (simp add: no_connection_no_event)
  with call s1 show "case execute False dumps loads str_of uuid now meth args kwargs es s of
      (sent, out, s') \<Rightarrow> sent = None \<and>
        out = Inl (TimeoutError (''Cloud execution of '' @ meth @ '' timed out'')) \<and> uuid \<in> set (cancelled s')"
    by (simp add: execute_def await_result_def give_up_def)
qed

definition open_session :: cloud_session where
  "open_session = (session_connect True (new_session ''s''))"

definition demo_input :: call_input where
  "demo_input = \<lparr>ci_reachable = True, ci_uuid = ''u'', ci_now = 1, ci_method = ''math.sqrt'', ci_args = [PInt 4],
     ci_kwargs = [], ci_events = []\<rparr>"

theorem session_without_connection_witness:
  "run_calls (\<lambda>v. []) no_decoders (\<lambda>v. []) [demo_input, demo_input] (on_event (\<lambda>v. []) open_session ClosedByServer) =
     [(None, Inl (ConnectionError ''ConnectionClosed'')), (None, Inl (ConnectionError ''ConnectionClosed''))]"
proof -
  have "connected open_session \<and> socket open_session = Some True"
    by (simp add: open_session_def session_connect_def new_session_def)
  with session_without_connection [of open_session "\<lambda>v. []" no_decoders "\<lambda>v. []" "[demo_input, demo_input]"]
  show ?thesis by simp
qed

text \<open>
  A proxied module has no names as long as the server does not answer with a result, and no error ever comes out of
  \<^verbatim>\<open>dir\<close>: an unknown method, a lost connection and a timeout all look like an empty module.
\<close>

definition answered :: "string \<Rightarrow> session_event \<Rightarrow> bool" where
  "answered uuid e \<longleftrightarrow> (case e of Incoming m \<Rightarrow> m_id m = PStr uuid \<and> m_type m = RESULT | _ \<Rightarrow> False)"

lemma settle_unanswered:
  assumes "\<forall>v. dget (outcomes s) uuid \<noteq> Some (Inr v)" and "i = uuid \<Longrightarrow> \<forall>v. out \<noteq> Inr v"
  shows "\<forall>v. dget (outcomes (settle i out s)) uuid \<noteq> Some (Inr v)"
  using assms by (simp add: settle_def dict_laws)

lemma receive_unanswered:
  assumes "\<not> answered uuid (Incoming m)" and "\<forall>v. dget (outcomes s) uuid \<noteq> Some (Inr v)"
  shows "\<forall>v. dget (outcomes (receive str_of m s)) uuid \<noteq> Some (Inr v)"
proof (cases "m_id m")
  case (PStr i)
  let ?s = "s\<lparr>pending := removeAll i (pending s)\<rparr>"
  have s: "\<forall>v. dget (outcomes ?s) uuid \<noteq> Some (Inr v)" using assms(2) by simp
  have "\<forall>v. dget (outcomes (settle i (Inl (RuntimeError t)) ?s)) uuid \<noteq> Some (Inr v)" for t
    by (rule settle_unanswered [OF s]) simp
  moreover have "m_type m = RESULT \<Longrightarrow> \<forall>v. dget (outcomes (settle i (Inr (m_result m)) ?s)) uuid \<noteq> Some (Inr v)"
    using assms(1) PStr by (intro settle_unanswered [OF s]) (simp add: answered_def)
  ultimately show ?thesis
    using assms(2) s PStr by (cases "m_error m") (simp_all add: receive_def Let_def)
qed (use assms(2) in \<open>simp_all add: receive_def\<close>)

lemma on_event_unanswered:
  assumes "\<not> answered uuid e" and "\<forall>v. dget (outcomes s) uuid \<noteq> Some (Inr v)"
  shows "\<forall>v. dget (outcomes (on_event str_of s e)) uuid \<noteq> Some (Inr v)"
  using assms receive_unanswered [of uuid _ s str_of] by (cases e) (simp_all add: on_event_def)

lemma events_unanswered:
  assumes "list_all (Not \<circ> answered uuid) es" and "\<forall>v. dget (outcomes s) uuid \<noteq> Some (Inr v)"
  shows "\<forall>v. dget (outcomes (foldl (on_event str_of) s es)) uuid \<noteq> Some (Inr v)"
  using assms on_event_unanswered [of uuid] by (induction es arbitrary: s) auto

theorem dir_without_answer:
  assumes "list_all (Not \<circ> answered uuid) es" and "dget (outcomes s) uuid = None"
  shows "fst (proxy_dir reachable dumps loads str_of uuid now name es s) = PList []"
proof -
  obtain msg s1 where call: "exec_call dumps uuid now ''__dir__'' [PStr name] [] (session_connect reachable s) = (msg, s1)"
    by fastforce
  with exec_call_frame [OF call] assms(2) have "\<forall>v. dget (outcomes s1) uuid \<noteq> Some (Inr v)"
    by (simp add: session_connect_def)
  from events_unanswered [OF assms(1) this, of str_of] call show ?thesis
    by (auto simp: proxy_dir_def execute_def get_module_dir_def await_result_def Let_def split: option.splits sum.splits)
qed

theorem dir_without_answer_witness:
  "fst (proxy_dir True (\<lambda>v. []) no_decoders (\<lambda>v. []) ''u'' 1 ''torch''
     [Incoming (make_error ''x'' 1 (PStr ''u'') ''METHOD_NOT_FOUND'' ''Unknown method'' PNone)] (new_session ''s'')) = PList []"
  by (rule dir_without_answer) (simp_all add: answered_def make_error_def new_message_def new_session_def)

end
