(* ===== verification/Streaming.thy ===== *)
theory Streaming
  imports Rpc "HOL-Library.Multiset"
begin

text \<open>
  Streamed results and their reassembly, \<^verbatim>\<open>runtime/streaming.py\<close>. The event a waiter blocks on
  is set exactly when the stream is complete or has an error. A finished stream leaves the manager's
  table; its receiver is then held by the waiter, and kept in \<open>finished\<close>.
\<close>

record receiver =
  call_id :: string
  chunks :: "pyval list"
  metadata :: pyval
  completed :: bool
  stream_error :: "py_error option"

definition new_receiver :: "string \<Rightarrow> receiver" where
  "new_receiver i =
     \<lparr>call_id = i, chunks = [], metadata = PDict [], completed = False, stream_error = None\<rparr>"

definition on_start :: "pyval \<Rightarrow> receiver \<Rightarrow> receiver" where
  "on_start md r = r\<lparr>metadata := md\<rparr>"

text \<open>\<open>while len(chunks) <= index: chunks.append(None)\<close>, then \<open>chunks[index] = data\<close>.\<close>

definition pad :: "int \<Rightarrow> pyval list \<Rightarrow> pyval list" where
  "pad index cs = cs @ replicate (nat (index + 1) - length cs) PNone"

definition set_item :: "int \<Rightarrow> pyval \<Rightarrow> pyval list \<Rightarrow> (py_error + unit) \<times> pyval list" where
  "set_item index data cs =
     (if 0 \<le> index \<and> index < int (length cs) then (Inr (), cs[nat index := data])
      else if index < 0 \<and> - index \<le> int (length cs)
      then (Inr (), cs[length cs - nat (- index) := data])
      else (Inl IndexError, cs))"

text \<open>
  Every number is compared, but only an integer is an index: a float pads the list before it fails.
\<close>

definition on_chunk :: "pyval \<Rightarrow> pyval \<Rightarrow> receiver \<Rightarrow> (py_error + unit) \<times> receiver" where
  "on_chunk data index r =
     (let place = (\<lambda>k. let (res, cs) = set_item k data (pad k (chunks r)) in (res, r\<lparr>chunks := cs\<rparr>))
      in case index of
           PInt k \<Rightarrow> place k
         | PBool b \<Rightarrow> place (if b then 1 else 0)
         | PFloat q \<Rightarrow> (Inl TypeError, r\<lparr>chunks := pad \<lfloor>q\<rfloor> (chunks r)\<rparr>)
         | _ \<Rightarrow> (Inl TypeError, r))"

definition on_end :: "receiver \<Rightarrow> receiver" where
  "on_end r = r\<lparr>completed := True\<rparr>"

definition on_error :: "py_error \<Rightarrow> receiver \<Rightarrow> receiver" where
  "on_error e r = r\<lparr>stream_error := Some e\<rparr>"

definition encode_text :: "string \<Rightarrow> bytes" where
  "encode_text s = map (\<lambda>c. of_nat (of_char c)) s"

text \<open>\<open>metadata.get(key, default)\<close>, on what may be no dictionary.\<close>

definition metadata_get :: "pyval \<Rightarrow> string \<Rightarrow> pyval \<Rightarrow> py_error + pyval" where
  "metadata_get md key dflt =
     (case md of PDict d \<Rightarrow> Inr (dget_or d key dflt) | _ \<Rightarrow> Inl (AttributeError ''get''))"

definition assemble :: "(pyval \<Rightarrow> string) \<Rightarrow> receiver \<Rightarrow> py_error + pyval" where
  "assemble str_of r =
     (case metadata_get (metadata r) ''content_type'' (PStr ''json'') of
        Inl e \<Rightarrow> Inl e
      | Inr content_type \<Rightarrow>
          Inr (if content_type = PStr ''bytes''
               then PBytes (concat (map (\<lambda>c. case c of PBytes b \<Rightarrow> b | _ \<Rightarrow> encode_text (fmt str_of c)) (chunks r)))
               else if content_type = PStr ''text'' then PStr (concat (map (fmt str_of) (chunks r)))
               else if length (chunks r) = 1 then chunks r ! 0
               else PList (chunks r)))"

text \<open>\<open>wait\<close>: None while the event is not set, which a timeout turns into TimeoutError.\<close>

definition wait_stream :: "(pyval \<Rightarrow> string) \<Rightarrow> receiver \<Rightarrow> (py_error + pyval) option" where
  "wait_stream str_of r =
     (case stream_error r of
        Some e \<Rightarrow> Some (Inl e)
      | None \<Rightarrow> if completed r then Some (assemble str_of r) else None)"

section \<open>The manager\<close>

record stream_manager =
  streams :: "(string, receiver) dict"
  finished :: "(string, receiver) dict"

definition create_stream :: "string \<Rightarrow> stream_manager \<Rightarrow> stream_manager" where
  "create_stream i m = m\<lparr>streams := dset i (new_receiver i) (streams m)\<rparr>"

definition handle_message :: "stream_manager \<Rightarrow> rpc_message \<Rightarrow> (py_error + unit) \<times> stream_manager" where
  "handle_message m msg =
     (if \<not> hashable (m_id msg) then (Inl TypeError, m)
      else case m_id msg of
        PStr i \<Rightarrow>
          (case dget (streams m) i of
             None \<Rightarrow> (Inr (), m)
           | Some r \<Rightarrow>
               (case m_type msg of
                  STREAM_START \<Rightarrow> (Inr (), m\<lparr>streams := dset i (on_start (m_metadata msg) r) (streams m)\<rparr>)
                | STREAM_CHUNK \<Rightarrow>
                    (case metadata_get (m_metadata msg) ''index'' (PInt 0) of
                       Inl e \<Rightarrow> (Inl e, m)
                     | Inr k \<Rightarrow>
                         (let (res, r') = on_chunk (m_result msg) k r
                          in (res, m\<lparr>streams := dset i r' (streams m)\<rparr>)))
                | STREAM_END \<Rightarrow>
                    (Inr (), m\<lparr>streams := ddel i (streams m), finished := dset i (on_end r) (finished m)\<rparr>)
                | _ \<Rightarrow> (Inr (), m)))
      | _ \<Rightarrow> (Inr (), m))"

definition get_stream :: "stream_manager \<Rightarrow> string \<Rightarrow> receiver option" where
  "get_stream m i = dget (streams m) i"

text \<open>The manager after one message, whether it raised or not.\<close>

definition after_message :: "stream_manager \<Rightarrow> rpc_message \<Rightarrow> stream_manager" where
  "after_message m msg = snd (handle_message m msg)"

section \<open>Chunks arrive in any order\<close>

definition put_chunk :: "pyval list \<Rightarrow> int \<times> pyval \<Rightarrow> pyval list" where
  "put_chunk cs item = snd (set_item (fst item) (snd item) (pad (fst item) cs))"

lemma on_chunk_chunks [simp]: "chunks (snd (on_chunk v (PInt k) r)) = put_chunk (chunks r) (k, v)"
  by (simp add: on_chunk_def put_chunk_def split_beta)

lemma put_chunk_nth:
  assumes "0 \<le> k"
  shows "length (put_chunk cs (k, v)) = max (length cs) (nat k + 1) \<and>
    (\<forall>j < length (put_chunk cs (k, v)). put_chunk cs (k, v) ! j =
       (if j = nat k then v else if j < length cs then cs ! j else PNone))"
  using assms
  by (auto simp: put_chunk_def set_item_def pad_def nth_list_update nth_append max_def nat_add_distrib)

lemma put_chunks:
  assumes "\<forall>item \<in> set items. 0 \<le> fst item" and "distinct (map fst items)"
  shows "length (foldl put_chunk cs items) =
      foldr (\<lambda>item. max (nat (fst item) + 1)) items (length cs) \<and>
    (\<forall>(k, v) \<in> set items. nat k < length (foldl put_chunk cs items) \<and> foldl put_chunk cs items ! nat k = v) \<and>
    (\<forall>j < length cs. int j \<notin> fst ` set items \<longrightarrow> foldl put_chunk cs items ! j = cs ! j)"
  using assms
proof (induction items arbitrary: cs)
  case (Cons item items)
  obtain k v where item: "item = (k, v)" by (rule prod.exhaust)
  with Cons.prems have k: "0 \<le> k" by simp
  note put = put_chunk_nth [OF k, of cs v]
  have IH: "length (foldl put_chunk (put_chunk cs item) items) =
      foldr (\<lambda>item. max (nat (fst item) + 1)) items (length (put_chunk cs item)) \<and>
    (\<forall>(k, v) \<in> set items. nat k < length (foldl put_chunk (put_chunk cs item) items) \<and>
       foldl put_chunk (put_chunk cs item) items ! nat k = v) \<and>
    (\<forall>j < length (put_chunk cs item). int j \<notin> fst ` set items \<longrightarrow>
       foldl put_chunk (put_chunk cs item) items ! j = put_chunk cs item ! j)"
    using Cons.prems by (intro Cons.IH) auto
  have swap: "foldr (\<lambda>item. max (nat (fst item) + 1)) items (max a b) =
      max b (foldr (\<lambda>item. max (nat (fst item) + 1)) items a)" for a b
    by (induction items) auto
  have len: "length (put_chunk cs item) = max (length cs) (nat k + 1)"
    using put item by simp
  have up: "n \<le> foldr (\<lambda>item. max (nat (fst item) + 1)) items n" for n
    by (induction items) auto
  have ge: "length (put_chunk cs item) \<le> length (foldl put_chunk (put_chunk cs item) items)"
    using IH up by simp
  have "int (nat k) \<notin> fst ` set items" using Cons.prems item k by auto
  with IH len have "foldl put_chunk (put_chunk cs item) items ! nat k = put_chunk cs item ! nat k" by auto
  also have "\<dots> = v" using put item by auto
  finally have kv: "foldl put_chunk (put_chunk cs item) items ! nat k = v" .
  have lk: "nat k < length (foldl put_chunk (put_chunk cs item) items)" using ge len by auto
  have old: "foldl put_chunk (put_chunk cs item) items ! j = cs ! j"
    if "j < length cs" "int j \<notin> fst ` set (item # items)" for j
  proof -
    from that len have "j < length (put_chunk cs item)" by simp
    with IH that have "foldl put_chunk (put_chunk cs item) items ! j = put_chunk cs item ! j" by auto
    also have "\<dots> = cs ! j" using put item that k by auto
    finally show ?thesis .
  qed
  show ?case
    using IH kv lk old len swap [of "length cs" "nat k + 1"] by (auto simp: item)
qed simp

text \<open>The chunks of a list of data, with their indices.\<close>

definition numbered :: "pyval list \<Rightarrow> (int \<times> pyval) list" where
  "numbered ds = map (\<lambda>j. (int j, ds ! j)) [0..<length ds]"

lemma reassembled:
  assumes "mset items = mset (numbered ds)"
  shows "foldl put_chunk [] items = ds"
proof -
  let ?out = "foldl put_chunk [] items"
  have set: "set items = set (numbered ds)" using assms by (rule mset_eq_setD)
  have fst: "map fst (numbered ds) = map int [0..<length ds]" by (simp add: numbered_def comp_def)
  have "mset (map fst items) = mset (map int [0..<length ds])"
    using assms fst by (metis mset_map)
  then have dist: "distinct (map fst items)"
    by (metis distinct_map distinct_upt inj_on_of_nat mset_eq_imp_distinct_iff)
  have range: "item \<in> set items \<longleftrightarrow> (\<exists>j < length ds. item = (int j, ds ! j))" for item
    unfolding set numbered_def by auto
  then have nonneg: "\<forall>item \<in> set items. 0 \<le> fst item" by auto
  note put = put_chunks [OF nonneg dist, of "[]"]
  have at: "j < length ?out \<and> ?out ! j = ds ! j" if "j < length ds" for j
    using put range [of "(int j, ds ! j)"] that by force
  have "foldr (\<lambda>item. max (nat (fst item) + 1)) items 0 \<le> length ds"
  proof -
    have "\<forall>item \<in> set items. nat (fst item) + 1 \<le> length ds" using range by auto
    then show ?thesis by (induction items) auto
  qed
  with put have "length ?out \<le> length ds" by simp
  moreover have "length ds \<le> length ?out" using at by (meson not_le order_less_irrefl)
  ultimately show ?thesis using at by (intro nth_equalityI) auto
qed

lemma nonneg_put: "0 \<le> k \<Longrightarrow> fst (on_chunk v (PInt k) r) = Inr ()"
  by (auto simp: on_chunk_def set_item_def pad_def split_beta nat_add_distrib)

section \<open>Streams do not interfere\<close>

definition for_stream :: "string \<Rightarrow> rpc_message \<Rightarrow> bool" where
  "for_stream i msg \<longleftrightarrow> m_id msg = PStr i"

lemma handle_other:
  "\<not> for_stream i msg \<Longrightarrow>
   dget (streams (after_message m msg)) i = dget (streams m) i \<and>
   dget (finished (after_message m msg)) i = dget (finished m) i"
  by (auto simp: after_message_def handle_message_def for_stream_def dict_laws
      split: pyval.splits option.splits message_type.splits sum.splits prod.splits)

text \<open>What one message does to the stream it is for.\<close>

definition step_stream :: "receiver option \<times> receiver option \<Rightarrow> rpc_message \<Rightarrow> receiver option \<times> receiver option" where
  "step_stream st msg =
     (case fst st of
        None \<Rightarrow> st
      | Some r \<Rightarrow>
          (case m_type msg of
             STREAM_START \<Rightarrow> (Some (on_start (m_metadata msg) r), snd st)
           | STREAM_CHUNK \<Rightarrow>
               (case metadata_get (m_metadata msg) ''index'' (PInt 0) of
                  Inl e \<Rightarrow> st
                | Inr k \<Rightarrow> (Some (snd (on_chunk (m_result msg) k r)), snd st))
           | STREAM_END \<Rightarrow> (None, Some (on_end r))
           | _ \<Rightarrow> st))"

lemma handle_own:
  "for_stream i msg \<Longrightarrow>
   (dget (streams (after_message m msg)) i, dget (finished (after_message m msg)) i) =
     step_stream (dget (streams m) i, dget (finished m) i) msg"
  by (auto simp: after_message_def handle_message_def for_stream_def step_stream_def dict_laws
      split: option.splits message_type.splits sum.splits prod.splits)

lemma handle_all:
  "(dget (streams (foldl after_message m msgs)) i, dget (finished (foldl after_message m msgs)) i) =
     foldl step_stream (dget (streams m) i, dget (finished m) i) (filter (for_stream i) msgs)"
proof (induction msgs arbitrary: m)
  case (Cons msg msgs)
  show ?case
  proof (cases "for_stream i msg")
    case True
    with Cons [of "after_message m msg"] handle_own [OF True, of m] show ?thesis by simp
  next
    case False
    with Cons [of "after_message m msg"] handle_other [OF False, of m] show ?thesis by simp
  qed
qed simp

lemma assemble_completed [simp]: "assemble str_of (r\<lparr>completed := b\<rparr>) = assemble str_of r"
  by (simp add: assemble_def split: sum.split)

lemma new_receiver_sel: "stream_error (new_receiver i) = None"
  by (simp add: new_receiver_def)

text \<open>The chunk messages as the server sends them, and what they do to a receiver.\<close>

definition is_chunk :: "string \<Rightarrow> rpc_message \<Rightarrow> int \<times> pyval \<Rightarrow> bool" where
  "is_chunk i msg item \<longleftrightarrow>
     (\<exists>uuid now. msg = make_stream_chunk uuid now (PStr i) (snd item) (fst item))"

lemma step_chunks:
  assumes "list_all2 (is_chunk i) msgs items"
  shows "foldl step_stream (Some r, f) msgs = (Some (r\<lparr>chunks := foldl put_chunk (chunks r) items\<rparr>), f)"
  using assms
proof (induction arbitrary: r rule: list_all2_induct)
  case (Cons msg msgs item items)
  then have "step_stream (Some r, f) msg = (Some (snd (on_chunk (snd item) (PInt (fst item)) r)), f)"
    by (auto simp: is_chunk_def step_stream_def make_stream_chunk_def metadata_get_def py_or_def dget_or_def)
  moreover have "snd (on_chunk (snd item) (PInt (fst item)) r) = r\<lparr>chunks := put_chunk (chunks r) item\<rparr>"
    by (simp add: on_chunk_def put_chunk_def split_beta)
  ultimately show ?case using Cons.IH by simp
qed simp

text \<open>
  C17: If a stream is created and, among the messages of any other streams, its start arrives first,
  its end last, and its chunks in between in any order, then the waiter gets the result assembled from
  the data in their original order with the metadata of the start, and the stream is no longer tracked.
\<close>

theorem stream_reassembly:
  assumes "filter (for_stream i) msgs =
      make_stream_start us ts (PStr i) (PDict md) # cmsgs @ [make_stream_end ue te (PStr i)]"
    and "list_all2 (is_chunk i) cmsgs items" and "mset items = mset (numbered ds)"
    and "i \<noteq> []"
  shows "get_stream (foldl after_message (create_stream i m) msgs) i = None \<and>
    map_option (wait_stream str_of) (dget (finished (foldl after_message (create_stream i m) msgs)) i) =
      Some (Some (assemble str_of ((new_receiver i)\<lparr>metadata := PDict md, chunks := ds\<rparr>)))"
proof -
  let ?out = "foldl after_message (create_stream i m) msgs"
  let ?r = "(new_receiver i)\<lparr>metadata := PDict md\<rparr>"
  have start: "step_stream (Some (new_receiver i), f) (make_stream_start us ts (PStr i) (PDict md)) = (Some ?r, f)" for f
    by (simp add: step_stream_def make_stream_start_def on_start_def py_or_def)
  have "chunks ?r = []" by (simp add: new_receiver_def)
  with step_chunks [OF assms(2), of ?r] reassembled [OF assms(3)]
  have mid: "foldl step_stream (Some ?r, f) cmsgs = (Some (?r\<lparr>chunks := ds\<rparr>), f)" for f by simp
  have "step_stream (Some r, f) (make_stream_end ue te (PStr i)) = (None, Some (on_end r))" for r f
    by (simp add: step_stream_def make_stream_end_def)
  with start mid have "(dget (streams ?out) i, dget (finished ?out) i) =
      (None, Some (on_end (?r\<lparr>chunks := ds\<rparr>)))"
    unfolding handle_all assms(1) by (simp add: create_stream_def dict_laws)
  then show ?thesis
    by (simp add: get_stream_def wait_stream_def on_end_def new_receiver_sel)
qed

definition demo_stream :: "rpc_message list" where
  "demo_stream =
     [make_stream_start ''u'' 1 (PStr ''s'') (PDict [(''content_type'', PStr ''text'')]),
      make_stream_chunk ''u'' 2 (PStr ''s'') (PStr ''lo'') 1,
      make_stream_chunk ''u'' 2 (PStr ''other'') (PStr ''noise'') 0,
      make_stream_chunk ''u'' 3 (PStr ''s'') (PStr ''hel'') 0,
      make_stream_end ''u'' 4 (PStr ''s'')]"

theorem stream_reassembly_witness:
  "map_option (wait_stream (\<lambda>v. [])) (dget (finished (foldl after_message (create_stream ''s''
     \<lparr>streams = [], finished = []\<rparr>) demo_stream)) ''s'') = Some (Some (Inr (PStr ''hello'')))"
proof -
  let ?c = "[make_stream_chunk ''u'' 2 (PStr ''s'') (PStr ''lo'') 1,
    make_stream_chunk ''u'' 3 (PStr ''s'') (PStr ''hel'') 0]"
  have f: "filter (for_stream ''s'') demo_stream =
      make_stream_start ''u'' 1 (PStr ''s'') (PDict [(''content_type'', PStr ''text'')]) #
      ?c @ [make_stream_end ''u'' 4 (PStr ''s'')]"
    by (simp add: demo_stream_def for_stream_def make_defs py_or_def)
  have c: "list_all2 (is_chunk ''s'') ?c [(1, PStr ''lo''), (0, PStr ''hel'')]"
    by (auto simp: is_chunk_def)
  have m: "mset [(1, PStr ''lo''), (0, PStr ''hel'')] = mset (numbered [PStr ''hel'', PStr ''lo''])"
    by (simp add: numbered_def add_mset_commute)
  from stream_reassembly [OF f c m, where m = "\<lparr>streams = [], finished = []\<rparr>" and str_of = "\<lambda>v. []"]
  show ?thesis by (simp add: assemble_def metadata_get_def dget_or_def new_receiver_def)
qed

text \<open>
  Messages for one stream change no other stream, running or finished.
\<close>

theorem streams_independent:
  assumes "\<forall>msg \<in> set msgs. \<not> for_stream i msg"
  shows "get_stream (foldl after_message m msgs) i = get_stream m i \<and>
    dget (finished (foldl after_message m msgs)) i = dget (finished m) i"
proof -
  have "filter (for_stream i) msgs = []" using assms by (simp add: filter_empty_conv)
  with handle_all [of m msgs i] show ?thesis by (simp add: get_stream_def)
qed

theorem streams_independent_witness:
  "get_stream (foldl after_message (create_stream ''s'' \<lparr>streams = [], finished = []\<rparr>)
     [make_stream_end ''u'' 4 (PStr ''other'')]) ''s'' = Some (new_receiver ''s'')"
  using streams_independent [of "[make_stream_end ''u'' 4 (PStr ''other'')]" "''s''"
      "create_stream ''s'' \<lparr>streams = [], finished = []\<rparr>"]
  by (simp add: for_stream_def make_stream_end_def py_or_def create_stream_def get_stream_def)

end
