(* ===== verification/Hub.thy ===== *)
theory Hub
  imports Rpc Services
begin

text \<open>
  The WebSocket side of the server: the connection hub (\<^verbatim>\<open>server/ws/hub.py\<close>), the execution
  sessions (\<^verbatim>\<open>server/ws/sessions.py\<close>) and the endpoint (\<^verbatim>\<open>server/app.py\<close>).

  A web socket is a number the hub has not used before. The connection objects are kept in a store
  under their socket, because the handler of a connection goes on updating its own object after the
  hub has replaced it. \<open>reachable ws\<close> says whether the network still takes what is sent to \<open>ws\<close>;
  sending to a closed socket raises.
\<close>

section \<open>The hub\<close>

record connection =
  device :: pyval
  connected_at :: pyfloat
  last_heartbeat :: pyfloat
  conn_metadata :: pyval

record hub =
  connections :: "(pyval, nat) dict"
  objects :: "(nat, connection) dict"
  closed :: "nat list"
  outbox :: "(nat \<times> rpc_message) list"
  next_ws :: nat

definition new_hub :: hub where
  "new_hub = \<lparr>connections = [], objects = [], closed = [], outbox = [], next_ws = 0\<rparr>"

definition close_ws :: "nat \<Rightarrow> hub \<Rightarrow> hub" where
  "close_ws ws h = h\<lparr>closed := ws # closed h\<rparr>"

definition connect :: "pyfloat \<Rightarrow> pyval \<Rightarrow> pyval \<Rightarrow> hub \<Rightarrow> nat \<times> hub" where
  "connect now device_id md h =
     (let ws = next_ws h;
          conn = \<lparr>device = device_id, connected_at = now, last_heartbeat = now,
                  conn_metadata = py_or md (PDict [])\<rparr>;
          h = h\<lparr>next_ws := Suc ws, objects := dset ws conn (objects h)\<rparr>;
          h = (case dget (connections h) device_id of None \<Rightarrow> h | Some old \<Rightarrow> close_ws old h)
      in (ws, h\<lparr>connections := dset device_id ws (connections h)\<rparr>))"

definition disconnect :: "pyval \<Rightarrow> hub \<Rightarrow> hub" where
  "disconnect device_id h =
     (case dget (connections h) device_id of
        None \<Rightarrow> h
      | Some ws \<Rightarrow> close_ws ws (h\<lparr>connections := ddel device_id (connections h)\<rparr>))"

definition send_ws :: "(nat \<Rightarrow> bool) \<Rightarrow> nat \<Rightarrow> rpc_message \<Rightarrow> hub \<Rightarrow> (py_error + unit) \<times> hub" where
  "send_ws reachable ws msg h =
     (if ws \<in> set (closed h) \<or> \<not> reachable ws then (Inl (RuntimeError ''send''), h)
      else (Inr (), h\<lparr>outbox := outbox h @ [(ws, msg)]\<rparr>))"

definition send_to_device :: "(nat \<Rightarrow> bool) \<Rightarrow> pyval \<Rightarrow> rpc_message \<Rightarrow> hub \<Rightarrow> bool \<times> hub" where
  "send_to_device reachable device_id msg h =
     (case dget (connections h) device_id of
        None \<Rightarrow> (False, h)
      | Some ws \<Rightarrow>
          (case send_ws reachable ws msg h of
             (Inr _, h') \<Rightarrow> (True, h')
           | (Inl _, h') \<Rightarrow> (False, disconnect device_id h')))"

fun broadcast_to :: "(nat \<Rightarrow> bool) \<Rightarrow> rpc_message \<Rightarrow> pyval list \<Rightarrow> hub \<Rightarrow> nat \<times> hub" where
  "broadcast_to reachable msg [] h = (0, h)"
| "broadcast_to reachable msg (d # ds) h =
     (let (ok, h') = send_to_device reachable d msg h; (n, h'') = broadcast_to reachable msg ds h'
      in ((if ok then Suc n else n), h''))"

definition broadcast :: "(nat \<Rightarrow> bool) \<Rightarrow> rpc_message \<Rightarrow> hub \<Rightarrow> nat \<times> hub" where
  "broadcast reachable msg h = broadcast_to reachable msg (dkeys (connections h)) h"

definition get_connection :: "hub \<Rightarrow> pyval \<Rightarrow> nat option" where
  "get_connection h device_id = dget (connections h) device_id"

definition connected_count :: "hub \<Rightarrow> nat" where
  "connected_count h = length (connections h)"

definition list_devices :: "hub \<Rightarrow> pyval list" where
  "list_devices h = dkeys (connections h)"

text \<open>One round of the heartbeat loop, over the devices connected when it starts.\<close>

definition heartbeat_one ::
    "(nat \<Rightarrow> bool) \<Rightarrow> pyfloat \<Rightarrow> pyfloat \<Rightarrow> rpc_message \<Rightarrow> hub \<Rightarrow> pyval \<Rightarrow> hub" where
  "heartbeat_one reachable interval now ping h device_id =
     (case dget (connections h) device_id of
        None \<Rightarrow> h
      | Some ws \<Rightarrow>
          (case dget (objects h) ws of
             None \<Rightarrow> h
           | Some conn \<Rightarrow>
               (if now - last_heartbeat conn > interval * 3 then disconnect device_id h
                else (case send_ws reachable ws ping h of
                        (Inr _, h') \<Rightarrow> h'
                      | (Inl _, h') \<Rightarrow> disconnect device_id h'))))"

definition heartbeat_round :: "(nat \<Rightarrow> bool) \<Rightarrow> pyfloat \<Rightarrow> pyfloat \<Rightarrow> rpc_message \<Rightarrow> hub \<Rightarrow> hub" where
  "heartbeat_round reachable interval now ping h =
     foldl (heartbeat_one reachable interval now ping) h (dkeys (connections h))"

section \<open>The endpoint\<close>

text \<open>The user of a connection, from its authorization header or its token parameter.\<close>

definition ws_token :: "string option \<Rightarrow> string option \<Rightarrow> string option" where
  "ws_token auth_header query_token =
     (case auth_header of
        Some hdr \<Rightarrow>
          if prefix ''Bearer '' hdr \<and> drop 7 hdr \<noteq> [] then Some (drop 7 hdr) else query_token
      | None \<Rightarrow> query_token)"

definition ws_user ::
    "jwt_lib \<Rightarrow> server_config \<Rightarrow> pyfloat \<Rightarrow> string option \<Rightarrow> string option \<Rightarrow> pydict option" where
  "ws_user J cfg now auth_header query_token =
     (let user = (case ws_token auth_header query_token of
                    None \<Rightarrow> None
                  | Some t \<Rightarrow>
                      if t = [] then None
                      else if debug cfg \<and> prefix ''dev_'' t
                      then Some [(''sub'', PStr ''dev-user''), (''device_id'', PStr (drop 4 t)), (''tier'', PStr ''dev'')]
                      else decode_token J cfg now t)
      in case user of
           Some u \<Rightarrow> if u \<noteq> [] then Some u else
             (if debug cfg then Some [(''sub'', PStr ''anonymous''), (''device_id'', PStr ''local''), (''tier'', PStr ''dev'')]
              else None)
         | None \<Rightarrow>
             if debug cfg
             then Some [(''sub'', PStr ''anonymous''), (''device_id'', PStr ''local''), (''tier'', PStr ''dev'')]
             else None)"

text \<open>Opening: a connection without a user is closed, the others join the hub under their device.\<close>

definition ws_open ::
    "jwt_lib \<Rightarrow> server_config \<Rightarrow> pyfloat \<Rightarrow> string option \<Rightarrow> string option \<Rightarrow> hub \<Rightarrow> (pyval \<times> nat) option \<times> hub" where
  "ws_open J cfg now auth_header query_token h =
     (case ws_user J cfg now auth_header query_token of
        None \<Rightarrow> (None, h)
      | Some user \<Rightarrow>
          (let device_id = dget_or user ''device_id'' (PStr ''unknown'');
               (ws, h') = connect now device_id PNone h
           in (Some (device_id, ws), h')))"

text \<open>One text received on a socket; whatever raises is logged, and the loop goes on.\<close>

definition ws_text ::
    "(nat \<Rightarrow> bool) \<Rightarrow> reply_env \<Rightarrow> dispatcher \<Rightarrow> pyval \<times> nat \<Rightarrow> pyval option \<Rightarrow> hub \<Rightarrow> hub" where
  "ws_text reachable env disp conn raw h =
     (case from_json (re_uuid env) (re_now env) raw of
        Inl e \<Rightarrow> h
      | Inr msg \<Rightarrow>
          (let (device_id, ws) = conn in
           case m_type msg of
             SESSION_INIT \<Rightarrow>
               snd (send_ws reachable ws
                 (make_notification (re_uuid env) (re_now env) ''session.ack''
                    (PDict [(''session_id'', device_id)]))
                 (h\<lparr>objects := (case dget (objects h) ws of None \<Rightarrow> objects h
                    | Some c \<Rightarrow> dset ws (c\<lparr>conn_metadata := m_params msg\<rparr>) (objects h))\<rparr>))
           | HEARTBEAT_ACK \<Rightarrow>
               h\<lparr>objects := (case dget (objects h) ws of None \<Rightarrow> objects h
                  | Some c \<Rightarrow> dset ws (c\<lparr>last_heartbeat := re_now env\<rparr>) (objects h))\<rparr>
           | CALL \<Rightarrow>
               (case dispatch env disp msg of
                  Inl e \<Rightarrow> h
                | Inr reply \<Rightarrow> snd (send_ws reachable ws reply h))
           | _ \<Rightarrow> h))"

text \<open>The end of the handler, however it comes: its \<open>finally\<close> clause.\<close>

definition ws_finally :: "pyval \<times> nat \<Rightarrow> hub \<Rightarrow> hub" where
  "ws_finally conn h = disconnect (fst conn) h"

section \<open>Execution sessions\<close>

record exec_session =
  xs_session_id :: string
  xs_device_id :: string
  xs_created_at :: pyfloat
  xs_last_active :: pyfloat
  xs_active_modules :: "string list"
  xs_execution_count :: nat

type_synonym sessions = "(string, exec_session) dict"

definition create_session :: "pyfloat \<Rightarrow> string \<Rightarrow> string \<Rightarrow> sessions \<Rightarrow> exec_session \<times> sessions" where
  "create_session now sid dev ss =
     (let s = \<lparr>xs_session_id = sid, xs_device_id = dev, xs_created_at = now, xs_last_active = now,
               xs_active_modules = [], xs_execution_count = 0\<rparr>
      in (s, dset sid s ss))"

definition get_session :: "sessions \<Rightarrow> string \<Rightarrow> exec_session option" where
  "get_session ss sid = dget ss sid"

definition sessions_by_device :: "string \<Rightarrow> sessions \<Rightarrow> exec_session list" where
  "sessions_by_device dev ss = filter (\<lambda>s. xs_device_id s = dev) (dvals ss)"

definition update_activity :: "pyfloat \<Rightarrow> string \<Rightarrow> sessions \<Rightarrow> sessions" where
  "update_activity now sid ss =
     (case dget ss sid of
        None \<Rightarrow> ss
      | Some s \<Rightarrow>
          dset sid (s\<lparr>xs_last_active := now, xs_execution_count := Suc (xs_execution_count s)\<rparr>) ss)"

definition remove_session :: "string \<Rightarrow> sessions \<Rightarrow> sessions" where
  "remove_session sid ss = ddel sid ss"

definition cleanup_stale :: "pyfloat \<Rightarrow> pyfloat \<Rightarrow> sessions \<Rightarrow> nat \<times> sessions" where
  "cleanup_stale now max_idle ss =
     (let stale = map fst (filter (\<lambda>(sid, s). now - xs_last_active s > max_idle) ss)
      in (length stale, foldl (\<lambda>ss sid. ddel sid ss) ss stale))"

section \<open>Invariant of the hub\<close>

text \<open>
  Every device has one live connection: its socket is open, was given out, has its object, and
  serves no other device.
\<close>

definition hub_inv :: "hub \<Rightarrow> bool" where
  "hub_inv h \<longleftrightarrow>
     dwf (connections h) \<and> distinct (dvals (connections h)) \<and>
     (\<forall>(d, ws) \<in> set (connections h). ws < next_ws h \<and> ws \<notin> set (closed h) \<and>
        (\<exists>c. dget (objects h) ws = Some c \<and> device c = d)) \<and>
     (\<forall>ws \<in> set (closed h). ws < next_ws h)"

lemma connections_disconnect: "connections (disconnect d h) = ddel d (connections h)"
  by (cases "dget (connections h) d") (simp_all add: disconnect_def close_ws_def ddel_absent)

lemma objects_disconnect [simp]: "objects (disconnect d h) = objects h"
  by (simp add: disconnect_def close_ws_def split: option.splits)

lemma send_ws_fields [simp]:
  "connections (snd (send_ws reachable ws msg h)) = connections h"
  "objects (snd (send_ws reachable ws msg h)) = objects h"
  "closed (snd (send_ws reachable ws msg h)) = closed h"
  "next_ws (snd (send_ws reachable ws msg h)) = next_ws h"
  by (simp_all add: send_ws_def)

lemma send_ws_inv: "hub_inv (snd (send_ws reachable ws msg h)) \<longleftrightarrow> hub_inv h"
  by (simp add: hub_inv_def)

lemma distinct_snd_inj:
  "distinct (dvals d) \<Longrightarrow> (a, v) \<in> set d \<Longrightarrow> (b, v) \<in> set d \<Longrightarrow> a = b"
  by (metis distinct_map inj_onD prod.inject snd_conv)

lemma disconnect_inv:
  assumes "hub_inv h"
  shows "hub_inv (disconnect d h)"
proof (cases "dget (connections h) d")
  case None
  then show ?thesis using assms by (simp add: disconnect_def)
next
  case (Some ws)
  then have mem: "(d, ws) \<in> set (connections h)" by (rule dget_in_set)
  then have "ws < next_ws h" using assms by (auto simp: hub_inv_def)
  moreover have "ws' \<noteq> ws" if "(d', ws') \<in> set (connections h)" "d' \<noteq> d" for d' ws'
    using that mem assms distinct_snd_inj [of "connections h" d' ws d] by (auto simp: hub_inv_def)
  moreover have "distinct (dvals (ddel d (connections h)))"
    using assms by (auto simp: hub_inv_def ddel_filter distinct_map inj_on_def)
  ultimately show ?thesis
    using assms Some
    by (auto simp: hub_inv_def disconnect_def close_ws_def set_ddel dict_inv)
qed

lemma connect_fields:
  "connect now d md h = (ws, h') \<Longrightarrow>
     ws = next_ws h \<and> next_ws h' = Suc ws \<and> connections h' = dset d ws (connections h) \<and>
     objects h' = dset ws \<lparr>device = d, connected_at = now, last_heartbeat = now,
       conn_metadata = py_or md (PDict [])\<rparr> (objects h) \<and>
     closed h' = (case dget (connections h) d of None \<Rightarrow> closed h | Some old \<Rightarrow> old # closed h)"
  by (auto simp: connect_def Let_def close_ws_def split: option.splits)

lemma dvals_dset_set: "dwf d \<Longrightarrow> set (dvals (dset k v d)) \<subseteq> insert v (set (dvals d))"
  by (auto simp: set_dset)

lemma distinct_dvals_dset: "distinct (dvals d) \<Longrightarrow> v \<notin> set (dvals d) \<Longrightarrow> distinct (dvals (dset k v d))"
proof (induction d)
  case (Cons p d)
  have "set (dvals (dset k v d)) \<subseteq> insert v (set (dvals d))" by (induction d) auto
  with Cons show ?case by (cases p) auto
qed simp

lemma connect_inv:
  assumes "hub_inv h"
  shows "hub_inv (snd (connect now d md h))"
proof -
  obtain ws h' where c: "connect now d md h = (ws, h')" by (rule prod.exhaust)
  note f = connect_fields [OF c]
  have wf: "dwf (connections h)" using assms by (simp add: hub_inv_def)
  have fresh: "ws \<notin> set (dvals (connections h))" "ws \<notin> set (closed h)"
    using assms f by (auto simp: hub_inv_def)
  have other: "ws' < next_ws h \<and> ws' \<notin> set (closed h') \<and> (\<exists>c. dget (objects h') ws' = Some c \<and> device c = d')"
    if m: "(d', ws') \<in> set (connections h)" "d' \<noteq> d" for d' ws'
  proof -
    from assms m have w: "ws' < next_ws h" "ws' \<notin> set (closed h)"
      "\<exists>c. dget (objects h) ws' = Some c \<and> device c = d'" by (auto simp: hub_inv_def)
    moreover have "ws' \<noteq> old" if "dget (connections h) d = Some old" for old
      using that m assms distinct_snd_inj [of "connections h" d' old d] dget_in_set [OF that]
      by (auto simp: hub_inv_def)
    ultimately show ?thesis using f by (auto simp: dict_laws split: option.splits)
  qed
  have "distinct (dvals (connections h'))"
    using f fresh assms by (simp add: distinct_dvals_dset hub_inv_def)
  moreover have "\<forall>ws \<in> set (closed h'). ws < next_ws h'"
    using f assms by (auto simp: hub_inv_def less_Suc_eq split: option.splits dest!: dget_in_set)
  moreover have "ws \<notin> set (closed h')"
    using f fresh by (auto split: option.splits dest!: dget_in_set) (force simp: image_iff)
  ultimately show ?thesis
    using f other wf c
    by (auto simp: hub_inv_def set_dset dict_inv dict_laws less_Suc_eq)
qed

lemma update_object_inv:
  assumes "hub_inv h" and "\<And>c. device (g c) = device c"
  shows "hub_inv (h\<lparr>objects := (case dget (objects h) ws of None \<Rightarrow> objects h
    | Some c \<Rightarrow> dset ws (g c) (objects h))\<rparr>)"
  using assms by (fastforce simp: hub_inv_def dict_laws split: option.splits)

lemma send_to_device_inv: "hub_inv h \<Longrightarrow> hub_inv (snd (send_to_device reachable d msg h))"
  using send_ws_inv [of reachable _ msg h]
  by (auto simp: send_to_device_def disconnect_inv split: option.splits prod.splits sum.splits)
    (metis disconnect_inv snd_conv)+

lemma broadcast_to_inv: "hub_inv h \<Longrightarrow> hub_inv (snd (broadcast_to reachable msg ds h))"
proof (induction ds arbitrary: h)
  case (Cons d ds)
  then show ?case using send_to_device_inv [of h reachable d msg] by (simp add: split_beta)
qed simp

lemma heartbeat_one_inv: "hub_inv h \<Longrightarrow> hub_inv (heartbeat_one reachable interval now ping h d)"
  using send_ws_inv [of reachable _ ping h]
  by (auto simp: heartbeat_one_def disconnect_inv split: option.splits prod.splits sum.splits)
    (metis disconnect_inv snd_conv)+

lemma ws_text_inv: "hub_inv h \<Longrightarrow> hub_inv (ws_text reachable env disp conn raw h)"
  by (auto simp: ws_text_def Let_def send_ws_inv
      split: sum.splits prod.splits message_type.splits intro!: update_object_inv)

text \<open>The server's life: connections open, texts arrive, handlers end, heartbeats and broadcasts.\<close>

datatype hub_event =
    Open pyfloat pyval
  | Text reply_env "pyval \<times> nat" "pyval option"
  | Finally "pyval \<times> nat"
  | Heartbeat pyfloat rpc_message
  | Broadcast rpc_message

fun hub_step :: "(nat \<Rightarrow> bool) \<Rightarrow> dispatcher \<Rightarrow> hub \<Rightarrow> hub_event \<Rightarrow> hub" where
  "hub_step reachable disp h (Open now d) = snd (connect now d PNone h)"
| "hub_step reachable disp h (Text env conn raw) = ws_text reachable env disp conn raw h"
| "hub_step reachable disp h (Finally conn) = ws_finally conn h"
| "hub_step reachable disp h (Heartbeat now ping) = heartbeat_round reachable 30 now ping h"
| "hub_step reachable disp h (Broadcast msg) = snd (broadcast reachable msg h)"

lemma heartbeat_round_inv: "hub_inv h \<Longrightarrow> hub_inv (heartbeat_round reachable interval now ping h)"
proof -
  have "hub_inv h \<Longrightarrow> hub_inv (foldl (heartbeat_one reachable interval now ping) h ds)" for ds
    by (induction ds arbitrary: h) (auto intro: heartbeat_one_inv)
  then show "hub_inv h \<Longrightarrow> ?thesis" by (simp add: heartbeat_round_def)
qed

lemma hub_step_inv: "hub_inv h \<Longrightarrow> hub_inv (hub_step reachable disp h e)"
  by (cases e) (simp_all add: connect_inv ws_text_inv ws_finally_def disconnect_inv
      heartbeat_round_inv broadcast_def broadcast_to_inv)

interpretation hub_machine: kept_invariant "hub_step reachable disp" hub_inv for reachable disp
  by unfold_locales (rule hub_step_inv)



text \<open>
  When a device connects again while its old connection is open, the hub closes the old socket, and
  the end of the old connection's handler then throws out the new one: the device is no longer in the
  table and its new socket is closed.
\<close>

theorem reconnect_drops_new_connection:
  assumes "hub_inv h" and "get_connection h d = Some old"
    and "connect now d md h = (new, h')"
  shows "get_connection h' d = Some new \<and> new \<noteq> old \<and> old \<in> set (closed h') \<and> new \<notin> set (closed h') \<and>
    get_connection (ws_finally (d, old) h') d = None \<and> new \<in> set (closed (ws_finally (d, old) h'))"
proof -
  note f = connect_fields [OF assms(3)]
  from assms(1,2) have "old < next_ws h" by (auto simp: hub_inv_def get_connection_def dest!: dget_in_set)
  moreover have "new \<notin> set (closed h)" using assms(1) f by (auto simp: hub_inv_def)
  ultimately show ?thesis
    using f assms(2)
    by (simp add: get_connection_def ws_finally_def connections_disconnect dict_laws)
      (simp add: disconnect_def dict_laws close_ws_def)
qed

theorem reconnect_drops_new_connection_witness:
  "get_connection (run (hub_step (\<lambda>ws. True) []) new_hub
     [Open 0 (PStr ''p''), Open 1 (PStr ''p''), Finally (PStr ''p'', 0)]) (PStr ''p'') = None"
proof -
  let ?h = "snd (connect 0 (PStr ''p'') PNone new_hub)"
  have inv: "hub_inv ?h" by (rule connect_inv) (simp add: hub_inv_def new_hub_def)
  have c: "get_connection ?h (PStr ''p'') = Some 0"
    by (simp add: connect_def new_hub_def Let_def get_connection_def)
  from reconnect_drops_new_connection [OF inv c prod.collapse [symmetric], of 1 PNone]
  show ?thesis by simp
qed

text \<open>A connection a heartbeat round keeps.\<close>

definition answers :: "(nat \<Rightarrow> bool) \<Rightarrow> pyfloat \<Rightarrow> pyfloat \<Rightarrow> hub \<Rightarrow> nat \<Rightarrow> bool" where
  "answers reachable interval now h ws \<longleftrightarrow>
     reachable ws \<and> (\<forall>c. dget (objects h) ws = Some c \<longrightarrow> now - last_heartbeat c \<le> interval * 3)"

lemma heartbeat_one_effect:
  assumes "hub_inv h"
  shows "connections (heartbeat_one reachable interval now ping h d) =
      filter (\<lambda>(d', ws). d' = d \<longrightarrow> answers reachable interval now h ws) (connections h) \<and>
    objects (heartbeat_one reachable interval now ping h d) = objects h"
proof (cases "dget (connections h) d")
  case None
  then have "filter (\<lambda>(d', ws). d' = d \<longrightarrow> answers reachable interval now h ws) (connections h) = connections h"
    by (auto simp: dget_None_iff image_iff intro!: filter_True)
  with None show ?thesis by (simp add: heartbeat_one_def)
next
  case (Some ws)
  then have mem: "(d, ws) \<in> set (connections h)" by (rule dget_in_set)
  with assms obtain c where c: "dget (objects h) ws = Some c" "ws \<notin> set (closed h)"
    by (auto simp: hub_inv_def)
  have only: "ws' = ws" if "(d, ws') \<in> set (connections h)" for ws'
    using that Some assms by (metis (mono_tags) dget_iff_in_set hub_inv_def option.inject)
  show ?thesis
  proof (cases "answers reachable interval now h ws")
    case True
    with Some c have "connections (heartbeat_one reachable interval now ping h d) = connections h \<and>
        objects (heartbeat_one reachable interval now ping h d) = objects h"
      by (simp add: heartbeat_one_def answers_def send_ws_def)
    moreover have "filter (\<lambda>(d', ws). d' = d \<longrightarrow> answers reachable interval now h ws) (connections h) = connections h"
      using True only by (intro filter_True) auto
    ultimately show ?thesis by simp
  next
    case False
    with Some c have "heartbeat_one reachable interval now ping h d = disconnect d h"
      by (auto simp: heartbeat_one_def answers_def send_ws_def not_le)
    moreover have "filter (\<lambda>(d', ws). d' = d \<longrightarrow> answers reachable interval now h ws) (connections h) =
        ddel d (connections h)"
      unfolding ddel_filter using False only by (intro filter_cong) auto
    ultimately show ?thesis by (simp add: connections_disconnect)
  qed
qed

lemma heartbeat_all:
  assumes "hub_inv h"
  shows "connections (foldl (heartbeat_one reachable interval now ping) h ds) =
      filter (\<lambda>(d, ws). d \<in> set ds \<longrightarrow> answers reachable interval now h ws) (connections h)"
  using assms
proof (induction ds arbitrary: h)
  case (Cons d ds)
  note one = heartbeat_one_effect [OF Cons.prems, of reachable interval now ping d]
  then have "answers reachable interval now (heartbeat_one reachable interval now ping h d) =
      answers reachable interval now h"
    by (simp add: answers_def fun_eq_iff)
  with Cons.IH [OF heartbeat_one_inv [OF Cons.prems]] one show ?case
    by (auto intro!: filter_cong)
qed (simp add: filter_True)

text \<open>
  A round of heartbeats keeps exactly the devices that have acknowledged a heartbeat within three
  intervals and can still be reached; the others are disconnected.
\<close>

theorem heartbeat_keeps_answering:
  assumes "hub_inv h"
  shows "connections (heartbeat_round reachable interval now ping h) =
    filter (\<lambda>(d, ws). answers reachable interval now h ws) (connections h)"
proof -
  have "filter (\<lambda>(d, ws). d \<in> set (dkeys (connections h)) \<longrightarrow> answers reachable interval now h ws) (connections h) =
      filter (\<lambda>(d, ws). answers reachable interval now h ws) (connections h)"
    by (rule filter_cong) force+
  with heartbeat_all [OF assms] show ?thesis by (simp add: heartbeat_round_def)
qed

theorem heartbeat_keeps_answering_witness:
  "connections (heartbeat_round (\<lambda>ws. True) 30 91 (make_heartbeat ''u'' 91)
     (snd (connect 0 (PStr ''p'') PNone new_hub))) = []"
proof -
  have "hub_inv (snd (connect 0 (PStr ''p'') PNone new_hub))"
    by (rule connect_inv) (simp add: hub_inv_def new_hub_def)
  from heartbeat_keeps_answering [OF this, where now = 91 and interval = 30 and reachable = "\<lambda>ws. True"]
  show ?thesis by (simp add: connect_def new_hub_def Let_def answers_def)
qed

lemma foldl_ddel: "foldl (\<lambda>ss sid. ddel sid ss) ss sids = filter (\<lambda>p. fst p \<notin> set sids) ss"
  by (induction sids arbitrary: ss) (auto simp: ddel_filter intro: filter_cong)

text \<open>
  The periodic cleanup removes exactly the sessions idle for longer than the limit, says how many,
  and leaves the others as they are.
\<close>

theorem cleanup_stale_exact:
  assumes "dwf ss"
  shows "cleanup_stale now max_idle ss =
    (length (filter (\<lambda>(sid, s). max_idle < now - xs_last_active s) ss),
     filter (\<lambda>(sid, s). now - xs_last_active s \<le> max_idle) ss)"
proof -
  let ?stale = "map fst (filter (\<lambda>(sid, s). max_idle < now - xs_last_active s) ss)"
  have one: "s = s'" if "(i, s) \<in> set ss" "(i, s') \<in> set ss" for i s s'
    using that assms by (metis dget_iff_in_set option.inject)
  have "filter (\<lambda>p. fst p \<notin> set ?stale) ss = filter (\<lambda>(sid, s). now - xs_last_active s \<le> max_idle) ss"
    by (rule filter_cong) (auto simp: not_less dest: one)
  then show ?thesis unfolding cleanup_stale_def foldl_ddel Let_def by simp
qed

theorem cleanup_stale_exact_witness:
  "fst (cleanup_stale 7200 3600 (snd (create_session 0 ''a'' ''p'' []))) = 1"
proof -
  have "dwf (snd (create_session 0 ''a'' ''p'' []))" by (simp add: create_session_def Let_def)
  from cleanup_stale_exact [OF this, of 7200 3600] show ?thesis by (simp add: create_session_def Let_def)
qed

end
