(* ===== verification/Database.thy ===== *)
theory Database
  imports Models
begin

text \<open>
  The database of the server: the tables that \<^verbatim>\<open>server/db/models.py\<close> declares, as data, and the
  start-up and shut-down of \<^verbatim>\<open>server/db/session.py\<close>. What SQLAlchemy does with the
  declarations is a parameter: \<open>create_all\<close> takes the tables and the database to a database.
\<close>

section \<open>Declarations\<close>

datatype column_type = SString nat | SText | SInteger | SFloat | SBoolean | SDateTime | SJSON

text \<open>The default of a column: a function of the module, a constructor of Python, or a constant.\<close>

datatype column_default =
    NoDefault
  | GenUuid
  | UtcNow
  | NewDict
  | NewList
  | Const pyval

record column =
  co_name :: string
  co_type :: column_type
  co_primary :: bool
  co_foreign :: "(string \<times> string) option"
  co_nullable :: bool
  co_unique :: bool
  co_index :: bool
  co_default :: column_default
  co_onupdate :: column_default

record relationship =
  rs_name :: string
  rs_target :: string
  rs_back :: string
  rs_cascade :: "string list"

record table =
  tb_class :: string
  tb_name :: string
  tb_columns :: "column list"
  tb_relationships :: "relationship list"

text \<open>A column is nullable unless it is a primary key or says otherwise.\<close>

definition col :: "string \<Rightarrow> column_type \<Rightarrow> column_default \<Rightarrow> column" where
  "col n t d =
     \<lparr>co_name = n, co_type = t, co_primary = False, co_foreign = None, co_nullable = True, co_unique = False,
      co_index = False, co_default = d, co_onupdate = NoDefault\<rparr>"

definition id_column :: column where
  "id_column = (col ''id'' (SString 36) GenUuid)\<lparr>co_primary := True, co_nullable := False\<rparr>"

definition required :: "column \<Rightarrow> column" where
  "required c = c\<lparr>co_nullable := False\<rparr>"

definition created_at :: column where
  "created_at = col ''created_at'' SDateTime UtcNow"

definition updated_at :: column where
  "updated_at = (col ''updated_at'' SDateTime UtcNow)\<lparr>co_onupdate := UtcNow\<rparr>"

definition users_table :: table where
  "users_table =
     \<lparr>tb_class = ''User'', tb_name = ''users'',
      tb_columns =
        [id_column,
         (col ''email'' (SString 255) NoDefault)\<lparr>co_unique := True\<rparr>,
         (col ''api_key'' (SString 255) NoDefault)\<lparr>co_unique := True, co_index := True\<rparr>,
         col ''hashed_password'' (SString 255) NoDefault,
         col ''tier'' (SString 50) (Const (PStr ''free'')),
         col ''is_active'' SBoolean (Const (PBool True)),
         created_at, updated_at],
      tb_relationships = [\<lparr>rs_name = ''devices'', rs_target = ''Device'', rs_back = ''user'', rs_cascade = [''all'', ''delete-orphan'']\<rparr>]\<rparr>"

definition devices_table :: table where
  "devices_table =
     \<lparr>tb_class = ''Device'', tb_name = ''devices'',
      tb_columns =
        [id_column,
         (col ''user_id'' (SString 36) NoDefault)\<lparr>co_foreign := Some (''users'', ''id'')\<rparr>,
         col ''architecture'' (SString 50) NoDefault,
         col ''platform_tag'' (SString 100) NoDefault,
         col ''python_version'' (SString 20) NoDefault,
         col ''last_seen'' SDateTime UtcNow,
         col ''metadata'' SJSON NewDict],
      tb_relationships = [\<lparr>rs_name = ''user'', rs_target = ''User'', rs_back = ''devices'', rs_cascade = []\<rparr>]\<rparr>"

definition packages_table :: table where
  "packages_table =
     \<lparr>tb_class = ''Package'', tb_name = ''packages'',
      tb_columns =
        [id_column,
         (required (col ''name'' (SString 255) NoDefault))\<lparr>co_index := True\<rparr>,
         required (col ''version'' (SString 50) NoDefault),
         col ''description'' SText (Const (PStr [])),
         col ''strategy'' (SString 50) (Const (PStr ''local_install'')),
         col ''wheel_url'' (SString 1024) NoDefault,
         col ''wheel_hash'' (SString 64) NoDefault,
         col ''wheel_size'' SInteger (Const (PInt 0)),
         col ''requires_gpu'' SBoolean (Const (PBool False)),
         col ''cloud_only'' SBoolean (Const (PBool False)),
         col ''supported_architectures'' SJSON NewList,
         col ''dependencies'' SJSON NewList,
         col ''layers'' SJSON NewList,
         col ''metadata'' SJSON NewDict,
         created_at, updated_at],
      tb_relationships = []\<rparr>"

definition builds_table :: table where
  "builds_table =
     \<lparr>tb_class = ''Build'', tb_name = ''builds'',
      tb_columns =
        [id_column,
         required (col ''package_name'' (SString 255) NoDefault),
         col ''package_version'' (SString 50) (Const (PStr ''latest'')),
         col ''target_architecture'' (SString 50) (Const (PStr ''aarch64'')),
         col ''python_version'' (SString 20) (Const (PStr ''3.11'')),
         col ''status'' (SString 50) (Const (PStr ''queued'')),
         col ''wheel_url'' (SString 1024) NoDefault,
         col ''wheel_hash'' (SString 64) NoDefault,
         col ''build_log'' SText (Const (PStr [])),
         col ''error'' SText NoDefault,
         col ''priority'' SInteger (Const (PInt 5)),
         col ''duration_seconds'' SFloat (Const (PInt 0)),
         created_at,
         col ''completed_at'' SDateTime NoDefault],
      tb_relationships = []\<rparr>"

definition executions_table :: table where
  "executions_table =
     \<lparr>tb_class = ''Execution'', tb_name = ''executions'',
      tb_columns =
        [id_column,
         col ''device_id'' (SString 36) NoDefault,
         col ''session_id'' (SString 36) NoDefault,
         col ''method'' (SString 500) NoDefault,
         col ''status'' (SString 50) (Const (PStr ''pending'')),
         col ''mode'' (SString 50) (Const (PStr ''cloud'')),
         col ''result_type'' (SString 50) (Const (PStr ''python'')),
         col ''duration_ms'' SFloat (Const (PInt 0)),
         col ''error'' SText NoDefault,
         created_at,
         col ''completed_at'' SDateTime NoDefault],
      tb_relationships = []\<rparr>"

definition tables :: "table list" where
  "tables = [users_table, devices_table, packages_table, builds_table, executions_table]"


definition init_db :: "(table list \<Rightarrow> 'd \<Rightarrow> py_error + 'd) \<Rightarrow> 'd \<Rightarrow> py_error + 'd" where
  "init_db create_all db = create_all tables db"

section \<open>The declarations fit together\<close>

fun fits :: "column_type \<Rightarrow> pyval \<Rightarrow> bool" where
  "fits (SString n) (PStr s) = (length s \<le> n)"
| "fits SText (PStr s) = True"
| "fits SInteger (PInt i) = True"
| "fits SFloat (PInt i) = True"
| "fits SFloat (PFloat x) = True"
| "fits SBoolean (PBool b) = True"
| "fits _ _ = False"

text \<open>The text of a UUID has 36 characters.\<close>

fun default_fits :: "column_type \<Rightarrow> column_default \<Rightarrow> bool" where
  "default_fits t NoDefault = True"
| "default_fits t GenUuid = (case t of SString n \<Rightarrow> 36 \<le> n | _ \<Rightarrow> False)"
| "default_fits t UtcNow = (t = SDateTime)"
| "default_fits t NewDict = (t = SJSON)"
| "default_fits t NewList = (t = SJSON)"
| "default_fits t (Const v) = fits t v"

definition find_column :: "table list \<Rightarrow> string \<times> string \<Rightarrow> column option" where
  "find_column ts tc =
     (case find (\<lambda>t. tb_name t = fst tc) ts of
        None \<Rightarrow> None
      | Some t \<Rightarrow> find (\<lambda>c. co_name c = snd tc) (tb_columns t))"

definition good_column :: "table list \<Rightarrow> column \<Rightarrow> bool" where
  "good_column ts c \<longleftrightarrow>
     default_fits (co_type c) (co_default c) \<and> default_fits (co_type c) (co_onupdate c) \<and>
     (case co_foreign c of
        None \<Rightarrow> True
      | Some tc \<Rightarrow> (case find_column ts tc of
                     None \<Rightarrow> False
                   | Some k \<Rightarrow> co_primary k \<and> co_type k = co_type c))"

definition good_relationship :: "table list \<Rightarrow> table \<Rightarrow> relationship \<Rightarrow> bool" where
  "good_relationship ts t r \<longleftrightarrow>
     list_ex (\<lambda>t'. tb_class t' = rs_target r \<and>
       list_ex (\<lambda>b. rs_name b = rs_back r \<and> rs_back b = rs_name r \<and> rs_target b = tb_class t) (tb_relationships t')) ts"

definition well_declared :: "table list \<Rightarrow> bool" where
  "well_declared ts \<longleftrightarrow>
     distinct (map tb_name ts) \<and> distinct (map tb_class ts) \<and>
     list_all (\<lambda>t. distinct (map co_name (tb_columns t)) \<and>
       map co_nullable (filter co_primary (tb_columns t)) = [False] \<and>
       list_all (good_column ts) (tb_columns t) \<and> list_all (good_relationship ts t) (tb_relationships t)) ts"

definition default_of :: "string \<Rightarrow> string \<Rightarrow> column_default option" where
  "default_of t c = map_option co_default (find_column tables (t, c))"

definition holds :: "string \<times> string \<Rightarrow> string \<Rightarrow> bool" where
  "holds tc s \<longleftrightarrow> (case find_column tables tc of None \<Rightarrow> False | Some c \<Rightarrow> fits (co_type c) (PStr s))"

lemma strategy_value_length: "length (strategy_value st) \<le> 50"
  by (cases st) simp_all

lemma build_status_value_length: "length (build_status_value bs) \<le> 50"
  by (cases bs) simp_all

lemma execution_status_value_length: "length (execution_status_value es) \<le> 50"
  by (cases es) simp_all

lemma execution_mode_value_length: "length (execution_mode_value em) \<le> 50"
  by (cases em) simp_all

lemmas value_lengths = strategy_value_length build_status_value_length execution_status_value_length
  execution_mode_value_length

lemma tables_well_declared: "well_declared tables"
  by code_simp

text \<open>
  The declarations fit together: names are unique, every table has one key that is never null, every foreign key
  names a key of its own type, every relationship has its counterpart, and every default is a value of its column.
  The columns for strategies, statuses and modes hold every member of the enumerations, and start with the
  member that the handlers start with.
\<close>

theorem schema_fits:
  "well_declared tables \<and>
   holds (''packages'', ''strategy'') (strategy_value st) \<and>
   holds (''builds'', ''status'') (build_status_value bs) \<and>
   holds (''executions'', ''status'') (execution_status_value es) \<and>
   holds (''executions'', ''mode'') (execution_mode_value em) \<and>
   default_of ''packages'' ''strategy'' = Some (Const (PStr (strategy_value LocalInstall))) \<and>
   default_of ''builds'' ''status'' = Some (Const (PStr (build_status_value Queued))) \<and>
   default_of ''executions'' ''status'' = Some (Const (PStr (execution_status_value ExecPending))) \<and>
   default_of ''executions'' ''mode'' = Some (Const (PStr (execution_mode_value ModeCloud)))"
proof -
  have types:
    "map_option co_type (find_column tables (''packages'', ''strategy'')) = Some (SString 50)"
    "map_option co_type (find_column tables (''builds'', ''status'')) = Some (SString 50)"
    "map_option co_type (find_column tables (''executions'', ''status'')) = Some (SString 50)"
    "map_option co_type (find_column tables (''executions'', ''mode'')) = Some (SString 50)"
    by code_simp+
  have "default_of ''packages'' ''strategy'' = Some (Const (PStr (strategy_value LocalInstall)))"
    "default_of ''builds'' ''status'' = Some (Const (PStr (build_status_value Queued)))"
    "default_of ''executions'' ''status'' = Some (Const (PStr (execution_status_value ExecPending)))"
    "default_of ''executions'' ''mode'' = Some (Const (PStr (execution_mode_value ModeCloud)))"
    by code_simp+
  with types tables_well_declared value_lengths show ?thesis by (auto simp: holds_def split: option.splits)
qed

end
