(* ===== verification/Application.thy ===== *)
theory Application
  imports Hub Database
begin

text \<open>
  The server application, \<^verbatim>\<open>server/app.py\<close>: the state of its process, which is the state of the services,
  the hub and the sessions; its start, its background loops, its WebSocket endpoint; and what outlives the process,
  the database. The state is that of one worker process. What SQLAlchemy does to create the tables is the parameter
  \<open>ae_create\<close>.
\<close>

section \<open>The process\<close>

type_synonym database = "(string \<times> pydict list) list"

record application =
  ap_windows :: windows
  ap_builds :: build_service
  ap_results :: results
  ap_hub :: hub
  ap_sessions :: sessions
  ap_database :: database
  ap_serving :: bool

record 'o app_env =
  ae_jwt :: jwt_lib
  ae_config :: server_config
  ae_python :: "'o python_env"
  ae_create :: "table list \<Rightarrow> database \<Rightarrow> py_error + database"
  ae_reachable :: "nat \<Rightarrow> bool"
  ae_dispatcher :: dispatcher

text \<open>The singletons of the modules, as a new process makes them over the database it finds.\<close>

definition new_process :: "database \<Rightarrow> application" where
  "new_process db =
     \<lparr>ap_windows = [], ap_builds = new_build_service, ap_results = [], ap_hub = new_hub, ap_sessions = [],
      ap_database = db, ap_serving = False\<rparr>"

text \<open>The start-up handler. If the tables cannot be made, the server does not start.\<close>

definition startup :: "'o app_env \<Rightarrow> application \<Rightarrow> (py_error + unit) \<times> application" where
  "startup E a =
     (case init_db (ae_create E) (ap_database a) of
        Inl e \<Rightarrow> (Inl e, a)
      | Inr db \<Rightarrow> (Inr (), a\<lparr>ap_database := db, ap_serving := True\<rparr>))"

definition session_cleanup :: "pyfloat \<Rightarrow> application \<Rightarrow> application" where
  "session_cleanup now a = a\<lparr>ap_sessions := snd (cleanup_stale now 3600 (ap_sessions a))\<rparr>"

definition root_endpoint :: pydict where
  "root_endpoint =
     [(''name'', PStr ''cpip Cloud API''), (''version'', PStr VERSION), (''docs'', PStr ''/docs''),
      (''health'', PStr ''/health'')]"

text \<open>The WebSocket endpoint, for a connection that receives \<open>raws\<close> while nothing else happens.\<close>

definition websocket_endpoint ::
    "'o app_env \<Rightarrow> pyfloat \<Rightarrow> string option \<Rightarrow> string option \<Rightarrow> (reply_env \<times> pyval option) list \<Rightarrow> hub \<Rightarrow> hub" where
  "websocket_endpoint E now auth_header query_token raws h =
     (case ws_open (ae_jwt E) (ae_config E) now auth_header query_token h of
        (None, h) \<Rightarrow> h
      | (Some conn, h) \<Rightarrow>
          ws_finally conn (foldl (\<lambda>h (env, raw). ws_text (ae_reachable E) env (ae_dispatcher E) conn raw h) h raws))"

section \<open>What happens to it\<close>

text \<open>
  The requests that change the state, the life of the connections, the rounds of the two loops, and a restart of the
  process. A request carries its time, its caller, and what the caller sends.
\<close>

datatype app_event =
    PostBuild pyfloat http_caller build_request
  | DeleteBuild pyfloat http_caller string
  | PostExecution pyfloat pyfloat string http_caller execution_request
  | DeleteExecution pyfloat http_caller string
  | GetPackage pyfloat "request option" string string string string
  | GetWheel pyfloat "request option" string string string
  | GetLayers pyfloat "request option" string
  | GetCatalog pyfloat "request option" string
  | SearchPackages pyfloat "request option" string string int
  | SocketOpen pyfloat "string option" "string option"
  | SocketText reply_env "pyval \<times> nat" "pyval option"
  | SocketEnd "pyval \<times> nat"
  | HeartbeatTick pyfloat string
  | CleanupTick pyfloat
  | Restart

definition restart :: "'o app_env \<Rightarrow> application \<Rightarrow> application" where
  "restart E a = snd (startup E (new_process (ap_database a)))"

fun handle :: "'o app_env \<Rightarrow> application \<Rightarrow> app_event \<Rightarrow> application" where
  "handle E a (PostBuild now c req) =
     (case create_build (ae_jwt E) (ae_config E) now c req (ap_windows a, ap_builds a) of
        (_, w, sv) \<Rightarrow> a\<lparr>ap_windows := w, ap_builds := sv\<rparr>)"
| "handle E a (DeleteBuild now c i) =
     a\<lparr>ap_builds := snd (cancel_build_endpoint (ae_jwt E) (ae_config E) now c i (ap_builds a))\<rparr>"
| "handle E a (PostExecution now duration tb c req) =
     (case submit_execution_endpoint (ae_jwt E) (ae_config E) (ae_python E) now duration tb c req
             (ap_windows a, ap_results a) of
        (_, w, rs) \<Rightarrow> a\<lparr>ap_windows := w, ap_results := rs\<rparr>)"
| "handle E a (DeleteExecution now c i) =
     a\<lparr>ap_results := snd (cancel_execution_endpoint (ae_jwt E) (ae_config E) now c i (ap_results a))\<rparr>"
| "handle E a (GetPackage now r name arch python version) =
     a\<lparr>ap_windows := snd (get_package_endpoint now r name arch python version (ap_windows a))\<rparr>"
| "handle E a (GetWheel now r name arch python) =
     a\<lparr>ap_windows := snd (get_wheel_endpoint now r name arch python (ap_windows a))\<rparr>"
| "handle E a (GetLayers now r name) = a\<lparr>ap_windows := snd (get_layers_endpoint now r name (ap_windows a))\<rparr>"
| "handle E a (GetCatalog now r arch) = a\<lparr>ap_windows := snd (get_catalog_endpoint now r arch (ap_windows a))\<rparr>"
| "handle E a (SearchPackages now r q arch bound) =
     a\<lparr>ap_windows := snd (search_packages_endpoint now r q arch bound (ap_windows a))\<rparr>"
| "handle E a (SocketOpen now auth_header query_token) =
     a\<lparr>ap_hub := snd (ws_open (ae_jwt E) (ae_config E) now auth_header query_token (ap_hub a))\<rparr>"
| "handle E a (SocketText env conn raw) =
     a\<lparr>ap_hub := ws_text (ae_reachable E) env (ae_dispatcher E) conn raw (ap_hub a)\<rparr>"
| "handle E a (SocketEnd conn) = a\<lparr>ap_hub := ws_finally conn (ap_hub a)\<rparr>"
| "handle E a (HeartbeatTick now uuid) =
     a\<lparr>ap_hub := heartbeat_round (ae_reachable E) 30 now (make_heartbeat uuid now) (ap_hub a)\<rparr>"
| "handle E a (CleanupTick now) = session_cleanup now a"
| "handle E a Restart = restart E a"

text \<open>A process that did not start serves nothing until it is started again.\<close>

fun is_restart :: "app_event \<Rightarrow> bool" where
  "is_restart Restart = True"
| "is_restart _ = False"

definition app_step :: "'o app_env \<Rightarrow> application \<Rightarrow> app_event \<Rightarrow> application" where
  "app_step E a e = (if ap_serving a \<or> is_restart e then handle E a e else a)"

section \<open>The invariant of the process\<close>

definition all_empty :: "database \<Rightarrow> bool" where
  "all_empty db \<longleftrightarrow> list_all (\<lambda>t. snd t = []) db"

definition app_inv :: "application \<Rightarrow> bool" where
  "app_inv a \<longleftrightarrow> hub_inv (ap_hub a) \<and> service_inv (ap_builds a) \<and> ap_sessions a = [] \<and> all_empty (ap_database a)"

text \<open>What is relied on: the tables that are created are empty, and those that exist are left as they are.\<close>

definition creates_empty :: "'o app_env \<Rightarrow> bool" where
  "creates_empty E \<longleftrightarrow> (\<forall>db db'. all_empty db \<longrightarrow> ae_create E tables db = Inr db' \<longrightarrow> all_empty db')"

lemma create_build_service:
  "create_build J cfg now c req (w, sv) = (out, w', sv') \<Longrightarrow> sv' = sv \<or> sv' = build_step sv (Submit req)"
  by (auto simp: create_build_def split: prod.splits sum.splits)

lemma cancel_build_endpoint_service:
  "snd (cancel_build_endpoint J cfg now c i sv) = sv \<or>
   snd (cancel_build_endpoint J cfg now c i sv) = build_step sv (CancelBuild i)"
  by (auto simp: cancel_build_endpoint_def split: prod.splits sum.splits bool.splits)

lemma ws_open_inv: "hub_inv h \<Longrightarrow> hub_inv (snd (ws_open J cfg now auth_header query_token h))"
  using connect_inv [of h] by (auto simp: ws_open_def Let_def split: option.splits prod.splits) (metis snd_conv)

lemma new_process_inv: "all_empty db \<Longrightarrow> app_inv (new_process db)"
  by (simp add: app_inv_def new_process_def hub_inv_def new_hub_def service_inv_def new_build_service_def)

lemma restart_inv: "creates_empty E \<Longrightarrow> all_empty (ap_database a) \<Longrightarrow> app_inv (restart E a)"
  using new_process_inv [of "ap_database a"]
  by (auto simp: restart_def startup_def init_db_def creates_empty_def app_inv_def new_process_def split: sum.splits)

lemma app_step_inv:
  assumes "creates_empty E" and "app_inv a"
  shows "app_inv (app_step E a e)"
proof (cases e)
  case (PostBuild now c req)
  with assms(2) service_inv_step [of "ap_builds a" "Submit req"] show ?thesis
    by (auto simp: app_step_def app_inv_def simp del: build_step.simps split: prod.splits dest!: create_build_service)
next
  case (DeleteBuild now c i)
  with assms(2) service_inv_step [of "ap_builds a" "CancelBuild i"]
    cancel_build_endpoint_service [of "ae_jwt E" "ae_config E" now c i "ap_builds a"] show ?thesis
    by (auto simp: app_step_def app_inv_def simp del: build_step.simps)
next
  case Restart
  with assms restart_inv [of E a] show ?thesis by (simp add: app_step_def app_inv_def)
qed (use assms(2) in \<open>auto simp: app_step_def app_inv_def ws_open_inv ws_text_inv ws_finally_def disconnect_inv
      heartbeat_round_inv session_cleanup_def cleanup_stale_def split: prod.splits\<close>)

interpretation app_machine: kept_invariant "app_step E" "\<lambda>a. creates_empty E \<longrightarrow> app_inv a" for E
  by unfold_locales (blast intro: app_step_inv)

lemma app_run_inv:
  assumes "creates_empty E"
  shows "app_inv (run (app_step E) (restart E (new_process [])) es)"
proof -
  have "app_inv (restart E (new_process []))"
    using assms by (intro restart_inv) (simp_all add: new_process_def all_empty_def)
  with app_machine.run_inv [of E _ es] assms show ?thesis by blast
qed


text \<open>A database that makes the missing tables.\<close>

definition create_missing :: "table list \<Rightarrow> database \<Rightarrow> py_error + database" where
  "create_missing ts db =
     Inr (db @ map (\<lambda>t. (tb_name t, [])) (filter (\<lambda>t. tb_name t \<notin> set (map fst db)) ts))"

definition demo_app :: "string list app_env" where
  "demo_app = \<lparr>ae_jwt = demo_jwt 0, ae_config = demo_config, ae_python = demo_env, ae_create = create_missing,
     ae_reachable = (\<lambda>ws. True), ae_dispatcher = builtin_dispatcher 0\<rparr>"

definition demo_post :: app_event where
  "demo_post = PostBuild 60 \<lparr>caller = None, credentials = Some ''a''\<rparr> (new_build_request ''b1'' 50 ''six'')"


end
