(* ===== verification/Layers.thy ===== *)
theory Layers
  imports PyValues
begin

text \<open>
  Package layers, \<^verbatim>\<open>virtualization/layers.py\<close>: content-addressed directories below the layers
  directory, made from compressed tar archives, and the composition of several layers into one.

  SHA-256 is the parameter \<open>sha\<close>, and \<open>read_tar\<close> the members of an archive: names with the file or
  directory they stand for, None for bytes that are no such archive. \<^verbatim>\<open>ArchiveLinks\<close> adds symbolic
  links in archives. Every operation returns the disk as it leaves it, also when it raises.
\<close>

record package_layer =
  layer_id :: string
  layer_sha256 :: string
  layer_size :: int
  content_type :: string
  layer_files :: "path list"

record package_manifest =
  mf_name :: string
  mf_version :: string
  mf_layers :: "package_layer list"
  mf_entry_point :: string
  mf_python_requires :: string
  mf_dependencies :: "string list"

type_synonym tar_reader = "bytes \<Rightarrow> (string \<times> node) list option"

section \<open>Storing a layer\<close>

definition layer_name :: "(bytes \<Rightarrow> string) \<Rightarrow> bytes \<Rightarrow> string" where
  "layer_name sha data = take 16 (sha data)"

definition has_layer :: "path \<Rightarrow> string \<Rightarrow> fs \<Rightarrow> bool" where
  "has_layer dir lid d = fs_exists d (path_div dir lid)"

definition get_layer_path :: "path \<Rightarrow> string \<Rightarrow> fs \<Rightarrow> path option" where
  "get_layer_path dir lid d = (if fs_exists d (path_div dir lid) then Some (path_div dir lid) else None)"

text \<open>The check on one member name, and what \<open>extractall\<close> does with the members.\<close>

definition escapes :: "path \<Rightarrow> string \<Rightarrow> bool" where
  "escapes base name \<longleftrightarrow>
     (let abs_dir = norm_parts [] base; abs_target = abspath_join base name
      in commonpath abs_dir abs_target \<noteq> abs_dir)"

definition extract_member :: "path \<Rightarrow> string \<times> node \<Rightarrow> fs \<Rightarrow> py_error + fs" where
  "extract_member base member d =
     (let target = abspath_join base (fst member) in
      case snd member of
        Dir \<Rightarrow> fs_mkdir_p target d
      | File b \<Rightarrow>
          (case fs_mkdir_p (butlast target) d of Inl e \<Rightarrow> Inl e | Inr d' \<Rightarrow> fs_write target b d'))"

fun extract_all :: "path \<Rightarrow> (string \<times> node) list \<Rightarrow> fs \<Rightarrow> py_error option \<times> fs" where
  "extract_all base [] d = (None, d)"
| "extract_all base (m # ms) d =
     (case extract_member base m d of Inl e \<Rightarrow> (Some e, d) | Inr d' \<Rightarrow> extract_all base ms d')"

definition unpack :: "tar_reader \<Rightarrow> path \<Rightarrow> bytes \<Rightarrow> fs \<Rightarrow> py_error option \<times> fs" where
  "unpack read_tar base data d =
     (case read_tar data of
        None \<Rightarrow> (Some (OtherError ''ReadError''), d)
      | Some members \<Rightarrow>
          (if \<exists>m \<in> set members. escapes base (fst m)
           then (Some (OtherError ''Attempted Path Traversal in Tar File''), d)
           else extract_all base members d))"

definition relative_files :: "path \<Rightarrow> fs \<Rightarrow> path list" where
  "relative_files base d = map (drop (length base)) (filter (fs_is_file d) (fs_rglob d base))"

definition store_layer ::
    "(bytes \<Rightarrow> string) \<Rightarrow> tar_reader \<Rightarrow> path \<Rightarrow> bytes \<Rightarrow> string \<Rightarrow> fs \<Rightarrow> (py_error + package_layer) \<times> fs" where
  "store_layer sha read_tar dir data ctype d =
     (let lid = layer_name sha data;
          base = path_div dir lid;
          (err, d') =
            (if fs_exists d base then (None, d)
             else (case fs_mkdir_p base d of
                     Inl e \<Rightarrow> (Some e, d)
                   | Inr d1 \<Rightarrow> unpack read_tar base data d1))
      in case err of
           Some e \<Rightarrow> (Inl e, d')
         | None \<Rightarrow>
             (Inr \<lparr>layer_id = lid, layer_sha256 = sha data, layer_size = int (length data),
                   content_type = ctype, layer_files = relative_files base d'\<rparr>, d'))"

section \<open>Composing layers\<close>

definition composed_path :: "(string \<Rightarrow> string) \<Rightarrow> path \<Rightarrow> package_layer list \<Rightarrow> path" where
  "composed_path sha_text dir layers =
     path_div (path_div dir ''composed'') (take 16 (sha_text (join '':'' (map layer_id layers))))"

text \<open>The copies to make: for each layer that is there, each of its files and where it goes.\<close>

definition layer_copies :: "path \<Rightarrow> path \<Rightarrow> fs \<Rightarrow> package_layer \<Rightarrow> (path \<times> path) list" where
  "layer_copies dir composed d layer =
     (let src = path_div dir (layer_id layer) in
      if fs_exists d src
      then map (\<lambda>item. (item, composed @ drop (length src) item)) (filter (fs_is_file d) (fs_rglob d src))
      else [])"

fun copy_items :: "(path \<times> path) list \<Rightarrow> fs \<Rightarrow> py_error option \<times> fs" where
  "copy_items [] d = (None, d)"
| "copy_items ((src, dest) # items) d =
     (case fs_mkdir_p (butlast dest) d of
        Inl e \<Rightarrow> (Some e, d)
      | Inr d1 \<Rightarrow>
          (case fs_copy2 src dest d1 of
             Inl e \<Rightarrow> (Some e, d1)
           | Inr d2 \<Rightarrow> copy_items items d2))"

definition compose_layers ::
    "(string \<Rightarrow> string) \<Rightarrow> path \<Rightarrow> package_layer list \<Rightarrow> fs \<Rightarrow> (py_error + path) \<times> fs" where
  "compose_layers sha_text dir layers d =
     (let composed = composed_path sha_text dir layers in
      if fs_exists d composed then (Inr composed, d)
      else (case fs_mkdir_p composed d of
              Inl e \<Rightarrow> (Inl e, d)
            | Inr d1 \<Rightarrow>
                (case copy_items (concat (map (layer_copies dir composed d1) layers)) d1 of
                   (Some e, d2) \<Rightarrow> (Inl e, d2)
                 | (None, d2) \<Rightarrow> (Inr composed, d2))))"

section \<open>Housekeeping\<close>

definition unused_layers :: "path \<Rightarrow> string list \<Rightarrow> fs \<Rightarrow> path list" where
  "unused_layers dir active d =
     filter (\<lambda>p. \<not> (last p = ''composed'' \<or> last p \<in> set active) \<and> fs_is_dir d p) (fs_iterdir d dir)"

definition cleanup_unused :: "path \<Rightarrow> string list \<Rightarrow> fs \<Rightarrow> nat \<times> fs" where
  "cleanup_unused dir active d =
     (let unused = unused_layers dir active d in (length unused, foldl (\<lambda>d p. fs_rmtree p d) d unused))"

definition total_size_mb :: "path \<Rightarrow> fs \<Rightarrow> pyfloat" where
  "total_size_mb dir d = of_int (fs_tree_size d dir) / (1024 * 1024)"

section \<open>Storing a layer touches nothing outside it\<close>

lemma escapes_iff:
  "normal_path base \<Longrightarrow> escapes base name \<longleftrightarrow> \<not> prefix base (abspath_join base name)"
  by (simp add: escapes_def commonpath_prefix norm_parts_normal)

text \<open>Two disks that differ at most at the directories above \<open>base\<close> and at \<open>base\<close> and below.\<close>

definition only_below :: "path \<Rightarrow> fs \<Rightarrow> fs \<Rightarrow> bool" where
  "only_below base d d' \<longleftrightarrow>
     (\<forall>p. \<not> prefix base p \<longrightarrow> dget d' p = dget d p \<or> (dget d p = None \<and> prefix p base \<and> dget d' p = Some Dir))"

lemma only_below_refl: "only_below base d d"
  by (simp add: only_below_def)

lemma only_below_trans: "only_below base d d1 \<Longrightarrow> only_below base d1 d2 \<Longrightarrow> only_below base d d2"
  unfolding only_below_def by (metis option.distinct(1))

lemma mkdir_only_below:
  assumes "fs_mkdir_p q d = Inr d'" and "prefix base q \<or> prefix q base"
  shows "only_below base d d'"
proof -
  have "prefix p base" if "prefix p q" "\<not> prefix base p" for p
    using that assms(2) prefix_same_cases [of p q base] prefix_order.trans [of p q base] by auto
  then show ?thesis by (auto simp: only_below_def mkdir_p_dget [OF assms(1)])
qed

lemma extract_member_only_below:
  assumes "extract_member base m d = Inr d'" and "prefix base (abspath_join base (fst m))"
  shows "only_below base d d'"
proof (cases "snd m")
  case Dir
  with assms mkdir_only_below show ?thesis by (auto simp: extract_member_def Let_def)
next
  case (File b)
  let ?t = "abspath_join base (fst m)"
  from assms(1) File obtain d1 where
    m: "fs_mkdir_p (butlast ?t) d = Inr d1" and w: "fs_write ?t b d1 = Inr d'"
    by (auto simp: extract_member_def Let_def split: sum.splits)
  have "prefix base (butlast ?t) \<or> prefix (butlast ?t) base"
    using assms(2) prefix_same_cases [of base ?t "butlast ?t"] prefixeq_butlast by auto
  from mkdir_only_below [OF m this] have "only_below base d d1" .
  moreover have "only_below base d1 d'"
    using assms(2) by (auto simp: only_below_def dget_write [OF w])
  ultimately show ?thesis by (rule only_below_trans)
qed

lemma extract_all_only_below:
  assumes "\<forall>m \<in> set ms. prefix base (abspath_join base (fst m))"
  shows "only_below base d (snd (extract_all base ms d))"
  using assms
proof (induction ms arbitrary: d)
  case (Cons m ms)
  show ?case
  proof (cases "extract_member base m d")
    case (Inr d')
    with Cons extract_member_only_below [OF Inr] show ?thesis
      by (auto intro: only_below_trans)
  qed (simp add: only_below_refl)
qed (simp add: only_below_refl)

lemma unpack_only_below:
  "normal_path base \<Longrightarrow> only_below base d (snd (unpack read_tar base data d))"
  by (auto simp: unpack_def escapes_iff only_below_refl intro: extract_all_only_below split: option.splits)

text \<open>
  C11: Storing a layer, with any archive of files and directories and whether it succeeds or raises,
  changes nothing on the disk outside the layer's own directory, except that missing directories above
  it are made. Members such as \<^verbatim>\<open>../../x\<close> or with absolute names cannot write elsewhere.
\<close>

theorem store_layer_stays_inside:
  assumes "normal_path dir" and "is_component (layer_name sha data)" and "layer_name sha data \<noteq> ''..''"
  shows "only_below (dir @ [layer_name sha data]) d (snd (store_layer sha read_tar dir data ctype d))"
proof -
  let ?base = "dir @ [layer_name sha data]"
  have base: "path_div dir (layer_name sha data) = ?base"
    using assms(2) by (rule path_div_component)
  have normal: "normal_path ?base"
    using assms by (auto simp: normal_path_def is_component_def)
  show ?thesis
  proof (cases "fs_exists d ?base")
    case True
    then show ?thesis by (simp add: store_layer_def base Let_def only_below_refl)
  next
    case False
    show ?thesis
    proof (cases "fs_mkdir_p ?base d")
      case (Inl e)
      with False show ?thesis by (simp add: store_layer_def base Let_def only_below_refl)
    next
      case (Inr d1)
      have "only_below ?base d d1" by (rule mkdir_only_below [OF Inr]) simp
      moreover have "only_below ?base d1 (snd (unpack read_tar ?base data d1))"
        by (rule unpack_only_below [OF normal])
      ultimately have "only_below ?base d (snd (unpack read_tar ?base data d1))" by (rule only_below_trans)
      with False Inr show ?thesis
        by (simp add: store_layer_def base Let_def split_beta split: option.splits)
    qed
  qed
qed

definition demo_sha :: "bytes \<Rightarrow> string" where
  "demo_sha data = (if data = [1] then ''aaaaaaaaaaaaaaaabb'' else ''cccccccccccccccccc'')"

definition demo_tar :: tar_reader where
  "demo_tar data =
     (if data = [1] then Some [(''pkg'', Dir), (''pkg/a.py'', File [10])]
      else if data = [2] then Some [(''ok.py'', File [1]), (''../../evil'', File [66])] else None)"

definition demo_dir :: path where
  "demo_dir = [''layers'']"

definition demo_fs :: fs where
  "demo_fs = [([], Dir), (demo_dir, Dir), ([''evil''], File [0])]"

theorem store_layer_stays_inside_witness:
  "dget (snd (store_layer demo_sha demo_tar demo_dir [2] ''python'' demo_fs)) [''evil''] = Some (File [0])"
proof -
  have "normal_path demo_dir" "is_component (layer_name demo_sha [2])" "layer_name demo_sha [2] \<noteq> ''..''"
    by code_simp+
  from store_layer_stays_inside [OF this, of demo_fs demo_tar "''python''"]
  have "only_below (demo_dir @ [layer_name demo_sha [2]]) demo_fs
      (snd (store_layer demo_sha demo_tar demo_dir [2] ''python'' demo_fs))" .
  moreover have "\<not> prefix (demo_dir @ [layer_name demo_sha [2]]) [''evil'']"
    "dget demo_fs [''evil''] = Some (File [0])" by code_simp+
  ultimately show ?thesis unfolding only_below_def by fastforce
qed

section \<open>A layer that cannot be unpacked\<close>

text \<open>
  Storing data that is no archive, or whose archive tries to escape, raises the first time; but
  the layer's directory has been made by then, so storing the same data again succeeds, and the layer
  counts as present, with nothing in it.
\<close>

theorem bad_layer_accepted_second_time:
  assumes "is_component (layer_name sha data)" and "fs_mkdir_p (dir @ [layer_name sha data]) d = Inr d1"
    and "dget d (dir @ [layer_name sha data]) = None"
    and "\<forall>p \<in> set (dkeys d). \<not> strict_prefix (dir @ [layer_name sha data]) p"
    and "case read_tar data of None \<Rightarrow> True | Some ms \<Rightarrow> \<exists>m \<in> set ms. escapes (dir @ [layer_name sha data]) (fst m)"
  shows "\<exists>e d'. store_layer sha read_tar dir data ctype d = (Inl e, d') \<and>
    has_layer dir (layer_name sha data) d' \<and>
    store_layer sha read_tar dir data ctype d' =
      (Inr \<lparr>layer_id = layer_name sha data, layer_sha256 = sha data, layer_size = int (length data),
            content_type = ctype, layer_files = []\<rparr>, d')"
proof -
  let ?base = "dir @ [layer_name sha data]"
  have base: "path_div dir (layer_name sha data) = ?base" using assms(1) by (rule path_div_component)
  have new: "\<not> fs_exists d ?base" using assms(3) by (simp add: fs_exists_def)
  obtain e where "unpack read_tar ?base data d1 = (Some e, d1)"
    using assms(5) by (auto simp: unpack_def split: option.splits)
  then have first: "store_layer sha read_tar dir data ctype d = (Inl e, d1)"
    using new assms(2) by (simp add: store_layer_def base Let_def)
  have there: "fs_exists d1 ?base" by (simp add: fs_exists_def mkdir_p_dget [OF assms(2)])
  have "p \<notin> set (dkeys d1)" if "strict_prefix ?base p" for p
  proof -
    from that assms(4) have "dget d p = None" by (auto simp: dget_None_iff)
    moreover from that have "\<not> prefix p ?base" using prefix_order.less_le_not_le by blast
    ultimately have "dget d1 p = None" by (simp add: mkdir_p_dget [OF assms(2)])
    then show ?thesis by (simp only: dget_None_iff not_False_eq_True)
  qed
  then have "fs_rglob d1 ?base = []" by (auto simp: fs_rglob_def filter_empty_conv)
  then have "store_layer sha read_tar dir data ctype d1 =
      (Inr \<lparr>layer_id = layer_name sha data, layer_sha256 = sha data, layer_size = int (length data),
            content_type = ctype, layer_files = []\<rparr>, d1)"
    using there by (simp add: store_layer_def base Let_def relative_files_def)
  with first there show ?thesis by (simp add: has_layer_def base)
qed

theorem bad_layer_accepted_second_time_witness:
  "\<exists>e d'. store_layer demo_sha demo_tar demo_dir [2] ''python'' demo_fs = (Inl e, d') \<and>
    is_ok (fst (store_layer demo_sha demo_tar demo_dir [2] ''python'' d'))"
proof -
  let ?b = "demo_dir @ [layer_name demo_sha [2]]"
  have c: "is_component (layer_name demo_sha [2])" by code_simp
  have m: "fs_mkdir_p ?b demo_fs = Inr (projr (fs_mkdir_p ?b demo_fs))" by code_simp
  have n: "dget demo_fs ?b = None" by code_simp
  have s: "\<forall>p \<in> set (dkeys demo_fs). \<not> strict_prefix ?b p"
    by (auto simp: demo_fs_def demo_dir_def)
  have t: "case demo_tar [2] of None \<Rightarrow> True | Some ms \<Rightarrow> \<exists>m \<in> set ms. escapes ?b (fst m)" by code_simp
  from bad_layer_accepted_second_time [where sha = demo_sha and data = "[2]" and dir = demo_dir
      and read_tar = demo_tar and ctype = "''python''", OF c m n s t]
  obtain e d' where "store_layer demo_sha demo_tar demo_dir [2] ''python'' demo_fs = (Inl e, d')"
    "is_ok (fst (store_layer demo_sha demo_tar demo_dir [2] ''python'' d'))" by fastforce
  then show ?thesis by blast
qed

section \<open>In a composition the last layer wins\<close>

lemma copy2_fields:
  assumes "fs_copy2 src dest d = Inr d'"
  shows "dget d p = Some Dir \<Longrightarrow> dget d' p = Some Dir"
    and "\<not> fs_is_dir d dest \<Longrightarrow> dget d' p = (if p = dest then dget d src else dget d p)"
proof -
  from assms obtain b where b: "dget d src = Some (File b)"
    by (auto simp: fs_copy2_def fs_read_ok_iff split: sum.splits)
  from assms b have "\<exists>q. fs_write q b d = Inr d' \<and> (\<not> fs_is_dir d dest \<longrightarrow> q = dest)"
    by (auto simp: fs_copy2_def fs_read_def split: if_splits)
  then obtain q where q: "fs_write q b d = Inr d'" "\<not> fs_is_dir d dest \<longrightarrow> q = dest" by blast
  then have "dget d q \<noteq> Some Dir" by (auto simp: fs_write_def fs_is_dir_def split: if_splits)
  then show "dget d p = Some Dir \<Longrightarrow> dget d' p = Some Dir" by (auto simp: dget_write [OF q(1)])
  show "\<not> fs_is_dir d dest \<Longrightarrow> dget d' p = (if p = dest then dget d src else dget d p)"
    using q b by (simp add: dget_write [OF q(1)])
qed

lemma copy_items_dirs: "copy_items items d = (None, d') \<Longrightarrow> dget d p = Some Dir \<Longrightarrow> dget d' p = Some Dir"
proof (induction items d rule: copy_items.induct)
  case (2 src dest items d)
  then show ?case by (auto simp: copy2_fields(1) mkdir_p_other split: sum.splits)
qed simp

lemma last_copy_to:
  assumes "p \<in> snd ` set items"
  shows "filter (\<lambda>i. snd i = p) items \<noteq> []" and "last (filter (\<lambda>i. snd i = p) items) \<in> set items"
proof -
  show ne: "filter (\<lambda>i. snd i = p) items \<noteq> []" using assms by (auto simp: filter_empty_conv)
  show "last (filter (\<lambda>i. snd i = p) items) \<in> set items" using last_in_set [OF ne] by simp
qed

lemma copy_items_effect:
  assumes "copy_items items d = (None, d')"
    and "\<forall>item \<in> set items. \<not> fs_is_dir d' (snd item)"
    and "\<forall>item \<in> set items. fst item \<notin> snd ` set items \<and> fs_is_file d (fst item)"
  shows "(\<forall>p b. dget d p = Some (File b) \<longrightarrow> p \<notin> snd ` set items \<longrightarrow> dget d' p = Some (File b)) \<and>
    (\<forall>p \<in> snd ` set items. dget d' p = dget d (fst (last (filter (\<lambda>item. snd item = p) items))))"
  using assms
proof (induction items arbitrary: d)
  case (Cons item items)
  obtain src dest where item: "item = (src, dest)" by (rule prod.exhaust)
  from Cons.prems(1) item obtain d1 d2 where
    m: "fs_mkdir_p (butlast dest) d = Inr d1" and c: "fs_copy2 src dest d1 = Inr d2"
    and rest: "copy_items items d2 = (None, d')"
    by (auto split: sum.splits)
  from Cons.prems(3) item obtain b where b: "dget d src = Some (File b)"
    by (auto simp: fs_is_file_iff)
  have "\<not> fs_is_dir d1 dest"
    using copy_items_dirs [OF rest] copy2_fields(1) [OF c] Cons.prems(2) item
    by (auto simp: fs_is_dir_def)
  note step = copy2_fields(2) [OF c this]
  have kept: "dget d2 p = Some (File x)" if "dget d p = Some (File x)" "p \<noteq> dest" for p x
    using that by (simp add: step mkdir_p_file [OF m])
  have d2: "dget d2 dest = Some (File b)" using b by (simp add: step mkdir_p_file [OF m])
  have src: "fs_is_file d2 (fst i) \<and> dget d2 (fst i) = dget d (fst i)" if "i \<in> set items" for i
    using that Cons.prems(3) kept item by (fastforce simp: fs_is_file_iff)
  have IH: "(\<forall>p b. dget d2 p = Some (File b) \<longrightarrow> p \<notin> snd ` set items \<longrightarrow> dget d' p = Some (File b)) \<and>
    (\<forall>p \<in> snd ` set items. dget d' p = dget d2 (fst (last (filter (\<lambda>item. snd item = p) items))))"
    using Cons.prems(2,3) src by (intro Cons.IH [OF rest]) auto
  have "dget d' p = dget d (fst (last (filter (\<lambda>i. snd i = p) (item # items))))"
    if "p \<in> snd ` set (item # items)" for p
  proof (cases "p \<in> snd ` set items")
    case True
    with IH have "dget d' p = dget d2 (fst (last (filter (\<lambda>i. snd i = p) items)))" by blast
    with last_copy_to [OF True] src show ?thesis by simp
  next
    case False
    with that item have p: "p = dest" by simp
    from False have "filter (\<lambda>i. snd i = p) items = []" by (auto simp: filter_empty_conv)
    with False IH d2 b p item show ?thesis by simp
  qed
  moreover have "dget d' p = Some (File x)"
    if "dget d p = Some (File x)" "p \<notin> snd ` set (item # items)" for p x
    using that IH kept [OF that(1)] item by simp
  ultimately show ?case by blast
qed simp

lemma last_concat:
  assumes "\<And>x y. x \<in> set xs \<Longrightarrow> y \<in> set (f x) \<Longrightarrow> P x \<and> y = g x"
    and "\<And>x. x \<in> set xs \<Longrightarrow> P x \<Longrightarrow> f x \<noteq> []" and "filter P xs \<noteq> []"
  shows "last (concat (map f xs)) = g (last (filter P xs))"
  using assms
proof (induction xs rule: rev_induct)
  case (snoc x xs)
  show ?case
  proof (cases "P x")
    case True
    with snoc.prems have "f x \<noteq> []" by simp
    moreover from this have "last (f x) = g x" using snoc.prems(1) [of x "last (f x)"] by simp
    ultimately show ?thesis using True by simp
  next
    case False
    with snoc.prems(1) [of x] have "f x = []" by (metis in_set_conv_decomp last_in_set list.set_intros(1) list.exhaust)
    with False snoc show ?thesis by simp
  qed
qed simp

text \<open>The layers of a list that have a file at a relative path.\<close>

definition holders :: "path \<Rightarrow> fs \<Rightarrow> path \<Rightarrow> package_layer list \<Rightarrow> package_layer list" where
  "holders dir d r layers =
     filter (\<lambda>l. fs_exists d (dir @ [layer_id l]) \<and> fs_is_file d (dir @ [layer_id l] @ r)) layers"

lemma layer_copies_iff:
  assumes "is_component (layer_id l)"
  shows "(src, dest) \<in> set (layer_copies dir composed d l) \<longleftrightarrow>
    (\<exists>r. r \<noteq> [] \<and> src = dir @ [layer_id l] @ r \<and> dest = composed @ r \<and>
       fs_exists d (dir @ [layer_id l]) \<and> fs_is_file d src)"
proof -
  have key: "p \<in> set (dkeys d)" if "fs_is_file d p" for p
    using that by (auto simp: fs_is_file_iff dest!: dget_in_set intro: rev_image_eqI)
  show ?thesis
    using key path_div_component [OF assms, of dir]
    by (auto simp: layer_copies_def Let_def fs_rglob_def strict_prefix_def prefix_def image_iff)
qed

lemma compose_items:
  assumes "fs_mkdir_p composed d = Inr d1" and "\<forall>l \<in> set layers. is_component (layer_id l)"
    and "\<forall>l \<in> set layers. \<not> prefix (dir @ [layer_id l]) composed"
    and "r \<noteq> []" and "holders dir d r layers \<noteq> []"
  shows "fst (last (filter (\<lambda>item. snd item = composed @ r) (concat (map (layer_copies dir composed d1) layers)))) =
      dir @ [layer_id (last (holders dir d r layers))] @ r \<and>
    composed @ r \<in> snd ` set (concat (map (layer_copies dir composed d1) layers))"
proof -
  let ?P = "\<lambda>l. fs_exists d (dir @ [layer_id l]) \<and> fs_is_file d (dir @ [layer_id l] @ r)"
  let ?f = "\<lambda>l. filter (\<lambda>item. snd item = composed @ r) (layer_copies dir composed d1 l)"
  let ?g = "\<lambda>l. (dir @ [layer_id l] @ r, composed @ r)"
  have same: "fs_exists d1 (dir @ [layer_id l]) = fs_exists d (dir @ [layer_id l])"
    "fs_is_file d1 p = fs_is_file d p" if "l \<in> set layers" for l p
    using assms(3) that
    by (auto simp: fs_exists_def mkdir_p_dget [OF assms(1)] fs_is_file_def split: option.splits)
  have in_f: "?P l \<and> y = ?g l" if "l \<in> set layers" "y \<in> set (?f l)" for l y
    using that assms(2) same layer_copies_iff [of l "fst y" "snd y" dir composed d1]
    by (cases y) auto
  have ne: "?f l \<noteq> []" if "l \<in> set layers" "?P l" for l
  proof -
    have "?g l \<in> set (layer_copies dir composed d1 l)"
      using that assms(2,4) same layer_copies_iff [of l _ _ dir composed d1] by auto
    then have "?g l \<in> set (?f l)" by simp
    then show ?thesis by (metis list.distinct(1) list.set_cases)
  qed
  have "filter ?P layers \<noteq> []" using assms(5) by (simp add: holders_def)
  have "last (concat (map ?f layers)) = ?g (last (filter ?P layers))"
    by (rule last_concat [where f = ?f and P = ?P]) (use in_f ne \<open>filter ?P layers \<noteq> []\<close> in auto)
  moreover have "composed @ r \<in> snd ` set (concat (map (layer_copies dir composed d1) layers))"
  proof -
    obtain l where l: "l \<in> set layers" "?P l"
      using \<open>filter ?P layers \<noteq> []\<close> by (auto simp: filter_empty_conv)
    then have "?g l \<in> set (layer_copies dir composed d1 l)"
      using assms(2,4) same layer_copies_iff [of l _ _ dir composed d1] by auto
    with l(1) have "?g l \<in> set (concat (map (layer_copies dir composed d1) layers))" by auto
    then have "snd (?g l) \<in> snd ` set (concat (map (layer_copies dir composed d1) layers))"
      by (rule imageI)
    then show ?thesis by simp
  qed
  moreover have "filter (\<lambda>item. snd item = composed @ r) (concat (map (layer_copies dir composed d1) layers)) =
      concat (map ?f layers)"
    by (simp add: filter_concat comp_def)
  ultimately show ?thesis by (simp add: holders_def)
qed

text \<open>
  C39: When a new composition of layers succeeds, and no file of a layer clashes with a directory of
  another, each file of the result is the file of the last layer in the list that has it.
\<close>

theorem composition_last_layer_wins:
  assumes "compose_layers sha_text dir layers d = (Inr composed, d')" and "dget d composed = None"
    and "composed = dir @ [''composed'', c]" and "composed = composed_path sha_text dir layers"
    and "\<forall>l \<in> set layers. is_component (layer_id l) \<and> layer_id l \<noteq> ''composed''"
    and "\<forall>l \<in> set layers. \<forall>q. fs_is_file d (dir @ [layer_id l] @ q) \<longrightarrow> \<not> fs_is_dir d' (composed @ q)"
    and "r \<noteq> []" and "holders dir d r layers \<noteq> []"
  shows "dget d' (composed @ r) = dget d (dir @ [layer_id (last (holders dir d r layers))] @ r)"
proof -
  from assms(1,2,4) obtain d1 where m: "fs_mkdir_p composed d = Inr d1"
    and copy: "copy_items (concat (map (layer_copies dir composed d1) layers)) d1 = (None, d')"
    by (auto simp: compose_layers_def Let_def fs_exists_def split: sum.splits prod.splits option.splits if_splits)
  let ?items = "concat (map (layer_copies dir composed d1) layers)"
  have kept: "fs_is_file d1 p = fs_is_file d p" for p by (simp add: fs_is_file_iff mkdir_p_file [OF m])
  have item: "\<exists>l \<in> set layers. \<exists>q. fst i = dir @ [layer_id l] @ q \<and> snd i = composed @ q \<and> fs_is_file d (fst i)"
    if "i \<in> set ?items" for i
    using that assms(5) layer_copies_iff [of _ "fst i" "snd i" dir composed d1] by (fastforce simp: kept)
  have sep: "fst i \<noteq> snd j" if "i \<in> set ?items" "j \<in> set ?items" for i j
    using item [OF that(1)] item [OF that(2)] assms(3,5) by auto
  have "\<forall>i \<in> set ?items. \<not> fs_is_dir d' (snd i)"
    using item assms(6) by metis
  moreover have "\<forall>i \<in> set ?items. fst i \<notin> snd ` set ?items \<and> fs_is_file d1 (fst i)"
    using item sep kept by blast
  ultimately have eff: "\<forall>p \<in> snd ` set ?items. dget d' p = dget d1 (fst (last (filter (\<lambda>i. snd i = p) ?items)))"
    using copy_items_effect [OF copy] by blast
  have "\<forall>l \<in> set layers. is_component (layer_id l)" "\<forall>l \<in> set layers. \<not> prefix (dir @ [layer_id l]) composed"
    using assms(3,5) by auto
  note ci = compose_items [OF m this assms(7,8)]
  let ?src = "dir @ [layer_id (last (holders dir d r layers))] @ r"
  have "dget d' (composed @ r) = dget d1 ?src"
    using bspec [OF eff ci [THEN conjunct2]] unfolding ci [THEN conjunct1] .
  moreover have "fs_is_file d ?src"
    using last_in_set [OF assms(8)] by (auto simp: holders_def)
  then have "dget d1 ?src = dget d ?src" by (auto simp: fs_is_file_iff mkdir_p_file [OF m])
  ultimately show ?thesis by simp
qed

definition demo_layer :: "string \<Rightarrow> package_layer" where
  "demo_layer i = \<lparr>layer_id = i, layer_sha256 = i, layer_size = 1, content_type = ''python'', layer_files = []\<rparr>"

definition two_layers :: fs where
  "two_layers = [([], Dir), (demo_dir, Dir), (demo_dir @ [''a''], Dir), (demo_dir @ [''b''], Dir),
     (demo_dir @ [''a'', ''m.py''], File [1]), (demo_dir @ [''b'', ''m.py''], File [2])]"

theorem composition_last_layer_wins_witness:
  "dget (snd (compose_layers (\<lambda>s. ''h'') demo_dir [demo_layer ''a'', demo_layer ''b''] two_layers))
     [''layers'', ''composed'', ''h'', ''m.py''] = Some (File [2])"
proof -
  let ?ls = "[demo_layer ''a'', demo_layer ''b'']" and ?c = "demo_dir @ [''composed'', ''h'']"
  let ?r = "compose_layers (\<lambda>s. ''h'') demo_dir ?ls two_layers"
  have ok: "fst ?r = Inr ?c" by code_simp
  have n: "dget two_layers ?c = None" by code_simp
  have p: "?c = composed_path (\<lambda>s. ''h'') demo_dir ?ls" by code_simp
  have k: "\<forall>l \<in> set ?ls. is_component (layer_id l) \<and> layer_id l \<noteq> ''composed''" by code_simp
  have files: "fs_is_file two_layers (demo_dir @ [i] @ q) \<Longrightarrow> q = [''m.py'']" for i q
    by (auto simp: fs_is_file_iff two_layers_def demo_dir_def split: if_splits)
  have "\<not> fs_is_dir (snd ?r) (?c @ [''m.py''])" by code_simp
  then have nc: "\<forall>l \<in> set ?ls. \<forall>q. fs_is_file two_layers (demo_dir @ [layer_id l] @ q) \<longrightarrow>
      \<not> fs_is_dir (snd ?r) (?c @ q)" using files by blast
  have h: "holders demo_dir two_layers [''m.py''] ?ls = ?ls" by code_simp
  have "[''m.py''] \<noteq> []" "holders demo_dir two_layers [''m.py''] ?ls \<noteq> []" by (simp_all add: h)
  from composition_last_layer_wins [OF pair_sndI [OF ok] n refl p k nc this] show ?thesis
    by (simp add: h) (simp add: demo_layer_def demo_dir_def two_layers_def)
qed

text \<open>
  A composition that fails half way leaves its directory behind, and composing the same layers
  again reports success with whatever was copied before the failure.
\<close>

theorem failed_composition_reported_done:
  assumes "fs_mkdir_p (composed_path sha_text dir layers) d = Inr d1"
    and "dget d (composed_path sha_text dir layers) = None"
    and "compose_layers sha_text dir layers d = (Inl e, d')"
  shows "compose_layers sha_text dir layers d' = (Inr (composed_path sha_text dir layers), d')"
proof -
  let ?c = "composed_path sha_text dir layers"
  have dirs: "dget d2 p = Some Dir" if "copy_items items d1 = (e, d2)" "dget d1 p = Some Dir" for items d1 e d2 p
    using that
  proof (induction items d1 rule: copy_items.induct)
    case (2 src dest items d1)
    then show ?case
      by (auto simp: copy2_fields(1) mkdir_p_other split: sum.splits)
  qed simp
  have "copy_items (concat (map (layer_copies dir ?c d1) layers)) d1 = (Some e, d')"
    using assms by (auto simp: compose_layers_def Let_def fs_exists_def split: prod.splits option.splits)
  moreover have "dget d1 ?c = Some Dir" using assms(2) by (simp add: mkdir_p_dget [OF assms(1)])
  ultimately have "dget d' ?c = Some Dir" by (rule dirs)
  then show ?thesis by (simp add: compose_layers_def fs_exists_def)
qed

definition clashing_layers :: fs where
  "clashing_layers = [([], Dir), (demo_dir, Dir), (demo_dir @ [''a''], Dir), (demo_dir @ [''b''], Dir),
     (demo_dir @ [''a'', ''m''], File [1]), (demo_dir @ [''b'', ''m''], Dir), (demo_dir @ [''b'', ''m'', ''x.py''], File [2])]"

theorem failed_composition_reported_done_witness:
  "let ls = [demo_layer ''a'', demo_layer ''b''];
       (first, d') = compose_layers (\<lambda>s. ''h'') demo_dir ls clashing_layers
   in \<not> is_ok first \<and> is_ok (fst (compose_layers (\<lambda>s. ''h'') demo_dir ls d')) \<and>
      dget d' [''layers'', ''composed'', ''h'', ''m'', ''x.py''] = None"
proof -
  let ?ls = "[demo_layer ''a'', demo_layer ''b'']"
  let ?c = "composed_path (\<lambda>s. ''h'') demo_dir ?ls"
  let ?r = "compose_layers (\<lambda>s. ''h'') demo_dir ?ls clashing_layers"
  have m: "fs_mkdir_p ?c clashing_layers = Inr (projr (fs_mkdir_p ?c clashing_layers))" by code_simp
  have n: "dget clashing_layers ?c = None" by code_simp
  have e: "fst ?r = Inl FileExistsError" by code_simp
  have x: "dget (snd ?r) [''layers'', ''composed'', ''h'', ''m'', ''x.py''] = None" by code_simp
  from failed_composition_reported_done [OF m n pair_sndI [OF e]] e x
  show ?thesis by (simp add: split_beta)
qed

section \<open>Cleanup\<close>

lemma rmtrees_dget:
  "dget (foldl (\<lambda>d p. fs_rmtree p d) d ps) q = (if \<exists>p \<in> set ps. prefix p q then None else dget d q)"
  by (induction ps arbitrary: d) (auto simp: dict_laws)

text \<open>
  The cleanup removes every directory of the layers directory that is neither active nor the
  directory of compositions, with everything below it, counts them, and touches nothing else.
\<close>

theorem cleanup_removes_unused:
  assumes "cleanup_unused dir active d = (n, d')"
  shows "n = length (unused_layers dir active d) \<and>
    dget d' q =
      (if \<exists>lid rest. q = dir @ lid # rest \<and> fs_is_dir d (dir @ [lid]) \<and> lid \<noteq> ''composed'' \<and> lid \<notin> set active
       then None else dget d q)"
proof -
  have "(\<exists>p \<in> set (unused_layers dir active d). prefix p q) \<longleftrightarrow>
      (\<exists>lid rest. q = dir @ lid # rest \<and> fs_is_dir d (dir @ [lid]) \<and> lid \<noteq> ''composed'' \<and> lid \<notin> set active)"
    (is "?l \<longleftrightarrow> ?r")
  proof
    assume ?l
    then obtain p where p: "p \<in> set (unused_layers dir active d)" "prefix p q" by blast
    then have *: "p \<noteq> []" "butlast p = dir" "fs_is_dir d p" "last p \<noteq> ''composed''" "last p \<notin> set active"
      by (auto simp: unused_layers_def fs_iterdir_def)
    then have eq: "p = dir @ [last p]" by (metis append_butlast_last_id)
    from p(2) obtain rest where "q = p @ rest" by (auto simp: prefix_def)
    with eq have "q = dir @ last p # rest" by (metis append.assoc append_Cons append_Nil)
    moreover have "fs_is_dir d (dir @ [last p])" using * eq by simp
    ultimately show ?r using * by blast
  next
    assume ?r
    then obtain lid rest where *: "q = dir @ lid # rest" "fs_is_dir d (dir @ [lid])"
      "lid \<noteq> ''composed''" "lid \<notin> set active" by blast
    from *(2) have "dir @ [lid] \<in> set (dkeys d)"
      by (auto simp: fs_is_dir_def dest!: dget_in_set intro: rev_image_eqI)
    with * have "dir @ [lid] \<in> set (unused_layers dir active d)"
      by (auto simp: unused_layers_def fs_iterdir_def)
    moreover have "prefix (dir @ [lid]) q" using *(1) by simp
    ultimately show ?l by blast
  qed
  with assms show ?thesis
    unfolding cleanup_unused_def Let_def by (auto simp: rmtrees_dget)
qed

theorem cleanup_removes_unused_witness:
  "dget (snd (cleanup_unused demo_dir [''a''] two_layers)) [''layers'', ''b'', ''m.py''] = None"
proof -
  have "fs_is_dir two_layers (demo_dir @ [''b''])" by code_simp
  then have "\<exists>lid rest. [''layers'', ''b'', ''m.py''] = demo_dir @ lid # rest \<and>
      fs_is_dir two_layers (demo_dir @ [lid]) \<and> lid \<noteq> ''composed'' \<and> lid \<notin> set [''a'']"
    by (intro exI [of _ "''b''"] exI [of _ "[''m.py'']"]) (simp add: demo_dir_def)
  with cleanup_removes_unused [OF prod.collapse [symmetric], of demo_dir "[''a'']" two_layers
      "[''layers'', ''b'', ''m.py'']"]
  show ?thesis by presburger
qed

end
