(* ===== verification/ArchiveLinks.thy ===== *)
theory ArchiveLinks
  imports Layers
begin

text \<open>
  Symbolic links in layer archives, \<^verbatim>\<open>virtualization/layers.py\<close>. \<^verbatim>\<open>Layers\<close> unpacks archives of files
  and directories; here a member may also be a symbolic link, as \<^verbatim>\<open>tarfile\<close> makes them when
  \<open>extractall\<close> is given no filter (the default of every Python below 3.14, and \<^verbatim>\<open>pyproject.toml\<close>
  asks for 3.10 or later). The links an archive has made so far are kept beside the disk, and every
  path is looked up through them, as the kernel does.

  On archives without links nothing changes (\<open>extract_plain_members\<close>). With links the check of the
  member names does not keep the extraction inside the layer (\<open>checked_archive_writes_outside\<close>).
\<close>

datatype tar_member = Plain node | Symlink string

type_synonym links = "(path \<times> string) list"

section \<open>Looking a path up\<close>

text \<open>
  The path that a list of components leads to from a directory: \<open>n\<close> more links are followed, None
  when they are used up (\<open>ELOOP\<close>). Linux follows at most 40.
\<close>

fun follow :: "nat \<Rightarrow> links \<Rightarrow> path \<Rightarrow> string list \<Rightarrow> path option" where
  "follow n ls done [] = Some done"
| "follow n ls done (c # cs) =
     (if c = [] \<or> c = ''.'' then follow n ls done cs
      else if c = ''..'' then follow n ls (butlast done) cs
      else (case dget ls (done @ [c]) of
              None \<Rightarrow> follow n ls (done @ [c]) cs
            | Some target \<Rightarrow>
                (case n of
                   0 \<Rightarrow> None
                 | Suc m \<Rightarrow>
                     follow m ls (if prefix ''/'' target then [] else done)
                       (split_on (CHR ''/'') target @ cs))))"

definition max_links :: nat where
  "max_links = 40"

definition real_path :: "links \<Rightarrow> path \<Rightarrow> path option" where
  "real_path ls p = follow max_links ls [] p"

definition is_link :: "links \<Rightarrow> path \<Rightarrow> bool" where
  "is_link ls p \<longleftrightarrow>
     (case real_path ls (butlast p) of None \<Rightarrow> False | Some q \<Rightarrow> dget ls (q @ [last p]) \<noteq> None)"

definition leads_somewhere :: "links \<Rightarrow> path \<Rightarrow> fs \<Rightarrow> bool" where
  "leads_somewhere ls p d \<longleftrightarrow> (case real_path ls p of None \<Rightarrow> False | Some q \<Rightarrow> fs_exists d q)"

section \<open>Unpacking\<close>

text \<open>\<open>os.makedirs\<close> of the directory a member stands in; a link on the way that leads nowhere is an error.\<close>

definition make_upper :: "links \<Rightarrow> path \<Rightarrow> fs \<Rightarrow> py_error + path \<times> fs" where
  "make_upper ls p d =
     (case real_path ls p of
        None \<Rightarrow> Inl (OtherError ''OSError'')
      | Some q \<Rightarrow>
          (if \<exists>r \<in> set (prefixes p). r \<noteq> [] \<and> is_link ls r \<and> \<not> leads_somewhere ls r d
           then Inl FileNotFoundError
           else (case fs_mkdir_p q d of Inl e \<Rightarrow> Inl e | Inr d' \<Rightarrow> Inr (q, d'))))"

definition extract_linked ::
    "path \<Rightarrow> string \<times> tar_member \<Rightarrow> fs \<times> links \<Rightarrow> py_error + fs \<times> links" where
  "extract_linked base member s =
     (let target = path_div base (fst member); ls = snd s in
      case make_upper ls (butlast target) (fst s) of
        Inl e \<Rightarrow> Inl e
      | Inr (upper, d) \<Rightarrow>
          (case snd member of
             Plain Dir \<Rightarrow>
               (if target \<noteq> [] \<and> is_link ls target
                then (case real_path ls target of
                        None \<Rightarrow> Inl FileExistsError
                      | Some q \<Rightarrow> if fs_is_dir d q then Inr (d, ls) else Inl FileExistsError)
                else (case real_path ls target of
                        None \<Rightarrow> Inl (OtherError ''OSError'')
                      | Some q \<Rightarrow> (case fs_mkdir_p q d of Inl e \<Rightarrow> Inl e | Inr d' \<Rightarrow> Inr (d', ls))))
           | Plain (File b) \<Rightarrow>
               (case real_path ls target of
                  None \<Rightarrow> Inl (OtherError ''OSError'')
                | Some q \<Rightarrow> (case fs_write q b d of Inl e \<Rightarrow> Inl e | Inr d' \<Rightarrow> Inr (d', ls)))
           | Symlink text_of_link \<Rightarrow>
               (let q = upper @ [last target] in
                if fs_is_dir d q then Inl IsADirectoryError
                else Inr (fs_unlink q d, dset q text_of_link ls))))"

fun extract_linked_all ::
    "path \<Rightarrow> (string \<times> tar_member) list \<Rightarrow> fs \<times> links \<Rightarrow> py_error option \<times> fs \<times> links" where
  "extract_linked_all base [] s = (None, s)"
| "extract_linked_all base (m # ms) s =
     (case extract_linked base m s of Inl e \<Rightarrow> (Some e, s) | Inr s' \<Rightarrow> extract_linked_all base ms s')"

text \<open>The check of the names looks at no link: it is the one of \<^verbatim>\<open>Layers\<close>.\<close>

definition unpack_linked ::
    "path \<Rightarrow> (string \<times> tar_member) list \<Rightarrow> fs \<times> links \<Rightarrow> py_error option \<times> fs \<times> links" where
  "unpack_linked base members s =
     (if \<exists>m \<in> set members. escapes base (fst m)
      then (Some (OtherError ''Attempted Path Traversal in Tar File''), s)
      else extract_linked_all base members s)"


section \<open>Archives without links\<close>

lemma follow_no_links: "follow n [] acc cs = Some (norm_parts acc cs)"
  by (induction n "[] :: links" acc cs rule: follow.induct) auto

lemma real_path_no_links: "normal_path p \<Longrightarrow> real_path [] p = Some p"
  by (simp add: real_path_def follow_no_links norm_parts_normal)

lemma is_link_no_links: "\<not> is_link [] p"
  by (simp add: is_link_def split: option.splits)

lemma path_parts_normal: "''..'' \<notin> set (path_parts s) \<Longrightarrow> normal_path (path_parts s)"
  by (auto simp: normal_path_def path_parts_def)

lemma dotdot_in_parts: "''..'' \<in> set (path_parts s) \<longleftrightarrow> ''..'' \<in> set (split_on (CHR ''/'') s)"
  by (simp add: path_parts_def)

lemma abspath_join_path_div:
  "normal_path base \<Longrightarrow> ''..'' \<notin> set (path_parts s) \<Longrightarrow> abspath_join base s = path_div base s"
  by (auto simp: abspath_join_def path_div_def norm_parts_append norm_parts_normal
      norm_parts_no_dotdot dotdot_in_parts path_parts_def)

lemma path_div_normal:
  "normal_path base \<Longrightarrow> ''..'' \<notin> set (path_parts s) \<Longrightarrow> normal_path (path_div base s)"
  by (simp add: path_div_def path_parts_normal)

lemma mkdirs_done:
  "\<forall>q \<in> set qs. fs_exists d q \<Longrightarrow> foldl (\<lambda>e q. if fs_exists e q then e else dset q Dir e) d qs = d"
  by (induction qs) auto

lemma mkdir_p_upper_fails: "fs_mkdir_p (butlast p) d = Inl e \<Longrightarrow> fs_mkdir_p p d = Inl e"
  by (cases p rule: rev_cases) (auto simp: fs_mkdir_p_def split: if_splits)

lemma mkdir_p_twice:
  assumes "fs_mkdir_p (butlast p) d = Inr d'"
  shows "fs_mkdir_p p d' = fs_mkdir_p p d"
proof (cases p rule: rev_cases)
  case Nil
  with assms have "fs_mkdir_p [] d = Inr d'" by simp
  then show ?thesis using Nil by (auto simp: fs_mkdir_p_def fs_exists_def fs_is_file_def dict_laws split: if_splits)
next
  case (snoc q c)
  then have m: "fs_mkdir_p q d = Inr d'" using assms by simp
  then have "d' = foldl (\<lambda>e q. if fs_exists e q then e else dset q Dir e) d (prefixes q)"
    by (auto simp: fs_mkdir_p_def split: if_splits)
  moreover have "foldl (\<lambda>e q. if fs_exists e q then e else dset q Dir e) d' (prefixes q) = d'"
    by (rule mkdirs_done) (simp add: fs_exists_def mkdir_p_dget [OF m])
  moreover have "fs_is_file d' r = fs_is_file d r" for r
    by (simp add: fs_is_file_iff mkdir_p_file [OF m])
  ultimately show ?thesis by (simp add: snoc fs_mkdir_p_def)
qed

definition plain :: "string \<times> node \<Rightarrow> string \<times> tar_member" where
  "plain m = (fst m, Plain (snd m))"

lemma make_upper_no_links:
  "normal_path p \<Longrightarrow>
   make_upper [] p d = (case fs_mkdir_p p d of Inl e \<Rightarrow> Inl e | Inr d' \<Rightarrow> Inr (p, d'))"
  by (simp add: make_upper_def real_path_no_links is_link_no_links)

lemma extract_plain_member:
  assumes "normal_path base" and "''..'' \<notin> set (path_parts (fst m))"
  shows "extract_linked base (plain m) (d, []) =
    (case extract_member base m d of Inl e \<Rightarrow> Inl e | Inr d' \<Rightarrow> Inr (d', []))"
proof -
  let ?t = "path_div base (fst m)"
  have n: "normal_path ?t" "normal_path (butlast ?t)"
    using path_div_normal [OF assms] by (simp_all add: normal_path_butlast)
  show ?thesis
    using mkdir_p_twice [of ?t d] mkdir_p_upper_fails [of ?t d]
    by (auto simp: extract_linked_def extract_member_def plain_def Let_def abspath_join_path_div [OF assms]
        make_upper_no_links [OF n(2)] real_path_no_links [OF n(1)] is_link_no_links
        split: sum.splits node.splits)
qed

text \<open>On an archive of files and directories, links or no links make no difference.\<close>

theorem extract_plain_members:
  assumes "normal_path base" and "\<forall>m \<in> set ms. ''..'' \<notin> set (path_parts (fst m))"
  shows "extract_linked_all base (map plain ms) (d, []) =
    (case extract_all base ms d of (e, d') \<Rightarrow> (e, d', []))"
  using assms(2)
proof (induction ms arbitrary: d)
  case (Cons m ms)
  then show ?case
    using extract_plain_member [OF assms(1), of m d] by (cases "extract_member base m d") auto
qed simp


section \<open>Archives with a link\<close>

lemma follow_free:
  assumes "normal_path p" and "\<forall>q. q \<noteq> [] \<and> prefix q p \<longrightarrow> dget ls (acc @ q) = None"
  shows "follow n ls acc (p @ cs) = follow n ls (acc @ p) cs"
  using assms
proof (induction p arbitrary: acc)
  case (Cons c p)
  have "dget ls (acc @ [c]) = None" using Cons.prems(2) by simp
  moreover have "follow n ls (acc @ [c]) (p @ cs) = follow n ls ((acc @ [c]) @ p) cs"
  proof (rule Cons.IH)
    show "normal_path p" using Cons.prems(1) by (simp add: normal_path_def)
    show "\<forall>q. q \<noteq> [] \<and> prefix q p \<longrightarrow> dget ls ((acc @ [c]) @ q) = None"
      using Cons.prems(2) [THEN spec, of "c # q" for q] by simp
  qed
  ultimately show ?case using Cons.prems(1) by (simp add: normal_path_def)
qed simp

lemma real_path_free:
  assumes "normal_path p" and "\<forall>q. q \<noteq> [] \<and> prefix q p \<longrightarrow> dget ls q = None"
  shows "real_path ls p = Some p"
  using follow_free [of p ls "[]" max_links "[]"] assms by (simp add: real_path_def)

lemma real_path_through:
  assumes "normal_path base" and "is_component l" and "l \<noteq> ''..''"
    and "prefix ''/'' target" and "split_on (CHR ''/'') target = [] # out"
    and "normal_path (out @ cs)" and "\<not> prefix (base @ [l]) (out @ cs)"
  shows "real_path [(base @ [l], target)] (base @ l # cs) = Some (out @ cs)"
proof -
  let ?ls = "[(base @ [l], target)]"
  have l: "l \<noteq> []" "l \<noteq> ''.''" using assms(2) by (auto simp: is_component_def)
  have "follow n ?ls [] (base @ l # cs) = follow n ?ls base (l # cs)" for n
    using follow_free [of base ?ls "[]" n "l # cs"] assms(1) by auto
  moreover have "follow (Suc n) ?ls base (l # cs) = follow n ?ls [] ((out @ cs) @ [])" for n
    using assms(3-5) l by simp
  moreover have "follow n ?ls [] ((out @ cs) @ []) = Some (out @ cs)" for n
    using follow_free [of "out @ cs" ?ls "[]" n "[]"] assms(6,7) by auto
  ultimately have "follow (Suc n) ?ls [] (base @ l # cs) = Some (out @ cs)" for n by metis
  from this [of 39] show ?thesis by (simp add: real_path_def max_links_def)
qed

lemma make_upper_through:
  assumes "normal_path base" and "is_component l" and "l \<noteq> ''..''"
    and "prefix ''/'' target" and "split_on (CHR ''/'') target = [] # out"
    and "normal_path out" and "\<not> prefix base out"
    and "\<forall>q. prefix q out \<longrightarrow> dget d q = Some Dir"
  shows "make_upper [(base @ [l], target)] (base @ [l]) d = Inr (out, d)"
proof -
  let ?ls = "[(base @ [l], target)]"
  have "\<not> prefix (base @ [l]) out" using assms(7) by (meson append_prefixD)
  with real_path_through [of base l target out "[]"] assms(1-6)
  have r: "real_path ?ls (base @ [l]) = Some out" by simp
  have "leads_somewhere ?ls (base @ [l]) d"
    using assms(8) by (simp add: leads_somewhere_def r fs_exists_def)
  moreover have "\<not> is_link ?ls p" if "prefix p base" "p \<noteq> []" for p
  proof -
    have "prefix (butlast p) base" using that by (meson prefixeq_butlast prefix_order.trans)
    then have "real_path ?ls (butlast p) = Some (butlast p)"
      using assms(1) by (intro real_path_free) (auto simp: prefix_def)
    then show ?thesis using that by (auto simp: is_link_def)
  qed
  moreover have "fs_mkdir_p out d = Inr d"
  proof -
    have "\<forall>q \<in> set (prefixes out). fs_exists d q \<and> \<not> fs_is_file d q"
      using assms(8) by (simp add: fs_exists_def fs_is_file_def)
    then show ?thesis using mkdirs_done [of "prefixes out" d] by (auto simp: fs_mkdir_p_def)
  qed
  ultimately have "\<not> (\<exists>p \<in> set (prefixes (base @ [l])).
      p \<noteq> [] \<and> is_link ?ls p \<and> \<not> leads_somewhere ?ls p d)"
    by (metis in_set_prefixes prefix_snoc)
  then show ?thesis
    using \<open>fs_mkdir_p out d = Inr d\<close> by (simp only: make_upper_def r) simp
qed

text \<open>
  The check of the member names does not keep an archive with a symbolic link inside the layer: a
  link with a harmless name and a file below that name both pass, and the file is written wherever
  the link points.
\<close>

theorem checked_archive_writes_outside:
  assumes "normal_path base" and "fs_mkdir_p base d = Inr d" and "dget d (base @ [l]) = None"
    and "is_component l" and "l \<noteq> ''..''" and "is_component x" and "x \<noteq> ''..''"
    and "prefix ''/'' target" and "split_on (CHR ''/'') target = [] # out"
    and "normal_path out" and "\<not> prefix base out"
    and "\<forall>q. prefix q out \<longrightarrow> dget d q = Some Dir" and "\<not> fs_is_dir d (out @ [x])"
  shows "\<exists>d' ls. unpack_linked base [(l, Symlink target), (l @ ''/'' @ x, Plain (File b))] (d, []) =
      (None, d', ls) \<and> dget d' (out @ [x]) = Some (File b)"
proof -
  have slash: "CHR ''/'' \<notin> set l" "CHR ''/'' \<notin> set x" "l \<noteq> []"
    using assms(4,6) by (simp_all add: is_component_def)
  have pp: "path_parts l = [l]" "path_parts (l @ ''/'' @ x) = [l, x]"
    using assms(4,6) slash
    by (simp_all add: is_component_def path_parts_def split_on_append_sep split_on_no_sep)
  have "\<not> prefix ''/'' (l @ y)" for y using slash by (cases l) auto
  from this [of "[]"] this [of "''/'' @ x"]
  have parts: "path_div base l = base @ [l]" "path_div base (l @ ''/'' @ x) = base @ [l, x]"
    by (simp_all add: path_div_def pp [simplified])
  have "\<not> escapes base l" "\<not> escapes base (l @ ''/'' @ x)"
    using abspath_join_path_div [OF assms(1), of l] abspath_join_path_div [OF assms(1), of "l @ ''/'' @ x"]
      assms(1,5,7) by (auto simp: escapes_iff parts pp simp del: append_Cons append_Nil)
  moreover have "extract_linked base (l, Symlink target) (d, []) = Inr (d, [(base @ [l], target)])"
    using assms(1-3)
    by (simp add: extract_linked_def parts make_upper_no_links fs_is_dir_def fs_unlink_def ddel_absent)
  moreover have "extract_linked base (l @ ''/'' @ x, Plain (File b)) (d, [(base @ [l], target)]) =
      Inr (dset (out @ [x]) (File b) d, [(base @ [l], target)])"
  proof -
    have x: "normal_path [x]" using assms(6,7) by (simp add: normal_path_def is_component_def)
    have "\<not> prefix (base @ [l]) (out @ [x])"
      using assms(11) by (auto simp: prefix_snoc dest: append_prefixD)
    with real_path_through [OF assms(1,4,5,8,9), of "[x]"] assms(10) x
    have r: "real_path [(base @ [l], target)] (base @ [l, x]) = Some (out @ [x])" by simp
    moreover have "fs_is_dir d out" using assms(12) by (simp add: fs_is_dir_def)
    ultimately show ?thesis
      using assms(13) make_upper_through [OF assms(1,4,5,8-12)]
      by (simp add: extract_linked_def parts [simplified] butlast_append fs_write_def Let_def)
  qed
  ultimately show ?thesis by (auto simp: unpack_linked_def dict_laws)
qed

definition linked_disk :: fs where
  "linked_disk = [([], Dir), (demo_dir, Dir), (demo_dir @ [''a''], Dir), ([''etc''], Dir)]"

theorem checked_archive_writes_outside_witness:
  "dget (fst (snd (unpack_linked (demo_dir @ [''a'']) [(''x'', Symlink ''/etc''), (''x/cron'', Plain (File [7]))]
     (linked_disk, [])))) [''etc'', ''cron''] = Some (File [7])"
proof -
  let ?base = "demo_dir @ [''a'']"
  have a: "normal_path ?base" "fs_mkdir_p ?base linked_disk = Inr linked_disk"
    "dget linked_disk (?base @ [''x'']) = None" "is_component ''x''" "''x'' \<noteq> ''..''"
    "is_component ''cron''" "''cron'' \<noteq> ''..''" "prefix ''/'' ''/etc''" "split_on (CHR ''/'') ''/etc'' = [] # [''etc'']"
    "normal_path [''etc'']" "\<not> prefix ?base [''etc'']" "\<not> fs_is_dir linked_disk ([''etc''] @ [''cron''])"
    by code_simp+
  have "\<forall>q. prefix q [''etc''] \<longrightarrow> dget linked_disk q = Some Dir"
    by (auto simp: prefix_Cons linked_disk_def)
  from checked_archive_writes_outside [OF a(1-11) this a(12), of "[7]"]
  show ?thesis by auto
qed

end
