(* ===== verification/Errors.thy ===== *)
theory Errors
  imports PyValues
begin

text \<open>
  The exceptions of \<^verbatim>\<open>shared/exceptions.py\<close>: one constructor per class with the arguments of its
  \<^verbatim>\<open>__init__\<close>, and what the instance then holds: message, code, details, and the classes an
  \<^verbatim>\<open>except\<close> clause can name to catch it.
\<close>

datatype cpip_exception =
    BaseCpipError string string pydict
  | CloudUnavailableError string
  | ConnectionTimeoutError string
  | WebSocketError string
  | PackageNotFoundError string
  | PackageInstallError string string
  | PackageIntegrityError string string
  | BuildError string string
  | BuildTimeoutError string
  | BuildQueueFullError
  | ExecutionError string pydict
  | ExecutionTimeoutError int
  | SerializationError string
  | AuthenticationError string
  | TokenExpiredError
  | RateLimitError int
  | SecurityError string
  | SandboxViolationError string
  | PlatformError string
  | DaemonNotRunningError

definition quoted :: "string \<Rightarrow> string" where
  "quoted s = [CHR 0x27] @ s @ [CHR 0x27]"

fun exception_message :: "cpip_exception \<Rightarrow> string" where
  "exception_message (BaseCpipError m c d) = m"
| "exception_message (CloudUnavailableError m) = m"
| "exception_message (ConnectionTimeoutError m) = m"
| "exception_message (WebSocketError m) = m"
| "exception_message (PackageNotFoundError p) = ''Package '' @ quoted p @ '' not found in any registry''"
| "exception_message (PackageInstallError p r) = ''Failed to install '' @ quoted p @ '': '' @ r"
| "exception_message (PackageIntegrityError p r) = ''Integrity check failed for '' @ quoted p @ '': '' @ r"
| "exception_message (BuildError p r) = ''Build failed for '' @ quoted p @ '': '' @ r"
| "exception_message (BuildTimeoutError p) = ''Build failed for '' @ quoted p @ '': Build timed out''"
| "exception_message BuildQueueFullError = ''Build queue is full, try again later''"
| "exception_message (ExecutionError m d) = m"
| "exception_message (ExecutionTimeoutError t) = ''Execution timed out after '' @ int_str t @ ''s''"
| "exception_message (SerializationError m) = m"
| "exception_message (AuthenticationError m) = m"
| "exception_message TokenExpiredError = ''Token has expired''"
| "exception_message (RateLimitError t) = ''Rate limit exceeded, retry after '' @ int_str t @ ''s''"
| "exception_message (SecurityError m) = m"
| "exception_message (SandboxViolationError m) = m"
| "exception_message (PlatformError m) = m"
| "exception_message DaemonNotRunningError = ''cpip daemon is not running. Start it with: cpip daemon start''"

text \<open>A class that calls its parent's \<^verbatim>\<open>__init__\<close> and then sets the code keeps the parent's details.\<close>

fun exception_code :: "cpip_exception \<Rightarrow> string" where
  "exception_code (BaseCpipError m c d) = c"
| "exception_code (CloudUnavailableError m) = ''CLOUD_UNAVAILABLE''"
| "exception_code (ConnectionTimeoutError m) = ''CONNECTION_TIMEOUT''"
| "exception_code (WebSocketError m) = ''WEBSOCKET_ERROR''"
| "exception_code (PackageNotFoundError p) = ''PACKAGE_NOT_FOUND''"
| "exception_code (PackageInstallError p r) = ''PACKAGE_INSTALL_FAILED''"
| "exception_code (PackageIntegrityError p r) = ''PACKAGE_INTEGRITY_FAILED''"
| "exception_code (BuildError p r) = ''BUILD_FAILED''"
| "exception_code (BuildTimeoutError p) = ''BUILD_TIMEOUT''"
| "exception_code BuildQueueFullError = ''BUILD_QUEUE_FULL''"
| "exception_code (ExecutionError m d) = ''EXECUTION_FAILED''"
| "exception_code (ExecutionTimeoutError t) = ''EXECUTION_TIMEOUT''"
| "exception_code (SerializationError m) = ''SERIALIZATION_ERROR''"
| "exception_code (AuthenticationError m) = ''AUTH_FAILED''"
| "exception_code TokenExpiredError = ''TOKEN_EXPIRED''"
| "exception_code (RateLimitError t) = ''RATE_LIMITED''"
| "exception_code (SecurityError m) = ''SECURITY_ERROR''"
| "exception_code (SandboxViolationError m) = ''SANDBOX_VIOLATION''"
| "exception_code (PlatformError m) = ''PLATFORM_ERROR''"
| "exception_code DaemonNotRunningError = ''DAEMON_NOT_RUNNING''"

fun exception_details :: "cpip_exception \<Rightarrow> pydict" where
  "exception_details (BaseCpipError m c d) = d"
| "exception_details (PackageNotFoundError p) = [(''package'', PStr p)]"
| "exception_details (PackageInstallError p r) = [(''package'', PStr p), (''reason'', PStr r)]"
| "exception_details (PackageIntegrityError p r) = [(''package'', PStr p), (''reason'', PStr r)]"
| "exception_details (BuildError p r) = [(''package'', PStr p), (''reason'', PStr r)]"
| "exception_details (BuildTimeoutError p) = [(''package'', PStr p), (''reason'', PStr ''Build timed out'')]"
| "exception_details (ExecutionError m d) = d"
| "exception_details (ExecutionTimeoutError t) = [(''timeout'', PInt t)]"
| "exception_details (RateLimitError t) = [(''retry_after'', PInt t)]"
| "exception_details e = []"

text \<open>The classes of an exception, its own first, by the code an instance of the class has.\<close>

fun exception_classes :: "cpip_exception \<Rightarrow> string list" where
  "exception_classes (BaseCpipError m c d) = [''CPIP_ERROR'']"
| "exception_classes (BuildTimeoutError p) = [''BUILD_TIMEOUT'', ''BUILD_FAILED'', ''CPIP_ERROR'']"
| "exception_classes BuildQueueFullError = [''BUILD_QUEUE_FULL'', ''BUILD_FAILED'', ''CPIP_ERROR'']"
| "exception_classes (ExecutionTimeoutError t) = [''EXECUTION_TIMEOUT'', ''EXECUTION_FAILED'', ''CPIP_ERROR'']"
| "exception_classes TokenExpiredError = [''TOKEN_EXPIRED'', ''AUTH_FAILED'', ''CPIP_ERROR'']"
| "exception_classes (SandboxViolationError m) = [''SANDBOX_VIOLATION'', ''SECURITY_ERROR'', ''CPIP_ERROR'']"
| "exception_classes e = [exception_code e, ''CPIP_ERROR'']"

text \<open>An instance as the exceptions of the other theories are recorded.\<close>

definition as_error :: "cpip_exception \<Rightarrow> py_error" where
  "as_error e = CpipError (exception_code e) (exception_message e)"

text \<open>
  The code tells the class: the parents' codes are those of other classes, also where a class bypasses its
  parent's \<^verbatim>\<open>__init__\<close>, and two exceptions of one code are caught by the same clauses.
\<close>

lemma code_tells_class:
  assumes "\<forall>m c d. e \<noteq> BaseCpipError m c d" and "\<forall>m c d. e' \<noteq> BaseCpipError m c d"
  shows "exception_code e = exception_code e' \<longleftrightarrow> exception_classes e = exception_classes e'"
  using assms by (cases e; cases e'; simp)

end
