(* ===== verification/Installer.thy ===== *)
theory Installer
  imports Cache Models Errors
begin

text \<open>
  The client's package resolution (\<^verbatim>\<open>client/resolver.py\<close>), installation
  (\<^verbatim>\<open>client/installer.py\<close>) and the registry of packages for cloud execution
  (\<^verbatim>\<open>register_cloud_package\<close> of \<^verbatim>\<open>runtime/hooks.py\<close>), with the \<^verbatim>\<open>install\<close> command of
  \<^verbatim>\<open>client/cli.py\<close>.

  The machine and the server are parameters: \<open>host\<close> says what is installed, what \<^verbatim>\<open>apt\<close> lists and
  how a command ends; \<open>cloud\<close> what the server answers. One clock reading stands for all readings
  during an installation. Messages to the terminal are left out.
\<close>

section \<open>Machine, server and state\<close>

record host =
  find_spec :: "string \<Rightarrow> py_error + bool"
  dist_version :: "string \<Rightarrow> string option"
  apt_list :: "string \<Rightarrow> string option"
  run_command :: "string list \<Rightarrow> py_error + int"
  is_termux :: bool
  has_gpu :: bool
  python_exe :: string
  hash_bytes :: "bytes \<Rightarrow> string"
  clock :: pyfloat

text \<open>
  What the server answers: the package information (None for any failure), the download address, the
  status and body of a build request and of each status request (None if it raises), and a download:
  the bytes received and whether the transfer ended without an error.
\<close>

record cloud =
  c_package :: "string \<Rightarrow> string \<Rightarrow> package_info option"
  c_wheel_url :: "string \<Rightarrow> string option"
  c_submit :: "string \<Rightarrow> string \<Rightarrow> (int \<times> pydict) option"
  c_poll :: "nat \<Rightarrow> pyval \<Rightarrow> (int \<times> pydict) option"
  c_fetch :: "string \<Rightarrow> (bytes \<times> bool) option"

record client_config =
  offline_mode :: bool
  gpu_offload :: bool
  cfg_wheels_dir :: path

record cloud_package =
  cp_hybrid :: bool
  cp_loaded :: bool

record client_state =
  cache_state :: cache
  cloud_packages :: "(string, cloud_package) dict"
  commands :: "string list list"

type_synonym 'a attempt = "(py_error + 'a) \<times> client_state"

definition register_cloud_package :: "string \<Rightarrow> bool \<Rightarrow> client_state \<Rightarrow> client_state" where
  "register_cloud_package package hyb s =
     s\<lparr>cloud_packages := dset package \<lparr>cp_hybrid = hyb, cp_loaded = False\<rparr> (cloud_packages s)\<rparr>"

section \<open>Requests\<close>

text \<open>
  A request is a path with its parameters. Its answer is an exception, or a status with what the body is read as, which may
  raise as well. Any failure counts as no answer.
\<close>

type_synonym query = "string \<times> (string, string) dict"

definition client_headers :: "string \<Rightarrow> (string, string) dict" where
  "client_headers token = (if token \<noteq> [] then [(''Authorization'', ''Bearer '' @ token)] else [])"

definition package_query :: "string \<Rightarrow> string \<Rightarrow> string \<Rightarrow> string \<Rightarrow> query" where
  "package_query arch python package version =
     (API_V1_PREFIX @ ''/packages/'' @ package,
      [(''arch'', arch), (''python'', python)] @ (if version \<noteq> ''latest'' then [(''version'', version)] else []))"

definition query_cloud ::
    "(query \<Rightarrow> py_error + int \<times> (py_error + package_info)) \<Rightarrow> string \<Rightarrow> string \<Rightarrow> string \<Rightarrow> string \<Rightarrow> package_info option" where
  "query_cloud ask arch python package version =
     (case ask (package_query arch python package version) of
        Inl e \<Rightarrow> None
      | Inr (code, body) \<Rightarrow>
          if code = 200 then (case body of Inl e \<Rightarrow> None | Inr info \<Rightarrow> Some info) else None)"

definition wheel_query :: "string \<Rightarrow> string \<Rightarrow> string \<Rightarrow> query" where
  "wheel_query arch python package =
     (API_V1_PREFIX @ ''/packages/'' @ package @ ''/wheel'', [(''arch'', arch), (''python'', python)])"

text \<open>The version of the package is not part of the request. An address that is no text is left out.\<close>

definition query_wheel_url ::
    "(query \<Rightarrow> py_error + int \<times> (py_error + pydict)) \<Rightarrow> string \<Rightarrow> string \<Rightarrow> string \<Rightarrow> string option" where
  "query_wheel_url ask arch python package =
     (case ask (wheel_query arch python package) of
        Inl e \<Rightarrow> None
      | Inr (code, body) \<Rightarrow>
          if code = 200
          then (case body of
                  Inl e \<Rightarrow> None
                | Inr d \<Rightarrow> (case dget d ''url'' of Some (PStr u) \<Rightarrow> Some u | _ \<Rightarrow> None))
          else None)"

section \<open>Resolution\<close>

text \<open>Looking for a module may raise, for one of a package that is not there.\<close>

definition is_installed :: "host \<Rightarrow> string \<Rightarrow> py_error + bool" where
  "is_installed H package = find_spec H (lower (replace_char (CHR ''-'') (CHR ''_'') package))"

definition has_termux_pkg :: "host \<Rightarrow> string \<Rightarrow> bool" where
  "has_termux_pkg H package =
     (case apt_list H (''python-'' @ package) of
        None \<Rightarrow> False
      | Some out \<Rightarrow> sublist (''python-'' @ package) out)"

definition resolution :: "string \<Rightarrow> string \<Rightarrow> package_strategy \<Rightarrow> string \<Rightarrow> package_strategy list \<Rightarrow> package_resolution" where
  "resolution package version strategy reason fallbacks =
     \<lparr>pr_package = package, pr_version = version, pr_strategy = strategy, pr_info = None,
      pr_fallbacks = fallbacks, pr_reason = reason\<rparr>"

definition cloud_resolution :: "host \<Rightarrow> client_config \<Rightarrow> string \<Rightarrow> string \<Rightarrow> package_info \<Rightarrow> package_resolution" where
  "cloud_resolution H cfg package version info =
     (let strategy = (if pi_requires_gpu info \<and> \<not> has_gpu H \<and> gpu_offload cfg then Hybrid else pi_strategy info)
      in \<lparr>pr_package = package, pr_version = (if pi_version info \<noteq> [] then pi_version info else version),
          pr_strategy = strategy, pr_info = Some info,
          pr_fallbacks = filter (\<lambda>s. s \<noteq> strategy) [CloudExec, CloudBuild],
          pr_reason = ''Cloud registry: '' @ strategy_value strategy\<rparr>)"

definition cached_wheel :: "host \<Rightarrow> string \<Rightarrow> string \<Rightarrow> client_state \<Rightarrow> path option attempt" where
  "cached_wheel H package version s =
     (let (out, c) = get_wheel (hash_bytes H) package version (clock H) (cache_state s)
      in (out, s\<lparr>cache_state := c\<rparr>))"

text \<open>The reason has a dash between its parts, in UTF-8.\<close>

definition heavy_reason :: string where
  [simp]: "heavy_reason = ''Heavy package '' @ [CHR 0xE2, CHR 0x80, CHR 0x94] @ '' cloud execution recommended''"

definition offline_resolution :: "host \<Rightarrow> string \<Rightarrow> string \<Rightarrow> package_resolution" where
  "offline_resolution H package version =
     (if is_termux H \<and> has_termux_pkg H package
      then resolution package version TermuxPkg ''Available as Termux package'' []
      else if package \<in> set CLOUD_PREFERRED_PACKAGES
      then resolution package version CloudExec heavy_reason [CloudBuild]
      else resolution package version LocalInstall ''Attempting local install with cloud fallback''
             [CloudWheel, CloudBuild, CloudExec])"

definition resolve :: "host \<Rightarrow> client_config \<Rightarrow> cloud \<Rightarrow> string \<Rightarrow> string \<Rightarrow> client_state \<Rightarrow> package_resolution attempt" where
  "resolve H cfg C package version s =
     (case is_installed H package of
        Inl e \<Rightarrow> (Inl e, s)
      | Inr True \<Rightarrow>
          (Inr (resolution package
                  (case dist_version H package of Some v \<Rightarrow> if v \<noteq> [] then v else version | None \<Rightarrow> version)
                  LocalInstall ''Already installed locally'' []), s)
      | Inr False \<Rightarrow>
          (case cached_wheel H package version s of
             (Inl e, s') \<Rightarrow> (Inl e, s')
           | (Inr (Some p), s') \<Rightarrow> (Inr (resolution package version LocalInstall ''Found in local cache'' []), s')
           | (Inr None, s') \<Rightarrow>
               (case (if offline_mode cfg then None else c_package C package version) of
                  Some info \<Rightarrow> (Inr (cloud_resolution H cfg package version info), s')
                | None \<Rightarrow> (Inr (offline_resolution H package version), s'))))"

section \<open>The strategies\<close>

definition run_logged :: "host \<Rightarrow> string list \<Rightarrow> client_state \<Rightarrow> bool attempt" where
  "run_logged H cmd s =
     (let s' = s\<lparr>commands := commands s @ [cmd]\<rparr>
      in case run_command H cmd of Inl e \<Rightarrow> (Inl e, s') | Inr code \<Rightarrow> (Inr (code = 0), s'))"

definition path_str :: "path \<Rightarrow> string" where
  "path_str p = (if p = [] then ''/'' else concat (map (\<lambda>c. CHR ''/'' # c) p))"

definition pip_install :: "host \<Rightarrow> string \<Rightarrow> string list" where
  "pip_install H arg = [python_exe H, ''-m'', ''pip'', ''install'', ''--quiet'', arg]"

definition install_local :: "host \<Rightarrow> string \<Rightarrow> string \<Rightarrow> client_state \<Rightarrow> bool attempt" where
  "install_local H package version s =
     (case cached_wheel H package version s of
        (Inl e, s') \<Rightarrow> (Inl e, s')
      | (Inr cached, s') \<Rightarrow>
          run_logged H
            (pip_install H
               (case cached of
                  Some p \<Rightarrow> path_str p
                | None \<Rightarrow> if version \<noteq> ''latest'' then package @ ''=='' @ version else package)) s')"

definition install_termux :: "host \<Rightarrow> string \<Rightarrow> client_state \<Rightarrow> bool attempt" where
  "install_termux H package s = run_logged H [''pkg'', ''install'', ''-y'', ''python-'' @ package] s"

text \<open>The file name of an address: what follows the last slash, up to a question mark.\<close>

definition url_filename :: "string \<Rightarrow> string" where
  "url_filename url = hd (split_on (CHR ''?'') (last (split_on (CHR ''/'') url)))"

text \<open>
  The download writes what it receives; the status of the response is not looked at. A transfer that
  breaks off leaves the part it received.
\<close>

definition download_wheel :: "client_config \<Rightarrow> cloud \<Rightarrow> string \<Rightarrow> client_state \<Rightarrow> path option \<times> client_state" where
  "download_wheel cfg C url s =
     (let dest = path_div (cfg_wheels_dir cfg) (url_filename url)
      in case c_fetch C url of
           None \<Rightarrow> (None, s)
         | Some (body, whole) \<Rightarrow>
             (case fs_write dest body (disk (cache_state s)) of
                Inl e \<Rightarrow> (None, s)
              | Inr d \<Rightarrow>
                  ((if whole then Some dest else None),
                   s\<lparr>cache_state := (cache_state s)\<lparr>disk := d\<rparr>\<rparr>)))"

definition store_in_cache :: "host \<Rightarrow> string \<Rightarrow> string \<Rightarrow> path \<Rightarrow> string \<Rightarrow> client_state \<Rightarrow> path attempt" where
  "store_in_cache H package version src h s =
     (let (out, c) = store_wheel (hash_bytes H) package version src h (clock H) (clock H) (cache_state s)
      in (out, s\<lparr>cache_state := c\<rparr>))"

definition wheel_hash_of :: "package_resolution \<Rightarrow> string" where
  "wheel_hash_of res =
     (case pr_info res of
        None \<Rightarrow> []
      | Some info \<Rightarrow> (case pi_wheel_hash info of None \<Rightarrow> [] | Some h \<Rightarrow> h))"

definition wheel_address :: "cloud \<Rightarrow> string \<Rightarrow> package_resolution \<Rightarrow> string option" where
  "wheel_address C package res =
     (let nonempty = (\<lambda>u. case u of Some a \<Rightarrow> if a \<noteq> [] then Some a else None | None \<Rightarrow> None)
      in case nonempty (case pr_info res of Some info \<Rightarrow> pi_wheel_url info | None \<Rightarrow> None) of
           Some a \<Rightarrow> Some a
         | None \<Rightarrow> nonempty (c_wheel_url C package))"

definition install_cloud_wheel ::
    "host \<Rightarrow> client_config \<Rightarrow> cloud \<Rightarrow> string \<Rightarrow> string \<Rightarrow> package_resolution \<Rightarrow> client_state \<Rightarrow> bool attempt" where
  "install_cloud_wheel H cfg C package version res s =
     (case wheel_address C package res of
        None \<Rightarrow> (Inr False, s)
      | Some url \<Rightarrow>
          (case download_wheel cfg C url s of
             (None, s1) \<Rightarrow> (Inr False, s1)
           | (Some p, s1) \<Rightarrow>
               (case store_in_cache H package version p (wheel_hash_of res) s1 of
                  (Inl e, s2) \<Rightarrow> (Inl e, s2)
                | (Inr _, s2) \<Rightarrow> run_logged H (pip_install H (path_str p)) s2)))"

text \<open>
  The polling loop with \<open>n\<close> rounds to go, after \<open>k\<close> rounds; every exception in it is caught and
  ends in False, but for those of the download, which catches its own: an address that is no string
  is a failed download, and the loop goes on.
\<close>

fun poll_build ::
    "host \<Rightarrow> client_config \<Rightarrow> cloud \<Rightarrow> string \<Rightarrow> string \<Rightarrow> pyval \<Rightarrow> nat \<Rightarrow> nat \<Rightarrow> client_state \<Rightarrow> bool \<times> client_state" where
  "poll_build H cfg C package version build_id 0 k s = (False, s)"
| "poll_build H cfg C package version build_id (Suc n) k s =
     (case c_poll C k build_id of
        None \<Rightarrow> (False, s)
      | Some (code, status) \<Rightarrow>
          if code = 200 \<and> dget_or status ''status'' PNone = PStr ''succeeded''
          then (case dget_or status ''wheel_url'' PNone of
                  PStr url \<Rightarrow>
                    if url = [] then poll_build H cfg C package version build_id n (Suc k) s
                    else (case download_wheel cfg C url s of
                            (None, s1) \<Rightarrow> poll_build H cfg C package version build_id n (Suc k) s1
                          | (Some p, s1) \<Rightarrow>
                              (case store_in_cache H package version p [] s1 of
                                 (Inl e, s2) \<Rightarrow> (False, s2)
                               | (Inr _, s2) \<Rightarrow>
                                   (case install_local H package version s2 of
                                      (Inl e, s3) \<Rightarrow> (False, s3)
                                    | (Inr b, s3) \<Rightarrow> (b, s3))))
                | _ \<Rightarrow> poll_build H cfg C package version build_id n (Suc k) s)
          else if code = 200 \<and> dget_or status ''status'' PNone = PStr ''failed'' then (False, s)
          else poll_build H cfg C package version build_id n (Suc k) s)"

definition install_cloud_build ::
    "host \<Rightarrow> client_config \<Rightarrow> cloud \<Rightarrow> string \<Rightarrow> string \<Rightarrow> client_state \<Rightarrow> bool attempt" where
  "install_cloud_build H cfg C package version s =
     (case c_submit C package version of
        None \<Rightarrow> (Inr False, s)
      | Some (code, data) \<Rightarrow>
          if code = 200 \<or> code = 201
          then (let (b, s') = poll_build H cfg C package version (dget_or data ''request_id'' PNone) 360 0 s
                in (Inr b, s'))
          else (Inr False, s))"

definition setup_cloud_exec :: "string \<Rightarrow> client_state \<Rightarrow> bool attempt" where
  [simp]: "setup_cloud_exec package s = (Inr True, register_cloud_package package False s)"

definition setup_hybrid :: "string \<Rightarrow> client_state \<Rightarrow> bool attempt" where
  [simp]: "setup_hybrid package s = (Inr True, register_cloud_package package True s)"

definition execute_strategy ::
    "host \<Rightarrow> client_config \<Rightarrow> cloud \<Rightarrow> string \<Rightarrow> string \<Rightarrow> package_resolution \<Rightarrow> package_strategy \<Rightarrow> client_state
     \<Rightarrow> bool attempt" where
  "execute_strategy H cfg C package version res strategy s =
     (case strategy of
        LocalInstall \<Rightarrow> install_local H package version s
      | TermuxPkg \<Rightarrow> install_termux H package s
      | CloudWheel \<Rightarrow> install_cloud_wheel H cfg C package version res s
      | CloudBuild \<Rightarrow> install_cloud_build H cfg C package version s
      | CloudExec \<Rightarrow> setup_cloud_exec package s
      | Hybrid \<Rightarrow> setup_hybrid package s)"

section \<open>Installation\<close>

definition package_install_error :: "string \<Rightarrow> py_error" where
  "package_install_error package = as_error (PackageInstallError package ''All strategies exhausted'')"

fun try_strategies ::
    "host \<Rightarrow> client_config \<Rightarrow> cloud \<Rightarrow> string \<Rightarrow> string \<Rightarrow> package_resolution \<Rightarrow> package_strategy list \<Rightarrow> client_state
     \<Rightarrow> bool attempt" where
  "try_strategies H cfg C package version res [] s = (Inl (package_install_error package), s)"
| "try_strategies H cfg C package version res (st # sts) s =
     (case execute_strategy H cfg C package version res st s of
        (Inr True, s') \<Rightarrow> (Inr True, s')
      | (_, s') \<Rightarrow> try_strategies H cfg C package version res sts s')"

definition install ::
    "host \<Rightarrow> client_config \<Rightarrow> cloud \<Rightarrow> string \<Rightarrow> string \<Rightarrow> bool \<Rightarrow> client_state \<Rightarrow> bool attempt" where
  "install H cfg C package version force s =
     (case resolve H cfg C package version s of
        (Inl e, s') \<Rightarrow> (Inl e, s')
      | (Inr res, s') \<Rightarrow>
          if pr_strategy res = LocalInstall \<and> \<not> force \<and> pr_reason res = ''Already installed locally''
          then (Inr True, s')
          else try_strategies H cfg C package version res (pr_strategy res # pr_fallbacks res) s')"

text \<open>The command \<^verbatim>\<open>cpip install\<close>: the packages that failed, and the exit code.\<close>

fun install_all ::
    "host \<Rightarrow> client_config \<Rightarrow> cloud \<Rightarrow> string \<Rightarrow> bool \<Rightarrow> bool \<Rightarrow> string list \<Rightarrow> client_state \<Rightarrow> string list \<times> client_state" where
  "install_all H cfg C version force cloud_only [] s = ([], s)"
| "install_all H cfg C version force cloud_only (pkg # pkgs) s =
     (let (out, s1) = (if cloud_only then (Inr True, register_cloud_package pkg False s)
                       else install H cfg C pkg version force s);
          (failed, s2) = install_all H cfg C version force cloud_only pkgs s1
      in ((if is_ok out then failed else pkg # failed), s2))"

definition cli_install ::
    "host \<Rightarrow> client_config \<Rightarrow> cloud \<Rightarrow> string list \<Rightarrow> string \<Rightarrow> bool \<Rightarrow> bool \<Rightarrow> bool \<Rightarrow> client_state \<Rightarrow> int \<times> client_state" where
  "cli_install H cfg C packages version force local_only cloud_only s =
     (let cfg = (if local_only then cfg\<lparr>offline_mode := True\<rparr> else cfg);
          (failed, s') = install_all H cfg C version force cloud_only packages s
      in ((if failed \<noteq> [] then 1 else 0), s'))"

text \<open>The tool an agent installs with (\<^verbatim>\<open>agent/tools.py\<close>): errors become an answer.\<close>

definition tool_install ::
    "host \<Rightarrow> client_config \<Rightarrow> cloud \<Rightarrow> string \<Rightarrow> string \<Rightarrow> client_state \<Rightarrow> pydict \<times> client_state" where
  "tool_install H cfg C package version s =
     (case install H cfg C package version False s of
        (Inr success, s') \<Rightarrow> ([(''success'', PBool success), (''package'', PStr package)], s')
      | (Inl e, s') \<Rightarrow> ([(''success'', PBool False), (''error'', PStr (error_text e))], s'))"

section \<open>What a resolution offers\<close>

definition strategies_of :: "package_resolution \<Rightarrow> package_strategy list" where
  "strategies_of res = pr_strategy res # pr_fallbacks res"

lemma resolution_fields [simp]:
  "pr_package (resolution p v st r fb) = p" "pr_version (resolution p v st r fb) = v"
  "pr_strategy (resolution p v st r fb) = st" "pr_reason (resolution p v st r fb) = r"
  "pr_fallbacks (resolution p v st r fb) = fb" "pr_info (resolution p v st r fb) = None"
  by (simp_all add: resolution_def)

lemma cloud_resolution_fields [simp]:
  "pr_info (cloud_resolution H cfg p v info) = Some info"
  "pr_reason (cloud_resolution H cfg p v info) \<noteq> ''Already installed locally''"
  by (simp_all add: cloud_resolution_def Let_def)

lemma cloud_resolution_strategies:
  "{CloudExec, CloudBuild} \<subseteq> set (strategies_of (cloud_resolution H cfg p v info))"
  by (auto simp: strategies_of_def cloud_resolution_def Let_def)


text \<open>A machine on which pip and apt always fail, a server that answers nothing, and a fresh client.\<close>

definition demo_host :: host where
  "demo_host = \<lparr>find_spec = (\<lambda>_. Inr False), dist_version = (\<lambda>_. None), apt_list = (\<lambda>_. None),
     run_command = (\<lambda>_. Inr 1), is_termux = False, has_gpu = False, python_exe = ''python'',
     hash_bytes = demo_sha, clock = 9\<rparr>"

definition silent_cloud :: cloud where
  "silent_cloud = \<lparr>c_package = (\<lambda>_ _. None), c_wheel_url = (\<lambda>_. None), c_submit = (\<lambda>_ _. None),
     c_poll = (\<lambda>_ _. None), c_fetch = (\<lambda>_. None)\<rparr>"

definition demo_client_config :: client_config where
  "demo_client_config = \<lparr>offline_mode = False, gpu_offload = True, cfg_wheels_dir = [''w'']\<rparr>"

definition demo_client :: client_state where
  "demo_client = \<lparr>cache_state = demo_cache 1, cloud_packages = [], commands = []\<rparr>"


section \<open>Trying the strategies in order\<close>

text \<open>The state after strategies that all failed, None when one of them succeeds.\<close>

fun failed_through ::
    "host \<Rightarrow> client_config \<Rightarrow> cloud \<Rightarrow> string \<Rightarrow> string \<Rightarrow> package_resolution \<Rightarrow> package_strategy list \<Rightarrow> client_state
     \<Rightarrow> client_state option" where
  "failed_through H cfg C package version res [] s = Some s"
| "failed_through H cfg C package version res (st # sts) s =
     (let (out, s') = execute_strategy H cfg C package version res st s
      in if out = Inr True then None else failed_through H cfg C package version res sts s')"

lemma try_strategies_step:
  "try_strategies H cfg C package version res (st # sts) s =
     (let (out, s') = execute_strategy H cfg C package version res st s
      in if out = Inr True then (out, s') else try_strategies H cfg C package version res sts s')"
  by (auto split: prod.splits sum.splits bool.splits)

lemma try_strategies_failed:
  "failed_through H cfg C package version res pre s = Some s1 \<Longrightarrow>
   try_strategies H cfg C package version res (pre @ sts) s =
     try_strategies H cfg C package version res sts s1"
  by (induction pre arbitrary: s) (auto simp: try_strategies_step Let_def split: prod.splits if_splits
      simp del: try_strategies.simps(2))

lemma try_strategies_all_failed:
  "failed_through H cfg C package version res sts s = Some s1 \<Longrightarrow>
   try_strategies H cfg C package version res sts s = (Inl (package_install_error package), s1)"
  using try_strategies_failed [of H cfg C package version res sts s s1 "[]"] by simp

lemma failed_through_None:
  "failed_through H cfg C package version res sts s = None \<Longrightarrow>
   \<exists>pre st post s1 s2. sts = pre @ st # post \<and> failed_through H cfg C package version res pre s = Some s1 \<and>
     execute_strategy H cfg C package version res st s1 = (Inr True, s2)"
proof (induction sts arbitrary: s)
  case (Cons st sts)
  obtain out s1 where ex: "execute_strategy H cfg C package version res st s = (out, s1)"
    by (rule prod.exhaust)
  show ?case
  proof (cases "out = Inr True")
    case True
    with ex show ?thesis by (intro exI [of _ "[]"]) auto
  next
    case False
    with Cons.prems ex have "failed_through H cfg C package version res sts s1 = None" by simp
    from Cons.IH [OF this] obtain pre st' post s2 s3 where
      "sts = pre @ st' # post" "failed_through H cfg C package version res pre s1 = Some s2"
      "execute_strategy H cfg C package version res st' s2 = (Inr True, s3)" by blast
    with ex False show ?thesis 
      by - (rule exI [of _ "st # pre"], rule exI [of _ st'], auto)
  qed
qed simp

text \<open>
  C4: An installation runs the strategies in the resolution's order, each on the state the failed
  ones left, and stops at the first that succeeds. It then returns True; when every one has failed or
  raised, it raises PACKAGE_INSTALL_FAILED. It never returns False.
\<close>

theorem install_first_success:
  assumes "resolve H cfg C package version s = (Inr res, s1)"
    and "pr_strategy res \<noteq> LocalInstall \<or> force \<or> pr_reason res \<noteq> ''Already installed locally''"
  shows "(\<exists>pre st post s2 s3. strategies_of res = pre @ st # post \<and>
       failed_through H cfg C package version res pre s1 = Some s2 \<and>
       execute_strategy H cfg C package version res st s2 = (Inr True, s3) \<and>
       install H cfg C package version force s = (Inr True, s3)) \<or>
    (\<exists>s2. failed_through H cfg C package version res (strategies_of res) s1 = Some s2 \<and>
       install H cfg C package version force s = (Inl (package_install_error package), s2))"
proof -
  have eq: "install H cfg C package version force s =
      try_strategies H cfg C package version res (strategies_of res) s1"
    using assms by (auto simp: install_def strategies_of_def simp del: try_strategies.simps)
  show ?thesis
  proof (cases "failed_through H cfg C package version res (strategies_of res) s1")
    case None
    from failed_through_None [OF this] obtain pre st post s2 s3 where
      pre: "strategies_of res = pre @ st # post" "failed_through H cfg C package version res pre s1 = Some s2"
        "execute_strategy H cfg C package version res st s2 = (Inr True, s3)" by blast
    with try_strategies_failed [OF pre(2), of "st # post"] eq show ?thesis
      
      by - (rule disjI1, rule exI [of _ pre], rule exI [of _ st], auto)
  next
    case (Some s2)
    with eq try_strategies_all_failed show ?thesis by auto
  qed
qed

theorem install_first_success_witness:
  "fst (install demo_host demo_client_config silent_cloud ''torch'' ''latest'' False demo_client) = Inr True"
proof -
  let ?res = "resolution ''torch'' ''latest'' CloudExec heavy_reason [CloudBuild]"
  let ?r = "resolve demo_host demo_client_config silent_cloud ''torch'' ''latest'' demo_client"
  have ok: "fst ?r = Inr ?res" by code_simp
  have "pr_strategy ?res \<noteq> LocalInstall \<or> False \<or> pr_reason ?res \<noteq> ''Already installed locally''" by simp
  note one = install_first_success [OF pair_sndI [OF ok] this]
  have "failed_through demo_host demo_client_config silent_cloud ''torch'' ''latest'' ?res (strategies_of ?res) t = None" for t
    by (simp add: strategies_of_def execute_strategy_def)
  with one show ?thesis by auto
qed

section \<open>Cloud execution as the last resort\<close>

lemma try_cloud_exec:
  "CloudExec \<in> set sts \<Longrightarrow> fst (try_strategies H cfg C package version res sts s) = Inr True"
proof (induction sts arbitrary: s)
  case (Cons st sts)
  then show ?case
    by (cases "st = CloudExec")
      (auto simp: try_strategies_step execute_strategy_def Let_def simp del: try_strategies.simps(2)
        split: prod.splits)
qed simp



section \<open>A machine on which every command fails\<close>

lemma run_logged_fails [simp]:
  "\<forall>cmd. run_command H cmd \<noteq> Inr 0 \<Longrightarrow> fst (run_logged H cmd s) \<noteq> Inr True"
  by (auto simp: run_logged_def Let_def split: sum.splits)

lemma install_local_fails:
  "\<forall>cmd. run_command H cmd \<noteq> Inr 0 \<Longrightarrow> fst (install_local H p v s) \<noteq> Inr True"
  by (auto simp: install_local_def split: prod.splits sum.splits)

lemma install_cloud_wheel_fails:
  "\<forall>cmd. run_command H cmd \<noteq> Inr 0 \<Longrightarrow> fst (install_cloud_wheel H cfg C p v res s) \<noteq> Inr True"
  by (auto simp: install_cloud_wheel_def split: option.splits prod.splits sum.splits)

lemma poll_build_fails:
  assumes "\<forall>cmd. run_command H cmd \<noteq> Inr 0"
  shows "\<not> fst (poll_build H cfg C p v bid n k s)"
proof (induction n arbitrary: k s)
  case (Suc n)
  have local: "install_local H p v t \<noteq> (Inr True, t')" for t t'
    using install_local_fails [OF assms, of p v t] by (metis fst_conv)
  from Suc show ?case
    by (auto simp: local split: option.splits prod.splits sum.splits pyval.splits if_splits)
qed simp

lemma install_cloud_build_fails:
  "\<forall>cmd. run_command H cmd \<noteq> Inr 0 \<Longrightarrow> fst (install_cloud_build H cfg C p v s) \<noteq> Inr True"
  by (auto simp: install_cloud_build_def case_prod_beta poll_build_fails split: option.splits)

lemma execute_strategy_fails:
  assumes "\<forall>cmd. run_command H cmd \<noteq> Inr 0" and "st \<noteq> CloudExec" and "st \<noteq> Hybrid"
  shows "fst (execute_strategy H cfg C p v res st s) \<noteq> Inr True"
  using assms(2,3) install_local_fails [OF assms(1)] install_cloud_wheel_fails [OF assms(1)]
    install_cloud_build_fails [OF assms(1)] run_logged_fails [OF assms(1)]
  by (cases st) (auto simp: execute_strategy_def install_termux_def)

lemma try_registers:
  assumes "\<forall>cmd. run_command H cmd \<noteq> Inr 0" and "CloudExec \<in> set sts" and "Hybrid \<notin> set sts"
  shows "\<exists>t. try_strategies H cfg C package version res sts s = (Inr True, register_cloud_package package False t)"
  using assms(2,3)
proof (induction sts arbitrary: s)
  case (Cons st sts)
  show ?case
  proof (cases "st = CloudExec")
    case False
    obtain out s1 where ex: "execute_strategy H cfg C package version res st s = (out, s1)"
      by (rule prod.exhaust)
    with False Cons.prems execute_strategy_fails [OF assms(1), of st cfg C package version res s]
    have "out \<noteq> Inr True" by auto
    with Cons False ex show ?thesis by (simp add: try_strategies_step del: try_strategies.simps(2))
  qed (auto simp: execute_strategy_def)
qed simp

lemma cached_wheel_miss:
  "dget (index (cache_state s)) (cache_key package version ''wheel'') = None \<Longrightarrow>
   cached_wheel H package version s = (Inr None, s)"
  by (simp add: cached_wheel_def get_wheel_def)

text \<open>
  ``Local install only, no cloud'' is not what \<^verbatim>\<open>--local\<close> does. It only skips the query for the
  package; with no Termux package and every command failing, the cloud strategies are still tried, the
  package ends up registered for execution in the cloud, and the command exits with 0.
\<close>

theorem local_only_ends_in_cloud:
  assumes "is_installed H package = Inr False"
    and "dget (index (cache_state s)) (cache_key package version ''wheel'') = None"
    and "\<not> (is_termux H \<and> has_termux_pkg H package)"
    and "\<forall>cmd. run_command H cmd \<noteq> Inr 0"
  shows "\<exists>s'. cli_install H cfg C [package] version force True False s = (0, s') \<and>
    dget (cloud_packages s') package = Some \<lparr>cp_hybrid = False, cp_loaded = False\<rparr>"
proof -
  let ?cfg = "cfg\<lparr>offline_mode := True\<rparr>" and ?res = "offline_resolution H package version"
  have res: "resolve H ?cfg C package version s = (Inr ?res, s)"
    by (simp add: resolve_def assms(1) cached_wheel_miss [OF assms(2)])
  have sts: "CloudExec \<in> set (strategies_of ?res)" "Hybrid \<notin> set (strategies_of ?res)"
    "pr_reason ?res \<noteq> ''Already installed locally''"
    using assms(3) by (auto simp: offline_resolution_def strategies_of_def)
  from try_registers [OF assms(4) sts(1,2)] obtain t where
    "try_strategies H ?cfg C package version ?res (strategies_of ?res) s =
      (Inr True, register_cloud_package package False t)" by blast
  with res sts(3) have "install H ?cfg C package version force s =
      (Inr True, register_cloud_package package False t)"
    by (simp add: install_def strategies_of_def del: try_strategies.simps)
  then show ?thesis
    by (simp add: cli_install_def register_cloud_package_def dict_laws)
qed

theorem local_only_ends_in_cloud_witness:
  "fst (cli_install demo_host demo_client_config silent_cloud [''six''] ''latest'' False True False demo_client) = 0"
proof -
  have 1: "is_installed demo_host ''six'' = Inr False"
    "dget (index (cache_state demo_client)) (cache_key ''six'' ''latest'' ''wheel'') = None"
    by code_simp+
  have 2: "\<not> (is_termux demo_host \<and> has_termux_pkg demo_host ''six'')"
    "\<forall>cmd. run_command demo_host cmd \<noteq> Inr 0"
    by (simp_all add: demo_host_def)
  from local_only_ends_in_cloud [OF 1 2, of demo_client_config silent_cloud False] show ?thesis by auto
qed

section \<open>Wheels from the cloud\<close>

lemma store_in_cache_wheel:
  assumes "store_in_cache H package version src h s = (Inr p, s')"
    and "dget (disk (cache_state s')) p = Some (File b)"
  shows "\<exists>s''. cached_wheel H package version s' =
    (Inr (if h = [] \<or> hash_bytes H b = h then Some p else None), s'')"
proof -
  from assms(1) obtain c where
    "store_wheel (hash_bytes H) package version src h (clock H) (clock H) (cache_state s) = (Inr p, c)"
    "s' = s\<lparr>cache_state := c\<rparr>"
    by (auto simp: store_in_cache_def split: prod.splits)
  with get_after_store [OF this(1), of b "clock H"] assms(2) show ?thesis
    by (auto simp: cached_wheel_def)
qed

lemma run_logged_cache [simp]: "cache_state (snd (run_logged H cmd s)) = cache_state s"
  by (simp add: run_logged_def Let_def split: sum.splits)

lemma cached_wheel_cong:
  "cache_state s = cache_state t \<Longrightarrow> fst (cached_wheel H p v s) = fst (cached_wheel H p v t)"
  by (simp add: cached_wheel_def split: prod.splits)

text \<open>
  The hash the registry gives for a wheel is not checked when the wheel is installed. Whatever the
  server sent, the file is handed to pip, and if pip accepts it the installation succeeds. The hash
  only serves the next lookup in the cache: it returns the wheel if the hash is right (or none was
  given), and nothing if it is wrong, when the unverified wheel is installed already.
\<close>

theorem cloud_wheel_hash_unchecked:
  assumes "wheel_address C package res = Some url"
    and "download_wheel cfg C url s = (Some p, s1)"
    and "store_in_cache H package version p (wheel_hash_of res) s1 = (Inr q, s2)"
    and "dget (disk (cache_state s2)) q = Some (File b)"
    and "run_command H (pip_install H (path_str p)) = Inr 0"
  shows "\<exists>s3. install_cloud_wheel H cfg C package version res s = (Inr True, s3) \<and>
    commands s3 = commands s2 @ [pip_install H (path_str p)] \<and>
    fst (cached_wheel H package version s3) =
      Inr (if wheel_hash_of res = [] \<or> hash_bytes H b = wheel_hash_of res then Some q else None)"
proof -
  let ?s3 = "snd (run_logged H (pip_install H (path_str p)) s2)"
  have run: "run_logged H (pip_install H (path_str p)) s2 = (Inr True, ?s3)"
    "commands ?s3 = commands s2 @ [pip_install H (path_str p)]"
    using assms(5) by (simp_all add: run_logged_def Let_def)
  with assms(1-3) have "install_cloud_wheel H cfg C package version res s = (Inr True, ?s3)"
    by (simp add: install_cloud_wheel_def)
  moreover have "fst (cached_wheel H package version ?s3) = fst (cached_wheel H package version s2)"
    by (rule cached_wheel_cong) simp
  ultimately show ?thesis
    using run(2) store_in_cache_wheel [OF assms(3,4)] by auto
qed

text \<open>A server with one wheel whose bytes do not have the hash the registry gives, and a willing pip.\<close>

definition wrong_info :: package_info where
  "wrong_info = (new_package_info ''x'' ''1'')\<lparr>pi_strategy := CloudWheel,
     pi_wheel_url := Some ''http://h/x.whl'', pi_wheel_hash := Some ''wrong''\<rparr>"

definition wheel_cloud :: cloud where
  "wheel_cloud = silent_cloud\<lparr>c_package := (\<lambda>_ _. Some wrong_info), c_fetch := (\<lambda>_. Some ([7, 7], True))\<rparr>"

definition willing_host :: host where
  "willing_host = demo_host\<lparr>run_command := (\<lambda>_. Inr 0)\<rparr>"

theorem cloud_wheel_hash_unchecked_witness:
  "\<exists>s3. install_cloud_wheel willing_host demo_client_config wheel_cloud ''x'' ''1''
      (cloud_resolution willing_host demo_client_config ''x'' ''1'' wrong_info) demo_client = (Inr True, s3) \<and>
    fst (cached_wheel willing_host ''x'' ''1'' s3) = Inr None"
proof -
  let ?res = "cloud_resolution willing_host demo_client_config ''x'' ''1'' wrong_info"
  let ?d = "download_wheel demo_client_config wheel_cloud ''http://h/x.whl'' demo_client"
  let ?t = "store_in_cache willing_host ''x'' ''1'' [''w'', ''x.whl''] (wheel_hash_of ?res) (snd ?d)"
  have 1: "wheel_address wheel_cloud ''x'' ?res = Some ''http://h/x.whl''" by code_simp
  have 2: "fst ?d = Some [''w'', ''x.whl'']" by code_simp
  have 3: "fst ?t = Inr [''w'', ''x.whl'']" by code_simp
  have 4: "dget (disk (cache_state (snd ?t))) [''w'', ''x.whl''] = Some (File [7, 7])" by code_simp
  have 5: "run_command willing_host (pip_install willing_host (path_str [''w'', ''x.whl''])) = Inr 0"
    by (simp add: willing_host_def)
  have wrong: "wheel_hash_of ?res \<noteq> []" "hash_bytes willing_host [7, 7] \<noteq> wheel_hash_of ?res" by code_simp+
  from cloud_wheel_hash_unchecked [OF 1 pair_sndI [OF 2] pair_sndI [OF 3] 4 5] wrong show ?thesis by auto
qed

text \<open>
  \<^verbatim>\<open>--force\<close> does not bypass the cache. For an installed package it runs pip, but on the
  cached wheel when there is one, and with the same arguments as without it: pip is not asked to
  install again.
\<close>

theorem force_installs_from_cache:
  assumes "is_installed H package = Inr True"
    and "cached_wheel H package version s = (Inr (Some p), s1)"
  shows "commands (snd (install H cfg C package version True s)) =
      commands s1 @ [[python_exe H, ''-m'', ''pip'', ''install'', ''--quiet'', path_str p]] \<and>
    fst (install H cfg C package version True s) =
      (if run_command H (pip_install H (path_str p)) = Inr 0 then Inr True else Inl (package_install_error package))"
  using assms
  by (auto simp: install_def resolve_def execute_strategy_def install_local_def run_logged_def pip_install_def Let_def
      split: sum.splits)

theorem force_installs_from_cache_witness:
  "commands (snd (install (willing_host\<lparr>find_spec := (\<lambda>_. Inr True)\<rparr>) demo_client_config silent_cloud
     ''a'' ''1'' True demo_client)) = [[''python'', ''-m'', ''pip'', ''install'', ''--quiet'', ''/w/a.whl'']]"
proof -
  let ?H = "willing_host\<lparr>find_spec := (\<lambda>_. Inr True)\<rparr>"
  have 1: "is_installed ?H ''a'' = Inr True" by code_simp
  let ?c = "cached_wheel ?H ''a'' ''1'' demo_client"
  have 2: "fst ?c = Inr (Some [''w'', ''a.whl''])" by code_simp
  have 3: "commands (snd ?c) = []" "path_str [''w'', ''a.whl''] = ''/w/a.whl''" "python_exe ?H = ''python''" by code_simp+
  from force_installs_from_cache [OF 1 pair_sndI [OF 2], of demo_client_config silent_cloud] 3 show ?thesis by simp
qed

section \<open>Waiting for a cloud build\<close>

text \<open>An answer that leaves the build open: another status code, or neither success nor failure.\<close>

definition undecided :: "(int \<times> pydict) option \<Rightarrow> bool" where
  "undecided r =
     (case r of
        None \<Rightarrow> False
      | Some (code, status) \<Rightarrow>
          code \<noteq> 200 \<or> dget_or status ''status'' PNone \<noteq> PStr ''succeeded'' \<and>
            dget_or status ''status'' PNone \<noteq> PStr ''failed'')"

lemma poll_build_undecided:
  "undecided (c_poll C k bid) \<Longrightarrow>
   poll_build H cfg C p v bid (Suc n) k s = poll_build H cfg C p v bid n (Suc k) s"
  by (auto simp: undecided_def split: option.splits prod.splits)

lemma poll_build_skip:
  "\<forall>j < m. undecided (c_poll C (k + j) bid) \<Longrightarrow>
   poll_build H cfg C p v bid (m + n) k s = poll_build H cfg C p v bid n (k + m) s"
proof (induction m arbitrary: k)
  case (Suc m)
  from Suc.prems have "undecided (c_poll C k bid)" by (metis add.right_neutral zero_less_Suc)
  moreover from Suc.prems have "\<forall>j < m. undecided (c_poll C (Suc k + j) bid)"
    by (metis Suc_mono add_Suc_shift)
  ultimately show ?case using Suc.IH [of "Suc k"] by (simp add: poll_build_undecided del: poll_build.simps)
qed simp

text \<open>
  C30: A cloud build is waited for in at most 360 rounds. If the first \<open>k < 360\<close> answers leave it open
  and the next says it succeeded, its wheel is downloaded, put into the cache and installed by pip, and
  the outcome is pip's; if the next says it failed, or asking raises, or no answer decides it, the
  strategy fails and nothing has changed.
\<close>

theorem cloud_build_waits:
  assumes "c_submit C package version = Some (201, data)" and "k \<le> 360"
    and "\<forall>j < k. undecided (c_poll C j (dget_or data ''request_id'' PNone))"
  defines "answer \<equiv> c_poll C k (dget_or data ''request_id'' PNone)"
  shows "(k = 360 \<or> answer = None \<or> (\<exists>st. answer = Some (200, st) \<and> dget st ''status'' = Some (PStr ''failed'')) \<longrightarrow>
      install_cloud_build H cfg C package version s = (Inr False, s)) \<and>
    (\<forall>st url p s1 q s2 b s3. k < 360 \<and> answer = Some (200, st) \<and> dget st ''status'' = Some (PStr ''succeeded'') \<and>
      dget st ''wheel_url'' = Some (PStr url) \<and> url \<noteq> [] \<and> download_wheel cfg C url s = (Some p, s1) \<and>
      store_in_cache H package version p [] s1 = (Inr q, s2) \<and> install_local H package version s2 = (Inr b, s3) \<longrightarrow>
      install_cloud_build H cfg C package version s = (Inr b, s3))"
proof -
  let ?id = "dget_or data ''request_id'' PNone"
  have skip: "poll_build H cfg C package version ?id 360 0 s = poll_build H cfg C package version ?id (360 - k) k s"
    using poll_build_skip [of k C 0 ?id H cfg package version "360 - k" s] assms(2,3) by simp
  then have eq: "install_cloud_build H cfg C package version s =
      (let (b, s') = poll_build H cfg C package version ?id (360 - k) k s in (Inr b, s'))"
    by (simp add: install_cloud_build_def assms(1))
  show ?thesis
  proof (cases "k = 360")
    case True
    with eq show ?thesis by simp
  next
    case False
    with assms(2) have "360 - k = Suc (359 - k)" by simp
    then show ?thesis
      unfolding eq answer_def by (auto simp: dget_or_def)
  qed
qed

definition building_cloud :: cloud where
  "building_cloud = wheel_cloud\<lparr>c_submit := (\<lambda>_ _. Some (201, [(''request_id'', PStr ''b1'')])),
     c_poll := (\<lambda>k _. if k < 2 then Some (200, [(''status'', PStr ''building'')])
       else Some (200, [(''status'', PStr ''succeeded''), (''wheel_url'', PStr ''http://h/x.whl'')]))\<rparr>"

theorem cloud_build_waits_witness:
  "fst (install_cloud_build willing_host demo_client_config building_cloud ''x'' ''1'' demo_client) = Inr True"
proof -
  let ?d = "download_wheel demo_client_config building_cloud ''http://h/x.whl'' demo_client"
  let ?t = "store_in_cache willing_host ''x'' ''1'' [''w'', ''x.whl''] [] (snd ?d)"
  let ?i = "install_local willing_host ''x'' ''1'' (snd ?t)"
  have d: "fst ?d = Some [''w'', ''x.whl'']" by code_simp
  have t: "fst ?t = Inr [''w'', ''x.whl'']" by code_simp
  have i: "fst ?i = Inr True" by code_simp
  have sub: "c_submit building_cloud ''x'' ''1'' = Some (201, [(''request_id'', PStr ''b1'')])"
    by (simp add: building_cloud_def)
  have open2: "\<forall>j < 2. undecided (c_poll building_cloud j (dget_or [(''request_id'', PStr ''b1'')] ''request_id'' PNone))"
    by (simp add: building_cloud_def undecided_def dget_or_def)
  have done2: "c_poll building_cloud 2 (dget_or [(''request_id'', PStr ''b1'')] ''request_id'' PNone) =
      Some (200, [(''status'', PStr ''succeeded''), (''wheel_url'', PStr ''http://h/x.whl'')])"
    by (simp add: building_cloud_def)
  have "(2::nat) \<le> 360" by simp
  note w = conjunct2 [OF cloud_build_waits [OF sub this open2, of willing_host demo_client_config demo_client]]
  have "install_cloud_build willing_host demo_client_config building_cloud ''x'' ''1'' demo_client = (Inr True, snd ?i)"
    by (rule w [rule_format, where st = "[(''status'', PStr ''succeeded''), (''wheel_url'', PStr ''http://h/x.whl'')]"
        and url = "''http://h/x.whl''" and p = "[''w'', ''x.whl'']" and ?s1.0 = "snd ?d" and q = "[''w'', ''x.whl'']"
        and ?s2.0 = "snd ?t"])
      (use done2 pair_sndI [OF d] pair_sndI [OF t] pair_sndI [OF i] in simp)
  then show ?thesis by simp
qed

end
