(* ===== verification/Fetcher.thy ===== *)
theory Fetcher
  imports PyValues "HOL-Library.Multiset"
begin

text \<open>
  The chunk downloader, \<^verbatim>\<open>virtualization/fetcher.py\<close>: the plan of byte ranges, the ranges
  fetched in parallel and written into one file, and the check of the hash.

  The remote file is the parameter \<open>remote\<close>: what the HEAD request tells, the error that keeps a
  streamed GET from being answered or else the chunks it delivers and the error that ends it, and the answer to a GET of a range. The tasks of
  \<^verbatim>\<open>asyncio.gather\<close> write under a lock, so an execution is an order of the ranges; it is the
  parameter \<open>finish\<close>. A task that raises does not stop the others; the disk is the one all leave. The
  callback for progress is left out.
\<close>

record remote =
  rm_length :: "py_error + int"
  rm_ranges :: bool
  rm_stream :: "py_error + bytes list \<times> py_error option"
  rm_range :: "int \<Rightarrow> int \<Rightarrow> py_error + bytes"

section \<open>The plan of ranges\<close>

text \<open>The loop over the offsets; it need not end for a chunk csize that is not positive.\<close>

partial_function (option) chunk_ranges :: "int \<Rightarrow> int \<Rightarrow> int \<Rightarrow> (int \<times> int) list option" where
  "chunk_ranges csize tot offset =
     (if offset < tot
      then (let end' = min (offset + csize - 1) (tot - 1)
            in Option.bind (chunk_ranges csize tot (end' + 1)) (\<lambda>cs. Some ((offset, end') # cs)))
      else Some [])"

section \<open>Writing the chunks\<close>

text \<open>\<open>f.seek(start); f.write(data)\<close> on the content of a file: a gap is filled with zeros.\<close>

definition write_at :: "nat \<Rightarrow> bytes \<Rightarrow> bytes \<Rightarrow> bytes" where
  "write_at start data f =
     (if data = [] then f
      else take start f @ replicate (start - length f) 0 @ data @ drop (start + length data) f)"

definition fetch_chunk :: "remote \<Rightarrow> path \<Rightarrow> int \<times> int \<Rightarrow> fs \<Rightarrow> py_error option \<times> fs" where
  "fetch_chunk R dest rng d =
     (case rm_range R (fst rng) (snd rng) of
        Inl e \<Rightarrow> (Some e, d)
      | Inr data \<Rightarrow>
          (case fs_read d dest of
             Inl e \<Rightarrow> (Some e, d)
           | Inr f \<Rightarrow>
               (case fs_write dest (write_at (nat (fst rng)) data f) d of
                  Inl e \<Rightarrow> (Some e, d)
                | Inr d' \<Rightarrow> (None, d'))))"

text \<open>All tasks in the order they finish; \<^verbatim>\<open>gather\<close> raises the first error.\<close>

fun gather :: "remote \<Rightarrow> path \<Rightarrow> (int \<times> int) list \<Rightarrow> fs \<Rightarrow> py_error option \<times> fs" where
  "gather R dest [] d = (None, d)"
| "gather R dest (r # rs) d =
     (let (e, d1) = fetch_chunk R dest r d; (e', d2) = gather R dest rs d1
      in (case e of None \<Rightarrow> e' | Some x \<Rightarrow> Some x, d2))"

definition chunked_download ::
    "(bytes \<Rightarrow> string) \<Rightarrow> ((int \<times> int) list \<Rightarrow> (int \<times> int) list) \<Rightarrow> int \<Rightarrow> remote \<Rightarrow> path \<Rightarrow> int \<Rightarrow> string \<Rightarrow> fs
     \<Rightarrow> ((py_error + path) \<times> fs) option" where
  "chunked_download sha finish csize R dest tot expected d =
     map_option
       (\<lambda>chunks.
          case fs_write dest (replicate (nat tot) 0) d of
            Inl e \<Rightarrow> (Inl e, d)
          | Inr d1 \<Rightarrow>
              (case gather R dest (finish chunks) d1 of
                 (Some e, d2) \<Rightarrow> (Inl e, d2)
               | (None, d2) \<Rightarrow>
                   if expected = [] then (Inr dest, d2)
                   else (case fs_read d2 dest of
                           Inl e \<Rightarrow> (Inl e, d2)
                         | Inr f \<Rightarrow>
                             if sha f \<noteq> expected
                             then (Inl (ValueError (''Hash mismatch: expected '' @ take 16 expected @ ''..., got ''
                                     @ take 16 (sha f) @ ''...'')),
                                   fs_unlink dest d2)
                             else (Inr dest, d2))))
       (chunk_ranges csize tot 0)"

text \<open>What has arrived when the transfer breaks off stays in the file.\<close>

definition simple_download :: "remote \<Rightarrow> path \<Rightarrow> fs \<Rightarrow> (py_error + path) \<times> fs" where
  "simple_download R dest d =
     (case rm_stream R of
        Inl e \<Rightarrow> (Inl e, d)
      | Inr (parts, broken) \<Rightarrow>
          (case fs_write dest (concat parts) d of
             Inl e \<Rightarrow> (Inl e, d)
           | Inr d' \<Rightarrow> ((case broken of None \<Rightarrow> Inr dest | Some e \<Rightarrow> Inl e), d')))"

definition download ::
    "(bytes \<Rightarrow> string) \<Rightarrow> ((int \<times> int) list \<Rightarrow> (int \<times> int) list) \<Rightarrow> int \<Rightarrow> remote \<Rightarrow> path \<Rightarrow> string \<Rightarrow> fs
     \<Rightarrow> ((py_error + path) \<times> fs) option" where
  "download sha finish csize R dest expected d =
     (case fs_mkdir_p (butlast dest) d of
        Inl e \<Rightarrow> Some (Inl e, d)
      | Inr d1 \<Rightarrow>
          (case rm_length R of
             Inl e \<Rightarrow> Some (Inl e, d1)
           | Inr total_size \<Rightarrow>
               if \<not> rm_ranges R \<or> total_size < csize * 2 then Some (simple_download R dest d1)
               else chunked_download sha finish csize R dest total_size expected d1))"

section \<open>The ranges partition the file\<close>

lemma chunk_ranges_partition:
  assumes "0 < csize" and "0 \<le> offset"
  shows "\<exists>cs. chunk_ranges csize tot offset = Some cs \<and>
    concat (map (\<lambda>(s, e). [s..e]) cs) = [offset..tot - 1] \<and> (\<forall>(s, e) \<in> set cs. 0 \<le> s \<and> s \<le> e \<and> e < s + csize)"
  using assms(2)
proof (induction "nat (tot - offset)" arbitrary: offset rule: less_induct)
  case less
  show ?case
  proof (cases "offset < tot")
    case False
    then show ?thesis by (subst chunk_ranges.simps) simp
  next
    case True
    let ?stop = "min (offset + csize - 1) (tot - 1)"
    have "nat (tot - (?stop + 1)) < nat (tot - offset)" "0 \<le> ?stop + 1"
      using True assms(1) less.prems by auto
    from less.hyps [OF this] obtain cs where
      cs: "chunk_ranges csize tot (?stop + 1) = Some cs"
        "concat (map (\<lambda>(s, e). [s..e]) cs) = [?stop + 1..tot - 1]"
        "\<forall>(s, e) \<in> set cs. 0 \<le> s \<and> s \<le> e \<and> e < s + csize" by blast
    have "chunk_ranges csize tot offset = Some ((offset, ?stop) # cs)"
      using True by (subst chunk_ranges.simps) (simp add: cs(1) Let_def)
    moreover have "[offset..tot - 1] = [offset..?stop] @ [?stop + 1..tot - 1]"
      using True assms(1) by (intro upto_split2) auto
    ultimately show ?thesis
      using cs(2,3) True assms(1) less.prems by (intro exI [of _ "(offset, ?stop) # cs"]) auto
  qed
qed

text \<open>
  The plan of a chunked download ends, and its ranges, put one after the other, are exactly the
  bytes of the file: none is missing and none fetched twice, and no range is longer than a chunk.
\<close>

theorem ranges_partition_file:
  assumes "0 < csize"
  shows "\<exists>cs. chunk_ranges csize tot 0 = Some cs \<and> concat (map (\<lambda>(s, e). [s..e]) cs) = [0..tot - 1] \<and>
    (\<forall>(s, e) \<in> set cs. 0 \<le> s \<and> s \<le> e \<and> e < s + csize)"
  using chunk_ranges_partition [OF assms, of 0 tot] by simp

theorem ranges_partition_file_witness:
  "\<exists>cs. chunk_ranges 4 10 0 = Some cs \<and> concat (map (\<lambda>(s, e). [s..e]) cs) = [0, 1, 2, 3, 4, 5, 6, 7, 8, 9]"
proof -
  have "(0::int) < 4" by simp
  moreover have "[0..10 - 1] = [0, 1, 2, 3, 4, 5, 6, 7, 8, 9 :: int]" by code_simp
  ultimately show ?thesis using ranges_partition_file [of 4 10] by auto
qed

section \<open>Chunks arrive in any order\<close>

text \<open>A server that answers ranges with the bytes of one content.\<close>

definition serves_ranges :: "remote \<Rightarrow> bytes \<Rightarrow> bool" where
  "serves_ranges R content \<longleftrightarrow>
     (\<forall>s e. 0 \<le> s \<longrightarrow> s \<le> e \<longrightarrow> e < int (length content) \<longrightarrow>
        rm_range R s e = Inr (take (nat (e - s + 1)) (drop (nat s) content)))"

lemma write_at_slice:
  assumes "length f = length content" and "a + n \<le> length content"
  shows "length (write_at a (take n (drop a content)) f) = length content \<and>
    (\<forall>i < length content. write_at a (take n (drop a content)) f ! i =
       (if a \<le> i \<and> i < a + n then content ! i else f ! i))"
proof (cases "n = 0")
  case False
  with assms have "take n (drop a content) \<noteq> []" by auto
  moreover have "min (length content - a) n = n" using assms(2) by simp
  ultimately show ?thesis
    using assms by (auto simp: write_at_def nth_append)
qed (use assms in \<open>auto simp: write_at_def\<close>)

lemma fetch_chunk_ok:
  assumes "serves_ranges R content" and "0 \<le> s" "s \<le> e" "e < int (length content)"
    and "dget d dest = Some (File f)" and "length f = length content" and "fs_is_dir d (butlast dest)"
  shows "\<exists>f' d'. fetch_chunk R dest (s, e) d = (None, d') \<and> dget d' dest = Some (File f') \<and>
    (\<forall>q. q \<noteq> dest \<longrightarrow> dget d' q = dget d q) \<and> length f' = length content \<and>
    (\<forall>i < length content. f' ! i = (if s \<le> int i \<and> int i \<le> e then content ! i else f ! i))"
proof -
  let ?data = "take (nat (e - s + 1)) (drop (nat s) content)" and ?f' = "write_at (nat s) (take (nat (e - s + 1)) (drop (nat s) content)) f"
  have data: "rm_range R s e = Inr ?data"
    using assms(1-4) by (simp add: serves_ranges_def)
  have "nat s + nat (e - s + 1) \<le> length content" using assms(2-4) by linarith
  note at = write_at_slice [OF assms(6) this]
  have range: "(nat s \<le> i \<and> i < nat s + nat (e - s + 1)) = (s \<le> int i \<and> int i \<le> e)" for i
    using assms(2,3) by linarith
  have "fs_write dest ?f' d = Inr (dset dest (File ?f') d)"
    using assms(5,7) by (simp add: fs_write_def fs_is_dir_def)
  then have "fetch_chunk R dest (s, e) d = (None, dset dest (File ?f') d)"
    using assms(5) by (simp add: fetch_chunk_def data fs_read_def)
  with at show ?thesis
    by (intro exI [of _ ?f'] exI [of _ "dset dest (File ?f') d"]) (simp add: dict_laws range)
qed

lemma gather_writes:
  assumes "serves_ranges R content" and "\<forall>(s, e) \<in> set rs. 0 \<le> s \<and> s \<le> e \<and> e < int (length content)"
    and "dget d dest = Some (File f)" and "length f = length content" and "fs_is_dir d (butlast dest)"
  shows "\<exists>f' d'. gather R dest rs d = (None, d') \<and> dget d' dest = Some (File f') \<and> length f' = length content \<and>
    (\<forall>i < length content. f' ! i = (if \<exists>(s, e) \<in> set rs. s \<le> int i \<and> int i \<le> e then content ! i else f ! i))"
  using assms(2-5)
proof (induction rs arbitrary: d f)
  case (Cons r rs)
  obtain s e where r: "r = (s, e)" by (rule prod.exhaust)
  from Cons.prems r fetch_chunk_ok [OF assms(1), of s e d dest f] obtain f1 d1 where
    one: "fetch_chunk R dest (s, e) d = (None, d1)" "dget d1 dest = Some (File f1)"
      "\<forall>q. q \<noteq> dest \<longrightarrow> dget d1 q = dget d q" "length f1 = length content"
      "\<forall>i < length content. f1 ! i = (if s \<le> int i \<and> int i \<le> e then content ! i else f ! i)"
    by auto
  have "butlast dest \<noteq> dest" using Cons.prems(2,4) by (auto simp: fs_is_dir_def)
  with one(3) Cons.prems(4) have "fs_is_dir d1 (butlast dest)" by (simp add: fs_is_dir_def)
  with Cons.IH [of d1 f1] Cons.prems(1) one(2,4) obtain f' d' where
    "gather R dest rs d1 = (None, d')" "dget d' dest = Some (File f')" "length f' = length content"
    "\<forall>i < length content. f' ! i = (if \<exists>(s, e) \<in> set rs. s \<le> int i \<and> int i \<le> e then content ! i else f1 ! i)"
    by auto
  with one r show ?case by (intro exI [of _ f'] exI [of _ d']) auto
qed (auto intro: exI)

text \<open>
  C14: A chunked download of a file from a server that serves ranges gives the file, in whatever order
  the parallel requests finish; with an expected hash it returns exactly if the content has that hash,
  and otherwise it raises and no file is left.
\<close>

theorem chunked_download_any_order:
  assumes "0 < csize" and "serves_ranges R content" and "\<And>cs. mset (finish cs) = mset cs"
    and "fs_is_dir d (butlast dest)" and "\<not> fs_is_dir d dest"
  shows "\<exists>out d'. chunked_download sha finish csize R dest (int (length content)) expected d = Some (out, d') \<and>
    (if expected = [] \<or> sha content = expected
     then out = Inr dest \<and> fs_read d' dest = Inr content
     else (\<exists>msg. out = Inl (ValueError msg)) \<and> \<not> fs_exists d' dest)"
proof -
  from chunk_ranges_partition [OF assms(1), of 0 "int (length content)"] obtain cs where
    cs: "chunk_ranges csize (int (length content)) 0 = Some cs"
      "concat (map (\<lambda>(s, e). [s..e]) cs) = [0..int (length content) - 1]"
      "\<forall>(s, e) \<in> set cs. 0 \<le> s \<and> s \<le> e \<and> e < s + csize" by auto
  have set: "set (finish cs) = set cs" using assms(3) by (metis mset_eq_setD)
  have cover: "(\<exists>(s, e) \<in> set cs. s \<le> x \<and> x \<le> e) = (0 \<le> x \<and> x \<le> int (length content) - 1)" for x
    using arg_cong [OF cs(2), of set] by (auto simp: set_eq_iff)
  have bounds: "\<forall>(s, e) \<in> set (finish cs). 0 \<le> s \<and> s \<le> e \<and> e < int (length content)"
  proof (clarsimp simp: set)
    fix s e assume "(s, e) \<in> set cs"
    with cs(3) cover [of e] show "0 \<le> s \<and> s \<le> e \<and> e < int (length content)" by fastforce
  qed
  let ?d = "dset dest (File (replicate (length content) 0)) d"
  have "fs_write dest (replicate (length content) 0) d = Inr ?d"
    using assms(4,5) by (simp add: fs_write_def)
  moreover have "fs_is_dir ?d (butlast dest)"
    using assms(4,5) by (auto simp: fs_is_dir_def dict_laws)
  with gather_writes [OF assms(2) bounds, of ?d dest "replicate (length content) 0"] obtain f' d' where
    g: "gather R dest (finish cs) ?d = (None, d')" "dget d' dest = Some (File f')" "length f' = length content"
      "\<forall>i < length content. f' ! i = (if \<exists>(s, e) \<in> set cs. s \<le> int i \<and> int i \<le> e then content ! i
          else replicate (length content) 0 ! i)"
    by (auto simp: dict_laws set)
  moreover have "f' = content"
  proof (rule nth_equalityI)
    fix i assume "i < length f'"
    with g(3,4) cover [of "int i"] show "f' ! i = content ! i" by simp
  qed (rule g(3))
  ultimately show ?thesis
    by (simp add: chunked_download_def cs(1) fs_read_def fs_exists_def dict_laws)
qed

definition demo_remote :: remote where
  "demo_remote = \<lparr>rm_length = Inr 5, rm_ranges = True, rm_stream = Inr ([[1, 2], [3, 4, 5]], None),
     rm_range = (\<lambda>s e. Inr (take (nat (e - s + 1)) (drop (nat s) [1, 2, 3, 4, 5])))\<rparr>"

theorem chunked_download_any_order_witness:
  "\<exists>d'. chunked_download (\<lambda>b. ''h'') rev 2 demo_remote [''w'', ''x''] 5 ''h'' [([], Dir), ([''w''], Dir)] =
     Some (Inr [''w'', ''x''], d') \<and> fs_read d' [''w'', ''x''] = Inr [1, 2, 3, 4, 5]"
proof -
  have 1: "(0::int) < 2" and 2: "serves_ranges demo_remote [1, 2, 3, 4, 5]"
    and 3: "mset (rev cs) = mset cs" for cs :: "(int \<times> int) list"
    by (simp_all add: serves_ranges_def demo_remote_def)
  have 4: "fs_is_dir [([], Dir), ([''w''], Dir)] (butlast [''w'', ''x''])"
    "\<not> fs_is_dir [([], Dir), ([''w''], Dir)] [''w'', ''x'']"
    by code_simp+
  from chunked_download_any_order [OF 1 2 3 4, of "\<lambda>b. ''h''" "''h''"] show ?thesis by auto
qed

text \<open>
  The expected hash only counts on the chunked path. When the server does not serve ranges, or the
  file is smaller than two chunks, whatever arrives is accepted, with any hash expected.
\<close>

theorem small_download_unchecked:
  assumes "\<not> rm_ranges R \<or> tot < csize * 2" and "rm_length R = Inr tot" and "rm_stream R = Inr (parts, None)"
    and "fs_mkdir_p (butlast dest) d = Inr d1" and "fs_write dest (concat parts) d1 = Inr d2"
  shows "download sha finish csize R dest expected d = Some (Inr dest, d2) \<and> fs_read d2 dest = Inr (concat parts)"
  using assms by (auto simp: download_def simple_download_def)

theorem small_download_unchecked_witness:
  "\<exists>d2. download (\<lambda>b. ''h'') id (4 * 1024 * 1024) demo_remote [''w'', ''x''] ''another'' [([], Dir), ([''w''], Dir)] =
     Some (Inr [''w'', ''x''], d2) \<and> fs_read d2 [''w'', ''x''] = Inr [1, 2, 3, 4, 5]"
proof -
  have 1: "\<not> rm_ranges demo_remote \<or> (5::int) < 4 * 1024 * 1024 * 2" by simp
  have 2: "rm_length demo_remote = Inr 5" "rm_stream demo_remote = Inr ([[1, 2], [3, 4, 5]], None)"
    by (simp_all add: demo_remote_def)
  have 3: "fs_mkdir_p (butlast [''w'', ''x'']) [([], Dir), ([''w''], Dir)] = Inr [([], Dir), ([''w''], Dir)]"
    by code_simp
  have 4: "fs_write [''w'', ''x''] (concat [[1, 2], [3, 4, 5]]) [([], Dir), ([''w''], Dir)] =
      Inr [([], Dir), ([''w''], Dir), ([''w'', ''x''], File [1, 2, 3, 4, 5])]"
    by code_simp
  from small_download_unchecked [OF 1 2 3 4, of "\<lambda>b. ''h''" id "''another''"] show ?thesis by auto
qed

end
