(* ===== verification/Executors.thy ===== *)
theory Executors
  imports PyValues "HOL-Library.Multiset"
begin

text \<open>
  The execution farm: the Docker sandbox (\<^verbatim>\<open>executor/sandbox.py\<close>), the GPU and browser runtimes
  (\<^verbatim>\<open>executor/gpu_runtime.py\<close>, \<^verbatim>\<open>executor/browser_runtime.py\<close>), the pool that routes to
  them (\<^verbatim>\<open>executor/pool.py\<close>), the pool of warm containers (\<^verbatim>\<open>executor/container.py\<close>), the
  browser agent and the code tool (\<^verbatim>\<open>agent/browser.py\<close>, \<^verbatim>\<open>agent/tools.py\<close>).

  Parameters: \<open>run\<close> says how a command ends, \<open>repr_of\<close> is \<^verbatim>\<open>repr\<close> of a value and \<open>float_str\<close> the
  text of a float; the random part of a container's name is an argument. Every operation returns the
  commands it ran.
\<close>

section \<open>The sandbox\<close>

record sandbox_config =
  memory_limit :: string
  cpu_limit :: pyfloat
  sb_timeout :: int
  network :: bool
  gpu :: bool
  image :: string

definition new_sandbox_config :: sandbox_config where
  "new_sandbox_config = \<lparr>memory_limit = ''4g'', cpu_limit = 4, sb_timeout = 600, network = False,
     gpu = False, image = ''python:3.11-slim''\<rparr>"

text \<open>The field \<^verbatim>\<open>output\<close> of a result is never set by the code and left out.\<close>

record sandbox_result =
  sr_success :: bool
  sr_stdout :: string
  sr_stderr :: string
  sr_duration :: pyfloat
  sr_exit_code :: int

record farm =
  run_cmd :: "string list \<Rightarrow> int \<Rightarrow> proc_result"
  repr_of :: "pyval \<Rightarrow> string"
  float_str :: "pyfloat \<Rightarrow> string"
  type_error :: "pyval \<Rightarrow> string"
  uuid8 :: string
  elapsed :: pyfloat

definition sandbox_command :: "farm \<Rightarrow> sandbox_config \<Rightarrow> string \<Rightarrow> string list" where
  "sandbox_command F cfg code =
     [''docker'', ''run'', ''--rm'', ''--name'', ''cpip-exec-'' @ uuid8 F,
      ''--memory='' @ memory_limit cfg, ''--cpus='' @ float_str F (cpu_limit cfg),
      ''--read-only'', ''--tmpfs'', ''/tmp:rw,noexec,nosuid,size=256m'']
     @ (if \<not> network cfg then [''--network=none''] else [])
     @ (if gpu cfg then [''--gpus'', ''all''] else [])
     @ [image cfg, ''python'', ''-c'', code]"

definition sandbox_execute ::
    "farm \<Rightarrow> string \<Rightarrow> sandbox_config option \<Rightarrow> sandbox_result \<times> string list list" where
  "sandbox_execute F code config =
     (let cfg = (case config of Some c \<Rightarrow> c | None \<Rightarrow> new_sandbox_config);
          cmd = sandbox_command F cfg code
      in case run_cmd F cmd (sb_timeout cfg) of
           Exited rc out err \<Rightarrow>
             (\<lparr>sr_success = (rc = 0), sr_stdout = out, sr_stderr = err, sr_duration = elapsed F,
               sr_exit_code = rc\<rparr>, [cmd])
         | TimedOut \<Rightarrow>
             (\<lparr>sr_success = False, sr_stdout = [], sr_stderr = ''Execution timed out'',
               sr_duration = of_int (sb_timeout cfg), sr_exit_code = 0\<rparr>,
              [cmd, [''docker'', ''kill'', ''cpip-exec-'' @ uuid8 F]])
         | SpawnFailed e \<Rightarrow>
             (\<lparr>sr_success = False, sr_stdout = [], sr_stderr = e, sr_duration = elapsed F,
               sr_exit_code = 0\<rparr>, [cmd]))"

section \<open>The runtimes\<close>

definition nl :: string where
  "nl = [CHR 0x0A]"

definition word_char :: "char \<Rightarrow> bool" where
  "word_char c \<longleftrightarrow>
     (let n = of_char c :: nat in 48 \<le> n \<and> n \<le> 57 \<or> 65 \<le> n \<and> n \<le> 90 \<or> 97 \<le> n \<and> n \<le> 122 \<or> n = 95 \<or> n = 46)"

text \<open>The pattern \<^verbatim>\<open>^[a-zA-Z0-9_\.]+$\<close>: its dollar also matches before a final newline.\<close>

definition valid_method :: "string \<Rightarrow> bool" where
  "valid_method meth \<longleftrightarrow>
     (let m = (if suffix nl meth then butlast meth else meth) in m \<noteq> [] \<and> list_all word_char m)"

definition call_text :: "farm \<Rightarrow> string \<Rightarrow> pyval list \<Rightarrow> pydict \<Rightarrow> string" where
  "call_text F meth args kwargs = meth @ ''(*'' @ repr_of F (PList args) @ '', **'' @ repr_of F (PDict kwargs) @ '')''"

definition build_torch_code :: "farm \<Rightarrow> string \<Rightarrow> pyval list \<Rightarrow> pydict \<Rightarrow> string" where
  "build_torch_code F meth args kwargs =
     nl @ ''import torch, json, sys'' @ nl @ ''result = '' @ call_text F meth args kwargs @ nl @
     ''if hasattr(result, '' @ [CHR 0x27] @ ''tolist'' @ [CHR 0x27] @ ''): result = result.tolist()'' @ nl @
     ''print(json.dumps({'' @ [CHR 0x22] @ ''result'' @ [CHR 0x22] @ '': result}))'' @ nl"

definition build_tf_code :: "farm \<Rightarrow> string \<Rightarrow> pyval list \<Rightarrow> pydict \<Rightarrow> string" where
  "build_tf_code F meth args kwargs =
     nl @ ''import tensorflow as tf, json'' @ nl @ ''result = '' @ call_text F meth args kwargs @ nl @
     ''if hasattr(result, '' @ [CHR 0x27] @ ''numpy'' @ [CHR 0x27] @ ''): result = result.numpy().tolist()'' @ nl @
     ''print(json.dumps({'' @ [CHR 0x22] @ ''result'' @ [CHR 0x22] @ '': result}))'' @ nl"

definition execute_torch ::
    "farm \<Rightarrow> string \<Rightarrow> pyval list \<Rightarrow> pydict \<Rightarrow> (py_error + sandbox_result) \<times> string list list" where
  "execute_torch F meth args kwargs =
     (if \<not> valid_method meth then (Inl (ValueError (''Invalid method name: '' @ meth)), [])
      else map_prod Inr id
             (sandbox_execute F (build_torch_code F meth args kwargs)
                (Some (new_sandbox_config\<lparr>gpu := True, image := ''pytorch/pytorch:latest'', memory_limit := ''8g''\<rparr>))))"

definition execute_tensorflow ::
    "farm \<Rightarrow> string \<Rightarrow> pyval list \<Rightarrow> pydict \<Rightarrow> (py_error + sandbox_result) \<times> string list list" where
  "execute_tensorflow F meth args kwargs =
     (if \<not> valid_method meth then (Inl (ValueError (''Invalid method name: '' @ meth)), [])
      else map_prod Inr id
             (sandbox_execute F (build_tf_code F meth args kwargs)
                (Some (new_sandbox_config\<lparr>gpu := True, image := ''tensorflow/tensorflow:latest-gpu'',
                         memory_limit := ''8g''\<rparr>))))"

definition run_playwright :: "farm \<Rightarrow> string \<Rightarrow> sandbox_result \<times> string list list" where
  "run_playwright F script =
     sandbox_execute F script
       (Some (new_sandbox_config\<lparr>image := ''mcr.microsoft.com/playwright/python:latest'', network := True,
                memory_limit := ''4g'', sb_timeout := 120\<rparr>))"

definition page_lines :: "farm \<Rightarrow> string \<Rightarrow> string list \<Rightarrow> string list \<Rightarrow> string" where
  "page_lines F url imports body =
     concat (map (\<lambda>l. nl @ l)
       ([''from playwright.sync_api import sync_playwright''] @ imports @
        [''with sync_playwright() as p:'', ''    browser = p.chromium.launch()'',
         ''    page = browser.new_page()'', ''    page.goto('' @ repr_of F (PStr url) @ '')''] @ body @
        [''    browser.close()'', []]))"

definition browser_screenshot :: "farm \<Rightarrow> string \<Rightarrow> sandbox_result \<times> string list list" where
  "browser_screenshot F url =
     run_playwright F (page_lines F url [''import base64'']
       [''    screenshot = page.screenshot()'', ''    print(base64.b64encode(screenshot).decode())''])"

definition get_html :: "farm \<Rightarrow> string \<Rightarrow> sandbox_result \<times> string list list" where
  "get_html F url = run_playwright F (page_lines F url [] [''    print(page.content())''])"

section \<open>The execution pool\<close>

definition pool_needs_gpu :: "string \<Rightarrow> bool" where
  "pool_needs_gpu meth \<longleftrightarrow>
     (\<exists>g \<in> set [''torch'', ''cuda'', ''tensorflow'', ''jax'', ''cupy'']. sublist g (lower meth))"

text \<open>\<open>method.rsplit(".", 1)\<close> has two parts when there is a dot; the module is what precedes the last.\<close>

definition build_code :: "farm \<Rightarrow> string \<Rightarrow> pyval list \<Rightarrow> pydict \<Rightarrow> string" where
  "build_code F meth args kwargs =
     (if CHR ''.'' \<in> set meth
      then ''import '' @ join ''.'' (butlast (split_on (CHR ''.'') meth)) @ ''; import json; r = '' @
           call_text F meth args kwargs @ ''; print(json.dumps({'' @ [CHR 0x27] @ ''result'' @ [CHR 0x27] @ '': str(r)}))''
      else ''import json; print(json.dumps({'' @ [CHR 0x27] @ ''result'' @ [CHR 0x27] @ '': '' @
           [CHR 0x27] @ ''no-op'' @ [CHR 0x27] @ ''}))'')"

text \<open>A script that is no string cannot be an argument of a command: \<^verbatim>\<open>subprocess\<close> raises, and the sandbox reports it.\<close>

definition pool_execute ::
    "farm \<Rightarrow> string \<Rightarrow> pyval list \<Rightarrow> pydict \<Rightarrow> string \<Rightarrow> (py_error + sandbox_result) \<times> string list list" where
  "pool_execute F meth args kwargs mode =
     (let on_gpu = mode = ''gpu'' \<or> pool_needs_gpu meth
      in if on_gpu \<and> sublist ''torch'' meth then execute_torch F meth args kwargs
         else if on_gpu \<and> (sublist ''tensorflow'' meth \<or> sublist ''tf.'' meth)
         then execute_tensorflow F meth args kwargs
         else if mode = ''browser'' \<or> sublist ''playwright'' meth
         then (case dget_or kwargs ''script'' (PStr []) of
                 PStr script \<Rightarrow> map_prod Inr id (run_playwright F script)
               | v \<Rightarrow> (Inr \<lparr>sr_success = False, sr_stdout = [], sr_stderr = type_error F v,
                             sr_duration = elapsed F, sr_exit_code = 0\<rparr>, []))
         else map_prod Inr id (sandbox_execute F (build_code F meth args kwargs) None))"

section \<open>The agent's browser and code tool\<close>

definition navigate :: "farm \<Rightarrow> string \<Rightarrow> pydict" where
  "navigate F url =
     (let r = fst (get_html F url)
      in [(''success'', PBool (sr_success r)),
          (''html'', PStr (if sr_success r then take 10000 (sr_stdout r) else [])),
          (''error'', PStr (sr_stderr r))])"

definition agent_screenshot :: "farm \<Rightarrow> string \<Rightarrow> pydict" where
  "agent_screenshot F url =
     (let r = fst (browser_screenshot F url)
      in [(''success'', PBool (sr_success r)),
          (''screenshot_b64'', PStr (if sr_success r then sr_stdout r else [])),
          (''error'', PStr (sr_stderr r))])"

definition execute_script :: "farm \<Rightarrow> string \<Rightarrow> pydict" where
  "execute_script F script =
     (let r = fst (run_playwright F script)
      in [(''success'', PBool (sr_success r)), (''output'', PStr (sr_stdout r)), (''error'', PStr (sr_stderr r))])"

definition fill_form :: "farm \<Rightarrow> string \<Rightarrow> (string \<times> string) list \<Rightarrow> pydict" where
  "fill_form F url form =
     execute_script F
       (page_lines F url []
          [join nl (map (\<lambda>(sel, val). ''    page.fill('' @ repr_of F (PStr sel) @ '', '' @ repr_of F (PStr val) @ '')'') form),
           ''    print('' @ [CHR 0x22] @ ''Form filled'' @ [CHR 0x22] @ '')''])"

definition execute_code :: "farm \<Rightarrow> string \<Rightarrow> bool \<Rightarrow> pydict" where
  "execute_code F code g =
     (let r = fst (sandbox_execute F code (Some (new_sandbox_config\<lparr>gpu := g\<rparr>)))
      in [(''success'', PBool (sr_success r)), (''output'', PStr (sr_stdout r)), (''error'', PStr (sr_stderr r))])"

section \<open>Warm containers\<close>

record container =
  ct_id :: string
  ct_image :: string
  ct_status :: string
  ct_gpu :: bool

record container_pool =
  pool_size :: nat
  available :: "container list"
  in_use :: "(string, container) dict"
  removed :: "string list"

definition new_pool :: "nat \<Rightarrow> container_pool" where
  "new_pool n = \<lparr>pool_size = n, available = [], in_use = [], removed = []\<rparr>"

text \<open>A new container; its name is its id.\<close>

definition create_container :: "string \<Rightarrow> string \<Rightarrow> bool \<Rightarrow> container" where
  "create_container name img g = \<lparr>ct_id = name, ct_image = img, ct_status = ''running'', ct_gpu = g\<rparr>"

definition acquire :: "string \<Rightarrow> string \<Rightarrow> bool \<Rightarrow> container_pool \<Rightarrow> container \<times> container_pool" where
  "acquire name img g p =
     (case find (\<lambda>c. ct_image c = img \<and> ct_gpu c = g) (available p) of
        Some c \<Rightarrow> (c, p\<lparr>available := remove1 c (available p), in_use := dset (ct_id c) c (in_use p)\<rparr>)
      | None \<Rightarrow> (let c = create_container name img g in (c, p\<lparr>in_use := dset (ct_id c) c (in_use p)\<rparr>)))"

definition release :: "string \<Rightarrow> container_pool \<Rightarrow> container_pool" where
  "release container_id p =
     (case dget (in_use p) container_id of
        None \<Rightarrow> p
      | Some c \<Rightarrow>
          (let p = p\<lparr>in_use := ddel container_id (in_use p)\<rparr>
           in if length (available p) < pool_size p then p\<lparr>available := available p @ [c]\<rparr>
              else p\<lparr>removed := removed p @ [ct_id c]\<rparr>))"

definition warmup :: "string \<Rightarrow> container_pool \<Rightarrow> container_pool" where
  "warmup name p =
     (if pool_size p = 0 then p
      else p\<lparr>available := available p @ [create_container name ''python:3.11-slim'' False]\<rparr>)"

definition pool_stats :: "container_pool \<Rightarrow> nat \<times> nat \<times> nat" where
  "pool_stats p = (length (available p), length (in_use p), pool_size p)"

datatype pool_event = Acquire string string bool | Release string | Warmup string

fun pool_step :: "container_pool \<Rightarrow> pool_event \<Rightarrow> container_pool" where
  "pool_step p (Acquire name img g) = snd (acquire name img g p)"
| "pool_step p (Release i) = release i p"
| "pool_step p (Warmup name) = warmup name p"

text \<open>The names the events give new containers, and every container the pool knows.\<close>

fun new_names :: "pool_event list \<Rightarrow> string list" where
  "new_names [] = []"
| "new_names (Acquire name img g # es) = name # new_names es"
| "new_names (Release i # es) = new_names es"
| "new_names (Warmup name # es) = name # new_names es"

definition known :: "container_pool \<Rightarrow> string list" where
  "known p = map ct_id (available p) @ dkeys (in_use p) @ removed p"

definition pool_inv :: "string list \<Rightarrow> container_pool \<Rightarrow> bool" where
  "pool_inv future p \<longleftrightarrow>
     distinct (known p) \<and> set (known p) \<inter> set future = {} \<and> (\<forall>(i, c) \<in> set (in_use p). ct_id c = i)"

section \<open>What the commands guarantee\<close>

lemma dset_new: "dget d k = None \<Longrightarrow> dset k v d = d @ [(k, v)]"
  by (induction d) (auto split: if_splits)

lemma mset_map_remove1: "x \<in> set xs \<Longrightarrow> mset (map f xs) = add_mset (f x) (mset (map f (remove1 x xs)))"
  by (induction xs) auto

lemma mset_dkeys_ddel:
  assumes "dwf d" and "dget d k = Some v"
  shows "mset (dkeys d) = add_mset k (mset (dkeys (ddel k d)))"
  using mset_map_remove1 [OF dget_in_set [OF assms(2)], of fst] ddel_remove1 [OF assms(1) dget_in_set [OF assms(2)]]
  by simp

lemma find_mem: "find P xs = Some x \<Longrightarrow> x \<in> set xs \<and> P x"
  by (auto simp: find_Some_iff)

lemma acquire_known:
  assumes "pool_inv fut p" and "name \<notin> set (known p)"
  shows "mset (known (snd (acquire name img g p))) =
    (if find (\<lambda>c. ct_image c = img \<and> ct_gpu c = g) (available p) = None then add_mset name (mset (known p))
     else mset (known p)) \<and>
    (\<forall>(i, c) \<in> set (in_use (snd (acquire name img g p))). ct_id c = i)"
proof (cases "find (\<lambda>c. ct_image c = img \<and> ct_gpu c = g) (available p)")
  case None
  have "dget (in_use p) name = None" using assms(2) by (simp add: known_def dget_None_iff)
  with None assms(1) show ?thesis
    by (auto simp: acquire_def create_container_def Let_def known_def dset_new pool_inv_def)
next
  case (Some c)
  then have c: "c \<in> set (available p)" using find_mem by fast
  have "distinct (map ct_id (available p) @ dkeys (in_use p))"
    using assms(1) by (auto simp: pool_inv_def known_def)
  with c have "dget (in_use p) (ct_id c) = None" by (auto simp: dget_None_iff)
  moreover note mset_map_remove1 [OF c, of ct_id]
  ultimately show ?thesis
    using Some assms(1) by (auto simp: acquire_def known_def dset_new pool_inv_def)
qed

lemma release_known:
  assumes "pool_inv fut p"
  shows "mset (known (release i p)) = mset (known p) \<and> (\<forall>(i, c) \<in> set (in_use (release i p)). ct_id c = i)"
proof (cases "dget (in_use p) i")
  case (Some c)
  have "dwf (in_use p)" using assms by (simp add: pool_inv_def known_def)
  from mset_dkeys_ddel [OF this Some] have keys: "mset (dkeys (in_use p)) = add_mset i (mset (dkeys (ddel i (in_use p))))" .
  have "ct_id c = i" using assms dget_in_set [OF Some] by (auto simp: pool_inv_def)
  with Some keys assms show ?thesis
    by (auto simp: release_def known_def Let_def set_ddel pool_inv_def simp del: mset_map)
qed (use assms in \<open>auto simp: release_def pool_inv_def\<close>)

lemma pool_inv_mset:
  assumes "pool_inv fut p" and "mset (known p') = mset ns + mset (known p)" and "distinct (ns @ fut')"
    and "set ns \<subseteq> set fut" and "set fut' \<subseteq> set fut" and "\<forall>(i, c) \<in> set (in_use p'). ct_id c = i"
  shows "pool_inv fut' p'"
proof -
  have "mset (known p') = mset (ns @ known p)" using assms(2) by simp
  then have "distinct (known p') = distinct (ns @ known p)" "set (known p') = set (ns @ known p)"
    by (metis mset_eq_imp_distinct_iff, metis mset_eq_setD)
  moreover have "distinct (ns @ known p)" using assms(1,3,4) by (auto simp: pool_inv_def)
  ultimately show ?thesis using assms(1,3-6) by (auto simp: pool_inv_def)
qed

lemma pool_inv_step:
  assumes "pool_inv (new_names (e # es)) p" and "distinct (new_names (e # es))"
  shows "pool_inv (new_names es) (pool_step p e)"
proof (cases e)
  case (Acquire name img g)
  with assms(1) have "name \<notin> set (known p)" by (auto simp: pool_inv_def)
  note a = acquire_known [OF assms(1) this, of img g]
  show ?thesis
  proof (cases "find (\<lambda>c. ct_image c = img \<and> ct_gpu c = g) (available p) = None")
    case True
    with a Acquire assms show ?thesis by (intro pool_inv_mset [OF assms(1), where ns = "[name]"]) auto
  next
    case False
    with a Acquire assms show ?thesis by (intro pool_inv_mset [OF assms(1), where ns = "[]"]) auto
  qed
next
  case (Release i)
  with release_known [OF assms(1), of i] assms show ?thesis
    by (intro pool_inv_mset [OF assms(1), where ns = "[]"]) auto
next
  case (Warmup name)
  show ?thesis
  proof (cases "pool_size p = 0")
    case True
    with Warmup assms show ?thesis by (auto simp: warmup_def pool_inv_def)
  next
    case False
    with Warmup assms show ?thesis
      by (intro pool_inv_mset [OF assms(1), where ns = "[name]"])
        (auto simp: warmup_def known_def create_container_def pool_inv_def)
  qed
qed

lemma pool_inv_run: "pool_inv (new_names es) p \<Longrightarrow> distinct (new_names es) \<Longrightarrow> pool_inv [] (run pool_step p es)"
proof (induction es arbitrary: p)
  case (Cons e es)
  from Cons.prems(2) have "distinct (new_names es)" by (cases e) auto
  with Cons.IH [OF pool_inv_step [OF Cons.prems]] show ?case by simp
qed simp

text \<open>
  C29: Whatever is acquired, released and warmed up, in any order, no container is handed out twice at
  once, none waits in the pool while it is in use, and none that was removed is ever used again, as
  long as the generated names differ.
\<close>

theorem containers_not_shared:
  assumes "distinct (new_names es)" and "p = run pool_step (new_pool n) es"
  shows "distinct (map ct_id (available p) @ map ct_id (dvals (in_use p)) @ removed p)"
proof -
  have "pool_inv (new_names es) (new_pool n)" by (simp add: pool_inv_def known_def new_pool_def)
  from pool_inv_run [OF this assms(1)] have inv: "pool_inv [] p" by (simp add: assms(2))
  then have "map ct_id (dvals (in_use p)) = dkeys (in_use p)"
    by (auto simp: pool_inv_def intro!: map_cong)
  with inv show ?thesis unfolding pool_inv_def known_def by metis
qed

theorem containers_not_shared_witness:
  "let p = run pool_step (new_pool 1) [Acquire ''a'' ''img'' True, Acquire ''b'' ''img'' True, Release ''a'',
         Release ''b'', Acquire ''c'' ''img'' True]
   in distinct (map ct_id (available p) @ map ct_id (dvals (in_use p)) @ removed p)"
  unfolding Let_def by (rule containers_not_shared [OF _ refl]) simp

text \<open>A command that runs in a container as the pool should, the network allowed or not, or kills one.\<close>

definition confined :: "farm \<Rightarrow> bool \<Rightarrow> string list \<Rightarrow> bool" where
  "confined F net cmd \<longleftrightarrow>
     cmd = [''docker'', ''kill'', ''cpip-exec-'' @ uuid8 F] \<or>
     take 5 cmd = [''docker'', ''run'', ''--rm'', ''--name'', ''cpip-exec-'' @ uuid8 F] \<and>
     (let opts = take (length cmd - 4) cmd
      in ''--read-only'' \<in> set opts \<and> (\<exists>m \<in> {''4g'', ''8g''}. ''--memory='' @ m \<in> set opts) \<and>
         (net \<or> ''--network=none'' \<in> set opts))"

lemma sandbox_command_confined:
  "memory_limit c \<in> {''4g'', ''8g''} \<Longrightarrow> network c \<longrightarrow> net \<Longrightarrow> confined F net (sandbox_command F c code)"
  unfolding confined_def by (rule disjI2) (auto simp: sandbox_command_def)

lemma sandbox_execute_confined:
  assumes "memory_limit (case cfg of Some c \<Rightarrow> c | None \<Rightarrow> new_sandbox_config) \<in> {''4g'', ''8g''}"
    and "network (case cfg of Some c \<Rightarrow> c | None \<Rightarrow> new_sandbox_config) \<longrightarrow> net"
  shows "list_all (confined F net) (snd (sandbox_execute F code cfg))"
  using sandbox_command_confined [OF assms, of F code]
  by (simp add: sandbox_execute_def Let_def confined_def split: proc_result.splits)

lemma runtimes_confined:
  "list_all (confined F net) (snd (execute_torch F meth args kwargs))"
  "list_all (confined F net) (snd (execute_tensorflow F meth args kwargs))"
  "list_all (confined F True) (snd (run_playwright F script))"
  "list_all (confined F net) (snd (sandbox_execute F code None))"
  by (simp_all add: execute_torch_def execute_tensorflow_def run_playwright_def sandbox_execute_confined
      new_sandbox_config_def)

lemma pool_confined:
  "list_all (confined F (mode = ''browser'' \<or> sublist ''playwright'' meth)) (snd (pool_execute F meth args kwargs mode))"
  by (simp add: pool_execute_def Let_def runtimes_confined split: pyval.splits)

text \<open>
  Everything the execution pool runs, it runs in a container of its own: removed afterwards, with a
  read-only root and bounded memory, and without a network unless a browser was asked for. The only
  other command is the one that kills a container that ran too long.
\<close>

theorem pool_always_sandboxed:
  assumes "pool_execute F meth args kwargs mode = (out, cmds)" and "cmd \<in> set cmds"
  shows "cmd = [''docker'', ''kill'', ''cpip-exec-'' @ uuid8 F] \<or>
    take 5 cmd = [''docker'', ''run'', ''--rm'', ''--name'', ''cpip-exec-'' @ uuid8 F] \<and>
    (let opts = take (length cmd - 4) cmd
     in ''--read-only'' \<in> set opts \<and> (\<exists>m \<in> {''4g'', ''8g''}. ''--memory='' @ m \<in> set opts) \<and>
        (mode = ''browser'' \<or> sublist ''playwright'' meth \<or> ''--network=none'' \<in> set opts))"
proof -
  have "confined F (mode = ''browser'' \<or> sublist ''playwright'' meth) cmd"
    using pool_confined [of F mode meth args kwargs] assms by (simp add: list_all_iff)
  then show ?thesis by (simp add: confined_def Let_def)
qed

definition demo_farm :: farm where
  "demo_farm = \<lparr>run_cmd = (\<lambda>cmd t. Exited 0 ''ok'' []), repr_of = (\<lambda>v. ''x''), float_str = (\<lambda>x. ''4.0''),
     type_error = (\<lambda>v. ''TypeError''), uuid8 = ''ab'', elapsed = 0\<rparr>"

theorem pool_always_sandboxed_witness:
  "\<exists>cmd. set (snd (pool_execute demo_farm ''jax.numpy.dot'' [] [] ''gpu'')) = {cmd} \<and>
     ''--network=none'' \<in> set (take (length cmd - 4) cmd)"
proof -
  let ?r = "pool_execute demo_farm ''jax.numpy.dot'' [] [] ''gpu''"
  have one: "set (snd ?r) = {hd (snd ?r)}" by code_simp
  have "hd (snd ?r) \<noteq> [''docker'', ''kill'', ''cpip-exec-'' @ uuid8 demo_farm]"
    "\<not> sublist ''playwright'' ''jax.numpy.dot''"
    by code_simp+
  with pool_always_sandboxed [OF prod.collapse [symmetric], of "hd (snd ?r)" demo_farm "''jax.numpy.dot''" "[]" "[]" "''gpu''"] one
  show ?thesis by (intro exI [of _ "hd (snd ?r)"]) (simp add: Let_def)
qed

text \<open>
  The pool knows that \<^verbatim>\<open>jax\<close> and \<^verbatim>\<open>cupy\<close> need a GPU, and a caller may ask for one, but only
  PyTorch and TensorFlow get it: any other method runs in the general sandbox, without a GPU.
\<close>

theorem other_gpu_methods_get_no_gpu:
  assumes "\<not> sublist ''torch'' meth" and "\<not> sublist ''tensorflow'' meth" and "\<not> sublist ''tf.'' meth"
    and "\<not> sublist ''playwright'' meth"
  shows "pool_execute F meth args kwargs ''gpu'' =
      map_prod Inr id (sandbox_execute F (build_code F meth args kwargs) None) \<and>
    ''--gpus'' \<notin> set (butlast (sandbox_command F new_sandbox_config code))"
  using assms
  by (simp add: pool_execute_def Let_def sandbox_command_def new_sandbox_config_def)

theorem other_gpu_methods_get_no_gpu_witness:
  "pool_needs_gpu ''jax.numpy.dot'' \<and>
   snd (pool_execute demo_farm ''jax.numpy.dot'' [] [] ''gpu'') =
     snd (sandbox_execute demo_farm (build_code demo_farm ''jax.numpy.dot'' [] []) None)"
proof -
  have "\<not> sublist ''torch'' ''jax.numpy.dot''" "\<not> sublist ''tensorflow'' ''jax.numpy.dot''"
    "\<not> sublist ''tf.'' ''jax.numpy.dot''" "\<not> sublist ''playwright'' ''jax.numpy.dot''"
    by code_simp+
  note r = other_gpu_methods_get_no_gpu [OF this, of demo_farm "[]" "[]"]
  have "pool_needs_gpu ''jax.numpy.dot''" by code_simp
  with r show ?thesis by simp
qed

text \<open>
  Acquiring a container gives a running one with the image and the GPU setting asked for, from the
  pool exactly if one is waiting there; a released container goes back to the pool exactly while there
  is room, so that acquiring and releasing never fill it beyond its size.
\<close>

theorem acquire_release_bounds:
  assumes "\<forall>c \<in> set (available p). ct_status c = ''running''" and "length (available p) \<le> pool_size p"
    and "acquire name img g p = (c, p')"
  shows "ct_image c = img \<and> ct_gpu c = g \<and> ct_status c = ''running'' \<and> dget (in_use p') (ct_id c) = Some c \<and>
    (c \<in> set (available p) \<or> c = create_container name img g \<and>
       (\<forall>b \<in> set (available p). ct_image b = img \<longrightarrow> ct_gpu b \<noteq> g)) \<and>
    length (available p') \<le> pool_size p' \<and> length (available (release i p')) \<le> pool_size (release i p') \<and>
    (length (available p') < pool_size p' \<longrightarrow> c \<in> set (available (release (ct_id c) p')))"
proof (cases "find (\<lambda>c. ct_image c = img \<and> ct_gpu c = g) (available p)")
  case None
  then have "\<forall>b \<in> set (available p). ct_image b = img \<longrightarrow> ct_gpu b \<noteq> g" by (auto simp: find_None_iff)
  with None assms show ?thesis
    by (auto simp: acquire_def release_def create_container_def Let_def dict_laws split: option.splits)
next
  case (Some b)
  from find_mem [OF Some] have b: "b \<in> set (available p)" "ct_image b = img \<and> ct_gpu b = g" by auto
  have "length (remove1 b (available p)) \<le> pool_size p" using assms(2) b(1) by (simp add: length_remove1)
  with Some b assms show ?thesis
    by (auto simp: acquire_def release_def Let_def dict_laws split: option.splits)
qed

theorem acquire_release_bounds_witness:
  "fst (acquire ''b'' ''img'' True (new_pool 2)) = create_container ''b'' ''img'' True"
proof -
  have "\<forall>c \<in> set (available (new_pool 2)). ct_status c = ''running''"
    "length (available (new_pool 2)) \<le> pool_size (new_pool 2)"
    by (simp_all add: new_pool_def)
  from acquire_release_bounds [OF this prod.collapse [symmetric], of "''b''" "''img''" True]
  show ?thesis by (simp add: new_pool_def)
qed

section \<open>The GPUs of a host\<close>

text \<open>\<^verbatim>\<open>str.splitlines\<close> on ASCII, and \<^verbatim>\<open>s.replace(p, "")\<close> for a \<open>p\<close> that is not empty.\<close>

definition line_break :: "char \<Rightarrow> bool" where
  "line_break c \<longleftrightarrow> (let n = of_char c :: nat in 10 \<le> n \<and> n \<le> 13 \<or> 28 \<le> n \<and> n \<le> 30)"

fun splitlines :: "string \<Rightarrow> string list" where
  "splitlines [] = []"
| "splitlines [c] = (if line_break c then [[]] else [[c]])"
| "splitlines (c # d # s) =
     (if c = CHR 0x0D \<and> d = CHR 0x0A then [] # splitlines s
      else if line_break c then [] # splitlines (d # s)
      else (case splitlines (d # s) of [] \<Rightarrow> [[c]] | l # ls \<Rightarrow> (c # l) # ls))"

fun remove_all :: "string \<Rightarrow> string \<Rightarrow> string" where
  "remove_all p [] = []"
| "remove_all p (c # s) =
     (if prefix p (c # s) then remove_all p (drop (length p - 1) s) else c # remove_all p s)"

record gpu_info =
  gi_name :: string
  gi_memory_mb :: int
  gi_utilization :: pyfloat
  gi_available :: bool

text \<open>
  One line of \<^verbatim>\<open>nvidia-smi\<close>: None if it has fewer than three parts. \<open>py_float\<close> is \<^verbatim>\<open>float\<close> on texts.
\<close>

definition gpu_line :: "(string \<Rightarrow> pyfloat option) \<Rightarrow> string \<Rightarrow> py_error + gpu_info option" where
  "gpu_line py_float line =
     (case map strip (split_on (CHR '','') line) of
        name # mem # util # rest \<Rightarrow>
          (case py_int (remove_all '' MiB'' mem) of
             None \<Rightarrow> Inl (ValueError mem)
           | Some m \<Rightarrow>
               (case py_float (remove_all '' %'' util) of
                  None \<Rightarrow> Inl (ValueError util)
                | Some u \<Rightarrow>
                    Inr (Some \<lparr>gi_name = name, gi_memory_mb = m, gi_utilization = u, gi_available = True\<rparr>)))
      | _ \<Rightarrow> Inr None)"

fun gpu_lines :: "(string \<Rightarrow> pyfloat option) \<Rightarrow> string list \<Rightarrow> py_error + gpu_info list" where
  "gpu_lines py_float [] = Inr []"
| "gpu_lines py_float (l # ls) =
     (case gpu_line py_float l of
        Inl e \<Rightarrow> Inl e
      | Inr g \<Rightarrow>
          (case gpu_lines py_float ls of
             Inl e \<Rightarrow> Inl e
           | Inr gs \<Rightarrow> Inr (case g of None \<Rightarrow> gs | Some i \<Rightarrow> i # gs)))"

definition smi_code :: string where
  "smi_code =
     (let q = [CHR 0x27]
      in ''import subprocess; print(subprocess.run(['' @ q @ ''nvidia-smi'' @ q @ '', '' @ q @
         ''--query-gpu=name,memory.total,utilization.gpu'' @ q @ '', '' @ q @ ''--format=csv,noheader'' @ q @
         ''], capture_output=True, text=True).stdout)'')"

definition list_gpus :: "farm \<Rightarrow> (string \<Rightarrow> pyfloat option) \<Rightarrow> (py_error + gpu_info list) \<times> string list list" where
  "list_gpus F py_float =
     (case sandbox_execute F smi_code (Some (new_sandbox_config\<lparr>gpu := True\<rparr>)) of
        (r, cmds) \<Rightarrow>
          (if sr_success r then gpu_lines py_float (splitlines (strip (sr_stdout r))) else Inr [], cmds))"

section \<open>The tools of an agent\<close>

text \<open>A parameter of a tool: its name, its type, and its default.\<close>

definition tool_parameter :: "string \<times> string \<times> pyval option \<Rightarrow> string \<times> pyval" where
  "tool_parameter p =
     (case p of (n, t, d) \<Rightarrow>
        (n, PDict ((''type'', PStr t) # (case d of None \<Rightarrow> [] | Some v \<Rightarrow> [(''default'', v)]))))"

definition tool_definition :: "string \<Rightarrow> string \<Rightarrow> (string \<times> string \<times> pyval option) list \<Rightarrow> string list \<Rightarrow> pyval" where
  "tool_definition name description params req =
     PDict [(''type'', PStr ''function''),
       (''function'', PDict [(''name'', PStr name), (''description'', PStr description),
          (''parameters'', PDict [(''type'', PStr ''object''), (''properties'', PDict (map tool_parameter params)),
             (''required'', PList (map PStr req))])])]"

definition get_tool_definitions :: "pyval list" where
  "get_tool_definitions =
     [tool_definition ''cpip_install'' ''Install a Python package via cpip''
        [(''package'', ''string'', None), (''version'', ''string'', Some (PStr ''latest''))] [''package''],
      tool_definition ''cpip_execute'' ''Execute Python code in cloud sandbox''
        [(''code'', ''string'', None), (''gpu'', ''boolean'', Some (PBool False))] [''code''],
      tool_definition ''cpip_browse'' ''Navigate to URL and get page content'' [(''url'', ''string'', None)] [''url''],
      tool_definition ''cpip_screenshot'' ''Take screenshot of a URL'' [(''url'', ''string'', None)] [''url'']]"

definition browse_url :: "farm \<Rightarrow> string \<Rightarrow> pydict" where
  "browse_url F url = navigate F url"

definition screenshot_url :: "farm \<Rightarrow> string \<Rightarrow> pydict" where
  "screenshot_url F url = agent_screenshot F url"

end
