(* ===== verification/Security.thy ===== *)
theory Security
  imports BuildWorker
begin

text \<open>
  The security helpers: the options for containers (\<^verbatim>\<open>security/sandbox.py\<close>), signature checks
  against trusted keys (\<^verbatim>\<open>security/signing.py\<close>), encryption (\<^verbatim>\<open>security/crypto.py\<close>) and the
  audit log (\<^verbatim>\<open>security/audit.py\<close>).

  The \<^verbatim>\<open>cryptography\<close> package is a parameter: AES-GCM as \<open>aead\<close>, Ed25519 as in \<open>toolbox\<close>, and the
  reading of a PEM key. Random bytes are arguments.
\<close>

section \<open>Container options\<close>

record security_config =
  drop_capabilities :: "string list"
  add_capabilities :: "string list"
  read_only_rootfs :: bool
  no_new_privileges :: bool
  seccomp_profile :: pydict

text \<open>The system calls the default profile allows; all others are refused.\<close>

definition allowed_calls :: "string list" where
  "allowed_calls =
    [''read'', ''write'', ''open'', ''openat'', ''close'', ''stat'', ''fstat'', ''lstat'', ''poll'',
     ''lseek'', ''mmap'', ''mprotect'', ''munmap'', ''brk'', ''rt_sigaction'', ''rt_sigprocmask'',
     ''rt_sigreturn'', ''ioctl'', ''pread64'', ''pwrite64'', ''readv'', ''writev'', ''access'',
     ''pipe'', ''select'', ''sched_yield'', ''mremap'', ''msync'', ''mincore'', ''madvise'', ''shmget'',
     ''shmat'', ''shmctl'', ''dup'', ''dup2'', ''pause'', ''nanosleep'', ''getitimer'', ''alarm'',
     ''setitimer'', ''getpid'', ''sendfile'', ''socket'', ''connect'', ''accept'', ''sendto'',
     ''recvfrom'', ''sendmsg'', ''recvmsg'', ''shutdown'', ''bind'', ''listen'', ''getsockname'',
     ''getpeername'', ''socketpair'', ''setsockopt'', ''getsockopt'', ''clone'', ''fork'', ''vfork'',
     ''execve'', ''exit'', ''wait4'', ''kill'', ''uname'', ''semget'', ''semop'', ''semctl'', ''shmdt'',
     ''msgget'', ''msgsnd'', ''msgrcv'', ''msgctl'', ''fcntl'', ''flock'', ''fsync'', ''fdatasync'',
     ''truncate'', ''ftruncate'', ''getdents'', ''getcwd'', ''chdir'', ''fchdir'', ''rename'',
     ''mkdir'', ''rmdir'', ''creat'', ''link'', ''unlink'', ''symlink'', ''readlink'', ''chmod'',
     ''fchmod'', ''chown'', ''fchown'', ''lchown'', ''umask'', ''gettimeofday'', ''getrlimit'',
     ''getrusage'', ''sysinfo'', ''times'', ''ptrace'', ''getuid'', ''syslog'', ''getgid'', ''setuid'',
     ''setgid'', ''geteuid'', ''getegid'', ''setpgid'', ''getppid'', ''getpgrp'', ''setsid'',
     ''setreuid'', ''setregid'', ''getgroups'', ''setgroups'', ''setresuid'', ''getresuid'',
     ''setresgid'', ''getresgid'', ''getpgid'', ''setfsuid'', ''setfsgid'', ''getsid'', ''capget'',
     ''capset'', ''rt_sigpending'', ''rt_sigtimedwait'', ''rt_sigqueueinfo'', ''rt_sigsuspend'',
     ''sigaltstack'', ''utime'', ''mknod'', ''uselib'', ''personality'', ''ustat'', ''statfs'',
     ''fstatfs'', ''sysfs'', ''getpriority'', ''setpriority'', ''sched_setparam'', ''sched_getparam'',
     ''sched_setscheduler'', ''sched_getscheduler'', ''sched_get_priority_max'',
     ''sched_get_priority_min'', ''sched_rr_get_interval'', ''mlock'', ''munlock'', ''mlockall'',
     ''munlockall'', ''vhangup'', ''modify_ldt'', ''pivot_root'', ''_sysctl'', ''prctl'',
     ''arch_prctl'', ''adjtimex'', ''setrlimit'', ''chroot'', ''sync'', ''acct'', ''settimeofday'',
     ''mount'', ''umount2'', ''swapon'', ''swapoff'', ''reboot'', ''sethostname'', ''setdomainname'',
     ''iopl'', ''ioperm'', ''create_module'', ''init_module'', ''delete_module'', ''get_kernel_syms'',
     ''query_module'', ''quotactl'', ''nfsservctl'', ''getpmsg'', ''putpmsg'', ''afs_syscall'',
     ''tuxcall'', ''security'', ''gettid'', ''readahead'', ''setxattr'', ''lsetxattr'', ''fsetxattr'',
     ''getxattr'', ''lgetxattr'', ''fgetxattr'', ''listxattr'', ''llistxattr'', ''flistxattr'',
     ''removexattr'', ''lremovexattr'', ''fremovexattr'', ''tkill'', ''time'', ''futex'',
     ''sched_setaffinity'', ''sched_getaffinity'', ''set_thread_area'', ''io_setup'', ''io_destroy'',
     ''io_getevents'', ''io_submit'', ''io_cancel'', ''get_thread_area'', ''lookup_dcookie'',
     ''epoll_create'', ''epoll_ctl_old'', ''epoll_wait_old'', ''remap_file_pages'', ''getdents64'',
     ''set_tid_address'', ''restart_syscall'', ''semtimedop'', ''fadvise64'', ''timer_create'',
     ''timer_settime'', ''timer_gettime'', ''timer_getoverrun'', ''timer_delete'', ''clock_settime'',
     ''clock_gettime'', ''clock_getres'', ''clock_nanosleep'', ''exit_group'', ''epoll_wait'',
     ''epoll_ctl'', ''tgkill'', ''utimes'', ''vserver'', ''mbind'', ''set_mempolicy'',
     ''get_mempolicy'', ''mq_open'', ''mq_unlink'', ''mq_timedsend'', ''mq_timedreceive'',
     ''mq_notify'', ''mq_getsetattr'', ''kexec_load'', ''waitid'', ''add_key'', ''request_key'',
     ''keyctl'', ''ioprio_set'', ''ioprio_get'', ''inotify_init'', ''inotify_add_watch'',
     ''inotify_rm_watch'', ''migrate_pages'', ''openat'', ''mkdirat'', ''mknodat'', ''fchownat'',
     ''futimesat'', ''newfstatat'', ''unlinkat'', ''renameat'', ''linkat'', ''symlinkat'',
     ''readlinkat'', ''fchmodat'', ''faccessat'', ''pselect6'', ''ppoll'', ''unshare'',
     ''set_robust_list'', ''get_robust_list'', ''splice'', ''tee'', ''sync_file_range'', ''vmsplice'',
     ''move_pages'', ''utimensat'', ''epoll_pwait'', ''signalfd'', ''timerfd_create'', ''eventfd'',
     ''fallocate'', ''timerfd_settime'', ''timerfd_gettime'', ''accept4'', ''signalfd4'', ''eventfd2'',
     ''epoll_create1'', ''dup3'', ''pipe2'', ''inotify_init1'', ''preadv'', ''pwritev'',
     ''rt_tgsigqueueinfo'', ''perf_event_open'', ''recvmmsg'', ''fanotify_init'', ''fanotify_mark'',
     ''prlimit64'', ''name_to_handle_at'', ''open_by_handle_at'', ''clock_adjtime'', ''syncfs'',
     ''sendmmsg'', ''setns'', ''getcpu'', ''process_vm_readv'', ''process_vm_writev'', ''kcmp'',
     ''finit_module'', ''sched_setattr'', ''sched_getattr'', ''renameat2'', ''seccomp'', ''getrandom'',
     ''memfd_create'', ''kexec_file_load'', ''bpf'', ''execveat'', ''userfaultfd'', ''membarrier'',
     ''mlock2'', ''copy_file_range'', ''preadv2'', ''pwritev2'', ''pkey_mprotect'', ''pkey_alloc'',
     ''pkey_free'', ''statx'', ''io_pgetevents'', ''rseq'']"

definition DEFAULT_SECCOMP :: pydict where
  "DEFAULT_SECCOMP =
     [(''defaultAction'', PStr ''SCMP_ACT_ERRNO''),
      (''architectures'',
         PList (map PStr [''SCMP_ARCH_X86_64'', ''SCMP_ARCH_X86'', ''SCMP_ARCH_X32'', ''SCMP_ARCH_AARCH64''])),
      (''syscalls'',
         PList [PDict [(''names'', PList (map PStr allowed_calls)), (''action'', PStr ''SCMP_ACT_ALLOW''),
                       (''args'', PList []), (''includes'', PDict []), (''excludes'', PDict [])]])]"

definition new_security_config :: security_config where
  "new_security_config = \<lparr>drop_capabilities = [''ALL''], add_capabilities = [], read_only_rootfs = True,
     no_new_privileges = True, seccomp_profile = DEFAULT_SECCOMP\<rparr>"

text \<open>
  What a seccomp profile does with a system call: the action of the first rule that names it, or the
  default action.
\<close>

definition rule_names :: "pyval \<Rightarrow> string \<Rightarrow> bool" where
  "rule_names rule call \<longleftrightarrow>
     (case rule of PDict r \<Rightarrow> (case dget r ''names'' of Some (PList ns) \<Rightarrow> PStr call \<in> set ns | _ \<Rightarrow> False) | _ \<Rightarrow> False)"

definition seccomp_action :: "pydict \<Rightarrow> string \<Rightarrow> pyval" where
  "seccomp_action profile call =
     (case dget_or profile ''syscalls'' (PList []) of
        PList rules \<Rightarrow>
          (case find (\<lambda>r. rule_names r call) rules of
             Some (PDict r) \<Rightarrow> dget_or r ''action'' PNone
           | _ \<Rightarrow> dget_or profile ''defaultAction'' PNone)
      | _ \<Rightarrow> dget_or profile ''defaultAction'' PNone)"

text \<open>
  The profile is written below \<open>home\<close>. \<open>dump\<close> is \<^verbatim>\<open>json.dump\<close>: what gets into the file, and whether
  it went through. Whatever goes wrong, the container gets no profile at all.
\<close>

definition write_profile :: "(pydict \<Rightarrow> bytes \<times> bool) \<Rightarrow> string \<Rightarrow> pydict \<Rightarrow> fs \<Rightarrow> bool \<times> fs" where
  "write_profile dump home profile d =
     (case fs_mkdir_p (path_parts home) d of
        Inl e \<Rightarrow> (False, d)
      | Inr d1 \<Rightarrow>
          (case fs_write (path_div (path_parts home) ''seccomp.json'') (fst (dump profile)) d1 of
             Inl e \<Rightarrow> (False, d1)
           | Inr d2 \<Rightarrow> (snd (dump profile), d2)))"

definition to_docker_args ::
    "(pydict \<Rightarrow> bytes \<times> bool) \<Rightarrow> string \<Rightarrow> security_config \<Rightarrow> fs \<Rightarrow> string list \<times> fs" where
  "to_docker_args dump home cfg d =
     (let (written, d') = write_profile dump home (seccomp_profile cfg) d
      in (concat (map (\<lambda>c. [''--cap-drop'', c]) (drop_capabilities cfg))
          @ concat (map (\<lambda>c. [''--cap-add'', c]) (add_capabilities cfg))
          @ (if read_only_rootfs cfg then [''--read-only''] else [])
          @ (if no_new_privileges cfg then [''--security-opt=no-new-privileges:true''] else [])
          @ (if written then [''--security-opt=seccomp='' @ home @ ''/seccomp.json'']
             else [''--security-opt=seccomp=unconfined'']),
          d'))"

text \<open>
  The profile that should drop dangerous system calls allows the most dangerous ones.
\<close>

theorem seccomp_is_permissive:
  assumes "call \<in> {''ptrace'', ''mount'', ''reboot'', ''kexec_load'', ''init_module'', ''bpf'', ''setns'', ''open_by_handle_at''}"
  shows "seccomp_action (seccomp_profile new_security_config) call = PStr ''SCMP_ACT_ALLOW''"
proof -
  have "call \<in> set allowed_calls" using assms by (auto simp: allowed_calls_def)
  then show ?thesis
    by (auto simp: new_security_config_def DEFAULT_SECCOMP_def seccomp_action_def rule_names_def dget_or_def)
qed

theorem seccomp_is_permissive_witness:
  "seccomp_action (seccomp_profile new_security_config) ''bpf'' = PStr ''SCMP_ACT_ALLOW''"
  by (rule seccomp_is_permissive) simp

text \<open>
  The last option names the profile exactly if the file below \<open>home\<close> now holds what was dumped in full;
  otherwise the container runs without any profile.
\<close>

theorem profile_or_unconfined:
  assumes "to_docker_args dump home cfg d = (args, d')"
  shows "(last args = ''--security-opt=seccomp='' @ home @ ''/seccomp.json'' \<and>
      fs_read d' (path_parts home @ [''seccomp.json'']) = Inr (fst (dump (seccomp_profile cfg)))) \<or>
    last args = ''--security-opt=seccomp=unconfined''"
proof -
  have p: "path_div (path_parts home) ''seccomp.json'' = path_parts home @ [''seccomp.json'']"
    by (rule path_div_component) (simp add: is_component_def)
  show ?thesis
    using assms
    by (auto simp: to_docker_args_def write_profile_def p split: sum.splits if_splits)
qed

theorem profile_or_unconfined_witness:
  "last (fst (to_docker_args (\<lambda>p. ([1], True)) ''/h'' new_security_config [([''h''], File [])])) =
     ''--security-opt=seccomp=unconfined''"
proof -
  let ?r = "to_docker_args (\<lambda>p. ([1], True)) ''/h'' new_security_config [([''h''], File [])]"
  have "fs_read (snd ?r) (path_parts ''/h'' @ [''seccomp.json'']) = Inl FileNotFoundError"
    by (simp add: to_docker_args_def write_profile_def fs_mkdir_p_def fs_is_file_def path_parts_def fs_read_def)
  with profile_or_unconfined [OF prod.collapse [symmetric], of "\<lambda>p. ([1], True)" "''/h''" new_security_config
      "[([''h''], File [])]"]
  show ?thesis by auto
qed

section \<open>Trusted keys\<close>

type_synonym trusted_keys = "(string, bytes) dict"

text \<open>\<open>read_pem\<close> gives the Ed25519 key of a text, None for a key of another kind.\<close>

definition load_public_key ::
    "(string \<Rightarrow> py_error + bytes option) \<Rightarrow> string \<Rightarrow> string \<Rightarrow> trusted_keys \<Rightarrow> (py_error + unit) \<times> trusted_keys" where
  "load_public_key read_pem key_id pem keys =
     (case read_pem pem of
        Inl e \<Rightarrow> (Inl e, keys)
      | Inr None \<Rightarrow> (Inl (ValueError ''Must be an Ed25519 public key''), keys)
      | Inr (Some k) \<Rightarrow> (Inr (), dset key_id k keys))"

definition check_signature ::
    "toolbox \<Rightarrow> trusted_keys \<Rightarrow> fs \<Rightarrow> path \<Rightarrow> string \<Rightarrow> string option \<Rightarrow> py_error + bool" where
  "check_signature tb keys d p signature_b64 key_id =
     (if keys = [] then Inr False
      else (case fs_read d p of
              Inl e \<Rightarrow> Inl e
            | Inr data \<Rightarrow>
                (case b64decode signature_b64 of
                   Inl e \<Rightarrow> Inl e
                 | Inr signature \<Rightarrow>
                     (let try = (case key_id of
                                   None \<Rightarrow> dvals keys
                                 | Some i \<Rightarrow>
                                     if i = [] then dvals keys
                                     else (case dget keys i of Some k \<Rightarrow> [k] | None \<Rightarrow> dvals keys))
                      in Inr (\<exists>k \<in> set try. ed_verify tb k signature data)))))"

text \<open>
  A wheel the build farm signed passes the client's check exactly where it should: under the id of a
  trusted key if that key verifies the farm's signature, and without an id if any trusted key does.
  With an id that is not trusted, however, every trusted key is tried.
\<close>

theorem farm_signature_accepted:
  assumes "sign_file tb sg d p = Inr s" and "private_key sg = Some sk" and "fs_read d p = Inr data"
    and "fs_read d' p' = Inr data'" and "keys \<noteq> []"
  shows "(dget keys i = Some k \<longrightarrow> i \<noteq> [] \<longrightarrow>
      check_signature tb keys d' p' s (Some i) = Inr (ed_verify tb k (ed_sign tb sk data) data')) \<and>
    check_signature tb keys d' p' s None = Inr (\<exists>k \<in> set (dvals keys). ed_verify tb k (ed_sign tb sk data) data') \<and>
    (dget keys i = None \<longrightarrow> check_signature tb keys d' p' s (Some i) = check_signature tb keys d' p' s None)"
  using assms by (auto simp: sign_file_def check_signature_def Let_def)

theorem farm_signature_accepted_witness:
  "check_signature demo_tools [(''farm'', [7])] demo_disk (build_dir @ [''numpy-2.0.whl''])
     (projr (sign_file demo_tools demo_signer demo_disk (build_dir @ [''numpy-2.0.whl'']))) (Some ''farm'') = Inr True"
proof -
  let ?p = "build_dir @ [''numpy-2.0.whl'']"
  have r: "fs_read demo_disk ?p = Inr [1]" by (simp add: demo_disk_def fs_read_def)
  have s: "sign_file demo_tools demo_signer demo_disk ?p =
      Inr (projr (sign_file demo_tools demo_signer demo_disk ?p))"
    by (simp add: sign_file_def r demo_signer_def)
  have "private_key demo_signer = Some [7]" "[(''farm'', [7])] \<noteq> []" by (simp_all add: demo_signer_def)
  with farm_signature_accepted [OF s _ r r, of "[7]" "[(''farm'', [7])]" "''farm''" "[7]"] show ?thesis
    by (simp add: demo_tools_def)
qed

text \<open>
  From the farm's key to the client: a signer read from a key file signs a wheel, its exported public
  key is loaded by the client, and then the wheel passes the check under that key's id, if it arrives as it
  was; otherwise the verdict is that of the signature scheme. That exported keys are read back and that
  signatures verify is what the cryptography package documents.
\<close>

lemma farm_key_reaches_client:
  assumes "signer_from_key_file read_private public_of d key_file = Inr sg"
    and "sign_file tb sg d p = Inr s" and "fs_read d p = Inr data" and "export_public_key public_pem sg = Inr pem"
    and "\<forall>k. read_pem (public_pem k) = Inr (Some k)" and "\<forall>k m. ed_verify tb (public_of k) (ed_sign tb k m) m"
    and "fs_read d' p' = Inr data'" and "i \<noteq> []"
  shows "\<exists>keys' sk. load_public_key read_pem i pem keys = (Inr (), keys') \<and> private_key sg = Some sk \<and>
    check_signature tb keys' d' p' s (Some i) = Inr (ed_verify tb (public_of sk) (ed_sign tb sk data) data') \<and>
    (data' = data \<longrightarrow> check_signature tb keys' d' p' s (Some i) = Inr True)"
proof -
  obtain sk where sg: "sg = new_signer public_of sk"
    using assms(1) by (auto simp: signer_from_key_file_def split: sum.splits) (metis map_sum.simps(2) sum.exhaust map_sum.simps(1) Inl_Inr_False Inr_inject)
  then have pem: "pem = public_pem (public_of sk)" and s: "s = b64encode (ed_sign tb sk data)"
    using assms(2-4) by (simp_all add: new_signer_def sign_file_def export_public_key_def)
  let ?keys = "dset i (public_of sk) keys"
  have "?keys \<noteq> []" using dict_laws(1) [of i "public_of sk" keys i] by auto
  then have "check_signature tb ?keys d' p' s (Some i) = Inr (ed_verify tb (public_of sk) (ed_sign tb sk data) data')"
    using assms(7,8) by (simp add: check_signature_def s dict_laws Let_def)
  moreover have "load_public_key read_pem i pem keys = (Inr (), ?keys)"
    using assms(5) by (simp add: load_public_key_def pem)
  ultimately show ?thesis using assms(6) by (simp add: sg new_signer_def)
qed

section \<open>Encryption\<close>

record aead =
  seal :: "bytes \<Rightarrow> bytes \<Rightarrow> bytes \<Rightarrow> bytes"
  unseal :: "bytes \<Rightarrow> bytes \<Rightarrow> bytes \<Rightarrow> bytes option"

definition new_crypto :: "bytes option \<Rightarrow> bytes \<Rightarrow> py_error + bytes" where
  "new_crypto master_key random =
     (case master_key of
        None \<Rightarrow> Inr random
      | Some k \<Rightarrow>
          if k = [] then Inr random
          else if length k \<noteq> 32 then Inl (ValueError ''Master key must be exactly 32 bytes'')
          else Inr k)"

definition encrypt :: "aead \<Rightarrow> bytes \<Rightarrow> bytes \<Rightarrow> bytes \<Rightarrow> string" where
  "encrypt A key nonce data = b64encode (nonce @ seal A key nonce data)"

definition decrypt :: "aead \<Rightarrow> bytes \<Rightarrow> string \<Rightarrow> py_error + bytes" where
  "decrypt A key encrypted_b64 =
     (case b64decode encrypted_b64 of
        Inl e \<Rightarrow> Inl e
      | Inr raw \<Rightarrow>
          if length raw < 12 then Inl (ValueError ''Invalid encrypted data length'')
          else (case unseal A key (take 12 raw) (drop 12 raw) of
                  None \<Rightarrow> Inl (OtherError ''InvalidTag'')
                | Some data \<Rightarrow> Inr data))"

text \<open>
  What was encrypted with a nonce of twelve bytes decrypts to itself with the same key, by the law of
  AES-GCM that what was sealed opens; with a key for which it does not open, decryption raises.
\<close>

theorem encrypt_decrypt:
  assumes "length nonce = 12" and "unseal A key nonce (seal A key nonce data) = Some data"
  shows "decrypt A key (encrypt A key nonce data) = Inr data \<and>
    (unseal A other nonce (seal A key nonce data) = None \<longrightarrow>
       decrypt A other (encrypt A key nonce data) = Inl (OtherError ''InvalidTag''))"
  using assms by (simp add: encrypt_def decrypt_def)

definition demo_aead :: aead where
  "demo_aead = \<lparr>seal = (\<lambda>k n b. k @ b), unseal = (\<lambda>k n c. if take (length k) c = k then Some (drop (length k) c) else None)\<rparr>"

theorem encrypt_decrypt_witness:
  "decrypt demo_aead [5] (encrypt demo_aead [5] (replicate 12 0) [1, 2]) = Inr [1, 2] \<and>
   decrypt demo_aead [6] (encrypt demo_aead [5] (replicate 12 0) [1, 2]) = Inl (OtherError ''InvalidTag'')"
proof -
  have "length (replicate 12 (0 :: 8 word)) = 12" by simp
  from encrypt_decrypt [OF this, of demo_aead "[5]" "[1, 2]" "[6]"] show ?thesis by (simp add: demo_aead_def)
qed

section \<open>The audit log\<close>

text \<open>
  Every event goes to \<^verbatim>\<open>audit.jsonl\<close> as a line, and then to \<^verbatim>\<open>audit.log\<close> as a message. What
  JSON does not have raises, and every error is swallowed.
\<close>

record audit_log =
  log_lines :: "pydict list"
  log_messages :: "(string \<times> string \<times> string \<times> pydict) list"
  log_writable :: bool

fun json_safe :: "pyval \<Rightarrow> bool" where
  "json_safe (PList vs) = (\<forall>v \<in> set vs. json_safe v)"
| "json_safe (PTuple vs) = (\<forall>v \<in> set vs. json_safe v)"
| "json_safe (PDict d) = (\<forall>p \<in> set d. json_safe (snd p))"
| "json_safe (PBytes b) = False"
| "json_safe (PComplex x y) = False"
| "json_safe (PSet vs) = False"
| "json_safe (PArray dtype shape data) = False"
| "json_safe (PObj a b c) = False"
| "json_safe _ = True"

definition log_event :: "pyfloat \<Rightarrow> string \<Rightarrow> string \<Rightarrow> string \<Rightarrow> pydict \<Rightarrow> audit_log \<Rightarrow> audit_log" where
  "log_event now event_type user_id device_id details a =
     (if log_writable a \<and> json_safe (PDict details)
      then a\<lparr>log_lines := log_lines a @
               [[(''timestamp'', PFloat now), (''type'', PStr event_type), (''user_id'', PStr user_id),
                 (''device_id'', PStr device_id), (''details'', PDict details)]],
             log_messages := log_messages a @ [(event_type, user_id, device_id, details)]\<rparr>
      else a)"

definition log_auth_success :: "pyfloat \<Rightarrow> string \<Rightarrow> string \<Rightarrow> string \<Rightarrow> audit_log \<Rightarrow> audit_log" where
  "log_auth_success now user_id device_id ip =
     log_event now ''auth_success'' user_id device_id [(''ip_address'', PStr ip)]"

definition log_auth_failure :: "pyfloat \<Rightarrow> string \<Rightarrow> string \<Rightarrow> string \<Rightarrow> string \<Rightarrow> audit_log \<Rightarrow> audit_log" where
  "log_auth_failure now user_id device_id reason ip =
     log_event now ''auth_failure'' user_id device_id [(''reason'', PStr reason), (''ip_address'', PStr ip)]"

definition log_execution :: "pyfloat \<Rightarrow> string \<Rightarrow> string \<Rightarrow> string \<Rightarrow> pydict \<Rightarrow> audit_log \<Rightarrow> audit_log" where
  "log_execution now user_id device_id meth sandbox =
     log_event now ''execution_attempt'' user_id device_id [(''method'', PStr meth), (''sandbox'', PDict sandbox)]"

definition log_package_install :: "pyfloat \<Rightarrow> string \<Rightarrow> string \<Rightarrow> string \<Rightarrow> string \<Rightarrow> audit_log \<Rightarrow> audit_log" where
  "log_package_install now user_id device_id package strategy =
     log_event now ''package_install'' user_id device_id [(''package'', PStr package), (''strategy'', PStr strategy)]"

text \<open>An execution with a configuration that is not JSON leaves no trace.\<close>

lemma log_execution_iff:
  "log_lines (log_execution now user_id device_id meth sandbox a) =
     (if log_writable a \<and> json_safe (PDict sandbox)
      then log_lines a @ [[(''timestamp'', PFloat now), (''type'', PStr ''execution_attempt''), (''user_id'', PStr user_id),
             (''device_id'', PStr device_id),
             (''details'', PDict [(''method'', PStr meth), (''sandbox'', PDict sandbox)])]]
      else log_lines a)"
  by (simp add: log_execution_def log_event_def)

end
