(* ===== verification/Toml.thy ===== *)
theory Toml
  imports PyValues
begin

text \<open>
  The configuration file as text: the writer \<open>_save_toml\<close> of \<^verbatim>\<open>client/config.py\<close>, and the
  part of \<^verbatim>\<open>tomllib.loads\<close> its files are in: comments, section headers and keys with a boolean,
  a decimal integer or a basic string. A text that is no TOML gives None, for the exception; so do the
  forms of TOML the writer has no use for (floats, dates, arrays, quoted and dotted keys, multi-line
  strings, escapes by code point). Lines end with a line feed.
\<close>

section \<open>Writing\<close>

definition lf :: char where
  "lf = CHR 0x0A"

definition quote :: char where
  "quote = CHR 0x22"

definition backslash :: char where
  "backslash = CHR 0x5C"

text \<open>A value of another type is left out. \<^verbatim>\<open>bool\<close> is tested before \<^verbatim>\<open>int\<close>, and nothing is escaped.\<close>

fun toml_value :: "pyval \<Rightarrow> string option" where
  "toml_value (PBool b) = Some (if b then ''true'' else ''false'')"
| "toml_value (PInt i) = Some (int_str i)"
| "toml_value (PStr s) = Some (quote # s @ [quote])"
| "toml_value _ = None"

fun toml_items :: "pydict \<Rightarrow> string list" where
  "toml_items [] = []"
| "toml_items ((k, v) # kvs) =
     (case toml_value v of
        None \<Rightarrow> toml_items kvs
      | Some t \<Rightarrow> (k @ '' = '' @ t) # toml_items kvs)"

fun toml_lines :: "pydict \<Rightarrow> string list" where
  "toml_lines [] = []"
| "toml_lines ((sec, PDict vals) # d) = (''['' @ sec @ '']'') # toml_items vals @ [] # toml_lines d"
| "toml_lines (_ # d) = toml_lines d"

definition save_toml :: "pydict \<Rightarrow> string" where
  "save_toml d = join [lf] (toml_lines d)"

section \<open>Reading\<close>

definition blank :: "char \<Rightarrow> bool" where
  "blank c \<longleftrightarrow> c = CHR '' '' \<or> c = CHR 0x09"

definition bare_char :: "char \<Rightarrow> bool" where
  "bare_char c \<longleftrightarrow>
     (let n = of_char c :: nat
      in 48 \<le> n \<and> n \<le> 57 \<or> 65 \<le> n \<and> n \<le> 90 \<or> 97 \<le> n \<and> n \<le> 122 \<or> c = CHR ''_'' \<or> c = CHR ''-'')"

definition bare :: "string \<Rightarrow> bool" where
  "bare s \<longleftrightarrow> s \<noteq> [] \<and> list_all bare_char s"

definition control :: "char \<Rightarrow> bool" where
  "control c \<longleftrightarrow> (let n = of_char c :: nat in n < 32 \<and> n \<noteq> 9 \<or> n = 127)"

text \<open>What may follow a value or a header on its line.\<close>

definition line_end :: "string \<Rightarrow> bool" where
  "line_end s \<longleftrightarrow>
     (case dropWhile blank s of [] \<Rightarrow> True | c # cs \<Rightarrow> c = CHR ''#'' \<and> \<not> list_ex control cs)"

fun escape :: "char \<Rightarrow> char option" where
  "escape c =
     (if c = CHR ''b'' then Some (CHR 0x08) else if c = CHR ''t'' then Some (CHR 0x09)
      else if c = CHR ''n'' then Some lf else if c = CHR ''f'' then Some (CHR 0x0C)
      else if c = CHR ''r'' then Some (CHR 0x0D) else if c = quote \<or> c = backslash then Some c
      else None)"

text \<open>A basic string from behind its opening quote: the content, and what follows the closing one.\<close>

fun read_basic :: "string \<Rightarrow> (string \<times> string) option" where
  "read_basic [] = None"
| "read_basic (c # cs) =
     (if c = quote then Some ([], cs)
      else if c = backslash
      then (case cs of
              [] \<Rightarrow> None
            | e # cs' \<Rightarrow>
                (case escape e of
                   None \<Rightarrow> None
                 | Some x \<Rightarrow> map_option (\<lambda>(s, rest). (x # s, rest)) (read_basic cs')))
      else if control c then None
      else map_option (\<lambda>(s, rest). (c # s, rest)) (read_basic cs))"

definition read_nat :: "string \<Rightarrow> int option" where
  "read_nat s =
     (if s \<noteq> [] \<and> list_all digit s \<and> (hd s = CHR ''0'' \<longrightarrow> length s = 1)
      then Some (int (foldl (\<lambda>a c. 10 * a + digit_val c) 0 s)) else None)"

definition read_int :: "string \<Rightarrow> int option" where
  "read_int s =
     (case s of
        [] \<Rightarrow> None
      | c # cs \<Rightarrow> if c = CHR ''-'' then map_option uminus (read_nat cs)
                  else if c = CHR ''+'' then read_nat cs else read_nat s)"

definition read_value :: "string \<Rightarrow> pyval option" where
  "read_value s =
     (case s of
        [] \<Rightarrow> None
      | c # cs \<Rightarrow>
          if c = quote
          then (case read_basic cs of
                  None \<Rightarrow> None
                | Some (v, rest) \<Rightarrow> if line_end rest then Some (PStr v) else None)
          else (let t = takeWhile (\<lambda>c. \<not> blank c \<and> c \<noteq> CHR ''#'') s
                in if \<not> line_end (dropWhile (\<lambda>c. \<not> blank c \<and> c \<noteq> CHR ''#'') s) then None
                   else if t = ''true'' then Some (PBool True)
                   else if t = ''false'' then Some (PBool False)
                   else map_option PInt (read_int t)))"

text \<open>A line: nothing, a section, or a key with a value.\<close>

datatype toml_line = Skip | Section string | Entry string pyval

definition read_line :: "string \<Rightarrow> toml_line option" where
  "read_line l =
     (if line_end l then Some Skip
      else (let s = dropWhile blank l; k = takeWhile bare_char s; r = dropWhile blank (dropWhile bare_char s)
            in if hd s = CHR ''[''
               then (let n = dropWhile blank (tl s); name = takeWhile bare_char n;
                         r = dropWhile blank (dropWhile bare_char n)
                     in if name \<noteq> [] \<and> r \<noteq> [] \<and> hd r = CHR '']'' \<and> line_end (tl r) then Some (Section name)
                        else None)
               else if k \<noteq> [] \<and> r \<noteq> [] \<and> hd r = CHR ''=''
               then map_option (Entry k) (read_value (dropWhile blank (tl r)))
               else None))"

text \<open>
  The document: \<open>doc\<close> is what has been read, and \<open>cur\<close> the name and items of the section being read.
  A section or a key that occurs twice is an error.
\<close>

fun read_lines :: "string list \<Rightarrow> (string \<times> pydict) option \<Rightarrow> pydict \<Rightarrow> pydict option" where
  "read_lines [] cur doc = Some (case cur of None \<Rightarrow> doc | Some (n, d) \<Rightarrow> doc @ [(n, PDict d)])"
| "read_lines (l # ls) cur doc =
     (case read_line l of
        None \<Rightarrow> None
      | Some Skip \<Rightarrow> read_lines ls cur doc
      | Some (Section n) \<Rightarrow>
          (let doc = (case cur of None \<Rightarrow> doc | Some (m, d) \<Rightarrow> doc @ [(m, PDict d)])
           in if dget doc n = None then read_lines ls (Some (n, [])) doc else None)
      | Some (Entry k v) \<Rightarrow>
          (case cur of
             None \<Rightarrow> if dget doc k = None then read_lines ls None (doc @ [(k, v)]) else None
           | Some (n, d) \<Rightarrow> if dget d k = None then read_lines ls (Some (n, d @ [(k, v)])) doc else None))"

definition toml_loads :: "string \<Rightarrow> pydict option" where
  "toml_loads s = read_lines (split_on lf s) None []"

section \<open>What was written is read back\<close>

definition plain :: "string \<Rightarrow> bool" where
  "plain s \<longleftrightarrow> list_all (\<lambda>c. c \<noteq> quote \<and> c \<noteq> backslash \<and> \<not> control c) s"

fun printable :: "pyval \<Rightarrow> bool" where
  "printable (PBool b) = True"
| "printable (PInt i) = True"
| "printable (PStr s) = plain s"
| "printable _ = False"

definition good_items :: "pydict \<Rightarrow> bool" where
  "good_items d \<longleftrightarrow> dwf d \<and> (\<forall>(k, v) \<in> set d. bare k \<and> printable v)"

definition good_doc :: "pydict \<Rightarrow> bool" where
  "good_doc D \<longleftrightarrow> dwf D \<and> (\<forall>(n, v) \<in> set D. bare n \<and> (\<exists>d. v = PDict d \<and> good_items d))"

lemma read_basic_plain: "plain s \<Longrightarrow> read_basic (s @ quote # rest) = Some (s, rest)"
  by (induction s) (auto simp: plain_def)

lemma zero_char: "d < 10 \<Longrightarrow> (char_of (48 + d :: nat) = CHR ''0'') = (d = 0)"
proof -
  assume "d < 10"
  then have "(of_char (char_of (48 + d :: nat) :: char) :: nat) = 48 + d" by simp
  moreover have "(of_char (CHR ''0'') :: nat) = 48" by simp
  ultimately show ?thesis by (metis add.right_neutral add_left_cancel of_char_eq_iff)
qed

lemma hd_nat_digits: "hd (nat_digits n) = CHR ''0'' \<longleftrightarrow> n = 0"
proof (induction n rule: nat_digits.induct)
  case (1 n)
  show ?case
  proof (cases "n < 10")
    case False
    then have "n div 10 \<noteq> 0" by auto
    with False 1 show ?thesis by (subst nat_digits.simps) simp
  qed (subst nat_digits.simps, simp add: zero_char)
qed

lemma read_nat_digits: "read_nat (nat_digits n) = Some (int n)"
proof -
  have "n = 0 \<Longrightarrow> length (nat_digits n) = 1" by (subst nat_digits.simps) simp
  then show ?thesis
    by (simp add: read_nat_def digits_nat_digits hd_nat_digits nat_digits_read)
qed

lemma digit_facts:
  assumes "digit c"
  shows "\<not> blank c" "c \<noteq> CHR ''#''" "c \<noteq> CHR ''-''" "c \<noteq> CHR ''+''" "c \<noteq> quote" "c \<noteq> lf" "c \<noteq> CHR ''t''" "c \<noteq> CHR ''f''"
  using assms by (auto simp: digit_def blank_def quote_def lf_def Let_def)

lemma hd_digit: "digit (hd (nat_digits n))"
  using digits_nat_digits [of n] nat_digits_ne [of n] by (cases "nat_digits n") auto

lemma read_int_str: "read_int (int_str i) = Some i"
proof (cases "i < 0")
  case False
  obtain c cs where c: "nat_digits (nat i) = c # cs" by (cases "nat_digits (nat i)") auto
  with False digit_facts(3,4) [OF hd_digit [of "nat i"]] read_nat_digits [of "nat i"] show ?thesis
    by (simp add: int_str_def read_int_def)
qed (simp add: int_str_def read_int_def read_nat_digits)

lemma int_str_chars: "c \<in> set (int_str i) \<Longrightarrow> c = CHR ''-'' \<or> digit c"
  using digits_nat_digits [of "nat i"] digits_nat_digits [of "nat (- i)"]
  by (auto simp: int_str_def list_all_iff split: if_splits)

lemma takeWhile_whole: "list_all P xs \<Longrightarrow> takeWhile P xs = xs \<and> dropWhile P xs = []"
  by (induction xs) auto

lemma takeWhile_stops: "list_all P xs \<Longrightarrow> \<not> P y \<Longrightarrow> takeWhile P (xs @ y # ys) = xs \<and> dropWhile P (xs @ y # ys) = y # ys"
  by (induction xs) auto

lemma special_chars [simp]:
  "\<not> blank quote" "\<not> blank (CHR ''['')" "\<not> blank (CHR ''='')" "blank (CHR '' '')" "\<not> bare_char (CHR '']'')"
  "\<not> bare_char (CHR ''='')" "\<not> bare_char (CHR '' '')" "\<not> blank (CHR '']'')" "quote \<noteq> lf" "lf \<noteq> quote" "quote \<noteq> CHR ''#''"
  by (simp_all add: blank_def quote_def lf_def bare_char_def Let_def)

lemma bare_facts:
  assumes "bare_char c"
  shows "\<not> blank c" "c \<noteq> CHR ''#''" "c \<noteq> CHR ''[''" "c \<noteq> lf"
  using assms by (auto simp: bare_char_def blank_def lf_def Let_def)

lemma value_text_word:
  assumes "list_all (\<lambda>c. \<not> blank c \<and> c \<noteq> CHR ''#'') t" and "t \<noteq> []" and "hd t \<noteq> quote"
  shows "read_value t = (if t = ''true'' then Some (PBool True) else if t = ''false'' then Some (PBool False)
    else map_option PInt (read_int t))"
  using assms(2,3) takeWhile_whole [OF assms(1), THEN conjunct1] takeWhile_whole [OF assms(1), THEN conjunct2]
  unfolding read_value_def by (simp add: line_end_def Let_def list.case_eq_if del: takeWhile_eq_all_conv dropWhile_eq_Nil_conv)

lemma int_str_ne: "int_str i \<noteq> []"
  by (simp add: int_str_def)

lemma int_str_word:
  "list_all (\<lambda>c. \<not> blank c \<and> c \<noteq> CHR ''#'') (int_str i)" "hd (int_str i) \<noteq> quote"
  "int_str i \<noteq> ''true''" "int_str i \<noteq> ''false''"
proof -
  have "hd (int_str i) = CHR ''-'' \<or> digit (hd (int_str i))"
    using int_str_chars [of "hd (int_str i)" i] int_str_ne [of i] by simp
  then show "hd (int_str i) \<noteq> quote" "int_str i \<noteq> ''true''" "int_str i \<noteq> ''false''"
    using digit_facts(5,7,8) [of "hd (int_str i)"] by (auto simp: quote_def)
  show "list_all (\<lambda>c. \<not> blank c \<and> c \<noteq> CHR ''#'') (int_str i)"
    using int_str_chars digit_facts(1,2) by (fastforce simp: list_all_iff blank_def)
qed

lemma read_toml_value:
  assumes "printable v"
  obtains t where "toml_value v = Some t" and "read_value t = Some v" and "lf \<notin> set t" and "t \<noteq> []" and "\<not> blank (hd t)"
proof (cases v)
  case (PBool b)
  then show ?thesis
    by (intro that [of "if b then ''true'' else ''false''"])
      (cases b; simp add: value_text_word blank_def quote_def lf_def)+
next
  case (PInt i)
  have "lf \<notin> set (int_str i)" using int_str_chars digit_facts(6) by (fastforce simp: lf_def)
  moreover have "\<not> blank (hd (int_str i))"
    using int_str_word(1) [of i] int_str_ne [of i] by (cases "int_str i") auto
  ultimately show ?thesis
    using PInt value_text_word [OF int_str_word(1) int_str_ne int_str_word(2)]
    by (intro that [of "int_str i"]) (simp_all add: int_str_word int_str_ne read_int_str)
next
  case (PStr s)
  with assms have s: "plain s" by simp
  have "lf \<notin> set s" using s by (auto simp: plain_def list_all_iff control_def lf_def Let_def)
  moreover have "read_value (quote # s @ [quote]) = Some (PStr s)"
    using read_basic_plain [OF s, of "[]"] by (simp add: read_value_def line_end_def)
  ultimately show ?thesis using PStr by (intro that [of "quote # s @ [quote]"]) auto
qed (use assms in auto)

lemma read_header: "bare n \<Longrightarrow> read_line (''['' @ n @ '']'') = Some (Section n)"
proof -
  assume n: "bare n"
  then have "dropWhile blank (n @ '']'') = n @ '']''"
    by (cases n) (auto simp: bare_def bare_facts)
  moreover have "takeWhile bare_char (n @ '']'') = n \<and> dropWhile bare_char (n @ '']'') = '']''"
    using n takeWhile_stops [of bare_char n] by (simp add: bare_def)
  ultimately show ?thesis
    using n by (simp add: read_line_def line_end_def Let_def bare_def)
qed

lemma read_entry:
  assumes "bare k" and "t \<noteq> []" and "\<not> blank (hd t)"
  shows "read_line (k @ '' = '' @ t) = map_option (Entry k) (read_value t)"
proof -
  let ?l = "k @ '' = '' @ t"
  obtain c cs where k: "k = c # cs" and c: "bare_char c" using assms(1) by (cases k) (auto simp: bare_def)
  have "dropWhile blank ?l = ?l" using k bare_facts(1) [OF c] by simp
  moreover have "takeWhile bare_char ?l = k \<and> dropWhile bare_char ?l = '' = '' @ t"
    using assms(1) takeWhile_stops [of bare_char k] by (simp add: bare_def)
  moreover have "dropWhile blank (CHR '' '' # t) = t" using assms(2,3) by (cases t) auto
  ultimately show ?thesis
    using k bare_facts(2,3) [OF c] by (simp add: read_line_def line_end_def Let_def)
qed

lemma read_items:
  assumes "\<forall>(k, v) \<in> set d. bare k \<and> printable v" and "distinct (dkeys (d0 @ d))"
  shows "read_lines (toml_items d @ ls) (Some (n, d0)) doc = read_lines ls (Some (n, d0 @ d)) doc"
  using assms
proof (induction d arbitrary: d0)
  case (Cons kv d)
  obtain k v where kv: "kv = (k, v)" by (rule prod.exhaust)
  with Cons.prems have "printable v" by simp
  then obtain t where t: "toml_value v = Some t" "read_value t = Some v" "t \<noteq> []" "\<not> blank (hd t)"
    by (rule read_toml_value)
  have "dget d0 k = None" using Cons.prems(2) kv by (auto simp: dget_None_iff)
  with kv t Cons.prems read_entry [OF _ t(3,4), of k] Cons.IH [of "d0 @ [(k, v)]"] show ?case by simp
qed simp

definition closed :: "(string \<times> pydict) option \<Rightarrow> pydict \<Rightarrow> pydict" where
  "closed cur doc = (case cur of None \<Rightarrow> doc | Some (n, d) \<Rightarrow> doc @ [(n, PDict d)])"

lemma read_doc:
  assumes "\<forall>(n, v) \<in> set D. bare n \<and> (\<exists>d. v = PDict d \<and> good_items d)" and "distinct (dkeys (closed cur doc @ D))"
  shows "read_lines (toml_lines D) cur doc = Some (closed cur doc @ D)"
  using assms
proof (induction D arbitrary: cur doc)
  case (Cons nv D)
  then obtain n d where nv: "nv = (n, PDict d)" "bare n" "good_items d" by (cases nv) auto
  have "dget (closed cur doc) n = None" using Cons.prems(2) nv(1) by (auto simp: dget_None_iff)
  moreover have "read_lines (toml_items d @ [] # toml_lines D) (Some (n, [])) (closed cur doc)
      = read_lines ([] # toml_lines D) (Some (n, d)) (closed cur doc)"
    using nv(3) read_items [of d "[]"] by (simp add: good_items_def)
  moreover have "read_lines (toml_lines D) (Some (n, d)) (closed cur doc) = Some (closed (Some (n, d)) (closed cur doc) @ D)"
    using Cons.prems nv(1) by (intro Cons.IH) (auto simp: closed_def)
  ultimately show ?case
    using nv read_header [OF nv(2)]
    by (simp add: closed_def [symmetric] Let_def read_line_def [of "[]"] line_end_def) (simp add: closed_def)
qed (simp add: closed_def)

lemma toml_items_no_lf:
  "\<forall>(k, v) \<in> set d. bare k \<and> printable v \<Longrightarrow> \<forall>w \<in> set (toml_items d). lf \<notin> set w"
proof (induction d)
  case (Cons kv d)
  obtain k v where kv: "kv = (k, v)" by (rule prod.exhaust)
  with Cons.prems have "printable v" by simp
  then obtain t where t: "toml_value v = Some t" "lf \<notin> set t" by (rule read_toml_value)
  have "lf \<notin> set k" using Cons.prems kv bare_facts(4) by (auto simp: bare_def list_all_iff)
  with kv t Cons show ?case by (auto simp: lf_def)
qed simp

lemma toml_lines_no_lf:
  "\<forall>(n, v) \<in> set D. bare n \<and> (\<exists>d. v = PDict d \<and> good_items d) \<Longrightarrow> \<forall>w \<in> set (toml_lines D). lf \<notin> set w"
proof (induction D)
  case (Cons nv D)
  then obtain n d where nv: "nv = (n, PDict d)" "bare n" "good_items d" by (cases nv) auto
  have "lf \<notin> set n" using nv(2) bare_facts(4) by (auto simp: bare_def list_all_iff)
  moreover have "\<forall>w \<in> set (toml_items d). lf \<notin> set w" using nv(3) unfolding good_items_def by (intro toml_items_no_lf) blast
  ultimately show ?case using nv Cons by (auto simp: lf_def)
qed simp

text \<open>What the writer writes, the reader reads back, when no string holds a character that needs an escape.\<close>

lemma toml_roundtrip:
  assumes "good_doc D"
  shows "toml_loads (save_toml D) = Some D"
proof (cases "D = []")
  case True
  then show ?thesis by (simp add: toml_loads_def save_toml_def read_line_def line_end_def)
next
  case False
  with assms have "toml_lines D \<noteq> []" by (cases D) (auto simp: good_doc_def)
  moreover have "\<forall>w \<in> set (toml_lines D). lf \<notin> set w"
    using assms unfolding good_doc_def by (intro toml_lines_no_lf) blast
  ultimately show ?thesis
    using assms read_doc [of D None "[]"]
    by (simp add: toml_loads_def save_toml_def split_join good_doc_def closed_def)
qed

end
