(* ===== verification/Config.thy ===== *)
theory Config
  imports Toml Models
begin

text \<open>
  The client's configuration, \<^verbatim>\<open>client/config.py\<close>, with the commands \<^verbatim>\<open>cpip config\<close> and
  \<^verbatim>\<open>cpip login\<close> of \<^verbatim>\<open>client/cli.py\<close> that change it.

  The state is the home directory: the text of \<^verbatim>\<open>config.toml\<close> (None when there is no readable file),
  the JSON value in \<^verbatim>\<open>auth.json\<close> (\<open>Some None\<close> for a file that holds no JSON), and the directories
  made. The values that come from the files are Python values of any type.
\<close>

section \<open>Configuration records\<close>

record cloud_config =
  cc_api_url :: pyval
  cc_ws_url :: pyval
  cc_cdn_url :: pyval
  cc_timeout :: pyval
  cc_max_retries :: pyval

record cache_config =
  cc_max_size_mb :: pyval
  cc_wheel_ttl_days :: pyval
  cc_metadata_ttl_hours :: pyval
  cc_auto_cleanup :: pyval

record runtime_config =
  rc_prefer_local :: pyval
  rc_gpu_offload :: pyval
  rc_lazy_loading :: pyval
  rc_cloud_exec :: pyval
  rc_auto_sync :: pyval
  rc_import_hooks :: pyval
  rc_offline_mode :: pyval

record auth_config =
  ac_token :: pyval
  ac_refresh_token :: pyval
  ac_device_id :: pyval
  ac_user_id :: pyval

record cpip_config =
  cf_cloud :: cloud_config
  cf_cache :: cache_config
  cf_runtime :: runtime_config
  cf_auth :: auth_config
  cf_home :: string
  cf_config_file :: string
  cf_cache_dir :: string
  cf_wheels_dir :: string
  cf_layers_dir :: string
  cf_metadata_dir :: string
  cf_log_dir :: string
  cf_venv_dir :: string
  cf_auth_file :: string

type_synonym environ = "(string, string) dict"

text \<open>\<open>os.path.join(a, b)\<close>.\<close>

definition os_join :: "string \<Rightarrow> string \<Rightarrow> string" where
  "os_join a b = (if prefix ''/'' b then b else if a = [] \<or> suffix ''/'' a then a @ b else a @ ''/'' @ b)"

definition or_default :: "string \<Rightarrow> string \<Rightarrow> string" where
  "or_default s d = (if s = [] then d else s)"

definition post_init :: "cpip_config \<Rightarrow> cpip_config" where
  "post_init c =
     (let cache = or_default (cf_cache_dir c) (os_join (cf_home c) ''cache'')
      in c\<lparr>cf_config_file := or_default (cf_config_file c) (os_join (cf_home c) ''config.toml''),
           cf_cache_dir := cache,
           cf_wheels_dir := or_default (cf_wheels_dir c) (os_join cache ''wheels''),
           cf_layers_dir := or_default (cf_layers_dir c) (os_join cache ''layers''),
           cf_metadata_dir := or_default (cf_metadata_dir c) (os_join cache ''metadata''),
           cf_log_dir := or_default (cf_log_dir c) (os_join (cf_home c) ''logs''),
           cf_venv_dir := or_default (cf_venv_dir c) (os_join (cf_home c) ''envs''),
           cf_auth_file := or_default (cf_auth_file c) (os_join (cf_home c) ''auth.json'')\<rparr>)"

text \<open>
  The paths of \<^verbatim>\<open>shared/constants.py\<close>, which the modules that know no configuration use; \<open>expand\<close> is
  \<^verbatim>\<open>os.path.expanduser\<close>.
\<close>

definition CPIP_HOME :: "(string \<Rightarrow> string) \<Rightarrow> environ \<Rightarrow> string" where
  "CPIP_HOME expand env = expand (dget_or env ''CPIP_HOME'' ''~/.cpip'')"

definition CACHE_DIR :: "string \<Rightarrow> string" where "CACHE_DIR home = os_join home ''cache''"
definition WHEELS_DIR :: "string \<Rightarrow> string" where "WHEELS_DIR home = os_join (CACHE_DIR home) ''wheels''"
definition LAYERS_DIR :: "string \<Rightarrow> string" where "LAYERS_DIR home = os_join (CACHE_DIR home) ''layers''"
definition METADATA_DIR :: "string \<Rightarrow> string" where "METADATA_DIR home = os_join (CACHE_DIR home) ''metadata''"
definition CONFIG_FILE :: "string \<Rightarrow> string" where "CONFIG_FILE home = os_join home ''config.toml''"
definition AUTH_FILE :: "string \<Rightarrow> string" where "AUTH_FILE home = os_join home ''auth.json''"
definition LOG_DIR :: "string \<Rightarrow> string" where "LOG_DIR home = os_join home ''logs''"
definition VENV_DIR :: "string \<Rightarrow> string" where "VENV_DIR home = os_join home ''envs''"

text \<open>The defaults, with the addresses the environment gives; \<open>home\<close> is \<^verbatim>\<open>CPIP_HOME\<close>.\<close>

definition default_config :: "environ \<Rightarrow> string \<Rightarrow> cpip_config" where
  "default_config env home =
     post_init
       \<lparr>cf_cloud = \<lparr>cc_api_url = PStr (DEFAULT_API_URL env),
                    cc_ws_url = PStr (DEFAULT_WS_URL env),
                    cc_cdn_url = PStr (DEFAULT_CDN_URL env),
                    cc_timeout = PInt 30, cc_max_retries = PInt 3\<rparr>,
        cf_cache = \<lparr>cc_max_size_mb = PInt DEFAULT_CACHE_MAX_MB, cc_wheel_ttl_days = PInt DEFAULT_WHEEL_TTL_DAYS,
                    cc_metadata_ttl_hours = PInt DEFAULT_METADATA_TTL_HOURS,
                    cc_auto_cleanup = PBool True\<rparr>,
        cf_runtime = \<lparr>rc_prefer_local = PBool True, rc_gpu_offload = PBool True, rc_lazy_loading = PBool True,
                      rc_cloud_exec = PBool True, rc_auto_sync = PBool True, rc_import_hooks = PBool True,
                      rc_offline_mode = PBool False\<rparr>,
        cf_auth = \<lparr>ac_token = PStr [], ac_refresh_token = PStr [], ac_device_id = PStr [], ac_user_id = PStr []\<rparr>,
        cf_home = home, cf_config_file = [], cf_cache_dir = [], cf_wheels_dir = [], cf_layers_dir = [],
        cf_metadata_dir = [], cf_log_dir = [], cf_venv_dir = [], cf_auth_file = []\<rparr>"

text \<open>The configuration and the modules that use the constants agree on every path.\<close>

lemma default_paths:
  "cf_cache_dir (default_config env home) = CACHE_DIR home" "cf_wheels_dir (default_config env home) = WHEELS_DIR home"
  "cf_layers_dir (default_config env home) = LAYERS_DIR home" "cf_metadata_dir (default_config env home) = METADATA_DIR home"
  "cf_config_file (default_config env home) = CONFIG_FILE home" "cf_auth_file (default_config env home) = AUTH_FILE home"
  "cf_log_dir (default_config env home) = LOG_DIR home" "cf_venv_dir (default_config env home) = VENV_DIR home"
  by (simp_all add: default_config_def post_init_def or_default_def Let_def CACHE_DIR_def WHEELS_DIR_def LAYERS_DIR_def
      METADATA_DIR_def CONFIG_FILE_def AUTH_FILE_def LOG_DIR_def VENV_DIR_def)


section \<open>Loading\<close>

record home_dir =
  hd_toml :: "string option"
  hd_auth :: "pyval option option"
  hd_dirs :: fs

definition load_toml :: "home_dir \<Rightarrow> pydict" where
  "load_toml h =
     (case hd_toml h of
        None \<Rightarrow> []
      | Some text \<Rightarrow> (case toml_loads text of None \<Rightarrow> [] | Some d \<Rightarrow> d))"

definition apply_cloud :: "pydict \<Rightarrow> cloud_config \<Rightarrow> cloud_config" where
  "apply_cloud d c =
     c\<lparr>cc_api_url := dget_or d ''api_url'' (cc_api_url c), cc_ws_url := dget_or d ''ws_url'' (cc_ws_url c),
       cc_cdn_url := dget_or d ''cdn_url'' (cc_cdn_url c), cc_timeout := dget_or d ''timeout'' (cc_timeout c)\<rparr>"

definition apply_cache :: "pydict \<Rightarrow> cache_config \<Rightarrow> cache_config" where
  "apply_cache d c =
     c\<lparr>cc_max_size_mb := dget_or d ''max_size_mb'' (cc_max_size_mb c),
       cc_wheel_ttl_days := dget_or d ''wheel_ttl_days'' (cc_wheel_ttl_days c)\<rparr>"

definition apply_runtime :: "pydict \<Rightarrow> runtime_config \<Rightarrow> runtime_config" where
  "apply_runtime d c =
     c\<lparr>rc_prefer_local := dget_or d ''prefer_local'' (rc_prefer_local c),
       rc_gpu_offload := dget_or d ''gpu_offload'' (rc_gpu_offload c),
       rc_lazy_loading := dget_or d ''lazy_loading'' (rc_lazy_loading c),
       rc_cloud_exec := dget_or d ''cloud_exec'' (rc_cloud_exec c),
       rc_offline_mode := dget_or d ''offline_mode'' (rc_offline_mode c)\<rparr>"

text \<open>A section that is no table has no \<^verbatim>\<open>get\<close>.\<close>

definition apply_section ::
    "pydict \<Rightarrow> string \<Rightarrow> (pydict \<Rightarrow> cpip_config \<Rightarrow> cpip_config) \<Rightarrow> cpip_config \<Rightarrow> py_error + cpip_config" where
  "apply_section raw sec f c =
     (case dget raw sec of
        None \<Rightarrow> Inr c
      | Some (PDict d) \<Rightarrow> Inr (f d c)
      | Some v \<Rightarrow> Inl (AttributeError ''get''))"

definition apply_toml :: "pydict \<Rightarrow> cpip_config \<Rightarrow> py_error + cpip_config" where
  "apply_toml raw c =
     (case apply_section raw ''cloud'' (\<lambda>d c. c\<lparr>cf_cloud := apply_cloud d (cf_cloud c)\<rparr>) c of
        Inl e \<Rightarrow> Inl e
      | Inr c \<Rightarrow>
          (case apply_section raw ''cache'' (\<lambda>d c. c\<lparr>cf_cache := apply_cache d (cf_cache c)\<rparr>) c of
             Inl e \<Rightarrow> Inl e
           | Inr c \<Rightarrow> apply_section raw ''runtime'' (\<lambda>d c. c\<lparr>cf_runtime := apply_runtime d (cf_runtime c)\<rparr>) c))"

definition set_offline :: "pyval \<Rightarrow> cpip_config \<Rightarrow> cpip_config" where
  "set_offline v c = c\<lparr>cf_runtime := (cf_runtime c)\<lparr>rc_offline_mode := v\<rparr>\<rparr>"

definition set_api_url :: "pyval \<Rightarrow> cpip_config \<Rightarrow> cpip_config" where
  "set_api_url v c = c\<lparr>cf_cloud := (cf_cloud c)\<lparr>cc_api_url := v\<rparr>\<rparr>"

definition apply_env :: "environ \<Rightarrow> cpip_config \<Rightarrow> cpip_config" where
  "apply_env env c =
     (let c = (if dget_or env ''CPIP_API_URL'' [] \<noteq> [] then set_api_url (PStr (dget_or env ''CPIP_API_URL'' [])) c else c);
          c = (if dget_or env ''CPIP_WS_URL'' [] \<noteq> []
               then c\<lparr>cf_cloud := (cf_cloud c)\<lparr>cc_ws_url := PStr (dget_or env ''CPIP_WS_URL'' [])\<rparr>\<rparr> else c)
      in if dget_or env ''CPIP_OFFLINE'' [] \<noteq> [] then set_offline (PBool True) c else c)"

text \<open>Any error on the way leaves the defaults.\<close>

definition apply_auth :: "home_dir \<Rightarrow> cpip_config \<Rightarrow> cpip_config" where
  "apply_auth h c =
     (case hd_auth h of
        Some (Some (PDict d)) \<Rightarrow>
          c\<lparr>cf_auth := \<lparr>ac_token = dget_or d ''token'' (PStr []), ac_refresh_token = dget_or d ''refresh_token'' (PStr []),
                        ac_device_id = dget_or d ''device_id'' (PStr []), ac_user_id = dget_or d ''user_id'' (PStr [])\<rparr>\<rparr>
      | _ \<Rightarrow> c)"

fun make_dirs :: "string list \<Rightarrow> fs \<Rightarrow> py_error option \<times> fs" where
  "make_dirs [] d = (None, d)"
| "make_dirs (p # ps) d =
     (case fs_mkdir_p (path_parts p) d of Inl e \<Rightarrow> (Some e, d) | Inr d' \<Rightarrow> make_dirs ps d')"

definition ensure_directories :: "cpip_config \<Rightarrow> fs \<Rightarrow> py_error option \<times> fs" where
  "ensure_directories c =
     make_dirs [cf_home c, cf_cache_dir c, cf_wheels_dir c, cf_layers_dir c, cf_metadata_dir c, cf_log_dir c, cf_venv_dir c]"

definition load_config :: "environ \<Rightarrow> string \<Rightarrow> home_dir \<Rightarrow> (py_error + cpip_config) \<times> home_dir" where
  "load_config env home h =
     (case apply_toml (load_toml h) (default_config env home) of
        Inl e \<Rightarrow> (Inl e, h)
      | Inr c \<Rightarrow>
          (let c = apply_auth h (apply_env env c); (err, d) = ensure_directories c (hd_dirs h)
           in (case err of None \<Rightarrow> Inr c | Some e \<Rightarrow> Inl e, h\<lparr>hd_dirs := d\<rparr>)))"

section \<open>Saving\<close>

definition config_data :: "cpip_config \<Rightarrow> pydict" where
  "config_data c =
     [(''cloud'', PDict [(''api_url'', cc_api_url (cf_cloud c)), (''ws_url'', cc_ws_url (cf_cloud c)),
         (''cdn_url'', cc_cdn_url (cf_cloud c)), (''timeout'', cc_timeout (cf_cloud c))]),
      (''cache'', PDict [(''max_size_mb'', cc_max_size_mb (cf_cache c)),
         (''wheel_ttl_days'', cc_wheel_ttl_days (cf_cache c)), (''auto_cleanup'', cc_auto_cleanup (cf_cache c))]),
      (''runtime'', PDict [(''prefer_local'', rc_prefer_local (cf_runtime c)),
         (''gpu_offload'', rc_gpu_offload (cf_runtime c)), (''lazy_loading'', rc_lazy_loading (cf_runtime c)),
         (''cloud_exec'', rc_cloud_exec (cf_runtime c)), (''offline_mode'', rc_offline_mode (cf_runtime c))])]"

text \<open>Both writers make the parent directory first.\<close>

definition save_config :: "string \<Rightarrow> cpip_config \<Rightarrow> home_dir \<Rightarrow> (py_error + unit) \<times> home_dir" where
  "save_config home c h =
     (case fs_mkdir_p (path_parts home) (hd_dirs h) of
        Inl e \<Rightarrow> (Inl e, h)
      | Inr d \<Rightarrow> (Inr (), h\<lparr>hd_dirs := d, hd_toml := Some (save_toml (config_data c))\<rparr>))"

definition save_auth :: "string \<Rightarrow> cpip_config \<Rightarrow> home_dir \<Rightarrow> (py_error + unit) \<times> home_dir" where
  "save_auth home c h =
     (case fs_mkdir_p (path_parts home) (hd_dirs h) of
        Inl e \<Rightarrow> (Inl e, h)
      | Inr d \<Rightarrow>
          (Inr (), h\<lparr>hd_dirs := d,
             hd_auth := Some (Some (PDict [(''token'', ac_token (cf_auth c)),
               (''refresh_token'', ac_refresh_token (cf_auth c)), (''device_id'', ac_device_id (cf_auth c)),
               (''user_id'', ac_user_id (cf_auth c))]))\<rparr>))"

section \<open>Commands\<close>

text \<open>\<^verbatim>\<open>cpip config\<close>, without the table it prints.\<close>

definition config_command ::
    "environ \<Rightarrow> string \<Rightarrow> bool \<Rightarrow> string option \<Rightarrow> bool option \<Rightarrow> home_dir \<Rightarrow> (py_error + unit) \<times> home_dir" where
  "config_command env home init new_url offline h =
     (case load_config env home h of
        (Inl e, h) \<Rightarrow> (Inl e, h)
      | (Inr c, h) \<Rightarrow>
          if init then save_config home c h
          else (let c1 = (case new_url of Some u \<Rightarrow> if u = [] then c else set_api_url (PStr u) c | None \<Rightarrow> c);
                    (r, h) = (if new_url = None \<or> new_url = Some [] then (Inr (), h) else save_config home c1 h)
                in case r of
                     Inl e \<Rightarrow> (Inl e, h)
                   | Inr _ \<Rightarrow>
                       (case offline of
                          None \<Rightarrow> (Inr (), h)
                        | Some b \<Rightarrow> save_config home (set_offline (PBool b) c1) h)))"

text \<open>
  \<^verbatim>\<open>cpip login\<close>: \<open>answer\<close> is the status and body of the server's answer, None when the request
  raises. Every error of the request is printed and the command ends normally.
\<close>

definition login_command ::
    "environ \<Rightarrow> string \<Rightarrow> string \<Rightarrow> string \<Rightarrow> (int \<times> pydict) option \<Rightarrow> home_dir \<Rightarrow> (py_error + unit) \<times> home_dir" where
  "login_command env home uuid api_key answer h =
     (case load_config env home h of
        (Inl e, h) \<Rightarrow> (Inl e, h)
      | (Inr c, h) \<Rightarrow>
          if api_key = []
          then save_auth home (c\<lparr>cf_auth := (cf_auth c)\<lparr>ac_device_id := PStr uuid, ac_token := PStr (''dev_'' @ uuid)\<rparr>\<rparr>) h
          else (case answer of
                  Some (code, data) \<Rightarrow>
                    (case dget data ''access_token'' of
                       Some t \<Rightarrow>
                         if code = 200
                         then (Inr (), snd (save_auth home
                                (c\<lparr>cf_auth := (cf_auth c)\<lparr>ac_token := t, ac_refresh_token := dget_or data ''refresh_token'' (PStr []),
                                   ac_device_id := dget_or data ''device_id'' (PStr [])\<rparr>\<rparr>) h))
                         else (Inr (), h)
                     | None \<Rightarrow> (Inr (), h))
                | None \<Rightarrow> (Inr (), h)))"

section \<open>What survives a save and a load\<close>

text \<open>A configuration whose saved values the writer can print without an escape.\<close>

definition saveable :: "cpip_config \<Rightarrow> bool" where
  "saveable c \<longleftrightarrow> (\<forall>(n, v) \<in> set (config_data c). \<exists>d. v = PDict d \<and> (\<forall>(k, w) \<in> set d. printable w))"

definition overrides_absent :: "environ \<Rightarrow> bool" where
  "overrides_absent env \<longleftrightarrow>
     (\<forall>k \<in> {''CPIP_API_URL'', ''CPIP_WS_URL'', ''CPIP_OFFLINE''}. dget_or env k [] = [])"

lemma good_config_data: "saveable c \<Longrightarrow> good_doc (config_data c)"
  by (simp add: saveable_def config_data_def good_doc_def good_items_def bare_def bare_char_def Let_def)

lemma config_paths:
  assumes "apply_toml raw c = Inr c'"
  shows "ensure_directories c' = ensure_directories c"
  using assms
  by (auto simp: apply_toml_def apply_section_def ensure_directories_def simp del: make_dirs.simps
      split: option.splits pyval.splits sum.splits)

lemma dirs_env_auth [simp]:
  "ensure_directories (apply_env env c) = ensure_directories c"
  "ensure_directories (apply_auth h c) = ensure_directories c"
  by (simp_all add: ensure_directories_def apply_env_def apply_auth_def set_api_url_def set_offline_def Let_def
      del: make_dirs.simps split: option.splits pyval.splits)

text \<open>What a load gives once the file is read and the directories can be made.\<close>

lemma load_configI:
  assumes "apply_toml (load_toml h) (default_config env home) = Inr c"
    and "fst (ensure_directories (default_config env home) (hd_dirs h)) = None"
  shows "fst (load_config env home h) = Inr (apply_auth h (apply_env env c))"
  using assms config_paths [OF assms(1)]
  by (cases "ensure_directories (default_config env home) (hd_dirs h)") (simp add: load_config_def Let_def)

lemma apply_toml_saved:
  "apply_toml (config_data c) c0 =
     Inr (c0\<lparr>cf_cloud := (cf_cloud c)\<lparr>cc_max_retries := cc_max_retries (cf_cloud c0)\<rparr>,
       cf_cache := (cf_cache c)\<lparr>cc_metadata_ttl_hours := cc_metadata_ttl_hours (cf_cache c0),
          cc_auto_cleanup := cc_auto_cleanup (cf_cache c0)\<rparr>,
       cf_runtime := (cf_runtime c)\<lparr>rc_auto_sync := rc_auto_sync (cf_runtime c0),
          rc_import_hooks := rc_import_hooks (cf_runtime c0)\<rparr>\<rparr>)"
proof -
  have "apply_cloud [(''api_url'', cc_api_url d), (''ws_url'', cc_ws_url d), (''cdn_url'', cc_cdn_url d),
      (''timeout'', cc_timeout d)] d0 = d\<lparr>cc_max_retries := cc_max_retries d0\<rparr>" for d d0 :: cloud_config
    by (cases d; cases d0) (simp add: apply_cloud_def dget_or_def)
  moreover have "apply_cache [(''max_size_mb'', cc_max_size_mb d), (''wheel_ttl_days'', cc_wheel_ttl_days d),
      (''auto_cleanup'', cc_auto_cleanup d)] d0 =
      d\<lparr>cc_metadata_ttl_hours := cc_metadata_ttl_hours d0, cc_auto_cleanup := cc_auto_cleanup d0\<rparr>" for d d0 :: cache_config
    by (cases d; cases d0) (simp add: apply_cache_def dget_or_def)
  moreover have "apply_runtime [(''prefer_local'', rc_prefer_local d), (''gpu_offload'', rc_gpu_offload d),
      (''lazy_loading'', rc_lazy_loading d), (''cloud_exec'', rc_cloud_exec d), (''offline_mode'', rc_offline_mode d)] d0 =
      d\<lparr>rc_auto_sync := rc_auto_sync d0, rc_import_hooks := rc_import_hooks d0\<rparr>" for d d0 :: runtime_config
    by (cases d; cases d0) (simp add: apply_runtime_def dget_or_def)
  ultimately show ?thesis by (simp add: apply_toml_def apply_section_def config_data_def)
qed

lemma default_fields:
  "cc_max_retries (cf_cloud (default_config env home)) = PInt 3"
  "cc_metadata_ttl_hours (cf_cache (default_config env home)) = PInt 24"
  "cc_auto_cleanup (cf_cache (default_config env home)) = PBool True"
  "rc_auto_sync (cf_runtime (default_config env home)) = PBool True"
  "rc_import_hooks (cf_runtime (default_config env home)) = PBool True"
  by (simp_all add: default_config_def post_init_def Let_def)

lemma load_saved:
  assumes "saveable c" and "save_config home c h = (Inr (), h')"
    and "fst (ensure_directories (default_config env home) (hd_dirs h')) = None"
  shows "fst (load_config env home h') =
    Inr (apply_auth h' (apply_env env ((default_config env home)
      \<lparr>cf_cloud := (cf_cloud c)\<lparr>cc_max_retries := PInt 3\<rparr>,
       cf_cache := (cf_cache c)\<lparr>cc_metadata_ttl_hours := PInt 24, cc_auto_cleanup := PBool True\<rparr>,
       cf_runtime := (cf_runtime c)\<lparr>rc_auto_sync := PBool True, rc_import_hooks := PBool True\<rparr>\<rparr>)))"
proof (rule load_configI [OF _ assms(3)])
  have "load_toml h' = config_data c"
    using assms(2) toml_roundtrip [OF good_config_data [OF assms(1)]]
    by (auto simp: save_config_def load_toml_def split: sum.splits)
  then show "apply_toml (load_toml h') (default_config env home) = Inr ((default_config env home)
      \<lparr>cf_cloud := (cf_cloud c)\<lparr>cc_max_retries := PInt 3\<rparr>,
       cf_cache := (cf_cache c)\<lparr>cc_metadata_ttl_hours := PInt 24, cc_auto_cleanup := PBool True\<rparr>,
       cf_runtime := (cf_runtime c)\<lparr>rc_auto_sync := PBool True, rc_import_hooks := PBool True\<rparr>\<rparr>)"
    by (simp only: apply_toml_saved default_fields)
qed


definition empty_home :: home_dir where
  "empty_home = \<lparr>hd_toml = None, hd_auth = None, hd_dirs = []\<rparr>"

lemma demo_saveable: "saveable (set_offline v (default_config [] ''/h''))" if "printable v" for v
  using that
  by (simp add: saveable_def config_data_def set_offline_def default_config_def post_init_def Let_def plain_def
      dget_or_def quote_def backslash_def control_def)


section \<open>A quote in a value\<close>

lemma split_on_first: "c \<notin> set a \<Longrightarrow> \<exists>b' bs. split_on c (a @ b) = (a @ b') # bs \<and> prefix b' b"
proof (induction a)
  case Nil
  show ?case
  proof (cases "split_on c b")
    case (Cons b' bs)
    moreover have "prefix b' b"
      using join_split [of c b] Cons by (cases bs) (auto simp: prefix_def)
    ultimately show ?thesis by simp
  qed simp
next
  case (Cons x a)
  then obtain b' bs where "split_on c (a @ b) = (a @ b') # bs" "prefix b' b" by auto
  with Cons.prems show ?case by auto
qed

lemma read_broken_line:
  assumes "plain p" and "\<not> blank x" and "x \<noteq> CHR ''#''"
  shows "read_line (''api_url'' @ '' = '' @ quote # p @ quote # x # y) = None"
proof -
  have "read_value (quote # p @ quote # x # y) = None"
    using assms read_basic_plain [OF assms(1)] by (simp add: read_value_def line_end_def)
  moreover have "bare ''api_url''" by (simp add: bare_def bare_char_def)
  ultimately show ?thesis using read_entry [of "''api_url''" "quote # p @ quote # x # y"] by simp
qed

lemma plain_no_lf: "plain p \<Longrightarrow> lf \<notin> set p"
  by (induction p) (auto simp: plain_def control_def lf_def)

lemma broken_config_unreadable:
  assumes "cc_api_url (cf_cloud c) = PStr (p @ quote # x # rest)" and "plain p"
    and "\<not> blank x" and "x \<noteq> CHR ''#''" and "x \<noteq> lf"
  shows "toml_loads (save_toml (config_data c)) = None"
proof -
  obtain more where lines: "toml_lines (config_data c) =
      ''[cloud]'' # (''api_url'' @ '' = '' @ quote # (p @ quote # x # rest) @ [quote]) # more"
    using assms(1) by (simp add: config_data_def)
  have "\<exists>tl. save_toml (config_data c) = ''[cloud]'' @ lf # (''api_url'' @ '' = '' @ quote # p @ quote # [x]) @ tl"
    unfolding save_toml_def lines by (cases more) auto
  then obtain tl where content:
    "save_toml (config_data c) = ''[cloud]'' @ lf # (''api_url'' @ '' = '' @ quote # p @ quote # [x]) @ tl" by blast
  have "lf \<notin> set (''api_url'' @ '' = '' @ quote # p @ quote # [x])"
  proof -
    have "lf \<notin> set ''api_url''" "lf \<notin> set '' = ''" by (simp_all add: lf_def)
    then show ?thesis using plain_no_lf [OF assms(2)] assms(5) by (simp add: lf_def [symmetric])
  qed
  from split_on_first [OF this, of tl] obtain b' bs where
    second: "split_on lf ((''api_url'' @ '' = '' @ quote # p @ quote # [x]) @ tl) =
      ((''api_url'' @ '' = '' @ quote # p @ quote # [x]) @ b') # bs" by (elim exE conjE)
  have "split_on lf (save_toml (config_data c)) = ''[cloud]'' # ((''api_url'' @ '' = '' @ quote # p @ quote # [x]) @ b') # bs"
    unfolding content by (subst split_on_append_sep) (simp_all only: second, simp add: lf_def)
  moreover have "read_line ''[cloud]'' = Some (Section ''cloud'')"
    using read_header [of "''cloud''"] by (simp add: bare_def bare_char_def)
  ultimately show ?thesis
    using read_broken_line [OF assms(2-4), of b'] by (simp add: toml_loads_def)
qed

text \<open>
  One double quote inside the address of the server destroys the whole configuration. The writer does
  not escape it, the file it writes cannot be read, and the reader hides that: after a restart every
  setting, not only the address, is silently back at its default.
\<close>

theorem unescaped_quote_resets_all:
  assumes "cc_api_url (cf_cloud c) = PStr (p @ quote # x # rest)" and "plain p"
    and "\<not> blank x" and "x \<noteq> CHR ''#''" and "x \<noteq> lf"
    and "save_config home c h = (Inr (), h')" and "overrides_absent env"
    and "fst (ensure_directories (default_config env home) (hd_dirs h')) = None"
  shows "\<exists>c'. fst (load_config env home h') = Inr c' \<and> cf_cloud c' = cf_cloud (default_config env home) \<and>
    cf_cache c' = cf_cache (default_config env home) \<and> cf_runtime c' = cf_runtime (default_config env home)"
proof -
  have "load_toml h' = []"
    using assms(6) broken_config_unreadable [OF assms(1-5)]
    by (auto simp: save_config_def load_toml_def split: sum.splits)
  then have "apply_toml (load_toml h') (default_config env home) = Inr (default_config env home)"
    by (simp add: apply_toml_def apply_section_def)
  from load_configI [OF this assms(8)] show ?thesis
    using assms(7) by (auto simp: overrides_absent_def apply_env_def apply_auth_def split: option.splits pyval.splits)
qed

theorem unescaped_quote_resets_all_witness:
  "\<exists>c'. fst (load_config [] ''/h'' (snd (save_config ''/h''
       (set_api_url (PStr (''http://a?b='' @ quote # ''c'' @ [quote])) (set_offline (PBool True) (default_config [] ''/h''))) empty_home))) = Inr c' \<and>
     rc_offline_mode (cf_runtime c') = PBool False"
proof -
  let ?c = "set_api_url (PStr (''http://a?b='' @ quote # ''c'' @ [quote])) (set_offline (PBool True) (default_config [] ''/h''))"
  have s: "save_config ''/h'' ?c empty_home = (Inr (), snd (save_config ''/h'' ?c empty_home))"
    by (rule pair_sndI) (simp add: save_config_def empty_home_def fs_mkdir_p_def fs_is_file_def)
  have "cc_api_url (cf_cloud ?c) = PStr (''http://a?b='' @ quote # CHR ''c'' # [quote])" by (simp add: set_api_url_def)
  moreover have "plain ''http://a?b=''" "\<not> blank (CHR ''c'')" "CHR ''c'' \<noteq> CHR ''#''" "CHR ''c'' \<noteq> lf"
    by (simp_all add: plain_def quote_def backslash_def control_def blank_def lf_def)
  moreover have "overrides_absent []" by (simp add: overrides_absent_def dget_or_def)
  moreover have "fst (ensure_directories (default_config [] ''/h'') (hd_dirs (snd (save_config ''/h'' ?c empty_home)))) = None"
    by code_simp
  ultimately have "\<exists>c'. fst (load_config [] ''/h'' (snd (save_config ''/h'' ?c empty_home))) = Inr c' \<and>
      cf_runtime c' = cf_runtime (default_config [] ''/h'')"
    using unescaped_quote_resets_all [OF _ _ _ _ _ s] by blast
  moreover have "rc_offline_mode (cf_runtime (default_config [] ''/h'')) = PBool False"
    by (simp add: default_config_def post_init_def Let_def)
  ultimately show ?thesis by auto
qed

section \<open>A variable that stays\<close>

lemma ensure_directories_default: "ensure_directories (default_config env home) = ensure_directories (default_config env' home)"
  by (simp add: ensure_directories_def default_config_def post_init_def Let_def del: make_dirs.simps)

definition plain_urls :: "environ \<Rightarrow> bool" where
  "plain_urls env \<longleftrightarrow> (\<forall>k \<in> {''CPIP_API_URL'', ''CPIP_WS_URL'', ''CPIP_CDN_URL''}. plain (dget_or env k []))"

lemma plain_default: "plain (dget_or env k []) \<Longrightarrow> plain d \<Longrightarrow> plain (dget_or env k d)"
  by (auto simp: dget_or_def split: option.splits)

lemma default_urls_plain: "plain ''http://localhost:8000''" "plain ''ws://localhost:8000/ws''" "plain ''http://localhost:8000/cdn''"
  by (simp_all add: plain_def quote_def backslash_def control_def)

lemma offline_default:
  assumes "dget_or env ''CPIP_OFFLINE'' [] \<noteq> []"
  shows "rc_offline_mode (cf_runtime (apply_env env c)) = PBool True"
  using assms by (simp add: apply_env_def set_offline_def Let_def)

lemma config_data_auth: "config_data (apply_auth h c) = config_data c"
  by (simp add: config_data_def apply_auth_def split: option.splits pyval.splits)

lemma apply_env_fields:
  "cf_cache (apply_env env c) = cf_cache c"
  "cf_cloud (apply_env env c) = (cf_cloud c)
     \<lparr>cc_api_url := if dget_or env ''CPIP_API_URL'' [] \<noteq> [] then PStr (dget_or env ''CPIP_API_URL'' []) else cc_api_url (cf_cloud c),
      cc_ws_url := if dget_or env ''CPIP_WS_URL'' [] \<noteq> [] then PStr (dget_or env ''CPIP_WS_URL'' []) else cc_ws_url (cf_cloud c)\<rparr>"
  "cf_runtime (apply_env env c) = (cf_runtime c)
     \<lparr>rc_offline_mode := if dget_or env ''CPIP_OFFLINE'' [] \<noteq> [] then PBool True else rc_offline_mode (cf_runtime c)\<rparr>"
  by (simp_all add: apply_env_def set_offline_def set_api_url_def Let_def)

lemma saveable_env_default:
  assumes "plain_urls env"
  shows "saveable (apply_auth h (apply_env env (default_config env home)))"
proof -
  have fields: "cf_cloud (default_config env home) =
      \<lparr>cc_api_url = PStr (DEFAULT_API_URL env),
       cc_ws_url = PStr (DEFAULT_WS_URL env),
       cc_cdn_url = PStr (DEFAULT_CDN_URL env),
       cc_timeout = PInt 30, cc_max_retries = PInt 3\<rparr>"
    "cf_cache (default_config env home) = \<lparr>cc_max_size_mb = PInt 2048, cc_wheel_ttl_days = PInt 30,
       cc_metadata_ttl_hours = PInt 24, cc_auto_cleanup = PBool True\<rparr>"
    "cf_runtime (default_config env home) = \<lparr>rc_prefer_local = PBool True, rc_gpu_offload = PBool True,
       rc_lazy_loading = PBool True, rc_cloud_exec = PBool True, rc_auto_sync = PBool True,
       rc_import_hooks = PBool True, rc_offline_mode = PBool False\<rparr>"
    by (simp_all add: default_config_def post_init_def Let_def)
  have plain: "plain (dget_or env ''CPIP_API_URL'' [])" "plain (dget_or env ''CPIP_WS_URL'' [])"
    "plain (dget_or env ''CPIP_CDN_URL'' [])"
    using assms by (simp_all add: plain_urls_def)
  note urls = plain_default [OF plain(1) default_urls_plain(1)] plain_default [OF plain(2) default_urls_plain(2)]
    plain_default [OF plain(3) default_urls_plain(3)]
  show ?thesis
    unfolding saveable_def config_data_auth
    by (simp add: config_data_def apply_env_fields fields plain urls)
qed

text \<open>
  An environment variable meant for one command becomes permanent. The load applies the variables
  before the save writes all settings, so \<^verbatim>\<open>cpip config --init\<close> run once with any
  \<^verbatim>\<open>CPIP_OFFLINE\<close>, be it \<^verbatim>\<open>0\<close>, writes a file with which every later command is offline
  although the variable is gone.
\<close>

theorem offline_variable_persists:
  assumes "hd_toml h = None" and "plain_urls env" and "dget_or env ''CPIP_OFFLINE'' [] \<noteq> []"
    and "config_command env home True None None h = (Inr (), h')"
    and "overrides_absent env'" and "fst (ensure_directories (default_config env' home) (hd_dirs h')) = None"
  shows "\<exists>c'. fst (load_config env' home h') = Inr c' \<and> rc_offline_mode (cf_runtime c') = PBool True"
proof -
  obtain c h1 where load: "load_config env home h = (Inr c, h1)" and save: "save_config home c h1 = (Inr (), h')"
    using assms(4) by (auto simp: config_command_def split: prod.splits sum.splits)
  have "apply_toml (load_toml h) (default_config env home) = Inr (default_config env home)"
    using assms(1) by (simp add: load_toml_def apply_toml_def apply_section_def)
  with load have c: "c = apply_auth h (apply_env env (default_config env home))"
    by (auto simp: load_config_def Let_def split: prod.splits option.splits)
  then have "rc_offline_mode (cf_runtime c) = PBool True"
    using offline_default [OF assms(3)] by (auto simp: apply_auth_def split: option.splits pyval.splits)
  moreover have "apply_env env' c0 = c0" for c0 using assms(5) by (simp add: overrides_absent_def apply_env_def)
  moreover have "saveable c" using saveable_env_default [OF assms(2)] c by simp
  ultimately show ?thesis
    using load_saved [OF _ save assms(6)] by (auto simp: apply_auth_def split: option.splits pyval.splits)
qed

theorem offline_variable_persists_witness:
  "\<exists>c'. fst (load_config [] ''/h'' (snd (config_command [(''CPIP_OFFLINE'', ''0'')] ''/h'' True None None empty_home))) = Inr c' \<and>
     rc_offline_mode (cf_runtime c') = PBool True"
proof -
  let ?env = "[(''CPIP_OFFLINE'', ''0'')]"
  have "fst (config_command ?env ''/h'' True None None empty_home) = Inr ()" by code_simp
  then have run: "config_command ?env ''/h'' True None None empty_home =
      (Inr (), snd (config_command ?env ''/h'' True None None empty_home))" by (rule pair_sndI)
  have "fst (ensure_directories (default_config [] ''/h'') (hd_dirs (snd (config_command ?env ''/h'' True None None empty_home)))) = None"
    by code_simp
  moreover have "hd_toml empty_home = None" "plain_urls ?env" "dget_or ?env ''CPIP_OFFLINE'' [] \<noteq> []" "overrides_absent []"
    by (simp_all add: empty_home_def plain_urls_def plain_def dget_or_def overrides_absent_def)
  ultimately show ?thesis using offline_variable_persists [OF _ _ _ run] by blast
qed

end
