(* ===== verification/Daemon.thy ===== *)
theory Daemon
  imports Rpc Cache
begin

text \<open>
  The background daemon, \<^verbatim>\<open>client/daemon.py\<close>, and the sync of package metadata,
  \<^verbatim>\<open>client/sync.py\<close>: the reconnecting loop, the messages of the server, the calls the daemon
  makes, and the catalog written to the metadata cache.

  Parameters: the answers of the HTTP requests, \<open>str_of\<close> for the text of a value that is no string,
  and the attempts to connect, each with the messages that arrive and how the connection ends. Signal
  handlers and the process itself are left out.
\<close>

section \<open>Sync\<close>

record sync_manager =
  sm_running :: bool
  sm_last_sync :: pyfloat
  sm_saved :: "pydict option"

definition new_sync :: sync_manager where
  "new_sync = \<lparr>sm_running = False, sm_last_sync = 0, sm_saved = None\<rparr>"

text \<open>
  The registration raises or not (its status is not looked at); the catalog request raises, or has a
  status and a body that is JSON or not.
\<close>

record sync_answers =
  sa_register :: "py_error option"
  sa_catalog :: "py_error + int \<times> pyval option"

text \<open>The packages are stored one after the other; the first that cannot be ends the loop.\<close>

fun store_packages ::
    "(pyval \<Rightarrow> string) \<Rightarrow> pyfloat \<Rightarrow> pyval list \<Rightarrow> nat \<Rightarrow> cache \<Rightarrow> py_error option \<times> nat \<times> cache" where
  "store_packages str_of now [] n c = (None, n, c)"
| "store_packages str_of now (PDict pkg # ps) n c =
     (case dget pkg ''name'' of
        None \<Rightarrow> (Some KeyError, n, c)
      | Some name \<Rightarrow>
          (case store_metadata (fmt str_of name) pkg now c of
             (Inl e, c) \<Rightarrow> (Some e, n, c)
           | (Inr _, c) \<Rightarrow> store_packages str_of now ps (Suc n) c))"
| "store_packages str_of now (_ # ps) n c = (Some TypeError, n, c)"

definition sync_catalog ::
    "(pyval \<Rightarrow> string) \<Rightarrow> pyfloat \<Rightarrow> sync_answers \<Rightarrow> cache \<Rightarrow> py_error option \<times> nat \<times> cache" where
  "sync_catalog str_of now A c =
     (case sa_register A of
        Some e \<Rightarrow> (Some e, 0, c)
      | None \<Rightarrow>
          (case sa_catalog A of
             Inl e \<Rightarrow> (Some e, 0, c)
           | Inr (code, body) \<Rightarrow>
               if code \<noteq> 200 then (None, 0, c)
               else (case body of
                       None \<Rightarrow> (Some (ValueError ''JSONDecodeError''), 0, c)
                     | Some (PDict catalog) \<Rightarrow>
                         (case items_of (dget_or catalog ''packages'' (PList [])) of
                            Inl e \<Rightarrow> (Some e, 0, c)
                          | Inr ps \<Rightarrow> store_packages str_of now ps 0 c)
                     | Some _ \<Rightarrow> (Some (AttributeError ''get''), 0, c))))"

text \<open>\<open>home_ok\<close>: the state file can be written. The time of the sync is set whatever happened.\<close>

definition do_sync ::
    "(pyval \<Rightarrow> string) \<Rightarrow> pyfloat \<Rightarrow> bool \<Rightarrow> sync_answers \<Rightarrow> sync_manager \<Rightarrow> cache
     \<Rightarrow> (py_error + pydict) \<times> sync_manager \<times> cache" where
  "do_sync str_of now home_ok A sm c =
     (let (err, n, c) = sync_catalog str_of now A c;
          res = [(''metadata_updated'', PInt (int n)),
                 (''errors'', PList (case err of None \<Rightarrow> [] | Some e \<Rightarrow> [PStr (error_text e)])),
                 (''timestamp'', PFloat now)];
          sm = sm\<lparr>sm_last_sync := now\<rparr>
      in if home_ok then (Inr res, sm\<lparr>sm_saved := Some res\<rparr>, c) else (Inl FileNotFoundError, sm, c))"

text \<open>A round of the loop, at a time: it synchronises when the interval has passed, and errors are lost.\<close>

definition sync_round ::
    "(pyval \<Rightarrow> string) \<Rightarrow> pyfloat \<Rightarrow> bool \<Rightarrow> sync_answers \<Rightarrow> sync_manager \<times> cache \<Rightarrow> bool \<times> sync_manager \<times> cache" where
  "sync_round str_of now home_ok A s =
     (if now - sm_last_sync (fst s) \<ge> 3600
      then (True, snd (do_sync str_of now home_ok A (fst s) (snd s)))
      else (False, s))"

definition sync_start :: "sync_manager \<Rightarrow> sync_manager" where
  "sync_start sm = sm\<lparr>sm_running := True\<rparr>"

definition sync_stop :: "sync_manager \<Rightarrow> sync_manager" where
  "sync_stop sm = sm\<lparr>sm_running := False\<rparr>"

section \<open>The daemon\<close>

text \<open>
  \<open>dm_ws\<close> is the socket of the last connection and whether it is still open; the code keeps it after
  the connection is lost. \<open>dm_pending\<close> are the ids of the calls waiting, \<open>dm_outcomes\<close> what their
  futures were set to, \<open>dm_cancelled\<close> the futures that timed out.
\<close>

record daemon =
  dm_cache :: cache
  dm_sync :: sync_manager
  dm_ws :: "bool option"
  dm_running :: bool
  dm_delay :: int
  dm_pending :: "string list"
  dm_outcomes :: "(string, py_error + pyval) dict"
  dm_cancelled :: "string list"
  dm_sent :: "rpc_message list"
  dm_pid_file :: "string option"

definition new_daemon :: "cache \<Rightarrow> daemon" where
  "new_daemon c = \<lparr>dm_cache = c, dm_sync = new_sync, dm_ws = None, dm_running = False, dm_delay = WS_RECONNECT_BASE_DELAY,
     dm_pending = [], dm_outcomes = [], dm_cancelled = [], dm_sent = [], dm_pid_file = None\<rparr>"

record daemon_env =
  de_uuid :: string
  de_now :: pyfloat
  de_str :: "pyval \<Rightarrow> string"
  de_home_ok :: bool
  de_answers :: sync_answers

text \<open>Sending on a lost connection raises.\<close>

definition send :: "rpc_message \<Rightarrow> daemon \<Rightarrow> (py_error + unit) \<times> daemon" where
  "send m d =
     (if dm_ws d = Some True then (Inr (), d\<lparr>dm_sent := dm_sent d @ [m]\<rparr>)
      else (Inl (ConnectionError ''ConnectionClosed''), d))"

definition settle_future :: "string \<Rightarrow> py_error + pyval \<Rightarrow> daemon \<Rightarrow> daemon" where
  "settle_future i out d =
     (if dget (dm_outcomes d) i = None \<and> i \<notin> set (dm_cancelled d)
      then d\<lparr>dm_outcomes := dset i out (dm_outcomes d)\<rparr> else d)"

text \<open>The file \<^verbatim>\<open>{package}.json\<close> of the metadata directory, \<open>..\<close> resolved as the system does.\<close>

definition invalidated_file :: "(pyval \<Rightarrow> string) \<Rightarrow> pyval \<Rightarrow> cache \<Rightarrow> path" where
  "invalidated_file str_of package c = norm_parts [] (meta_file c (fmt str_of package))"

definition handle_cache_invalidate ::
    "(pyval \<Rightarrow> string) \<Rightarrow> pyval \<Rightarrow> cache \<Rightarrow> (py_error + pydict) \<times> cache" where
  "handle_cache_invalidate str_of params c =
     (case params of
        PDict p \<Rightarrow>
          (let package = dget_or p ''package'' (PStr []); f = invalidated_file str_of package c
           in if \<not> truthy package then (Inr [(''status'', PStr ''ok'')], c)
              else if fs_is_dir (disk c) f then (Inl IsADirectoryError, c)
              else (Inr [(''status'', PStr ''ok'')], c\<lparr>metas := ddel f (metas c), disk := ddel f (disk c)\<rparr>))
      | _ \<Rightarrow> (Inl (AttributeError ''get''), c))"

definition handle_status :: "daemon \<Rightarrow> pydict" where
  "handle_status d =
     [(''status'', PStr ''running''), (''cache_size_mb'', PFloat (total_size_mb (stats (dm_cache d)))),
      (''sync_running'', PBool (sm_running (dm_sync d)))]"

definition daemon_dispatch :: "daemon_env \<Rightarrow> pyval \<Rightarrow> pyval \<Rightarrow> daemon \<Rightarrow> (py_error + pydict) \<times> daemon" where
  "daemon_dispatch E meth params d =
     (case meth of
        PList _ \<Rightarrow> (Inl TypeError, d)
      | PDict _ \<Rightarrow> (Inl TypeError, d)
      | _ \<Rightarrow>
          if meth = PStr ''cache.invalidate''
          then (let (r, c) = handle_cache_invalidate (de_str E) params (dm_cache d) in (r, d\<lparr>dm_cache := c\<rparr>))
          else if meth = PStr ''sync.trigger''
          then (let (r, sm, c) = do_sync (de_str E) (de_now E) (de_home_ok E) (de_answers E) (dm_sync d) (dm_cache d)
                in (case r of
                      Inl e \<Rightarrow> Inl e
                    | Inr res \<Rightarrow> Inr [(''status'', PStr ''ok''), (''updated'', dget_or res ''metadata_updated'' (PInt 0))],
                    d\<lparr>dm_sync := sm, dm_cache := c\<rparr>))
          else if meth = PStr ''status'' then (Inr (handle_status d), d)
          else (Inr [(''error'', PStr (''Unknown method: '' @ fmt (de_str E) meth))], d))"

text \<open>A reply takes its call out of the pending ones before the reply is looked at.\<close>

definition handle_message :: "daemon_env \<Rightarrow> rpc_message \<Rightarrow> daemon \<Rightarrow> (py_error + unit) \<times> daemon" where
  "handle_message E m d =
     (if m_type m = HEARTBEAT
      then (if dm_ws d = None then (Inr (), d) else send (make_heartbeat_ack (de_uuid E) (de_now E) (m_id m)) d)
      else if m_type m = RESULT \<or> m_type m = ERROR
      then (case m_id m of
              PStr i \<Rightarrow>
                if i \<notin> set (dm_pending d) then (Inr (), d)
                else (let d' = d\<lparr>dm_pending := removeAll i (dm_pending d)\<rparr>
                      in if m_type m = RESULT then (Inr (), settle_future i (Inr (m_result m)) d')
                         else if dget (dm_outcomes d) i \<noteq> None \<or> i \<in> set (dm_cancelled d) then (Inr (), d')
                         else if \<not> truthy (m_error m)
                         then (Inr (), settle_future i (Inl (OtherError ''Unknown'')) d')
                         else (case m_error m of
                                 PDict e \<Rightarrow>
                                   (Inr (), settle_future i
                                      (Inl (OtherError (fmt (de_str E) (dget_or e ''message'' (PStr ''Unknown error''))))) d')
                               | _ \<Rightarrow> (Inl (AttributeError ''get''), d')))
            | _ \<Rightarrow> (Inr (), d))
      else if m_type m = CALL
      then (case daemon_dispatch E (py_or (m_method m) (PStr [])) (m_params m) d of
              (Inl e, d) \<Rightarrow> (Inl e, d)
            | (Inr res, d) \<Rightarrow>
                if dm_ws d = None then (Inr (), d)
                else send (make_result (de_uuid E) (de_now E) (m_id m) (PDict res)) d)
      else (Inr (), d))"

definition rpc_call ::
    "daemon_env \<Rightarrow> string \<Rightarrow> pydict option \<Rightarrow> daemon \<Rightarrow> (py_error + string) \<times> daemon" where
  "rpc_call E meth params d =
     (if dm_ws d = None then (Inl (ConnectionError ''Not connected to cloud''), d)
      else (let m = make_call (de_uuid E) (de_now E) meth params [];
                d = d\<lparr>dm_pending := de_uuid E # removeAll (de_uuid E) (dm_pending d)\<rparr>
            in case send m d of (Inl e, d) \<Rightarrow> (Inl e, d) | (Inr _, d) \<Rightarrow> (Inr (de_uuid E), d)))"

definition rpc_timeout :: "string \<Rightarrow> daemon \<Rightarrow> daemon" where
  "rpc_timeout i d =
     (if dget (dm_outcomes d) i = None then d\<lparr>dm_cancelled := i # dm_cancelled d\<rparr> else d)"

section \<open>The reconnecting loop\<close>

text \<open>
  An attempt: the connection is refused, it breaks while the session is announced, or it is served with
  messages (their JSON values) until it ends, by an error or by a normal close.
\<close>

datatype attempt = Refused | Broken | Served "(daemon_env \<times> pyval option) list" bool

definition receive_one :: "daemon \<Rightarrow> daemon_env \<times> pyval option \<Rightarrow> daemon" where
  "receive_one d m =
     (case from_json (de_uuid (fst m)) (de_now (fst m)) (snd m) of
        Inl e \<Rightarrow> d
      | Inr msg \<Rightarrow> snd (handle_message (fst m) msg d))"

text \<open>A round of the loop: the seconds it sleeps, None when it tries again at once.\<close>

definition connection_round :: "daemon_env \<Rightarrow> pydict \<Rightarrow> attempt \<Rightarrow> daemon \<Rightarrow> int option \<times> daemon" where
  "connection_round E info a d =
     (let wait = (\<lambda>d. (Some (dm_delay d), d\<lparr>dm_delay := min (dm_delay d * 2) WS_RECONNECT_MAX_DELAY\<rparr>));
          opened = d\<lparr>dm_ws := Some True, dm_delay := WS_RECONNECT_BASE_DELAY\<rparr>
      in case a of
           Refused \<Rightarrow> wait d
         | Broken \<Rightarrow> wait (opened\<lparr>dm_ws := Some False\<rparr>)
         | Served ms err \<Rightarrow>
             (let d' = (foldl receive_one (snd (send (make_session_init (de_uuid E) (de_now E) info) opened)) ms)
                       \<lparr>dm_ws := Some False\<rparr>
              in if err then wait d' else (None, d')))"

fun connection_loop ::
    "daemon_env \<Rightarrow> pydict \<Rightarrow> attempt list \<Rightarrow> daemon \<Rightarrow> int option list \<times> daemon" where
  "connection_loop E info [] d = ([], d)"
| "connection_loop E info (a # as) d =
     (if \<not> dm_running d then ([], d)
      else (let (s, d) = connection_round E info a d; (ss, d) = connection_loop E info as d in (s # ss, d)))"

section \<open>Life cycle\<close>

definition daemon_start :: "string \<Rightarrow> daemon \<Rightarrow> daemon" where
  "daemon_start pid d = d\<lparr>dm_running := True, dm_pid_file := Some pid, dm_sync := sync_start (dm_sync d)\<rparr>"

definition daemon_stop :: "daemon \<Rightarrow> daemon" where
  "daemon_stop d =
     d\<lparr>dm_running := False, dm_sync := sync_stop (dm_sync d),
       dm_ws := (case dm_ws d of None \<Rightarrow> None | Some _ \<Rightarrow> Some False), dm_pid_file := None\<rparr>"

text \<open>
  \<^verbatim>\<open>CpipDaemon.is_running\<close> on the text of the pid file: \<open>alive\<close> says whether a signal can be sent to
  a process; a file that names none is removed.
\<close>

definition daemon_is_running :: "(int \<Rightarrow> bool) \<Rightarrow> string option \<Rightarrow> bool \<times> string option" where
  "daemon_is_running alive pid_file =
     (case pid_file of
        None \<Rightarrow> (False, None)
      | Some t \<Rightarrow>
          (case py_int (strip t) of
             None \<Rightarrow> (False, None)
           | Some pid \<Rightarrow> if alive pid then (True, pid_file) else (False, None)))"

section \<open>Reconnecting\<close>

lemma settle_future_frame [simp]:
  "dm_running (settle_future i out d) = dm_running d" "dm_delay (settle_future i out d) = dm_delay d"
  by (simp_all add: settle_future_def)

lemma send_frame: "dm_running (snd (send m d)) = dm_running d \<and> dm_delay (snd (send m d)) = dm_delay d"
  by (simp add: send_def)

lemma send_frameE: "send m d = (r, d') \<Longrightarrow> dm_running d' = dm_running d \<and> dm_delay d' = dm_delay d"
  using send_frame [of m d] by simp

lemma dispatch_frame:
  "daemon_dispatch E meth params d = (r, d') \<Longrightarrow> dm_running d' = dm_running d \<and> dm_delay d' = dm_delay d"
  by (auto simp: daemon_dispatch_def Let_def split: pyval.splits if_splits prod.splits)

lemma handle_message_frame:
  "handle_message E m d = (r, d') \<Longrightarrow> dm_running d' = dm_running d \<and> dm_delay d' = dm_delay d"
  by (auto simp: handle_message_def Let_def dest!: send_frameE dispatch_frame
      split: if_splits pyval.splits prod.splits sum.splits)

lemma receive_one_frame: "dm_running (receive_one d m) = dm_running d \<and> dm_delay (receive_one d m) = dm_delay d"
  using handle_message_frame [OF surjective_pairing]
  by (auto simp: receive_one_def split: sum.splits)

lemma receive_all_frame:
  "dm_running (foldl receive_one d ms) = dm_running d \<and> dm_delay (foldl receive_one d ms) = dm_delay d"
  by (induction ms arbitrary: d) (simp_all add: receive_one_frame)

text \<open>
  How often the delay has doubled: every refused attempt doubles it once more, a connection sets it back,
  and one that ends in an error doubles it for the first time.
\<close>

fun doubled :: "nat \<Rightarrow> attempt \<Rightarrow> nat" where
  "doubled n Refused = Suc n"
| "doubled n Broken = 1"
| "doubled n (Served ms err) = (if err then 1 else 0)"

fun sleep_after :: "nat \<Rightarrow> attempt \<Rightarrow> int option" where
  "sleep_after n Refused = Some (min (2 ^ n) 60)"
| "sleep_after n Broken = Some 1"
| "sleep_after n (Served ms err) = (if err then Some 1 else None)"

lemma round_delay:
  assumes "dm_delay d = min (2 ^ n) 60" and "connection_round E info a d = (s, d')"
  shows "s = sleep_after n a \<and> dm_delay d' = min (2 ^ doubled n a) 60 \<and> dm_running d' = dm_running d"
  using assms send_frame receive_all_frame
  by (cases a) (auto simp: connection_round_def Let_def split: if_splits)

lemma loop_sleeps:
  assumes "dm_running d" and "dm_delay d = min (2 ^ n) 60"
  shows "fst (connection_loop E info as d) =
    map (\<lambda>i. sleep_after (foldl doubled n (take i as)) (as ! i)) [0..<length as]"
  using assms
proof (induction as arbitrary: d n)
  case (Cons a as)
  obtain s d1 where r: "connection_round E info a d = (s, d1)" by fastforce
  note one = round_delay [OF Cons.prems(2) r]
  have "fst (connection_loop E info as d1) =
      map (\<lambda>i. sleep_after (foldl doubled (doubled n a) (take i as)) (as ! i)) [0..<length as]"
    using one Cons.prems(1) by (intro Cons.IH) auto
  moreover have "map (\<lambda>i. sleep_after (foldl doubled n (take i (a # as))) ((a # as) ! i)) [0..<length (a # as)] =
      sleep_after n a # map (\<lambda>i. sleep_after (foldl doubled (doubled n a) (take i as)) (as ! i)) [0..<length as]"
    by (simp add: upt_conv_Cons map_Suc_upt [symmetric] del: upt_Suc)
  ultimately show ?case using r one Cons.prems(1) by (simp add: case_prod_unfold)
qed simp

text \<open>
  C26: The daemon's back-off. Whatever the server does, and whatever messages arrive in between, the daemon
  sleeps before the next attempt: one second after a connection that broke, not at all after one the
  server closed, and after a refused attempt twice as long as the last time, up to a minute. It never
  gives up.
\<close>

theorem reconnect_backoff:
  assumes "dm_running d" and "dm_delay d = 1"
  shows "fst (connection_loop E info as d) =
      map (\<lambda>i. sleep_after (foldl doubled 0 (take i as)) (as ! i)) [0..<length as] \<and>
    (\<forall>s \<in> set (fst (connection_loop E info as d)). s = None \<or> (\<exists>t. s = Some t \<and> 1 \<le> t \<and> t \<le> 60))"
proof -
  have sleeps: "fst (connection_loop E info as d) =
      map (\<lambda>i. sleep_after (foldl doubled 0 (take i as)) (as ! i)) [0..<length as]"
    using assms by (intro loop_sleeps) auto
  have "sleep_after n a = None \<or> (\<exists>t. sleep_after n a = Some t \<and> 1 \<le> t \<and> t \<le> 60)" for n a
    by (cases a) auto
  then show ?thesis unfolding sleeps by auto
qed

definition quiet_env :: daemon_env where
  "quiet_env = \<lparr>de_uuid = ''u1'', de_now = 5, de_str = (\<lambda>v. ''?''), de_home_ok = True,
     de_answers = \<lparr>sa_register = None, sa_catalog = Inr (503, None)\<rparr>\<rparr>"

definition synced_cache :: cache where
  "synced_cache = \<lparr>max_size_mb = 100, wheels_dir = [''h'', ''c'', ''wheels''], layers_dir = [''h'', ''c'', ''layers''],
     metadata_dir = [''h'', ''c'', ''metadata''], index = [], saved_index = NoIndex, disk_ok = True,
     disk = [([], Dir), ([''h''], Dir), ([''h'', ''auth.json''], File [1]), ([''h'', ''c''], Dir),
       ([''h'', ''c'', ''metadata''], Dir)],
     metas = []\<rparr>"

theorem reconnect_backoff_witness:
  "fst (connection_loop quiet_env [] (replicate 7 Refused @ [Served [] True, Refused, Served [] False, Refused])
     (daemon_start ''42'' (new_daemon synced_cache))) =
   [Some 1, Some 2, Some 4, Some 8, Some 16, Some 32, Some 60, Some 1, Some 2, None, Some 1]"
proof -
  have "dm_running (daemon_start ''42'' (new_daemon synced_cache))" "dm_delay (daemon_start ''42'' (new_daemon synced_cache)) = 1"
    by (simp_all add: daemon_start_def new_daemon_def)
  from reconnect_backoff [OF this, of quiet_env "[]" "replicate 7 Refused @ [Served [] True, Refused, Served [] False, Refused]"]
  show ?thesis by (simp add: numeral_eq_Suc upt_conv_Cons)
qed

section \<open>What a sync stores\<close>

definition pkg_name :: "pydict \<Rightarrow> string" where
  "pkg_name p = (case dget p ''name'' of Some (PStr s) \<Rightarrow> s | _ \<Rightarrow> [])"

definition syncable :: "pydict \<Rightarrow> bool" where
  "syncable p \<longleftrightarrow> (\<exists>s. dget p ''name'' = Some (PStr s) \<and> is_component s)"

lemma meta_file_component: "is_component s \<Longrightarrow> meta_file c s = metadata_dir c @ [s @ ''.json'']"
  by (cases s) (simp_all add: meta_file_def path_div_component is_component_def)

lemma store_metadata_dir:
  assumes "fs_is_dir (disk c) (metadata_dir c)" and "is_component s"
  shows "store_metadata s p now c =
    (Inr (), c\<lparr>metas := dset (metadata_dir c @ [s @ ''.json'']) (Some (PDict (dset ''_cached_at'' (PFloat now) p))) (metas c)\<rparr>)"
  using assms by (simp add: store_metadata_def meta_file_component)

lemma store_packages_good:
  assumes "fs_is_dir (disk c) (metadata_dir c)" and "\<forall>p \<in> set ps. syncable p"
  shows "\<exists>c'. store_packages str_of now (map PDict ps @ rest) n c = store_packages str_of now rest (n + length ps) c' \<and>
    disk c' = disk c \<and> index c' = index c \<and> metadata_dir c' = metadata_dir c \<and>
    (\<forall>f. dget (metas c') f =
      (case find (\<lambda>p. f = metadata_dir c @ [pkg_name p @ ''.json'']) (rev ps) of
         Some p \<Rightarrow> Some (Some (PDict (dset ''_cached_at'' (PFloat now) p)))
       | None \<Rightarrow> dget (metas c) f))"
  using assms
proof (induction ps arbitrary: c n)
  case (Cons p ps)
  from Cons.prems(2) obtain s where s: "dget p ''name'' = Some (PStr s)" "is_component s" by (auto simp: syncable_def)
  let ?c = "c\<lparr>metas := dset (metadata_dir c @ [s @ ''.json'']) (Some (PDict (dset ''_cached_at'' (PFloat now) p))) (metas c)\<rparr>"
  have one: "store_packages str_of now (map PDict (p # ps) @ rest) n c = store_packages str_of now (map PDict ps @ rest) (Suc n) ?c"
    using s store_metadata_dir [OF Cons.prems(1) s(2)] by simp
  have find_app: "find P (xs @ [x]) = (case find P xs of None \<Rightarrow> if P x then Some x else None | r \<Rightarrow> r)" for P x and xs :: "pydict list"
    by (induction xs) auto
  have "fs_is_dir (disk ?c) (metadata_dir ?c)" "\<forall>p \<in> set ps. syncable p" using Cons.prems by simp_all
  from Cons.IH [OF this, of "Suc n"] obtain c' where
    "store_packages str_of now (map PDict ps @ rest) (Suc n) ?c = store_packages str_of now rest (Suc n + length ps) c'"
    "disk c' = disk c" "index c' = index c" "metadata_dir c' = metadata_dir c"
    "\<forall>f. dget (metas c') f =
      (case find (\<lambda>p. f = metadata_dir c @ [pkg_name p @ ''.json'']) (rev ps) of
         Some p \<Rightarrow> Some (Some (PDict (dset ''_cached_at'' (PFloat now) p)))
       | None \<Rightarrow> dget (metas ?c) f)"
    by auto
  with one s show ?case
    by (intro exI [of _ c']) (simp add: find_app pkg_name_def dict_laws split: option.splits)
next
  case Nil
  then show ?case by (intro exI [of _ c]) simp
qed

lemma find_package:
  assumes "p \<in> set ps" and "distinct (map pkg_name ps)"
  shows "find (\<lambda>q. dir @ [pkg_name p @ ext] = dir @ [pkg_name q @ ext]) (rev ps) = Some p"
proof -
  have "find (\<lambda>q. dir @ [pkg_name p @ ext] = dir @ [pkg_name q @ ext]) (rev ps) \<noteq> None"
    using assms(1) by (auto simp: find_None_iff)
  then obtain q where q: "find (\<lambda>q. dir @ [pkg_name p @ ext] = dir @ [pkg_name q @ ext]) (rev ps) = Some q"
    by blast
  then have "q \<in> set ps" "pkg_name q = pkg_name p" by (auto simp: find_Some_iff) (metis nth_mem length_rev set_rev)
  with assms have "q = p" by (auto simp: distinct_map inj_on_def)
  with q show ?thesis by simp
qed

text \<open>
  What a sync brings home. When the catalog arrives, every package of it up to the first that has no
  usable form is stored, and found by the metadata lookup for a day; all others keep what they had, the
  wheels and layers are untouched, and the report names the number stored and at most one error.
\<close>

theorem sync_stores_prefix:
  assumes "sa_register A = None" and "sa_catalog A = Inr (200, Some (PDict catalog))"
    and "dget catalog ''packages'' = Some (PList (map PDict ps @ rest))"
    and "\<forall>p \<in> set ps. syncable p" and "distinct (map pkg_name ps)"
    and "rest = [] \<or> (\<exists>bad more. rest = PDict bad # more \<and> dget bad ''name'' = None)"
    and "fs_is_dir (disk c) (metadata_dir c)"
  shows "\<exists>c'. do_sync str_of now True A sm c =
      (Inr [(''metadata_updated'', PInt (int (length ps))), (''errors'', PList (if rest = [] then [] else [PStr []])),
            (''timestamp'', PFloat now)],
       sm\<lparr>sm_last_sync := now,
          sm_saved := Some [(''metadata_updated'', PInt (int (length ps))),
            (''errors'', PList (if rest = [] then [] else [PStr []])), (''timestamp'', PFloat now)]\<rparr>, c') \<and>
    disk c' = disk c \<and> index c' = index c \<and>
    (\<forall>p \<in> set ps. \<forall>t \<le> now + 86400. get_metadata (pkg_name p) t c' = (Inr (Some (dset ''_cached_at'' (PFloat now) p)), c')) \<and>
    (\<forall>f. f \<notin> (\<lambda>p. metadata_dir c @ [pkg_name p @ ''.json'']) ` set ps \<longrightarrow> dget (metas c') f = dget (metas c) f)"
proof -
  from store_packages_good [OF assms(7,4), of str_of now rest 0] obtain c' where
    run: "store_packages str_of now (map PDict ps @ rest) 0 c = store_packages str_of now rest (length ps) c'"
    and keep: "disk c' = disk c" "index c' = index c" "metadata_dir c' = metadata_dir c"
    and metas: "\<And>f. dget (metas c') f =
      (case find (\<lambda>p. f = metadata_dir c @ [pkg_name p @ ''.json'']) (rev ps) of
         Some p \<Rightarrow> Some (Some (PDict (dset ''_cached_at'' (PFloat now) p)))
       | None \<Rightarrow> dget (metas c) f)"
    by (auto simp: fun_eq_iff)
  have "store_packages str_of now rest (length ps) c' = (if rest = [] then None else Some KeyError, length ps, c')"
    using assms(6) by auto
  with run have sync: "sync_catalog str_of now A c = (if rest = [] then None else Some KeyError, length ps, c')"
    using assms(1-3) by (simp add: sync_catalog_def dget_or_def)
  have found: "dget (metas c') (metadata_dir c @ [pkg_name p @ ''.json'']) = Some (Some (PDict (dset ''_cached_at'' (PFloat now) p)))"
    if "p \<in> set ps" for p
    using find_package [OF that assms(5), of "metadata_dir c" "''.json''"] by (simp add: metas)
  have "get_metadata (pkg_name p) t c' = (Inr (Some (dset ''_cached_at'' (PFloat now) p)), c')"
    if "p \<in> set ps" "t \<le> now + 86400" for p t
  proof -
    have "is_component (pkg_name p)" using assms(4) that(1) by (auto simp: syncable_def pkg_name_def)
    then show ?thesis
      using found [OF that(1)] that(2) by (simp add: get_metadata_def meta_file_component keep(3) Let_def)
  qed
  moreover have "dget (metas c') f = dget (metas c) f"
    if "f \<notin> (\<lambda>p. metadata_dir c @ [pkg_name p @ ''.json'']) ` set ps" for f
    using that find_None_iff [of "\<lambda>p. f = metadata_dir c @ [pkg_name p @ ''.json'']" "rev ps"]
    by (auto simp: metas split: option.split)
  ultimately show ?thesis
    by (intro exI [of _ c']) (simp add: do_sync_def sync Let_def keep)
qed

theorem sync_stores_prefix_witness:
  "\<exists>c' sm'. do_sync (\<lambda>v. []) 5 True
       \<lparr>sa_register = None, sa_catalog = Inr (200, Some (PDict [(''packages'', PList [PDict [(''name'', PStr ''six'')], PDict []])]))\<rparr>
       new_sync synced_cache =
     (Inr [(''metadata_updated'', PInt 1), (''errors'', PList [PStr []]), (''timestamp'', PFloat 5)], sm', c') \<and>
     get_metadata ''six'' 60 c' = (Inr (Some [(''name'', PStr ''six''), (''_cached_at'', PFloat 5)]), c')"
proof -
  let ?p = "[(''name'', PStr ''six'')]" and ?rest = "[PDict []]"
  let ?A = "\<lparr>sa_register = None, sa_catalog = Inr (200, Some (PDict [(''packages'', PList (map PDict [[(''name'', PStr ''six'')]] @ [PDict []]))]))\<rparr>"
  have 1: "sa_register ?A = None"
    "sa_catalog ?A = Inr (200, Some (PDict [(''packages'', PList (map PDict [?p] @ ?rest))]))"
    "dget [(''packages'', PList (map PDict [?p] @ ?rest))] ''packages'' = Some (PList (map PDict [?p] @ ?rest))"
    "\<forall>p \<in> set [?p]. syncable p" "distinct (map pkg_name [?p])"
    by (simp_all add: syncable_def is_component_def)
  have 2: "?rest = [] \<or> (\<exists>bad more. ?rest = PDict bad # more \<and> dget bad ''name'' = None)"
    "fs_is_dir (disk synced_cache) (metadata_dir synced_cache)"
    by (simp_all add: synced_cache_def fs_is_dir_def)
  from sync_stores_prefix [OF 1 2, of "\<lambda>v. []" 5 new_sync] show ?thesis
    by (auto simp: pkg_name_def)
qed

text \<open>
  The server can have the client delete files outside the metadata directory. A call
  \<^verbatim>\<open>cache.invalidate\<close> for an ordinary package name removes that package's metadata and nothing
  else; but a name that starts with \<^verbatim>\<open>../../\<close> removes a \<^verbatim>\<open>.json\<close> file of the client's home
  directory, such as the login.
\<close>

theorem invalidate_escapes:
  assumes "normal_path (metadata_dir c)" and "is_component s" and "s \<noteq> ''..''"
  shows "(\<not> fs_is_dir (disk c) (metadata_dir c @ [s @ ''.json'']) \<longrightarrow>
      handle_cache_invalidate str_of (PDict [(''package'', PStr s)]) c =
        (Inr [(''status'', PStr ''ok'')],
         c\<lparr>metas := ddel (metadata_dir c @ [s @ ''.json'']) (metas c), disk := ddel (metadata_dir c @ [s @ ''.json'']) (disk c)\<rparr>)) \<and>
    (\<not> fs_is_dir (disk c) (butlast (butlast (metadata_dir c)) @ [s @ ''.json'']) \<longrightarrow>
      fs_exists (disk (snd (handle_cache_invalidate str_of (PDict [(''package'', PStr (''../../'' @ s))]) c)))
        (butlast (butlast (metadata_dir c)) @ [s @ ''.json'']) = False)"
proof -
  have json: "is_component (s @ ''.json'')" "s @ ''.json'' \<noteq> ''..''"
    using assms(2) by (auto simp: is_component_def)
  have "norm_parts [] (metadata_dir c @ [s @ ''.json'']) = metadata_dir c @ [s @ ''.json'']"
    using assms(1) json norm_parts_normal [of "metadata_dir c @ [s @ ''.json'']" "[]"]
    by (auto simp: normal_path_def is_component_def)
  then have inside: "invalidated_file str_of (PStr s) c = metadata_dir c @ [s @ ''.json'']"
    by (simp add: invalidated_file_def meta_file_component assms(2))
  have "path_parts (''../../'' @ s @ ''.json'') = [''..'', ''..'', s @ ''.json'']"
    using json(1) split_on_append_sep [of "CHR ''/''" "''..''" "''../'' @ s @ ''.json''"]
      split_on_append_sep [of "CHR ''/''" "''..''" "s @ ''.json''"] split_on_no_sep [of "CHR ''/''" "s @ ''.json''"]
    by (simp add: path_parts_def is_component_def)
  then have "meta_file c (''../../'' @ s) = metadata_dir c @ [''..'', ''..'', s @ ''.json'']"
    by (simp add: meta_file_def path_div_def)
  then have outside: "invalidated_file str_of (PStr (''../../'' @ s)) c = butlast (butlast (metadata_dir c)) @ [s @ ''.json'']"
    using json assms(1) norm_parts_normal [of "metadata_dir c" "[]"]
    by (auto simp: invalidated_file_def norm_parts_append is_component_def)
  show ?thesis
    using assms(2) inside outside
    by (simp add: handle_cache_invalidate_def Let_def dget_or_def is_component_def fs_exists_def dict_laws)
qed

theorem invalidate_escapes_witness:
  "fs_exists (disk synced_cache) [''h'', ''auth.json''] \<and>
   \<not> fs_exists (disk (snd (handle_cache_invalidate (\<lambda>v. []) (PDict [(''package'', PStr (''../../'' @ ''auth''))]) synced_cache)))
       [''h'', ''auth.json'']"
proof -
  have "normal_path (metadata_dir synced_cache)" "is_component ''auth''" "''auth'' \<noteq> ''..''"
    by (simp_all add: synced_cache_def normal_path_def is_component_def)
  moreover have "\<not> fs_is_dir (disk synced_cache) (butlast (butlast (metadata_dir synced_cache)) @ [''auth'' @ ''.json''])"
    by (simp add: synced_cache_def fs_is_dir_def)
  moreover have "butlast (butlast (metadata_dir synced_cache)) @ [''auth'' @ ''.json''] = [''h'', ''auth.json'']"
    by (simp add: synced_cache_def)
  moreover have "fs_exists (disk synced_cache) [''h'', ''auth.json'']"
    by (simp add: synced_cache_def fs_exists_def)
  ultimately show ?thesis using invalidate_escapes [of synced_cache "''auth''" "\<lambda>v. []"] by metis
qed

section \<open>A reply that is lost\<close>

lemma settled_stays:
  "i \<notin> set (dm_pending d) \<Longrightarrow> dget (dm_outcomes d) i = None \<Longrightarrow> handle_message E m d = (r, d') \<Longrightarrow>
    i \<notin> set (dm_pending d') \<and> dget (dm_outcomes d') i = None"
  by (auto simp: handle_message_def send_def settle_future_def daemon_dispatch_def Let_def dict_laws
      split: if_splits pyval.splits prod.splits sum.splits)

lemma settled_stays_run:
  "i \<notin> set (dm_pending d) \<Longrightarrow> dget (dm_outcomes d) i = None \<Longrightarrow>
    dget (dm_outcomes (foldl (\<lambda>d (E, m). snd (handle_message E m d)) d ms)) i = None"
proof (induction ms arbitrary: d)
  case (Cons x ms)
  then show ?case using settled_stays [OF Cons.prems surjective_pairing] by (simp add: case_prod_unfold)
qed simp

text \<open>
  A call of the daemon whose error reply is malformed never returns by itself. An error that is a
  non-empty text instead of an object takes the call out of the table of pending calls before it is looked
  at and then fails, silently; whatever arrives later, the future stays unset until its timeout.
\<close>

theorem malformed_error_loses_call:
  assumes "m_type m = ERROR" and "m_id m = PStr i" and "m_error m = PStr e" and "e \<noteq> []"
    and "dget (dm_outcomes d) i = None" and "i \<notin> set (dm_cancelled d)"
  shows "dget (dm_outcomes (foldl (\<lambda>d (E, m). snd (handle_message E m d)) (snd (handle_message E m d)) ms)) i = None"
proof -
  have "i \<notin> set (dm_pending (snd (handle_message E m d))) \<and> dget (dm_outcomes (snd (handle_message E m d))) i = None"
    using assms by (simp add: handle_message_def Let_def)
  then show ?thesis using settled_stays_run by blast
qed

theorem malformed_error_loses_call_witness:
  "dget (dm_outcomes (foldl (\<lambda>d (E, m). snd (handle_message E m d))
      (snd (handle_message quiet_env (make_result ''x'' 1 (PStr ''u1'') PNone\<lparr>m_type := ERROR, m_error := PStr ''busy''\<rparr>)
        (snd (rpc_call quiet_env ''ping'' None (new_daemon synced_cache\<lparr>dm_ws := Some True\<rparr>)))))
      [(quiet_env, make_result ''y'' 2 (PStr ''u1'') (PInt 1))])) ''u1'' = None"
  by (rule malformed_error_loses_call [where e = "''busy''"])
    (simp_all add: make_result_def py_or_def rpc_call_def send_def new_daemon_def quiet_env_def Let_def)

section \<open>How often it syncs\<close>

text \<open>The loop at the times and with the answers of the list: the times at which it synchronised.\<close>

fun sync_rounds ::
    "(pyval \<Rightarrow> string) \<Rightarrow> (pyfloat \<times> bool \<times> sync_answers) list \<Rightarrow> sync_manager \<times> cache \<Rightarrow> pyfloat list" where
  "sync_rounds str_of [] s = []"
| "sync_rounds str_of ((now, home_ok, A) # rs) s =
     (let (synced, s') = sync_round str_of now home_ok A s
      in (if synced then [now] else []) @ sync_rounds str_of rs s')"

lemma sync_round_time:
  "sync_round str_of now home_ok A s = (synced, s') \<Longrightarrow>
    synced = (now - sm_last_sync (fst s) \<ge> 3600) \<and> sm_last_sync (fst s') = (if synced then now else sm_last_sync (fst s))"
  by (auto simp: sync_round_def do_sync_def Let_def split: prod.splits if_splits)

lemma sync_rounds_spaced:
  assumes "sorted (map fst rs)"
  shows "(\<forall>t \<in> set (sync_rounds str_of rs s). t - sm_last_sync (fst s) \<ge> 3600 \<and> t \<in> fst ` set rs) \<and>
    sorted_wrt (\<lambda>t u. u - t \<ge> 3600) (sync_rounds str_of rs s) \<and>
    (\<forall>t \<in> fst ` set rs. t - sm_last_sync (fst s) \<ge> 3600 \<longrightarrow>
       (\<exists>u \<in> set (sync_rounds str_of rs s). u \<le> t \<and> t - u < 3600))"
  using assms
proof (induction str_of rs s rule: sync_rounds.induct)
  case (2 str_of now home_ok A rs s)
  obtain synced s' where r: "sync_round str_of now home_ok A s = (synced, s')" by (rule prod.exhaust)
  note time = sync_round_time [OF r]
  from 2 r have IH: "\<forall>t \<in> set (sync_rounds str_of rs s'). t - sm_last_sync (fst s') \<ge> 3600 \<and> t \<in> fst ` set rs"
    "sorted_wrt (\<lambda>t u. u - t \<ge> 3600) (sync_rounds str_of rs s')"
    "\<forall>t \<in> fst ` set rs. t - sm_last_sync (fst s') \<ge> 3600 \<longrightarrow>
       (\<exists>u \<in> set (sync_rounds str_of rs s'). u \<le> t \<and> t - u < 3600)"
    by simp_all
  have later: "\<forall>t \<in> fst ` set rs. now \<le> t" using 2(2) by auto
  show ?case
  proof (cases synced)
    case True
    have "\<exists>u \<in> set (now # sync_rounds str_of rs s'). u \<le> t \<and> t - u < 3600" if "t \<in> fst ` set ((now, home_ok, A) # rs)" for t
    proof (cases "t - now \<ge> 3600")
      case False
      with that later show ?thesis by (intro bexI [of _ now]) auto
    next
      case far: True
      with that have "t \<in> fst ` set rs" by auto
      with far IH(3) time True show ?thesis by auto
    qed
    moreover have "t - sm_last_sync (fst s) \<ge> 3600" if "t \<in> set (sync_rounds str_of rs s')" for t
      using that IH(1) time True by fastforce
    ultimately show ?thesis using IH(1,2) r time True by auto
  next
    case False
    with IH r time show ?thesis by auto
  qed
qed simp

text \<open>
  Two syncs of the background loop are at least an hour apart, and the metadata is never older for want
  of trying: at any round that comes an hour or more after the last sync there has been one less than an
  hour ago, that round included. A sync that failed counts, so it is not repeated within the hour.
\<close>

theorem syncs_hourly:
  assumes "sorted (map fst rs)"
  shows "sorted_wrt (\<lambda>t u. u - t \<ge> 3600) (sync_rounds str_of rs (sm, c)) \<and>
    (\<forall>t \<in> fst ` set rs. t - sm_last_sync sm \<ge> 3600 \<longrightarrow>
       (\<exists>u \<in> set (sync_rounds str_of rs (sm, c)). u \<le> t \<and> t - u < 3600))"
  using sync_rounds_spaced [OF assms, of str_of "(sm, c)"] by simp

theorem syncs_hourly_witness:
  "\<exists>u \<in> set (sync_rounds (\<lambda>v. []) [(4000, True, de_answers quiet_env), (4060, True, de_answers quiet_env)] (new_sync, synced_cache)).
     u \<le> 4060 \<and> 4060 - u < 3600"
  using syncs_hourly [of "[(4000, True, de_answers quiet_env), (4060, True, de_answers quiet_env)]" "\<lambda>v. []" new_sync synced_cache]
  by (auto simp: new_sync_def)

end
