(* ===== verification/ImportHooks.thy ===== *)
theory ImportHooks
  imports Installer
begin

text \<open>
  The import hooks and proxies, \<^verbatim>\<open>runtime/hooks.py\<close> and \<^verbatim>\<open>runtime/proxy.py\<close>, and the lazy
  modules of \<^verbatim>\<open>virtualization/loader.py\<close>, within the import machinery of Python as far as they
  use it.

  The interpreter has the finders of \<^verbatim>\<open>sys.meta_path\<close>, the modules of \<^verbatim>\<open>sys.modules\<close> and the
  attributes an import sets on a parent module. What Python's own finders find is the parameter
  \<open>installed\<close>; a module they load is opaque. A proxy numbers its session when it makes one. The
  configuration passed through is left out.
\<close>

section \<open>Finders and modules\<close>

datatype finder = CpipFinder | OtherFinder string

text \<open>A proxy: whether it was executed, its session, and the submodules the imports have set on it.\<close>

record proxy_module =
  px_initialized :: bool
  px_session :: "nat option"
  px_attrs :: "(string, string) dict"

datatype pymodule = PlainModule | ProxyModule proxy_module

record interpreter =
  cloud_table :: "(string, cloud_package) dict"
  hooks_active :: bool
  meta_path :: "finder list"
  sys_modules :: "(string, pymodule) dict"
  next_session :: nat

definition new_interpreter :: "finder list \<Rightarrow> interpreter" where
  "new_interpreter fs =
     \<lparr>cloud_table = [], hooks_active = False, meta_path = fs, sys_modules = [], next_session = 0\<rparr>"

definition hook_register :: "string \<Rightarrow> bool \<Rightarrow> interpreter \<Rightarrow> interpreter" where
  "hook_register package hyb I =
     I\<lparr>cloud_table := dset package \<lparr>cp_hybrid = hyb, cp_loaded = False\<rparr> (cloud_table I)\<rparr>"

definition activate_hooks :: "interpreter \<Rightarrow> interpreter" where
  "activate_hooks I =
     (if hooks_active I then I else I\<lparr>meta_path := CpipFinder # meta_path I, hooks_active := True\<rparr>)"

definition deactivate_hooks :: "interpreter \<Rightarrow> interpreter" where
  "deactivate_hooks I = I\<lparr>meta_path := filter (\<lambda>f. f \<noteq> CpipFinder) (meta_path I), hooks_active := False\<rparr>"

definition top_level :: "string \<Rightarrow> string" where
  "top_level fullname = hd (split_on (CHR ''.'') fullname)"

text \<open>The finder: whether it gives a spec, and if so whether for a package.\<close>

definition hook_find_spec :: "interpreter \<Rightarrow> string \<Rightarrow> bool option" where
  "hook_find_spec I fullname =
     (let t = top_level fullname
      in if dget (cloud_table I) t = None then None
         else (case dget (sys_modules I) t of
                 Some PlainModule \<Rightarrow> None
               | _ \<Rightarrow> Some (fullname = t)))"

section \<open>Imports\<close>

definition is_proxy :: "interpreter \<Rightarrow> string \<Rightarrow> bool" where
  "is_proxy I m \<longleftrightarrow> (case dget (sys_modules I) m of Some (ProxyModule _) \<Rightarrow> True | _ \<Rightarrow> False)"

text \<open>
  The first finder with a spec loads the module; a proxy is created empty and then executed. A proxy has
  an empty path, so Python's own finders find nothing below it.
\<close>

fun find_module ::
    "interpreter \<Rightarrow> (string \<Rightarrow> string \<Rightarrow> bool) \<Rightarrow> finder list \<Rightarrow> string \<Rightarrow> string \<Rightarrow> pymodule option" where
  "find_module I installed [] parent fullname = None"
| "find_module I installed (CpipFinder # fs) parent fullname =
     (case hook_find_spec I fullname of
        Some _ \<Rightarrow> Some (ProxyModule \<lparr>px_initialized = True, px_session = None, px_attrs = []\<rparr>)
      | None \<Rightarrow> find_module I installed fs parent fullname)"
| "find_module I installed (OtherFinder f # fs) parent fullname =
     (if installed f fullname \<and> \<not> is_proxy I parent then Some PlainModule
      else find_module I installed fs parent fullname)"

text \<open>Importing one module whose parents are imported, and setting it on its parent.\<close>

definition set_submodule :: "string \<Rightarrow> string \<Rightarrow> string \<Rightarrow> interpreter \<Rightarrow> interpreter" where
  "set_submodule parent name fullname I =
     (case dget (sys_modules I) parent of
        Some (ProxyModule p) \<Rightarrow>
          I\<lparr>sys_modules := dset parent (ProxyModule (p\<lparr>px_attrs := dset name fullname (px_attrs p)\<rparr>)) (sys_modules I)\<rparr>
      | _ \<Rightarrow> I)"

definition import_one ::
    "(string \<Rightarrow> string \<Rightarrow> bool) \<Rightarrow> string \<Rightarrow> string \<Rightarrow> string \<Rightarrow> interpreter \<Rightarrow> (py_error + unit) \<times> interpreter" where
  "import_one installed parent name fullname I =
     (if dget (sys_modules I) fullname \<noteq> None then (Inr (), I)
      else (case find_module I installed (meta_path I) parent fullname of
              None \<Rightarrow> (Inl (OtherError (''No module named '' @ fullname)), I)
            | Some m \<Rightarrow>
                (Inr (), (if parent = [] then id else set_submodule parent name fullname)
                   (I\<lparr>sys_modules := dset fullname m (sys_modules I)\<rparr>))))"

text \<open>\<open>import a.b.c\<close>: \<open>a\<close>, then \<open>a.b\<close>, then \<open>a.b.c\<close>; \<open>parent\<close> is what has been imported.\<close>

fun import_parts ::
    "(string \<Rightarrow> string \<Rightarrow> bool) \<Rightarrow> string \<Rightarrow> string list \<Rightarrow> interpreter \<Rightarrow> (py_error + unit) \<times> interpreter" where
  "import_parts installed parent [] I = (Inr (), I)"
| "import_parts installed parent (c # cs) I =
     (let fullname = (if parent = [] then c else parent @ ''.'' @ c)
      in case import_one installed parent c fullname I of
           (Inl e, I) \<Rightarrow> (Inl e, I)
         | (Inr _, I) \<Rightarrow> import_parts installed fullname cs I)"

definition import_module :: "(string \<Rightarrow> string \<Rightarrow> bool) \<Rightarrow> string \<Rightarrow> interpreter \<Rightarrow> (py_error + unit) \<times> interpreter" where
  "import_module installed fullname = import_parts installed [] (split_on (CHR ''.'') fullname)"

section \<open>Proxies\<close>

text \<open>What an attribute of a proxy is: a submodule, or a callable with the number of its session.\<close>

datatype pyobject = Module string | Callable nat string

definition proxy_session :: "string \<Rightarrow> proxy_module \<Rightarrow> interpreter \<Rightarrow> nat \<times> interpreter" where
  "proxy_session name p I =
     (case px_session p of
        Some s \<Rightarrow> (s, I)
      | None \<Rightarrow>
          (next_session I,
           I\<lparr>next_session := Suc (next_session I),
             sys_modules := dset name (ProxyModule (p\<lparr>px_session := Some (next_session I)\<rparr>)) (sys_modules I)\<rparr>))"

text \<open>The private attributes the constructor sets are no result of the lookups modelled here.\<close>

definition get_attribute :: "pyobject \<Rightarrow> string \<Rightarrow> interpreter \<Rightarrow> (py_error + pyobject) \<times> interpreter" where
  "get_attribute ob name I =
     (case ob of
        Callable s meth \<Rightarrow> (Inr (Callable s (meth @ ''.'' @ name)), I)
      | Module m \<Rightarrow>
          (case dget (sys_modules I) m of
             Some (ProxyModule p) \<Rightarrow>
               (case dget (px_attrs p) name of
                  Some sub \<Rightarrow> (Inr (Module sub), I)
                | None \<Rightarrow>
                    if prefix ''_'' name then (Inl (AttributeError name), I)
                    else (let (s, I) = proxy_session m p I in (Inr (Callable s (m @ ''.'' @ name)), I)))
           | _ \<Rightarrow> (Inl (AttributeError name), I)))"

fun get_path :: "pyobject \<Rightarrow> string list \<Rightarrow> interpreter \<Rightarrow> (py_error + pyobject) \<times> interpreter" where
  "get_path ob [] I = (Inr ob, I)"
| "get_path ob (n # ns) I =
     (case get_attribute ob n I of
        (Inl e, I) \<Rightarrow> (Inl e, I)
      | (Inr ob, I) \<Rightarrow> get_path ob ns I)"

text \<open>The name under which an object is executed in the cloud.\<close>

fun remote_name :: "pyobject \<Rightarrow> string" where
  "remote_name (Module m) = m"
| "remote_name (Callable s meth) = meth"

text \<open>What a proxy says of itself, and the lookup by which older interpreters ask the finder for a loader.\<close>

definition proxy_repr :: "pyobject \<Rightarrow> string" where
  "proxy_repr ob =
     (case ob of
        Module m \<Rightarrow> ''<cpip.ProxyModule '' @ [CHR 0x27] @ m @ [CHR 0x27] @ '' (cloud)>''
      | Callable s meth \<Rightarrow> ''<cpip.ProxyCallable '' @ [CHR 0x27] @ meth @ [CHR 0x27] @ ''>'')"

definition hook_find_module :: "interpreter \<Rightarrow> string \<Rightarrow> string option" where
  "hook_find_module I fullname = map_option (\<lambda>_. fullname) (hook_find_spec I fullname)"

section \<open>The proxy factory\<close>

type_synonym proxies = "(string, proxy_module) dict"

definition factory_create :: "string \<Rightarrow> proxies \<Rightarrow> proxy_module \<times> proxies" where
  "factory_create name ps =
     (case dget ps name of
        Some p \<Rightarrow> (p, ps)
      | None \<Rightarrow> (let p = \<lparr>px_initialized = False, px_session = None, px_attrs = []\<rparr> in (p, dset name p ps)))"

definition factory_get :: "string \<Rightarrow> proxies \<Rightarrow> proxy_module option" where
  "factory_get name ps = dget ps name"

definition factory_clear :: "proxies \<Rightarrow> proxies" where
  "factory_clear ps = []"

definition factory_list :: "proxies \<Rightarrow> string list" where
  "factory_list ps = dkeys ps"

section \<open>Lazy modules\<close>

type_synonym attributes = "(string, pyval) dict"

record lazy_module =
  lz_name :: string
  lz_fetch :: "(string \<Rightarrow> py_error + attributes option) option"
  lz_loaded :: bool
  lz_real :: "attributes option"
  lz_calls :: nat

definition new_lazy :: "string \<Rightarrow> (string \<Rightarrow> py_error + attributes option) option \<Rightarrow> lazy_module" where
  "new_lazy name fetch = \<lparr>lz_name = name, lz_fetch = fetch, lz_loaded = False, lz_real = None, lz_calls = 0\<rparr>"

text \<open>\<open>_loaded\<close> is set before the fetch; \<open>lz_calls\<close> counts the fetches.\<close>

definition ensure_loaded :: "lazy_module \<Rightarrow> (py_error + unit) \<times> lazy_module" where
  "ensure_loaded m =
     (if lz_loaded m then (Inr (), m)
      else (case lz_fetch m of
              None \<Rightarrow> (Inr (), m\<lparr>lz_loaded := True\<rparr>)
            | Some f \<Rightarrow>
                (let m = m\<lparr>lz_loaded := True, lz_calls := Suc (lz_calls m)\<rparr>
                 in case f (lz_name m) of
                      Inl e \<Rightarrow> (Inl e, m)
                    | Inr r \<Rightarrow> (Inr (), m\<lparr>lz_real := r\<rparr>))))"

text \<open>
  The attributes of the real module are copied into the lazy one, so a private name is found too, once
  something has been loaded.
\<close>

definition lazy_getattr :: "string \<Rightarrow> lazy_module \<Rightarrow> (py_error + pyval) \<times> lazy_module" where
  "lazy_getattr name m =
     (case (case lz_real m of Some r \<Rightarrow> dget r name | None \<Rightarrow> None) of
        Some v \<Rightarrow> (Inr v, m)
      | None \<Rightarrow>
          if prefix ''_'' name then (Inl (AttributeError name), m)
          else (case ensure_loaded m of
                  (Inl e, m) \<Rightarrow> (Inl e, m)
                | (Inr _, m) \<Rightarrow>
                    (case lz_real m of
                       Some r \<Rightarrow> (case dget r name of Some v \<Rightarrow> Inr v | None \<Rightarrow> Inl (AttributeError name), m)
                     | None \<Rightarrow> (Inl (AttributeError (''module '' @ lz_name m @ '' has no attribute '' @ name)), m))))"

definition lazy_repr :: "lazy_module \<Rightarrow> string" where
  "lazy_repr m =
     ''<LazyModule '' @ [CHR 0x27] @ lz_name m @ [CHR 0x27] @ '' ('' @ (if lz_loaded m then ''loaded'' else ''lazy'') @ '')>''"

text \<open>The registry of lazy packages; an entry that is no function stands for one that raises TypeError.\<close>

type_synonym lazy_registry = "(string, string \<Rightarrow> py_error + attributes option) dict"

definition lazy_find_spec :: "lazy_registry \<Rightarrow> string \<Rightarrow> (lazy_module \<times> bool) option" where
  "lazy_find_spec reg fullname =
     (let t = top_level fullname
      in if dget reg t = None then None
         else Some (new_lazy fullname (dget reg ''fetch_func''), fullname = t))"

section \<open>The hooks are installed at most once\<close>

datatype hook_event =
    Register string bool
  | Activate
  | Deactivate
  | Import string
  | GetAttr pyobject string

definition hook_step :: "(string \<Rightarrow> string \<Rightarrow> bool) \<Rightarrow> interpreter \<Rightarrow> hook_event \<Rightarrow> interpreter" where
  "hook_step installed I e =
     (case e of
        Register package hyb \<Rightarrow> hook_register package hyb I
      | Activate \<Rightarrow> activate_hooks I
      | Deactivate \<Rightarrow> deactivate_hooks I
      | Import fullname \<Rightarrow> snd (import_module installed fullname I)
      | GetAttr ob name \<Rightarrow> snd (get_attribute ob name I))"

lemma set_submodule_frame [simp]:
  "meta_path (set_submodule p n f I) = meta_path I" "hooks_active (set_submodule p n f I) = hooks_active I"
  "cloud_table (set_submodule p n f I) = cloud_table I"
  by (simp_all add: set_submodule_def split: option.splits pymodule.splits)

lemma import_one_frame:
  "import_one installed parent c f I = (r, I') \<Longrightarrow>
    meta_path I' = meta_path I \<and> hooks_active I' = hooks_active I \<and> cloud_table I' = cloud_table I"
  by (auto simp: import_one_def split: if_splits option.splits)

lemma import_parts_frame:
  "import_parts installed parent cs I = (r, I') \<Longrightarrow>
    meta_path I' = meta_path I \<and> hooks_active I' = hooks_active I \<and> cloud_table I' = cloud_table I"
proof (induction cs arbitrary: parent I)
  case (Cons c cs)
  then show ?case by (auto simp: Let_def dest!: import_one_frame split: prod.splits sum.splits)
qed simp

lemma get_attribute_frame:
  "get_attribute ob n I = (r, I') \<Longrightarrow>
    meta_path I' = meta_path I \<and> hooks_active I' = hooks_active I \<and> cloud_table I' = cloud_table I"
  by (auto simp: get_attribute_def proxy_session_def Let_def
      split: pyobject.splits option.splits pymodule.splits if_splits)

definition hooks_inv :: "finder list \<Rightarrow> interpreter \<Rightarrow> bool" where
  "hooks_inv fs I \<longleftrightarrow> CpipFinder \<notin> set fs \<and> meta_path I = (if hooks_active I then CpipFinder # fs else fs)"

lemma hooks_inv_step:
  assumes "hooks_inv fs I"
  shows "hooks_inv fs (hook_step installed I e)"
proof -
  have "filter (\<lambda>f. f \<noteq> CpipFinder) fs = fs" using assms by (auto simp: hooks_inv_def filter_id_conv)
  with assms show ?thesis
    using import_parts_frame [OF surjective_pairing] get_attribute_frame [OF surjective_pairing]
    by (cases e) (auto simp: hooks_inv_def hook_step_def hook_register_def activate_hooks_def
        deactivate_hooks_def import_module_def)
qed

interpretation hook_machine: kept_invariant "hook_step installed" "hooks_inv fs" for installed fs
  by unfold_locales (rule hooks_inv_step)

text \<open>
  However often the hooks are activated and deactivated, between imports and registrations, the finder
  of cpip is on the path exactly once, in front, while they are active, and not at all otherwise; the
  other finders stay as they were.
\<close>

theorem hooks_installed_once:
  assumes "CpipFinder \<notin> set fs" and "I = run (hook_step installed) (new_interpreter fs) es"
  shows "meta_path I = (if hooks_active I then CpipFinder # fs else fs)"
proof -
  have "hooks_inv fs (new_interpreter fs)" using assms(1) by (simp add: hooks_inv_def new_interpreter_def)
  from hook_machine.run_inv [OF this, of installed es] show ?thesis by (simp add: assms(2) hooks_inv_def)
qed

theorem hooks_installed_once_witness:
  "meta_path (run (hook_step (\<lambda>f m. False)) (new_interpreter [OtherFinder ''path'']) [Activate, Register ''torch'' False, Activate]) =
     [CpipFinder, OtherFinder ''path'']"
proof -
  let ?I = "run (hook_step (\<lambda>f m. False)) (new_interpreter [OtherFinder ''path'']) [Activate, Register ''torch'' False, Activate]"
  have "CpipFinder \<notin> set [OtherFinder ''path'']" by simp
  note r = hooks_installed_once [OF this refl, of "\<lambda>f m. False" "[Activate, Register ''torch'' False, Activate]"]
  have "hooks_active ?I" by code_simp
  with r show ?thesis by simp
qed

section \<open>What is imported and what is called\<close>

definition proxies_inv :: "interpreter \<Rightarrow> bool" where
  "proxies_inv I \<longleftrightarrow>
     (\<forall>m p n sub. dget (sys_modules I) m = Some (ProxyModule p) \<longrightarrow> dget (px_attrs p) n = Some sub \<longrightarrow>
        sub = m @ ''.'' @ n \<and> is_proxy I sub)"

lemma proxies_invD:
  "proxies_inv I \<Longrightarrow> dget (sys_modules I) m = Some (ProxyModule p) \<Longrightarrow> dget (px_attrs p) n = Some sub \<Longrightarrow>
    sub = m @ ''.'' @ n \<and> is_proxy I sub"
  unfolding proxies_inv_def by blast

lemma is_proxy_dset:
  "is_proxy (I\<lparr>sys_modules := dset m x (sys_modules I)\<rparr>) k = (if k = m then x \<noteq> PlainModule else is_proxy I k)"
  by (cases x) (simp_all add: is_proxy_def dict_laws)

lemma find_module_below:
  "is_proxy I parent \<Longrightarrow> find_module I installed fs parent f = Some m \<Longrightarrow>
    m = ProxyModule \<lparr>px_initialized = True, px_session = None, px_attrs = []\<rparr>"
  by (induction fs) (auto split: option.splits if_splits finder.splits elim: find_module.elims)

lemma add_module_inv:
  assumes "proxies_inv I" and "dget (sys_modules I) f = None"
    and "m = PlainModule \<or> m = ProxyModule \<lparr>px_initialized = True, px_session = None, px_attrs = []\<rparr>"
  shows "proxies_inv (I\<lparr>sys_modules := dset f m (sys_modules I)\<rparr>)"
  unfolding proxies_inv_def is_proxy_dset
proof (intro allI impI)
  fix k p n sub
  assume k: "dget (sys_modules (I\<lparr>sys_modules := dset f m (sys_modules I)\<rparr>)) k = Some (ProxyModule p)"
    and n: "dget (px_attrs p) n = Some sub"
  have "k \<noteq> f" using k n assms(3) by (auto simp: dict_laws split: if_splits)
  with k have "dget (sys_modules I) k = Some (ProxyModule p)" by (simp add: dict_laws)
  from proxies_invD [OF assms(1) this n] assms(2)
  show "sub = k @ ''.'' @ n \<and> (if sub = f then m \<noteq> PlainModule else is_proxy I sub)"
    by (auto simp: is_proxy_def)
qed

lemma update_proxy_inv:
  assumes "proxies_inv I" and "\<And>n sub. dget (px_attrs q) n = Some sub \<Longrightarrow> sub = m @ ''.'' @ n \<and> (sub = m \<or> is_proxy I sub)"
  shows "proxies_inv (I\<lparr>sys_modules := dset m (ProxyModule q) (sys_modules I)\<rparr>)"
  unfolding proxies_inv_def is_proxy_dset
proof (intro allI impI)
  fix k p n sub
  assume k: "dget (sys_modules (I\<lparr>sys_modules := dset m (ProxyModule q) (sys_modules I)\<rparr>)) k = Some (ProxyModule p)"
    and n: "dget (px_attrs p) n = Some sub"
  show "sub = k @ ''.'' @ n \<and> (if sub = m then ProxyModule q \<noteq> PlainModule else is_proxy I sub)"
  proof (cases "k = m")
    case True
    with k n assms(2) show ?thesis by (auto simp: dict_laws)
  next
    case False
    with k have "dget (sys_modules I) k = Some (ProxyModule p)" by (simp add: dict_laws)
    from proxies_invD [OF assms(1) this n] show ?thesis by auto
  qed
qed

lemma set_submodule_inv:
  assumes "proxies_inv I" and "is_proxy I (parent @ ''.'' @ name)"
  shows "proxies_inv (set_submodule parent name (parent @ ''.'' @ name) I)"
proof (cases "dget (sys_modules I) parent")
  case (Some x)
  show ?thesis
  proof (cases x)
    case (ProxyModule p)
    have "sub = parent @ ''.'' @ n \<and> (sub = parent \<or> is_proxy I sub)"
      if "dget (px_attrs (p\<lparr>px_attrs := dset name (parent @ ''.'' @ name) (px_attrs p)\<rparr>)) n = Some sub" for n sub
    proof (cases "n = name")
      case True
      with that assms(2) show ?thesis by (auto simp: dict_laws)
    next
      case False
      with that have "dget (px_attrs p) n = Some sub" by (simp add: dict_laws)
      with proxies_invD [OF assms(1)] Some ProxyModule show ?thesis by blast
    qed
    then have "proxies_inv (I\<lparr>sys_modules :=
        dset parent (ProxyModule (p\<lparr>px_attrs := dset name (parent @ ''.'' @ name) (px_attrs p)\<rparr>)) (sys_modules I)\<rparr>)"
      by (rule update_proxy_inv [OF assms(1)])
    with Some ProxyModule show ?thesis by (simp add: set_submodule_def)
  qed (use Some assms in \<open>simp add: set_submodule_def\<close>)
qed (use assms in \<open>simp add: set_submodule_def\<close>)

lemma find_module_result:
  "find_module I installed fs parent f = Some m \<Longrightarrow>
    m = PlainModule \<or> m = ProxyModule \<lparr>px_initialized = True, px_session = None, px_attrs = []\<rparr>"
  by (induction I installed fs parent f rule: find_module.induct) (auto split: option.splits if_splits)

lemma set_submodule_other:
  "\<not> is_proxy I parent \<Longrightarrow> set_submodule parent n f I = I"
  by (auto simp: set_submodule_def is_proxy_def split: option.splits pymodule.splits)

lemma import_one_inv:
  assumes "proxies_inv I" and "f = (if parent = [] then c else parent @ ''.'' @ c)"
    and "import_one installed parent c f I = (r, I')"
  shows "proxies_inv I'"
proof (cases "dget (sys_modules I) f = None \<and> find_module I installed (meta_path I) parent f \<noteq> None")
  case False
  with assms(1,3) show ?thesis by (auto simp: import_one_def split: if_splits option.splits)
next
  case True
  then obtain m where m: "find_module I installed (meta_path I) parent f = Some m" by auto
  let ?I = "I\<lparr>sys_modules := dset f m (sys_modules I)\<rparr>"
  have inv: "proxies_inv ?I" using add_module_inv [OF assms(1)] True find_module_result [OF m] by blast
  have I': "I' = (if parent = [] then ?I else set_submodule parent c f ?I)"
    using assms(3) True m by (auto simp: import_one_def)
  show ?thesis
  proof (cases "parent \<noteq> [] \<and> is_proxy I parent")
    case True
    then have "is_proxy ?I f" using find_module_below [OF _ m] by (auto simp: is_proxy_def dict_laws)
    with True I' assms(2) set_submodule_inv [OF inv, of parent c] show ?thesis by simp
  next
    case False
    then have "parent \<noteq> [] \<Longrightarrow> \<not> is_proxy ?I parent" using assms(2) by (auto simp: is_proxy_def dict_laws)
    with I' inv set_submodule_other [of ?I parent c f] show ?thesis by auto
  qed
qed

lemma import_parts_inv: "proxies_inv I \<Longrightarrow> import_parts installed parent cs I = (r, I') \<Longrightarrow> proxies_inv I'"
proof (induction cs arbitrary: parent I)
  case (Cons c cs)
  obtain r1 I1 where one: "import_one installed parent c (if parent = [] then c else parent @ ''.'' @ c) I = (r1, I1)"
    by (rule prod.exhaust)
  from import_one_inv [OF Cons.prems(1) refl one] Cons.IH [of I1] Cons.prems(2) one show ?case
    by (cases r1) (auto simp: Let_def)
qed simp

lemma get_attribute_inv:
  assumes "proxies_inv I" and "get_attribute ob n I = (r, I')"
  shows "proxies_inv I'"
proof (cases "\<exists>m p. ob = Module m \<and> dget (sys_modules I) m = Some (ProxyModule p) \<and> px_session p = None \<and>
    dget (px_attrs p) n = None \<and> \<not> prefix ''_'' n")
  case True
  then obtain m p where p: "ob = Module m" "dget (sys_modules I) m = Some (ProxyModule p)" "px_session p = None"
    "dget (px_attrs p) n = None" "\<not> prefix ''_'' n" by blast
  have "proxies_inv (I\<lparr>sys_modules := dset m (ProxyModule (p\<lparr>px_session := Some (next_session I)\<rparr>)) (sys_modules I)\<rparr>)"
    using proxies_invD [OF assms(1) p(2)] by (intro update_proxy_inv [OF assms(1)]) auto
  with p assms(2) show ?thesis
    by (auto simp: get_attribute_def proxy_session_def proxies_inv_def is_proxy_def Let_def)
next
  case False
  with assms show ?thesis
    by (auto simp: get_attribute_def proxy_session_def Let_def split: pyobject.splits option.splits pymodule.splits if_splits)
qed

lemma proxies_inv_cong: "sys_modules J = sys_modules I \<Longrightarrow> proxies_inv I \<Longrightarrow> proxies_inv J"
  by (simp add: proxies_inv_def is_proxy_def)

lemma proxies_inv_step:
  assumes "proxies_inv I"
  shows "proxies_inv (hook_step installed I e)"
proof (cases e)
  case (Import f)
  with import_parts_inv [OF assms surjective_pairing] show ?thesis
    by (simp add: hook_step_def import_module_def)
next
  case (GetAttr ob n)
  with get_attribute_inv [OF assms surjective_pairing] show ?thesis by (simp add: hook_step_def)
qed (auto simp: hook_step_def hook_register_def activate_hooks_def deactivate_hooks_def
    intro: proxies_inv_cong [OF _ assms] split: if_splits)

interpretation proxy_machine: kept_invariant "hook_step installed" proxies_inv for installed
  by unfold_locales (rule proxies_inv_step)

lemma join_head: "join sep ((x @ sep @ n) # ns) = join sep (x # n # ns)"
  by (cases ns) simp_all

lemma get_path_name:
  assumes "proxies_inv I" and "case ob of Module m \<Rightarrow> is_proxy I m | Callable s c \<Rightarrow> True"
    and "\<forall>n \<in> set ns. \<not> prefix ''_'' n"
  shows "\<exists>ob' I'. get_path ob ns I = (Inr ob', I') \<and> remote_name ob' = join ''.'' (remote_name ob # ns)"
  using assms
proof (induction ns arbitrary: ob I)
  case (Cons n ns)
  have "\<exists>ob1 I1. get_attribute ob n I = (Inr ob1, I1) \<and> remote_name ob1 = remote_name ob @ ''.'' @ n \<and>
      (case ob1 of Module m \<Rightarrow> is_proxy I1 m | Callable s c \<Rightarrow> True)"
  proof (cases ob)
    case (Module m)
    with Cons.prems(2) obtain p where p: "dget (sys_modules I) m = Some (ProxyModule p)"
      by (auto simp: is_proxy_def split: option.splits pymodule.splits)
    with Module Cons.prems(3) proxies_invD [OF Cons.prems(1) p] show ?thesis
      by (auto simp: get_attribute_def proxy_session_def Let_def split: option.splits)
  qed (simp add: get_attribute_def)
  then obtain ob1 I1 where one: "get_attribute ob n I = (Inr ob1, I1)" "remote_name ob1 = remote_name ob @ ''.'' @ n"
    "case ob1 of Module m \<Rightarrow> is_proxy I1 m | Callable s c \<Rightarrow> True" by blast
  from Cons.IH [OF get_attribute_inv [OF Cons.prems(1) one(1)] one(3)] Cons.prems(3) one(1,2)
  show ?case using join_head [of "''.''" "remote_name ob" n ns] by simp
qed simp

lemma new_interpreter_proxies: "proxies_inv (new_interpreter fs)"
  by (simp add: proxies_inv_def new_interpreter_def)

text \<open>
  A path of attributes on a proxied module, such as \<^verbatim>\<open>torch.nn.functional.relu\<close>, always leads
  to the object that runs under exactly that name in the cloud, whichever submodules have been imported
  before and whatever else was imported, registered or looked up; only names with an underscore in front
  are refused.
\<close>

theorem proxy_path_name:
  assumes "I = run (hook_step installed) (new_interpreter fs) es" and "is_proxy I m"
    and "\<forall>n \<in> set ns. \<not> prefix ''_'' n"
  shows "\<exists>ob I'. get_path (Module m) ns I = (Inr ob, I') \<and> remote_name ob = join ''.'' (m # ns)"
  using get_path_name [of I "Module m" ns] proxy_machine.run_inv [OF new_interpreter_proxies, of installed fs es] assms
  by simp

definition torch_session :: interpreter where
  "torch_session = run (hook_step (\<lambda>f m. False)) (new_interpreter [OtherFinder ''path''])
     [Activate, Register ''torch'' False, Import ''torch.nn'']"

theorem proxy_path_name_witness:
  "\<exists>ob I'. get_path (Module ''torch'') [''nn'', ''functional'', ''relu''] torch_session = (Inr ob, I') \<and>
     remote_name ob = ''torch.nn.functional.relu''"
proof -
  have "is_proxy torch_session ''torch''" by code_simp
  moreover have "\<forall>n \<in> set [''nn'', ''functional'', ''relu'']. \<not> prefix ''_'' n" by simp
  moreover have "join ''.'' [''torch'', ''nn'', ''functional'', ''relu''] = ''torch.nn.functional.relu''" by simp
  ultimately show ?thesis using proxy_path_name [OF torch_session_def, of "''torch''"] by metis
qed

section \<open>Which imports are intercepted\<close>

lemma hd_split_append: "hd (split_on c (s @ c # t)) = hd (split_on c s)"
proof (induction s)
  case (Cons x s)
  then show ?case
    by (cases "split_on c (s @ c # t)"; cases "split_on c s") auto
qed simp

lemma top_level_below: "top_level (parent @ ''.'' @ c) = top_level parent"
  by (simp add: top_level_def hd_split_append)

lemma is_proxy_set_submodule [simp]: "is_proxy (set_submodule p n f I) k = is_proxy I k"
  by (auto simp: set_submodule_def is_proxy_def dict_laws split: option.splits pymodule.splits)

text \<open>Nothing of the package \<open>t\<close> has been loaded by another finder, and ours comes first.\<close>

definition intercepts :: "string \<Rightarrow> interpreter \<Rightarrow> bool" where
  "intercepts t I \<longleftrightarrow>
     dget (cloud_table I) t \<noteq> None \<and> (\<exists>fs. meta_path I = CpipFinder # fs) \<and> top_level t = t \<and>
     (\<forall>k. top_level k = t \<longrightarrow> dget (sys_modules I) k \<noteq> Some PlainModule)"

lemma import_one_proxied:
  assumes "intercepts t I" and "top_level f = t"
  shows "\<exists>I'. import_one installed parent c f I = (Inr (), I') \<and> intercepts t I' \<and> is_proxy I' f \<and>
    (\<forall>k. is_proxy I k \<longrightarrow> is_proxy I' k)"
proof (cases "dget (sys_modules I) f")
  case (Some x)
  then have "x \<noteq> PlainModule" using assms by (auto simp: intercepts_def)
  with Some have "is_proxy I f" by (cases x) (auto simp: is_proxy_def)
  with Some assms(1) show ?thesis by (simp add: import_one_def)
next
  case None
  let ?p = "ProxyModule \<lparr>px_initialized = True, px_session = None, px_attrs = []\<rparr>"
  have "hook_find_spec I f \<noteq> None"
    using assms by (auto simp: hook_find_spec_def intercepts_def Let_def split: option.splits pymodule.splits)
  then have m: "find_module I installed (meta_path I) parent f = Some ?p"
    using assms(1) by (auto simp: intercepts_def)
  let ?I = "I\<lparr>sys_modules := dset f ?p (sys_modules I)\<rparr>"
  have one: "intercepts t ?I" "is_proxy ?I f" "\<forall>k. is_proxy I k \<longrightarrow> is_proxy ?I k"
    using assms by (auto simp: intercepts_def is_proxy_def dict_laws)
  have "intercepts t (set_submodule parent c f ?I)"
    using one(1) by (auto simp: intercepts_def set_submodule_def dict_laws split: option.splits pymodule.splits)
  with one show ?thesis by (simp add: import_one_def None m)
qed

lemma import_parts_proxied:
  assumes "intercepts t I" and "parent = [] \<Longrightarrow> cs \<noteq> [] \<Longrightarrow> hd cs = t \<and> t \<noteq> []" and "parent \<noteq> [] \<Longrightarrow> top_level parent = t"
  shows "\<exists>I'. import_parts installed parent cs I = (Inr (), I') \<and> intercepts t I' \<and>
    (\<forall>k. is_proxy I k \<longrightarrow> is_proxy I' k) \<and>
    (\<forall>k < length cs. is_proxy I' (join ''.'' ((if parent = [] then [] else [parent]) @ take (Suc k) cs)))"
  using assms
proof (induction cs arbitrary: parent I)
  case (Cons c cs)
  let ?f = "if parent = [] then c else parent @ ''.'' @ c"
  have f: "top_level ?f = t" "?f \<noteq> []"
    using Cons.prems top_level_below [of parent c] by (auto simp: intercepts_def)
  from import_one_proxied [OF Cons.prems(1) f(1), of installed parent c] obtain I1 where
    one: "import_one installed parent c ?f I = (Inr (), I1)" "intercepts t I1" "is_proxy I1 ?f"
      "\<forall>k. is_proxy I k \<longrightarrow> is_proxy I1 k" by blast
  from Cons.IH [OF one(2), of ?f] f obtain I2 where
    two: "import_parts installed ?f cs I1 = (Inr (), I2)" "intercepts t I2" "\<forall>k. is_proxy I1 k \<longrightarrow> is_proxy I2 k"
      "\<forall>k < length cs. is_proxy I2 (join ''.'' ([?f] @ take (Suc k) cs))" by auto
  have "is_proxy I2 (join ''.'' ((if parent = [] then [] else [parent]) @ take (Suc k) (c # cs)))"
    if "k < length (c # cs)" for k
  proof (cases k)
    case 0
    with one(3) two(3) show ?thesis by auto
  next
    case (Suc j)
    with that two(4) have "is_proxy I2 (join ''.'' ([?f] @ take (Suc j) cs))" by simp
    with Suc show ?thesis using join_head [of "''.''" parent c "take (Suc j) cs"] by (auto split: if_splits)
  qed
  moreover have "import_parts installed parent (c # cs) I = (Inr (), I2)" using one(1) two(1) by (simp add: Let_def)
  ultimately show ?case using two(2,3) one(4) by auto
qed simp

text \<open>
  C8: While the hooks are active, importing a registered package or any module below it never fails and
  gives proxies all the way down, even if the package is installed as well, unless it was loaded before.
  The object at the end of the dotted name then runs under that name in the cloud.
\<close>

theorem registered_import_is_proxied:
  assumes "I = run (hook_step installed) (new_interpreter fs) es" and "hooks_active I" and "CpipFinder \<notin> set fs"
    and "top_level fullname = t" and "t \<noteq> []" and "dget (cloud_table I) t \<noteq> None"
    and "\<forall>k. top_level k = t \<longrightarrow> dget (sys_modules I) k \<noteq> Some PlainModule"
  shows "\<exists>I'. import_module installed fullname I = (Inr (), I') \<and> is_proxy I' fullname \<and> is_proxy I' t"
proof -
  have parts: "split_on (CHR ''.'') fullname = t # tl (split_on (CHR ''.'') fullname)"
    using assms(4) by (metis top_level_def list.collapse split_on_ne)
  have "CHR ''.'' \<notin> set t" using split_on_parts [of t "CHR ''.''" fullname] parts by (metis list.set_intros(1))
  then have "top_level t = t" by (simp add: top_level_def split_on_no_sep)
  moreover have "hooks_inv fs I"
    using hook_machine.run_inv [of fs "new_interpreter fs" installed es] assms(1,3)
    by (simp add: hooks_inv_def new_interpreter_def)
  ultimately have "intercepts t I" using assms(2,6,7) by (auto simp: intercepts_def hooks_inv_def)
  moreover have "hd (split_on (CHR ''.'') fullname) = t" using assms(4) by (simp add: top_level_def)
  ultimately obtain I' where
    I': "import_module installed fullname I = (Inr (), I')"
      "\<forall>k < length (split_on (CHR ''.'') fullname). is_proxy I' (join ''.'' (take (Suc k) (split_on (CHR ''.'') fullname)))"
    using import_parts_proxied [of t I "[]" "split_on (CHR ''.'') fullname" installed] assms(5)
    by (auto simp: import_module_def)
  have "is_proxy I' fullname" using I'(2) [rule_format, of "length (split_on (CHR ''.'') fullname) - 1"] by simp
  moreover have "is_proxy I' t" using I'(2) [rule_format, of 0] parts by (metis join.simps(2) length_greater_0_conv list.distinct(1) take0 take_Suc_Cons)
  ultimately show ?thesis using I'(1) by blast
qed

theorem registered_import_is_proxied_witness:
  "\<exists>I'. import_module (\<lambda>f m. False) ''torch.optim.sgd'' torch_session = (Inr (), I') \<and> is_proxy I' ''torch.optim.sgd''"
proof -
  have 1: "hooks_active torch_session" "CpipFinder \<notin> set [OtherFinder ''path'']" "top_level ''torch.optim.sgd'' = ''torch''"
    "''torch'' \<noteq> []" "dget (cloud_table torch_session) ''torch'' \<noteq> None"
    by code_simp+
  have "list_all (\<lambda>x. x \<noteq> PlainModule) (dvals (sys_modules torch_session))" by code_simp
  then have "\<forall>k. top_level k = ''torch'' \<longrightarrow> dget (sys_modules torch_session) k \<noteq> Some PlainModule"
    by (auto simp: list_all_iff dest!: dget_in_set)
  from registered_import_is_proxied [OF torch_session_def 1 this] show ?thesis by blast
qed

lemma set_split_on: "x \<in> set w \<Longrightarrow> w \<in> set (split_on c s) \<Longrightarrow> x \<in> set s"
  by (meson set_mono_sublist split_on_sublist subsetD)

text \<open>
  A package whose name on the index has a hyphen is never intercepted. It is registered under that
  name, but Python can import no such name: as long as only such packages are registered, the finder
  leaves every import of a name without a hyphen to the other finders, so that \<^verbatim>\<open>import cv2\<close> fails
  after \<^verbatim>\<open>opencv-python\<close> was installed for the cloud.
\<close>

theorem hyphen_never_intercepted:
  assumes "\<forall>p \<in> set (dkeys (cloud_table I)). CHR ''-'' \<in> set p" and "CHR ''-'' \<notin> set fullname"
  shows "hook_find_spec I fullname = None"
proof -
  have "top_level fullname \<in> set (split_on (CHR ''.'') fullname)" by (simp add: top_level_def)
  with assms(2) have "CHR ''-'' \<notin> set (top_level fullname)" using set_split_on by blast
  with assms(1) have "dget (cloud_table I) (top_level fullname) = None" by (auto simp: dget_None_iff)
  then show ?thesis by (simp add: hook_find_spec_def Let_def)
qed

theorem hyphen_never_intercepted_witness:
  "hook_find_spec (hook_register ''opencv-python'' False (hook_register ''llama-cpp-python'' False (new_interpreter []))) ''cv2'' = None"
  by (rule hyphen_never_intercepted) (simp_all add: hook_register_def new_interpreter_def)

section \<open>Lazy modules fetch once\<close>

lemma lazy_step:
  assumes "lazy_getattr n m = (r, m')"
  shows "lz_calls m' \<le> Suc (lz_calls m) \<and> (lz_loaded m \<longrightarrow> m' = m) \<and> (lz_calls m' \<noteq> lz_calls m \<longrightarrow> lz_loaded m') \<and>
    (lz_loaded m \<longrightarrow> lz_loaded m') \<and> lz_fetch m' = lz_fetch m \<and> lz_name m' = lz_name m"
  using assms
  by (auto simp: lazy_getattr_def ensure_loaded_def Let_def split: option.splits if_splits sum.splits)

definition access :: "lazy_module \<Rightarrow> string list \<Rightarrow> lazy_module" where
  "access = foldl (\<lambda>m n. snd (lazy_getattr n m))"

lemma access_loaded: "lz_loaded m \<Longrightarrow> access m ns = m"
proof (induction ns arbitrary: m)
  case (Cons n ns)
  have "snd (lazy_getattr n m) = m" using lazy_step [OF surjective_pairing] Cons.prems by blast
  with Cons show ?case by (simp add: access_def)
qed (simp add: access_def)

lemma access_private: "list_all (prefix ''_'') ns \<Longrightarrow> lz_real m = None \<Longrightarrow> access m ns = m"
proof (induction ns arbitrary: m)
  case (Cons n ns)
  then have "snd (lazy_getattr n m) = m" by (simp add: lazy_getattr_def)
  with Cons show ?case by (simp add: access_def)
qed (simp add: access_def)

text \<open>
  A lazy module fetches its content once, at the first access to a public name, however many follow.
  If that fetch fails, the module is spoiled: the error is raised once, and every later access finds no
  attribute, without another try.
\<close>

theorem lazy_fetches_once:
  assumes "list_all (prefix ''_'') ns" and "\<not> prefix ''_'' n"
  shows "lz_calls (access (new_lazy name (Some f)) (ns @ n # later)) = 1 \<and>
    (f name = Inl e \<longrightarrow>
       fst (lazy_getattr n (access (new_lazy name (Some f)) ns)) = Inl e \<and>
       (\<forall>k. \<exists>msg. fst (lazy_getattr k (access (new_lazy name (Some f)) (ns @ n # later))) = Inl (AttributeError msg)))"
proof -
  let ?m = "new_lazy name (Some f)" and ?m1 = "snd (lazy_getattr n (new_lazy name (Some f)))"
  have "access ?m ns = ?m" using access_private [OF assms(1)] by (simp add: new_lazy_def)
  moreover have m1: "lz_loaded ?m1" "lz_calls ?m1 = 1" "f name = Inl e \<Longrightarrow> lz_real ?m1 = None"
    using assms(2) by (auto simp: new_lazy_def lazy_getattr_def ensure_loaded_def Let_def split: sum.splits option.splits)
  moreover have "access ?m (ns @ n # later) = access ?m1 later"
    using calculation(1) by (simp add: access_def)
  moreover have "fst (lazy_getattr n ?m) = Inl e" if "f name = Inl e"
    using assms(2) that by (simp add: new_lazy_def lazy_getattr_def ensure_loaded_def)
  moreover have "\<exists>msg. fst (lazy_getattr k ?m1) = Inl (AttributeError msg)" if "f name = Inl e" for k
    using m1(1) m1(3) [OF that] by (auto simp: lazy_getattr_def ensure_loaded_def)
  ultimately show ?thesis using access_loaded [of ?m1 later] by simp
qed

theorem lazy_fetches_once_witness:
  "lz_calls (access (new_lazy ''m'' (Some (\<lambda>n. Inl (OtherError ''offline'')))) [''__path2'', ''relu'', ''relu'']) = 1 \<and>
   (\<exists>msg. fst (lazy_getattr ''relu'' (access (new_lazy ''m'' (Some (\<lambda>n. Inl (OtherError ''offline'')))) [''__path2'', ''relu'', ''relu''])) =
      Inl (AttributeError msg))"
  using lazy_fetches_once [of "[''__path2'']" "''relu''" "''m''" "\<lambda>n. Inl (OtherError ''offline'')" "[''relu'']" "OtherError ''offline''"]
  by simp

section \<open>A script\<close>

text \<open>
  \<^verbatim>\<open>cpip run\<close> and \<^verbatim>\<open>cpip shell\<close>: a new interpreter with the hooks activated, in which the
  script does \<open>es\<close>.
\<close>

definition cli_run :: "(string \<Rightarrow> string \<Rightarrow> bool) \<Rightarrow> finder list \<Rightarrow> hook_event list \<Rightarrow> interpreter" where
  "cli_run installed fs es = run (hook_step installed) (activate_hooks (new_interpreter fs)) es"

definition registers :: "hook_event \<Rightarrow> bool" where
  "registers e = (case e of Register package hyb \<Rightarrow> True | _ \<Rightarrow> False)"

text \<open>Nothing is registered, and what is loaded was installed.\<close>

definition plain_interpreter :: "(string \<Rightarrow> string \<Rightarrow> bool) \<Rightarrow> interpreter \<Rightarrow> bool" where
  "plain_interpreter installed I \<longleftrightarrow>
     cloud_table I = [] \<and>
     (\<forall>k m. dget (sys_modules I) k = Some m \<longrightarrow> m = PlainModule \<and> (\<exists>f. installed f k))"

lemma find_module_plain:
  "cloud_table I = [] \<Longrightarrow> find_module I installed fs parent k = Some m \<Longrightarrow> m = PlainModule \<and> (\<exists>f. installed f k)"
proof (induction fs)
  case (Cons f fs)
  then show ?case by (cases f) (auto simp: hook_find_spec_def split: if_splits)
qed simp

lemma set_submodule_plain: "plain_interpreter installed I \<Longrightarrow> set_submodule p c k I = I"
  by (auto simp: set_submodule_def plain_interpreter_def split: option.splits pymodule.splits)

lemma import_one_plain:
  assumes "plain_interpreter installed I" and "import_one installed parent c k I = (r, I')"
  shows "plain_interpreter installed I'"
proof (cases "dget (sys_modules I) k = None \<and> find_module I installed (meta_path I) parent k \<noteq> None")
  case True
  then obtain m where m: "find_module I installed (meta_path I) parent k = Some m" by auto
  have "m = PlainModule \<and> (\<exists>f. installed f k)"
    using find_module_plain [OF _ m] assms(1) by (simp add: plain_interpreter_def)
  then have plain: "plain_interpreter installed (I\<lparr>sys_modules := dset k m (sys_modules I)\<rparr>)"
    using assms(1) by (auto simp: plain_interpreter_def dict_laws)
  with assms(2) True m set_submodule_plain [OF plain] show ?thesis
    by (auto simp: import_one_def split: if_splits)
next
  case False
  with assms show ?thesis by (auto simp: import_one_def split: if_splits option.splits)
qed

lemma import_parts_plain:
  "plain_interpreter installed I \<Longrightarrow> import_parts installed parent cs I = (r, I') \<Longrightarrow> plain_interpreter installed I'"
  by (induction cs arbitrary: parent I)
    (auto simp: Let_def split: prod.splits sum.splits dest: import_one_plain)

lemma hook_step_plain:
  "\<not> registers e \<Longrightarrow> plain_interpreter installed I \<Longrightarrow> plain_interpreter installed (hook_step installed I e)"
proof (cases e)
  case (Import f)
  assume "plain_interpreter installed I"
  then show ?thesis
    using import_parts_plain [of installed I "[]" _ "fst (import_module installed f I)" "snd (import_module installed f I)"] Import
    by (simp add: hook_step_def import_module_def)
qed (auto simp: hook_step_def registers_def plain_interpreter_def activate_hooks_def deactivate_hooks_def
      get_attribute_def split: pyobject.splits option.splits pymodule.splits)

lemma cli_run_plain: "list_all (Not \<circ> registers) es \<Longrightarrow> plain_interpreter installed (cli_run installed fs es)"
proof -
  have "list_all (Not \<circ> registers) es \<Longrightarrow> plain_interpreter installed I \<Longrightarrow> plain_interpreter installed (run (hook_step installed) I es)" for I
    by (induction es arbitrary: I) (simp_all add: hook_step_plain)
  moreover have "plain_interpreter installed (activate_hooks (new_interpreter fs))"
    by (simp add: plain_interpreter_def activate_hooks_def new_interpreter_def)
  ultimately show "list_all (Not \<circ> registers) es \<Longrightarrow> ?thesis" by (simp add: cli_run_def)
qed

text \<open>An import of a package that is not installed fails in a script that registers nothing itself.\<close>

lemma cli_run_import_fails:
  assumes "list_all (Not \<circ> registers) es" and "is_component package" and "CHR ''.'' \<notin> set package"
    and "\<forall>f. \<not> installed f package"
  shows "fst (import_module installed package (cli_run installed fs es)) =
    Inl (OtherError (''No module named '' @ package))"
proof -
  let ?I = "cli_run installed fs es"
  note plain = cli_run_plain [OF assms(1), of installed fs]
  then have "dget (sys_modules ?I) package = None" "find_module ?I installed (meta_path ?I) [] package = None"
    using assms(4) find_module_plain [of ?I installed "meta_path ?I" "[]" package]
    by (cases "dget (sys_modules ?I) package"; cases "find_module ?I installed (meta_path ?I) [] package"; 
        auto simp: plain_interpreter_def)+
  moreover have "split_on (CHR ''.'') package = [package]" using assms(3) by (simp add: split_on_no_sep)
  ultimately show ?thesis by (simp add: import_module_def import_one_def Let_def)
qed
end
