(* ===== verification/Virtual.thy ===== *)
theory Virtual
  imports Layers
begin

text \<open>
  Virtual packages: the registry of manifests (\<^verbatim>\<open>virtualization/registry.py\<close>), mounting
  composed layers on the import path (\<^verbatim>\<open>virtualization/mount.py\<close>) and native libraries
  (\<^verbatim>\<open>virtualization/linker.py\<close>).

  A manifest file is the JSON value in it, None for a file that holds none. The fields of a manifest
  are JSON values of any type. How a command ends is the parameter \<open>run_cmd\<close>.
\<close>

section \<open>The registry\<close>

record stored_layer =
  sl_layer_id :: pyval
  sl_sha256 :: pyval
  sl_size :: pyval
  sl_content_type :: pyval
  sl_files :: pyval

record stored_manifest =
  sm_name :: pyval
  sm_version :: pyval
  sm_layers :: "stored_layer list"
  sm_entry_point :: pyval
  sm_python_requires :: pyval
  sm_dependencies :: pyval

record manifest_registry =
  rg_dir :: path
  rg_disk :: fs
  rg_files :: "(path, pyval option) dict"
  rg_cache :: "(string, stored_manifest) dict"

text \<open>A new registry on the same disk: the directory is made, and nothing is in memory.\<close>

definition open_registry :: "manifest_registry \<Rightarrow> py_error + manifest_registry" where
  "open_registry r =
     (case fs_mkdir_p (rg_dir r) (rg_disk r) of
        Inl e \<Rightarrow> Inl e
      | Inr d \<Rightarrow> Inr (r\<lparr>rg_disk := d, rg_cache := []\<rparr>))"

definition manifest_file :: "manifest_registry \<Rightarrow> string \<Rightarrow> path" where
  "manifest_file r name = path_div (rg_dir r) (name @ ''.manifest.json'')"

definition layer_data :: "stored_layer \<Rightarrow> pyval" where
  "layer_data l =
     PDict [(''layer_id'', sl_layer_id l), (''sha256'', sl_sha256 l), (''size'', sl_size l),
            (''content_type'', sl_content_type l), (''files'', sl_files l)]"

definition manifest_data :: "stored_manifest \<Rightarrow> pydict" where
  "manifest_data m =
     [(''name'', sm_name m), (''version'', sm_version m), (''entry_point'', sm_entry_point m),
      (''python_requires'', sm_python_requires m), (''dependencies'', sm_dependencies m),
      (''layers'', PList (map layer_data (sm_layers m)))]"

definition need :: "pydict \<Rightarrow> string \<Rightarrow> py_error + pyval" where
  "need d k = (case dget d k of Some v \<Rightarrow> Inr v | None \<Rightarrow> Inl KeyError)"

definition parse_layer :: "pyval \<Rightarrow> py_error + stored_layer" where
  "parse_layer v =
     (case v of
        PDict l \<Rightarrow>
          (case need l ''layer_id'' of Inl e \<Rightarrow> Inl e | Inr i \<Rightarrow>
          (case need l ''sha256'' of Inl e \<Rightarrow> Inl e | Inr h \<Rightarrow>
          (case need l ''size'' of Inl e \<Rightarrow> Inl e | Inr n \<Rightarrow>
             Inr \<lparr>sl_layer_id = i, sl_sha256 = h, sl_size = n,
                  sl_content_type = dget_or l ''content_type'' (PStr ''python''),
                  sl_files = dget_or l ''files'' (PList [])\<rparr>)))
      | _ \<Rightarrow> Inl TypeError)"

definition parse_manifest :: "pydict \<Rightarrow> py_error + stored_manifest" where
  "parse_manifest d =
     (case items_of (dget_or d ''layers'' (PList [])) of Inl e \<Rightarrow> Inl e | Inr ls \<Rightarrow>
     (case map_result parse_layer ls of Inl e \<Rightarrow> Inl e | Inr layers \<Rightarrow>
     (case need d ''name'' of Inl e \<Rightarrow> Inl e | Inr n \<Rightarrow>
     (case need d ''version'' of Inl e \<Rightarrow> Inl e | Inr v \<Rightarrow>
        Inr \<lparr>sm_name = n, sm_version = v, sm_layers = layers,
             sm_entry_point = dget_or d ''entry_point'' (PStr []),
             sm_python_requires = dget_or d ''python_requires'' (PStr []),
             sm_dependencies = dget_or d ''dependencies'' (PList [])\<rparr>))))"

definition registry_get :: "string \<Rightarrow> manifest_registry \<Rightarrow> stored_manifest option \<times> manifest_registry" where
  "registry_get name r =
     (case dget (rg_cache r) name of
        Some m \<Rightarrow> (Some m, r)
      | None \<Rightarrow>
          (case dget (rg_files r) (manifest_file r name) of
             Some (Some (PDict d)) \<Rightarrow>
               (case parse_manifest d of
                  Inl e \<Rightarrow> (None, r)
                | Inr m \<Rightarrow> (Some m, r\<lparr>rg_cache := dset name m (rg_cache r)\<rparr>))
           | _ \<Rightarrow> (None, r)))"

text \<open>
  A name that is no string names a file by its text, but is no key a lookup by string finds; one that
  cannot be a key is noticed after the file is written.
\<close>

definition registry_store ::
    "(pyval \<Rightarrow> string) \<Rightarrow> stored_manifest \<Rightarrow> manifest_registry \<Rightarrow> (py_error + unit) \<times> manifest_registry" where
  "registry_store str_of m r =
     (let f = manifest_file r (fmt str_of (sm_name m))
      in if \<not> fs_is_dir (rg_disk r) (butlast f) then (Inl FileNotFoundError, r)
         else (let r = r\<lparr>rg_files := dset f (Some (PDict (manifest_data m))) (rg_files r)\<rparr>
               in case sm_name m of
                    PStr n \<Rightarrow> (Inr (), r\<lparr>rg_cache := dset n m (rg_cache r)\<rparr>)
                  | PList _ \<Rightarrow> (Inl TypeError, r)
                  | PDict _ \<Rightarrow> (Inl TypeError, r)
                  | _ \<Rightarrow> (Inr (), r)))"

definition registry_remove :: "string \<Rightarrow> manifest_registry \<Rightarrow> manifest_registry" where
  "registry_remove name r =
     r\<lparr>rg_files := ddel (manifest_file r name) (rg_files r), rg_cache := ddel name (rg_cache r)\<rparr>"

text \<open>\<open>s.replace(w, "")\<close> for a non-empty word.\<close>

fun remove_word :: "string \<Rightarrow> string \<Rightarrow> nat \<Rightarrow> string" where
  "remove_word w [] skip = []"
| "remove_word w (c # cs) skip =
     (if skip > 0 then remove_word w cs (skip - 1)
      else if prefix w (c # cs) then remove_word w cs (length w - 1)
      else c # remove_word w cs 0)"

definition list_packages :: "manifest_registry \<Rightarrow> string list" where
  "list_packages r =
     map (\<lambda>f. remove_word ''.manifest'' (take (length (last f) - 5) (last f)) 0)
       (filter (\<lambda>f. f \<noteq> [] \<and> butlast f = rg_dir r \<and> suffix ''.manifest.json'' (last f)) (dkeys (rg_files r)))"

section \<open>The import path\<close>

record virtual_mount =
  vm_mounts :: "(string, path) dict"
  vm_sys_path :: "path list"
  vm_modules :: "string list"

text \<open>\<open>sys.path\<close> holds strings; a mounted directory is the string of its path.\<close>

definition mount ::
    "(string \<Rightarrow> string) \<Rightarrow> path \<Rightarrow> package_manifest \<Rightarrow> virtual_mount \<times> fs \<Rightarrow> (py_error + path) \<times> virtual_mount \<times> fs" where
  "mount sha_text dir m s =
     (let (vm, d) = s
      in case dget (vm_mounts vm) (mf_name m) of
           Some p \<Rightarrow> (Inr p, vm, d)
         | None \<Rightarrow>
             (case compose_layers sha_text dir (mf_layers m) d of
                (Inl e, d) \<Rightarrow> (Inl e, vm, d)
              | (Inr composed, d) \<Rightarrow>
                  (Inr composed,
                   vm\<lparr>vm_sys_path := (if composed \<in> set (vm_sys_path vm) then vm_sys_path vm
                                      else composed # vm_sys_path vm),
                      vm_mounts := dset (mf_name m) composed (vm_mounts vm)\<rparr>, d)))"

definition unmount :: "string \<Rightarrow> virtual_mount \<Rightarrow> virtual_mount" where
  "unmount name vm =
     vm\<lparr>vm_mounts := ddel name (vm_mounts vm),
        vm_sys_path := (case dget (vm_mounts vm) name of
                          None \<Rightarrow> vm_sys_path vm
                        | Some p \<Rightarrow> remove1 p (vm_sys_path vm)),
        vm_modules := filter (\<lambda>k. \<not> (k = name \<or> prefix (name @ ''.'') k)) (vm_modules vm)\<rparr>"

definition is_mounted :: "string \<Rightarrow> virtual_mount \<Rightarrow> bool" where
  "is_mounted name vm \<longleftrightarrow> dget (vm_mounts vm) name \<noteq> None"

definition list_mounts :: "(path \<Rightarrow> string) \<Rightarrow> virtual_mount \<Rightarrow> (string, string) dict" where
  "list_mounts path_str vm = map (\<lambda>(name, p). (name, path_str p)) (vm_mounts vm)"

definition unmount_all :: "virtual_mount \<Rightarrow> virtual_mount" where
  "unmount_all vm = foldl (\<lambda>vm n. unmount n vm) vm (dkeys (vm_mounts vm))"

section \<open>Native libraries\<close>

record linker =
  lk_dir :: string
  lk_loaded :: "string set"

definition install_so :: "string \<Rightarrow> bytes \<Rightarrow> linker \<times> fs \<Rightarrow> (py_error + path) \<times> linker \<times> fs" where
  "install_so name data s =
     (let dest = path_div (path_parts (lk_dir (fst s))) name
      in case fs_write dest data (snd s) of
           Inl e \<Rightarrow> (Inl e, s)
         | Inr d \<Rightarrow> (Inr dest, (fst s)\<lparr>lk_loaded := insert name (lk_loaded (fst s))\<rparr>, d))"

definition get_so_path :: "linker \<Rightarrow> fs \<Rightarrow> string \<Rightarrow> path option" where
  "get_so_path lk d name =
     (let p = path_div (path_parts (lk_dir lk)) name in if fs_exists d p then Some p else None)"

definition configure_env :: "linker \<Rightarrow> (string, string) dict \<Rightarrow> string" where
  "configure_env lk env =
     join '':'' (lk_dir lk # filter (\<lambda>p. p \<noteq> [] \<and> p \<noteq> lk_dir lk) (split_on (CHR '':'') (dget_or env ''LD_LIBRARY_PATH'' [])))"

definition activate :: "linker \<Rightarrow> (string, string) dict \<Rightarrow> (string, string) dict" where
  "activate lk env = dset ''LD_LIBRARY_PATH'' (configure_env lk env) env"

definition patch_rpath :: "(string list \<Rightarrow> proc_result) \<Rightarrow> bool \<Rightarrow> linker \<Rightarrow> string \<Rightarrow> bool" where
  "patch_rpath run_cmd have_patchelf lk binary =
     (have_patchelf \<and>
      (case run_cmd [''patchelf'', ''--set-rpath'', lk_dir lk, binary] of Exited rc out err \<Rightarrow> rc = 0 | _ \<Rightarrow> False))"

text \<open>The lines of the output of \<^verbatim>\<open>ldd\<close>, which end with a line feed.\<close>

definition output_lines :: "(string list \<Rightarrow> proc_result) \<Rightarrow> string \<Rightarrow> string list" where
  "output_lines run_cmd binary =
     (case run_cmd [''ldd'', binary] of Exited rc out err \<Rightarrow> split_on (CHR 0x0A) out | _ \<Rightarrow> [])"

definition list_dependencies :: "(string list \<Rightarrow> proc_result) \<Rightarrow> string \<Rightarrow> string list" where
  "list_dependencies run_cmd binary =
     concat (map (\<lambda>l. case words l of [] \<Rightarrow> [] | w # ws \<Rightarrow> if suffix ''.so'' w \<or> sublist ''.so.'' w then [w] else [])
       (output_lines run_cmd binary))"

definition verify_dependencies :: "(string list \<Rightarrow> proc_result) \<Rightarrow> string \<Rightarrow> string list" where
  "verify_dependencies run_cmd binary =
     concat (map (\<lambda>l. if sublist ''not found'' l then (case words l of [] \<Rightarrow> [] | w # ws \<Rightarrow> [w]) else [])
       (output_lines run_cmd binary))"

section \<open>The registry is a map that survives restarts\<close>

lemma parse_layer_data [simp]: "parse_layer (layer_data l) = Inr l"
  by (simp add: parse_layer_def layer_data_def need_def dget_or_def)

lemma parse_manifest_data [simp]: "parse_manifest (manifest_data m) = Inr m"
proof -
  have "map_result (\<lambda>l. parse_layer (layer_data l)) (sm_layers m) = Inr (map (\<lambda>l. l) (sm_layers m))"
    by (rule map_result_Inr) simp
  then have "map_result parse_layer (map layer_data (sm_layers m)) = Inr (sm_layers m)"
    by (simp add: map_result_map)
  then show ?thesis by (simp add: parse_manifest_def manifest_data_def need_def dget_or_def)
qed

datatype registry_event = StoreManifest stored_manifest | RemoveManifest string | GetManifest string | Restart

fun registry_step :: "manifest_registry \<Rightarrow> registry_event \<Rightarrow> manifest_registry" where
  "registry_step r (StoreManifest m) = snd (registry_store (\<lambda>v. []) m r)"
| "registry_step r (RemoveManifest n) = registry_remove n r"
| "registry_step r (GetManifest n) = snd (registry_get n r)"
| "registry_step r Restart = (case open_registry r of Inl e \<Rightarrow> r | Inr r' \<Rightarrow> r')"

text \<open>The specification: a map from names to manifests.\<close>

fun spec_step :: "(string \<Rightarrow> stored_manifest option) \<Rightarrow> registry_event \<Rightarrow> (string \<Rightarrow> stored_manifest option)" where
  "spec_step f (StoreManifest m) = (case sm_name m of PStr n \<Rightarrow> f(n := Some m) | _ \<Rightarrow> f)"
| "spec_step f (RemoveManifest n) = f(n := None)"
| "spec_step f (GetManifest n) = f"
| "spec_step f Restart = f"

fun names_component :: "registry_event \<Rightarrow> bool" where
  "names_component (StoreManifest m) = (\<exists>n. sm_name m = PStr n \<and> is_component n)"
| "names_component (RemoveManifest n) = is_component n"
| "names_component (GetManifest n) = is_component n"
| "names_component Restart = True"

definition registry_refines :: "manifest_registry \<Rightarrow> (string \<Rightarrow> stored_manifest option) \<Rightarrow> bool" where
  "registry_refines r f \<longleftrightarrow>
     fs_is_dir (rg_disk r) (rg_dir r) \<and>
     (\<forall>n. is_component n \<longrightarrow>
        dget (rg_files r) (rg_dir r @ [n @ ''.manifest.json'']) = map_option (\<lambda>m. Some (PDict (manifest_data m))) (f n) \<and>
        (dget (rg_cache r) n = None \<or> dget (rg_cache r) n = f n))"

lemma manifest_file_component: "is_component n \<Longrightarrow> manifest_file r n = rg_dir r @ [n @ ''.manifest.json'']"
proof -
  assume "is_component n"
  then have "is_component (n @ ''.manifest.json'')" by (simp add: is_component_def)
  then show ?thesis by (simp add: manifest_file_def path_div_component)
qed

lemma registry_get_refines:
  assumes "registry_refines r f" and "is_component n"
  shows "fst (registry_get n r) = f n \<and> registry_refines (snd (registry_get n r)) f"
proof (cases "dget (rg_cache r) n")
  case (Some m)
  with assms show ?thesis by (auto simp: registry_get_def registry_refines_def)
next
  case None
  with assms show ?thesis
    by (cases "f n") (auto simp: registry_get_def manifest_file_component registry_refines_def dict_laws)
qed

lemma registry_step_refines:
  assumes "registry_refines r f" and "names_component e"
  shows "registry_refines (registry_step r e) (spec_step f e)"
proof (cases e)
  case (StoreManifest m)
  with assms(2) obtain n where n: "sm_name m = PStr n" "is_component n" by auto
  have "fs_is_dir (rg_disk r) (butlast (manifest_file r (fmt (\<lambda>v. []) (sm_name m))))"
    using assms(1) n by (simp add: manifest_file_component registry_refines_def)
  with StoreManifest assms(1) n show ?thesis
    by (auto simp: registry_store_def Let_def manifest_file_component registry_refines_def dict_laws)
next
  case (RemoveManifest n)
  with assms show ?thesis
    by (auto simp: registry_remove_def manifest_file_component registry_refines_def dict_laws)
next
  case (GetManifest n)
  with assms registry_get_refines [OF assms(1), of n] show ?thesis by simp
next
  case Restart
  with assms(1) show ?thesis
    by (auto simp: open_registry_def registry_refines_def fs_is_dir_def mkdir_p_dget split: sum.splits)
qed


definition demo_manifest :: "string \<Rightarrow> stored_manifest" where
  "demo_manifest version = \<lparr>sm_name = PStr ''numpy'', sm_version = PStr version, sm_layers = [], sm_entry_point = PStr [],
     sm_python_requires = PStr [], sm_dependencies = PList []\<rparr>"

definition demo_registry :: manifest_registry where
  "demo_registry = \<lparr>rg_dir = [''m''], rg_disk = [([], Dir), ([''m''], Dir)], rg_files = [], rg_cache = []\<rparr>"


section \<open>Mounting\<close>

text \<open>
  Mounting a package puts the directory composed from its layers in front of the import path, where a
  second mount of it finds it unchanged, and unmounting it restores the path and the table of mounts and
  forgets exactly the modules of that package.
\<close>

theorem mount_unmount:
  assumes "mount sha_text dir m (vm, d) = (Inr p, vm', d')" and "\<not> is_mounted (mf_name m) vm"
    and "p \<notin> set (vm_sys_path vm)"
  shows "vm_sys_path vm' = p # vm_sys_path vm \<and> is_mounted (mf_name m) vm' \<and>
    mount sha_text dir m (vm', d') = (Inr p, vm', d') \<and>
    unmount (mf_name m) vm' = vm\<lparr>vm_modules := filter (\<lambda>k. \<not> (k = mf_name m \<or> prefix (mf_name m @ ''.'') k)) (vm_modules vm)\<rparr>"
proof -
  have none: "dget (vm_mounts vm) (mf_name m) = None" using assms(2) by (simp add: is_mounted_def)
  have del: "ddel k (dset k v ms) = ms" if "dget ms k = None" for k v and ms :: "(string, path) dict"
    using that by (induction ms) (auto split: if_splits)
  have "vm' = vm\<lparr>vm_sys_path := p # vm_sys_path vm, vm_mounts := dset (mf_name m) p (vm_mounts vm)\<rparr>"
    using assms none by (auto simp: mount_def split: sum.splits prod.splits)
  then show ?thesis using none del [OF none] by (simp add: mount_def unmount_def is_mounted_def dict_laws)
qed

lemma compose_done: "compose_layers sha_text dir ls d = (Inr p, d') \<Longrightarrow> fs_exists d' p \<Longrightarrow> compose_layers sha_text dir ls d' = (Inr p, d')"
  by (auto simp: compose_layers_def Let_def split: if_splits sum.splits prod.splits option.splits)

text \<open>
  Two packages made of the same layers share one directory, and the mounts do not count: mounting the
  second adds nothing to the path, and unmounting either takes the other, which is still listed as mounted,
  off the import path.
\<close>

theorem shared_mount_lost:
  assumes "mount sha_text dir m (vm, d) = (Inr p, vm1, d1)" and "\<not> is_mounted (mf_name m) vm"
    and "mount sha_text dir m2 (vm1, d1) = (Inr p2, vm2, d2)" and "fs_exists d1 p"
    and "mf_layers m2 = mf_layers m" and "mf_name m2 \<noteq> mf_name m" and "\<not> is_mounted (mf_name m2) vm"
    and "distinct (vm_sys_path vm)"
  shows "p2 = p \<and> vm_sys_path vm2 = vm_sys_path vm1 \<and>
    is_mounted (mf_name m2) (unmount (mf_name m) vm2) \<and> p \<notin> set (vm_sys_path (unmount (mf_name m) vm2))"
proof -
  have none: "dget (vm_mounts vm) (mf_name m) = None" "dget (vm_mounts vm) (mf_name m2) = None"
    using assms(2,7) by (simp_all add: is_mounted_def)
  have c: "compose_layers sha_text dir (mf_layers m) d = (Inr p, d1)"
    and vm1: "vm1 = vm\<lparr>vm_sys_path := (if p \<in> set (vm_sys_path vm) then vm_sys_path vm else p # vm_sys_path vm),
      vm_mounts := dset (mf_name m) p (vm_mounts vm)\<rparr>"
    using assms(1) none by (auto simp: mount_def split: sum.splits prod.splits)
  have "p \<in> set (vm_sys_path vm1)" "dget (vm_mounts vm1) (mf_name m2) = None" "distinct (vm_sys_path vm1)"
    using none assms(6,8) by (auto simp: vm1 dict_laws)
  moreover from this have "p2 = p" "vm2 = vm1\<lparr>vm_mounts := dset (mf_name m2) p (vm_mounts vm1)\<rparr>"
    using assms(3,5) compose_done [OF c assms(4)] by (auto simp: mount_def)
  moreover have "dget (vm_mounts vm1) (mf_name m) = Some p" by (simp add: vm1 dict_laws)
  ultimately show ?thesis using assms(6) by (auto simp: unmount_def is_mounted_def dict_laws)
qed

definition two_manifests :: "string \<Rightarrow> package_manifest" where
  "two_manifests name = \<lparr>mf_name = name, mf_version = ''1'', mf_layers = [], mf_entry_point = [],
     mf_python_requires = [], mf_dependencies = []\<rparr>"

definition bare_mount :: virtual_mount where
  "bare_mount = \<lparr>vm_mounts = [], vm_sys_path = [[''lib'']], vm_modules = [''a'', ''a.x'', ''ab'']\<rparr>"

definition after_mount :: "package_manifest \<Rightarrow> virtual_mount \<times> fs \<Rightarrow> path \<times> virtual_mount \<times> fs" where
  "after_mount m s = (case mount (\<lambda>x. ''0123456789abcdef'') [''l''] m s of (r, s') \<Rightarrow> (projr r, s'))"

theorem mount_unmount_witness:
  "vm_modules (unmount ''a'' (fst (snd (after_mount (two_manifests ''a'') (bare_mount, [([], Dir)]))))) = [''ab'']"
proof -
  let ?m = "mount (\<lambda>x. ''0123456789abcdef'') [''l''] (two_manifests ''a'') (bare_mount, [([], Dir)])"
  have facts: "is_ok (fst ?m)" "\<not> is_mounted (mf_name (two_manifests ''a'')) bare_mount"
    "projr (fst ?m) \<notin> set (vm_sys_path bare_mount)"
    by code_simp+
  have m: "?m = (Inr (projr (fst ?m)), fst (snd ?m), snd (snd ?m))"
    using facts(1) by (cases "fst ?m") (auto simp: prod_eq_iff)
  from mount_unmount [OF m facts(2,3)] have "unmount ''a'' (fst (snd ?m)) =
      bare_mount\<lparr>vm_modules := filter (\<lambda>k. \<not> (k = ''a'' \<or> prefix (''a'' @ ''.'') k)) (vm_modules bare_mount)\<rparr>"
    by (simp add: two_manifests_def)
  then show ?thesis by (simp add: after_mount_def case_prod_unfold bare_mount_def)
qed

theorem shared_mount_lost_witness:
  "let (p, s1) = after_mount (two_manifests ''a'') (bare_mount, [([], Dir)]);
       (p2, vm2, d2) = after_mount (two_manifests ''b'') s1
   in is_mounted ''b'' (unmount ''a'' vm2) \<and> p2 \<notin> set (vm_sys_path (unmount ''a'' vm2))"
proof -
  let ?sha = "\<lambda>x. ''0123456789abcdef''"
  let ?m = "mount ?sha [''l''] (two_manifests ''a'') (bare_mount, [([], Dir)])"
  let ?n = "mount ?sha [''l''] (two_manifests ''b'') (snd ?m)"
  have facts: "is_ok (fst ?m)" "is_ok (fst ?n)" "\<not> is_mounted (mf_name (two_manifests ''a'')) bare_mount"
    "fs_exists (snd (snd ?m)) (projr (fst ?m))" "\<not> is_mounted (mf_name (two_manifests ''b'')) bare_mount"
    "distinct (vm_sys_path bare_mount)"
    by code_simp+
  have m: "?m = (Inr (projr (fst ?m)), fst (snd ?m), snd (snd ?m))"
    using facts(1) by (cases "fst ?m") (auto simp: prod_eq_iff)
  have "?n = (Inr (projr (fst ?n)), fst (snd ?n), snd (snd ?n))"
    using facts(2) by (cases "fst ?n") (auto simp: prod_eq_iff)
  then have n: "mount ?sha [''l''] (two_manifests ''b'') (fst (snd ?m), snd (snd ?m)) =
      (Inr (projr (fst ?n)), fst (snd ?n), snd (snd ?n))" by simp
  have "mf_layers (two_manifests ''b'') = mf_layers (two_manifests ''a'')"
    "mf_name (two_manifests ''b'') \<noteq> mf_name (two_manifests ''a'')"
    by (simp_all add: two_manifests_def)
  from shared_mount_lost [OF m facts(3) n facts(4) this facts(5,6)]
  show ?thesis by (simp add: after_mount_def case_prod_unfold Let_def two_manifests_def)
qed

section \<open>The library path\<close>

text \<open>
  Activating the linker puts its directory in front of the library path, once, keeps every other
  entry in its order, and is idempotent.
\<close>

theorem activate_idempotent:
  assumes "CHR '':'' \<notin> set (lk_dir lk)" and "lk_dir lk \<noteq> []"
  shows "split_on (CHR '':'') (dget_or (activate lk env) ''LD_LIBRARY_PATH'' []) =
      lk_dir lk # filter (\<lambda>p. p \<noteq> [] \<and> p \<noteq> lk_dir lk) (split_on (CHR '':'') (dget_or env ''LD_LIBRARY_PATH'' [])) \<and>
    activate lk (activate lk env) = activate lk env"
proof -
  let ?ps = "lk_dir lk # filter (\<lambda>p. p \<noteq> [] \<and> p \<noteq> lk_dir lk) (split_on (CHR '':'') (dget_or env ''LD_LIBRARY_PATH'' []))"
  have "\<forall>w \<in> set ?ps. CHR '':'' \<notin> set w" using assms(1) split_on_parts by auto
  then have split: "split_on (CHR '':'') (join '':'' ?ps) = ?ps" by (intro split_join) auto
  have dset2: "dset k v (dset k v e) = dset k v e" for k v and e :: "(string, string) dict"
    by (induction e) auto
  have "configure_env lk (activate lk env) = configure_env lk env"
    using split by (simp add: configure_env_def activate_def cong: filter_cong)
  then show ?thesis using split dset2 by (simp add: activate_def configure_env_def)
qed

theorem activate_idempotent_witness:
  "dget_or (activate \<lparr>lk_dir = ''/h/lib'', lk_loaded = {}\<rparr> (activate \<lparr>lk_dir = ''/h/lib'', lk_loaded = {}\<rparr>
     [(''LD_LIBRARY_PATH'', ''/a::/h/lib'')])) ''LD_LIBRARY_PATH'' [] = ''/h/lib:/a''"
  using activate_idempotent [of "\<lparr>lk_dir = ''/h/lib'', lk_loaded = {}\<rparr>" "[(''LD_LIBRARY_PATH'', ''/a::/h/lib'')]"]
  by (simp add: activate_def configure_env_def dget_or_def)

end
