(* ===== verification/Scheduling.thy ===== *)
theory Scheduling
  imports Models
begin

text \<open>
  Where work runs: what the system can do (\<^verbatim>\<open>shared/platform.py\<close>), the scheduler of remote calls
  (\<^verbatim>\<open>runtime/scheduler.py\<close>), the router of models (\<^verbatim>\<open>agent/router.py\<close>) and the
  orchestrator of agents (\<^verbatim>\<open>agent/orchestrator.py\<close>).

  The operating system is the parameter \<open>os\<close>: its environment, the files that exist, the programs on
  the path, and what \<^verbatim>\<open>platform\<close> reports. \<open>sys.getsizeof\<close> is the parameter \<open>size_of\<close>.
  The arrow in one reason is written in ASCII.
\<close>

section \<open>The platform\<close>

record os_view =
  os_env :: "(string, string) dict"
  os_isdir :: "string \<Rightarrow> bool"
  os_isfile :: "string \<Rightarrow> bool"
  os_exists :: "string \<Rightarrow> bool"
  os_which :: "string \<Rightarrow> bool"
  os_platform :: string
  os_release :: string
  os_machine :: string
  os_system :: string
  os_cpus :: "int option"
  os_meminfo :: "string list option"
  os_disk_free :: "int option"
  os_python :: "int \<times> int \<times> int"
  os_pointer_bytes :: int
  os_home :: string

record system_info =
  si_is_termux :: bool
  si_is_android :: bool
  si_architecture :: string
  si_python_version :: string
  si_pointer_size :: int
  si_cpu_count :: int
  si_total_memory_mb :: int
  si_available_disk_mb :: int
  si_termux_prefix :: "string option"
  si_home_dir :: string
  si_has_gpu :: bool
  si_has_docker :: bool
  si_platform_tag :: string
  si_extra :: pydict

definition detect_termux :: "os_view \<Rightarrow> bool" where
  "detect_termux os \<longleftrightarrow>
     prefix ''/data/data/com.termux'' (dget_or (os_env os) ''PREFIX'' []) \<or> os_isdir os ''/data/data/com.termux'' \<or>
     dget (os_env os) ''TERMUX_VERSION'' \<noteq> None \<or> sublist ''com.termux'' (dget_or (os_env os) ''HOME'' [])"

definition detect_android :: "os_view \<Rightarrow> bool" where
  "detect_android os \<longleftrightarrow>
     os_isfile os ''/system/build.prop'' \<or> os_isdir os ''/data/data'' \<or>
     sublist ''android'' (lower (os_platform os)) \<or> sublist ''Android'' (os_release os) \<or> detect_termux os"

definition arch_map :: "(string, string) dict" where
  "arch_map =
     [(''aarch64'', ''aarch64''), (''arm64'', ''aarch64''), (''armv8l'', ''aarch64''), (''armv7l'', ''armv7l''),
      (''x86_64'', ''x86_64''), (''amd64'', ''x86_64''), (''i686'', ''x86''), (''i386'', ''x86'')]"

definition get_architecture :: "os_view \<Rightarrow> string" where
  "get_architecture os = (let m = lower (os_machine os) in dget_or arch_map m m)"

text \<open>\<open>os.cpu_count() or 1\<close>.\<close>

definition get_cpu_count :: "os_view \<Rightarrow> int" where
  "get_cpu_count os = (case os_cpus os of None \<Rightarrow> 1 | Some n \<Rightarrow> if n = 0 then 1 else n)"

text \<open>The first line for the total decides; one without a number is an error, which gives 0.\<close>

definition get_total_memory_mb :: "os_view \<Rightarrow> int" where
  "get_total_memory_mb os =
     (case os_meminfo os of
        None \<Rightarrow> 0
      | Some ls \<Rightarrow>
          (case find (prefix ''MemTotal:'') ls of
             None \<Rightarrow> 0
           | Some l \<Rightarrow>
               (case words l of
                  _ # w # _ \<Rightarrow> (case py_int w of None \<Rightarrow> 0 | Some kb \<Rightarrow> kb div 1024)
                | _ \<Rightarrow> 0)))"

definition get_available_disk_mb :: "os_view \<Rightarrow> int" where
  "get_available_disk_mb os = (case os_disk_free os of None \<Rightarrow> 0 | Some n \<Rightarrow> n div 1048576)"

definition has_gpu_device :: "os_view \<Rightarrow> bool" where
  "has_gpu_device os \<longleftrightarrow>
     os_exists os ''/dev/kgsl-3d0'' \<or> os_exists os ''/dev/mali0'' \<or> os_exists os ''/dev/nvidia0'' \<or>
     os_exists os ''/proc/driver/nvidia'' \<or> os_which os ''nvidia-smi'' \<or> dget (os_env os) ''CUDA_HOME'' \<noteq> None"

definition has_docker :: "os_view \<Rightarrow> bool" where
  "has_docker os \<longleftrightarrow> os_which os ''docker''"

definition get_platform_tag :: "os_view \<Rightarrow> string" where
  "get_platform_tag os =
     (if detect_android os then ''android_'' @ get_architecture os
      else lower (os_system os) @ ''_'' @ get_architecture os)"

definition get_termux_prefix :: "os_view \<Rightarrow> string option" where
  "get_termux_prefix os =
     (let p = dget_or (os_env os) ''PREFIX'' []
      in if p \<noteq> [] \<and> sublist ''com.termux'' p then Some p
         else if os_isdir os ''/data/data/com.termux/files/usr'' then Some ''/data/data/com.termux/files/usr''
         else None)"

definition get_system_info :: "os_view \<Rightarrow> system_info" where
  "get_system_info os =
     \<lparr>si_is_termux = detect_termux os, si_is_android = detect_android os, si_architecture = get_architecture os,
      si_python_version =
        (case os_python os of (a, b, c) \<Rightarrow> int_str a @ ''.'' @ int_str b @ ''.'' @ int_str c),
      si_pointer_size = os_pointer_bytes os * 8, si_cpu_count = get_cpu_count os,
      si_total_memory_mb = get_total_memory_mb os, si_available_disk_mb = get_available_disk_mb os,
      si_termux_prefix = get_termux_prefix os, si_home_dir = os_home os, si_has_gpu = has_gpu_device os,
      si_has_docker = has_docker os, si_platform_tag = get_platform_tag os, si_extra = []\<rparr>"

definition print_system_info :: "system_info \<Rightarrow> string list" where
  "print_system_info info =
     [''  Platform:      '' @ si_platform_tag info,
      ''  Architecture:  '' @ si_architecture info @ '' ('' @ int_str (si_pointer_size info) @ ''-bit)'',
      ''  Python:        '' @ si_python_version info,
      ''  Termux:        '' @ (if si_is_termux info then ''Yes'' else ''No''),
      ''  Android:       '' @ (if si_is_android info then ''Yes'' else ''No''),
      ''  CPUs:          '' @ int_str (si_cpu_count info),
      ''  Memory:        '' @ int_str (si_total_memory_mb info) @ '' MB'',
      ''  Disk free:     '' @ int_str (si_available_disk_mb info) @ '' MB'',
      ''  GPU:           '' @ (if si_has_gpu info then ''Detected'' else ''None''),
      ''  Docker:        '' @ (if si_has_docker info then ''Available'' else ''Not found'')] @
     (case si_termux_prefix info of
        None \<Rightarrow> []
      | Some p \<Rightarrow> if p \<noteq> [] then [''  Termux prefix: '' @ p] else [])"

section \<open>The scheduler\<close>

datatype scheduler_decision = RunLocal | RunCloud | RunHybrid | RunGPU

fun decision_value :: "scheduler_decision \<Rightarrow> string" where
  "decision_value RunLocal = ''local''"
| "decision_value RunCloud = ''cloud''"
| "decision_value RunHybrid = ''hybrid''"
| "decision_value RunGPU = ''gpu''"

record schedule_result =
  sd_decision :: scheduler_decision
  sd_reason :: string
  sd_priority :: int

definition scheduler_needs_gpu :: "string \<Rightarrow> bool" where
  "scheduler_needs_gpu meth \<longleftrightarrow>
     hd (split_on (CHR ''.'') meth) \<in> set [''torch'', ''tensorflow'', ''jax'', ''cupy''] \<or>
     (\<exists>g \<in> set [''cuda'', ''gpu'', ''to('' @ [CHR 0x27] @ ''cuda'' @ [CHR 0x27] @ '')'', ''.cuda()'', ''npu''].
        sublist g (lower meth))"

text \<open>Only the positional arguments are measured.\<close>

definition estimate_size :: "(pyval \<Rightarrow> nat) \<Rightarrow> pyval \<Rightarrow> nat" where
  "estimate_size size_of v = (case v of PArray dtype shape data \<Rightarrow> length data | _ \<Rightarrow> size_of v)"

definition is_large_operation :: "(pyval \<Rightarrow> nat) \<Rightarrow> pyval list \<Rightarrow> pydict option \<Rightarrow> bool" where
  "is_large_operation size_of args kwargs \<longleftrightarrow> sum_list (map (estimate_size size_of) args) > 100 * 1024 * 1024"

definition schedule ::
    "system_info \<Rightarrow> (pyval \<Rightarrow> nat) \<Rightarrow> string \<Rightarrow> pyval list \<Rightarrow> pydict option \<Rightarrow> schedule_result" where
  "schedule sys size_of meth args kwargs =
     (let pkg = hd (split_on (CHR ''.'') meth)
      in if scheduler_needs_gpu meth
         then (if si_has_gpu sys
               then \<lparr>sd_decision = RunLocal, sd_reason = ''Local GPU available'', sd_priority = 5\<rparr>
               else \<lparr>sd_decision = RunGPU, sd_reason = ''GPU operation '' @ [CHR 0xE2, CHR 0x86, CHR 0x92] @ '' cloud GPU'', sd_priority = 2\<rparr>)
         else if pkg \<in> set CLOUD_PREFERRED_PACKAGES
         then \<lparr>sd_decision = RunCloud, sd_reason = pkg @ '' is cloud-preferred'', sd_priority = 3\<rparr>
         else if is_large_operation size_of args kwargs
         then \<lparr>sd_decision = RunCloud, sd_reason = ''Large data operation'', sd_priority = 4\<rparr>
         else \<lparr>sd_decision = RunLocal, sd_reason = ''Standard local execution'', sd_priority = 8\<rparr>)"

section \<open>The model router\<close>

record model_info =
  mo_name :: string
  mo_size_mb :: int
  mo_requires_gpu :: bool
  mo_local_capable :: bool
  mo_provider :: string

definition model :: "string \<Rightarrow> int \<Rightarrow> bool \<Rightarrow> bool \<Rightarrow> string \<Rightarrow> string \<times> model_info" where
  "model name size_mb gpu local provider =
     (name, \<lparr>mo_name = name, mo_size_mb = size_mb, mo_requires_gpu = gpu, mo_local_capable = local, mo_provider = provider\<rparr>)"

definition KNOWN_MODELS :: "(string, model_info) dict" where
  "KNOWN_MODELS =
     [model ''gpt-4'' 0 False False ''openai'', model ''gpt-3.5-turbo'' 0 False False ''openai'',
      model ''llama-2-7b'' 3500 True False ''cloud'', model ''llama-2-13b'' 7000 True False ''cloud'',
      model ''phi-2'' 1400 False False ''cloud'', model ''tinyllama-1.1b'' 600 False True ''local'',
      model ''all-MiniLM-L6-v2'' 80 False True ''local'', model ''whisper-tiny'' 75 False True ''local'']"

definition LOCAL_MAX_SIZE_MB :: int where
  "LOCAL_MAX_SIZE_MB = 500"

definition route :: "system_info \<Rightarrow> string \<Rightarrow> string" where
  "route sys name =
     (case dget KNOWN_MODELS name of
        None \<Rightarrow> ''cloud''
      | Some info \<Rightarrow>
          if mo_provider info = ''openai'' then ''cloud''
          else if mo_local_capable info \<and> mo_size_mb info < LOCAL_MAX_SIZE_MB
          then (if si_total_memory_mb sys > mo_size_mb info * 2 then ''local'' else ''cloud'')
          else ''cloud'')"

definition get_model_info :: "string \<Rightarrow> model_info option" where
  "get_model_info name = dget KNOWN_MODELS name"

definition list_local_models :: "string list" where
  "list_local_models = map fst (filter (\<lambda>(n, i). mo_local_capable i) KNOWN_MODELS)"

definition list_cloud_models :: "string list" where
  "list_cloud_models = map fst (filter (\<lambda>(n, i). \<not> mo_local_capable i) KNOWN_MODELS)"

text \<open>The tool of \<^verbatim>\<open>agent/tools.py\<close>, which only says where the model would run.\<close>

definition run_model :: "system_info \<Rightarrow> string \<Rightarrow> pyval \<Rightarrow> pydict" where
  "run_model sys name input_data =
     [(''model'', PStr name), (''target'', PStr (route sys name)), (''status'', PStr ''routed'')]"

section \<open>The orchestrator\<close>

record agent_task =
  tk_id :: string
  tk_name :: string
  tk_status :: string
  tk_result :: pyval
  tk_error :: string

record agent =
  ag_id :: string
  ag_name :: string
  ag_capabilities :: "string list"
  ag_handler :: "(pydict \<Rightarrow> py_error + pyval) option"

record orchestrator =
  or_agents :: "(string, agent) dict"
  or_tasks :: "(string, agent_task) dict"

definition register_agent :: "agent \<Rightarrow> orchestrator \<Rightarrow> orchestrator" where
  "register_agent a o' = o'\<lparr>or_agents := dset (ag_id a) a (or_agents o')\<rparr>"

definition unregister_agent :: "string \<Rightarrow> orchestrator \<Rightarrow> orchestrator" where
  "unregister_agent i o' = o'\<lparr>or_agents := ddel i (or_agents o')\<rparr>"

definition find_agent :: "string \<Rightarrow> orchestrator \<Rightarrow> agent option" where
  "find_agent cap o' =
     (if cap = [] then (case dvals (or_agents o') of [] \<Rightarrow> None | a # _ \<Rightarrow> Some a)
      else find (\<lambda>a. cap \<in> set (ag_capabilities a)) (dvals (or_agents o')))"

text \<open>The task the code puts in the table is the one it goes on changing, so the table has its end.\<close>

definition task_outcome :: "string \<Rightarrow> string \<Rightarrow> pydict \<Rightarrow> string \<Rightarrow> orchestrator \<Rightarrow> agent_task" where
  "task_outcome i name payload cap o' =
     (let task = \<lparr>tk_id = i, tk_name = name, tk_status = ''pending'', tk_result = PNone, tk_error = []\<rparr>
      in case (case find_agent cap o' of None \<Rightarrow> None | Some a \<Rightarrow> ag_handler a) of
           None \<Rightarrow> task\<lparr>tk_status := ''failed'',
                       tk_error := ''No agent available for: '' @ (if cap \<noteq> [] then cap else name)\<rparr>
         | Some h \<Rightarrow>
             (case h payload of
                Inl e \<Rightarrow> task\<lparr>tk_status := ''failed'', tk_error := error_text e\<rparr>
              | Inr v \<Rightarrow> task\<lparr>tk_status := ''completed'', tk_result := v\<rparr>))"

definition submit_task :: "string \<Rightarrow> string \<Rightarrow> pydict \<Rightarrow> string \<Rightarrow> orchestrator \<Rightarrow> agent_task \<times> orchestrator" where
  "submit_task i name payload cap o' =
     (let task = task_outcome i name payload cap o' in (task, o'\<lparr>or_tasks := dset i task (or_tasks o')\<rparr>))"

text \<open>
  A pipeline; each task comes with the id drawn for it. The handlers are functions of their payload:
  they do not change the context they are given, nor return it as their result.
\<close>

fun run_tasks ::
    "(string \<times> string \<times> pydict \<times> string) list \<Rightarrow> pydict \<Rightarrow> orchestrator \<Rightarrow> agent_task list \<times> orchestrator" where
  "run_tasks [] ctx o' = ([], o')"
| "run_tasks ((i, name, payload, cap) # ts) ctx o' =
     (let (task, o') = submit_task i name (dset ''_context'' (PDict ctx) payload) cap o'
      in if tk_status task = ''completed''
         then (let (rs, o') = run_tasks ts (dset name (tk_result task) ctx) o' in (task # rs, o'))
         else ([task], o'))"

definition run_pipeline ::
    "(string \<times> string \<times> pydict \<times> string) list \<Rightarrow> orchestrator \<Rightarrow> agent_task list \<times> orchestrator" where
  "run_pipeline ts o' = run_tasks ts [] o'"

definition list_agents :: "orchestrator \<Rightarrow> pydict list" where
  "list_agents o' =
     map (\<lambda>a. [(''id'', PStr (ag_id a)), (''name'', PStr (ag_name a)),
               (''capabilities'', PList (map PStr (ag_capabilities a)))]) (dvals (or_agents o'))"

section \<open>Where calls run\<close>

text \<open>
  The scheduler takes any GPU for the right one. On a phone with a Qualcomm graphics device every call
  into PyTorch, TensorFlow, JAX or CuPy, and every call whose name contains \<^verbatim>\<open>cuda\<close> or
  \<^verbatim>\<open>gpu\<close>, is scheduled locally and never offloaded; without any device the same calls go to the
  cloud's GPUs. A name that merely contains \<^verbatim>\<open>npu\<close>, such as \<^verbatim>\<open>input\<close>, counts as one.
\<close>

theorem phone_gpu_never_offloads:
  assumes "hd (split_on (CHR ''.'') meth) \<in> set [''torch'', ''tensorflow'', ''jax'', ''cupy''] \<or>
    (\<exists>w \<in> set [''cuda'', ''gpu'', ''npu'', ''input'']. sublist w (lower meth))"
  shows "(os_exists os ''/dev/kgsl-3d0'' \<longrightarrow>
      sd_decision (schedule (get_system_info os) size_of meth args kwargs) = RunLocal) \<and>
    (\<not> has_gpu_device os \<longrightarrow>
      sd_decision (schedule (get_system_info os) size_of meth args kwargs) = RunGPU)"
proof -
  have "sublist ''npu'' ''input''" by code_simp
  then have "sublist ''npu'' (lower meth)" if "sublist ''input'' (lower meth)"
    using that by (rule sublist_order.order_trans)
  then have "scheduler_needs_gpu meth" using assms by (auto simp: scheduler_needs_gpu_def)
  then show ?thesis by (simp add: schedule_def get_system_info_def has_gpu_device_def)
qed

definition phone :: os_view where
  "phone = \<lparr>os_env = [(''PREFIX'', ''/data/data/com.termux/files/usr'')], os_isdir = (\<lambda>p. False), os_isfile = (\<lambda>p. False),
     os_exists = (\<lambda>p. p = ''/dev/kgsl-3d0''), os_which = (\<lambda>p. False), os_platform = ''Linux'', os_release = ''5'',
     os_machine = ''ARMv8L'', os_system = ''Linux'', os_cpus = Some 8,
     os_meminfo = Some [''MemTotal:       16000000 kB''], os_disk_free = None, os_python = (3, 11, 2),
     os_pointer_bytes = 8, os_home = ''/h''\<rparr>"

theorem phone_gpu_never_offloads_witness:
  "sd_decision (schedule (get_system_info phone) (\<lambda>v. 0) ''torch.cuda.synchronize'' [] None) = RunLocal"
proof -
  have "hd (split_on (CHR ''.'') ''torch.cuda.synchronize'') \<in> set [''torch'', ''tensorflow'', ''jax'', ''cupy''] \<or>
    (\<exists>w \<in> set [''cuda'', ''gpu'', ''npu'', ''input'']. sublist w (lower ''torch.cuda.synchronize''))"
    by simp
  with phone_gpu_never_offloads [of "''torch.cuda.synchronize''" phone "\<lambda>v. 0" "[]" None] show ?thesis
    by (simp add: phone_def)
qed

text \<open>
  The scheduler's decision in full, for a call that needs no GPU: packages the cloud is preferred for go
  to the cloud, and others only when their positional arguments are larger than 100 MB together; what
  is passed by keyword is never counted, however large. No call is ever scheduled as hybrid.
\<close>

theorem schedule_without_gpu:
  assumes "\<not> scheduler_needs_gpu meth"
  shows "(sd_decision (schedule sys size_of meth args kwargs) = RunCloud \<longleftrightarrow>
      hd (split_on (CHR ''.'') meth) \<in> set CLOUD_PREFERRED_PACKAGES \<or> sum_list (map (estimate_size size_of) args) > 104857600) \<and>
    (sd_decision (schedule sys size_of meth args kwargs) = RunLocal \<or>
     sd_decision (schedule sys size_of meth args kwargs) = RunCloud) \<and>
    schedule sys size_of meth args kwargs = schedule sys size_of meth args None \<and>
    sd_decision (schedule sys2 size_of meth2 args2 kwargs2) \<noteq> RunHybrid"
  using assms by (simp add: schedule_def is_large_operation_def Let_def del: split_on.simps)

theorem schedule_without_gpu_witness:
  "sd_decision (schedule (get_system_info phone) (\<lambda>v. 200000000) ''pandas.concat'' [] (Some [(''objs'', PNone)])) = RunLocal"
proof -
  have "\<not> scheduler_needs_gpu ''pandas.concat''" by code_simp
  note r = schedule_without_gpu [OF this, of "get_system_info phone" "\<lambda>v. 200000000" "[]" "Some [(''objs'', PNone)]"]
  have "hd (split_on (CHR ''.'') ''pandas.concat'') \<notin> set CLOUD_PREFERRED_PACKAGES" by code_simp
  moreover have "\<not> sum_list (map (estimate_size (\<lambda>v. 200000000)) []) > 104857600" by simp
  ultimately show ?thesis using r by blast
qed

text \<open>
  The router runs a model locally exactly if it is one of the two small local ones and the memory is more
  than twice its size. The third model listed as local, \<^verbatim>\<open>tinyllama-1.1b\<close>, is over the size limit
  and goes to the cloud on every machine.
\<close>

theorem route_local_iff:
  "(route sys name = ''local'' \<longleftrightarrow>
      name = ''all-MiniLM-L6-v2'' \<and> si_total_memory_mb sys > 160 \<or> name = ''whisper-tiny'' \<and> si_total_memory_mb sys > 150) \<and>
   (route sys name = ''local'' \<or> route sys name = ''cloud'') \<and>
   ''tinyllama-1.1b'' \<in> set list_local_models \<and> route sys ''tinyllama-1.1b'' = ''cloud''"
  by (auto simp: route_def KNOWN_MODELS_def model_def LOCAL_MAX_SIZE_MB_def list_local_models_def)

section \<open>Pipelines\<close>

definition context_after :: "(string \<times> string \<times> pydict \<times> string) list \<Rightarrow> agent_task list \<Rightarrow> pydict \<Rightarrow> pydict" where
  "context_after ts rs ctx = foldl (\<lambda>c ((i, name, payload, cap), r). dset name (tk_result r) c) ctx (zip ts rs)"

lemma task_outcome_tasks: "task_outcome i n p c (o'\<lparr>or_tasks := t\<rparr>) = task_outcome i n p c o'"
  by (simp add: task_outcome_def find_agent_def)

lemma context_after_Cons:
  "context_after (take (Suc j) ((i, name, payload, cap) # ts)) (take (Suc j) (r # rs)) ctx =
     context_after (take j ts) (take j rs) (dset name (tk_result r) ctx)"
  by (simp add: context_after_def)

lemma run_tasks_spec:
  assumes "run_tasks ts ctx o' = (rs, o2)"
  shows "length rs \<le> length ts \<and> (\<forall>j < length rs - 1. tk_status (rs ! j) = ''completed'') \<and>
    (length rs < length ts \<longrightarrow> rs \<noteq> [] \<and> tk_status (last rs) = ''failed'') \<and>
    (\<forall>j < length rs. case ts ! j of (i, name, payload, cap) \<Rightarrow>
       rs ! j = task_outcome i name (dset ''_context'' (PDict (context_after (take j ts) (take j rs) ctx)) payload) cap o')"
  using assms
proof (induction ts arbitrary: ctx o' rs o2)
  case (Cons t ts)
  obtain i name payload cap where t: "t = (i, name, payload, cap)" by (metis prod.exhaust)
  let ?task = "task_outcome i name (dset ''_context'' (PDict ctx) payload) cap o'"
  let ?o = "o'\<lparr>or_tasks := dset i ?task (or_tasks o')\<rparr>"
  have status: "tk_status ?task = ''completed'' \<or> tk_status ?task = ''failed''"
    by (auto simp: task_outcome_def Let_def split: option.splits sum.splits)
  show ?case
  proof (cases "tk_status ?task = ''completed''")
    case False
    with Cons.prems t status have "rs = [?task]" "tk_status ?task = ''failed''"
      by (auto simp: submit_task_def Let_def)
    with t show ?thesis by (simp add: context_after_def)
  next
    case True
    obtain rs1 where rs1: "run_tasks ts (dset name (tk_result ?task) ctx) ?o = (rs1, o2)" "rs = ?task # rs1"
      using Cons.prems t True by (auto simp: submit_task_def Let_def split: prod.splits)
    note IH = Cons.IH [OF rs1(1)]
    show ?thesis
    proof (intro conjI)
      show "\<forall>j < length rs. case (t # ts) ! j of (i, name, payload, cap) \<Rightarrow>
          rs ! j = task_outcome i name (dset ''_context'' (PDict (context_after (take j (t # ts)) (take j rs) ctx)) payload) cap o'"
      proof (intro allI impI)
        fix j assume j: "j < length rs"
        show "case (t # ts) ! j of (i, name, payload, cap) \<Rightarrow>
          rs ! j = task_outcome i name (dset ''_context'' (PDict (context_after (take j (t # ts)) (take j rs) ctx)) payload) cap o'"
        proof (cases j)
          case 0
          then show ?thesis using t rs1(2) by (simp add: context_after_def)
        next
          case (Suc k)
          with j rs1(2) have k: "k < length rs1" by simp
          note IH [THEN conjunct2, THEN conjunct2, THEN conjunct2, rule_format, OF k]
          with Suc rs1(2) context_after_Cons [of k i name payload cap ts ?task rs1 ctx] t show ?thesis by (simp add: task_outcome_tasks split: prod.splits)
        qed
      qed
      show "\<forall>j < length rs - 1. tk_status (rs ! j) = ''completed''"
        using IH rs1(2) True by (auto simp: nth_Cons less_Suc_eq_0_disj split: nat.splits)
    qed (use IH rs1(2) True in auto)
  qed
qed simp

text \<open>
  C31: A pipeline runs its tasks in order, up to and including the first that fails: all earlier ones are
  completed, each is given under \<^verbatim>\<open>_context\<close> exactly the results of those before it, under their
  names, and nothing after a failure is started.
\<close>

theorem pipeline_runs_prefix:
  assumes "run_pipeline ts o' = (rs, o2)"
  shows "length rs \<le> length ts \<and> (\<forall>j < length rs - 1. tk_status (rs ! j) = ''completed'') \<and>
    (length rs < length ts \<longrightarrow> rs \<noteq> [] \<and> tk_status (last rs) = ''failed'') \<and>
    (\<forall>j < length rs. case ts ! j of (i, name, payload, cap) \<Rightarrow>
       rs ! j = task_outcome i name (dset ''_context'' (PDict (context_after (take j ts) (take j rs) [])) payload) cap o')"
  using run_tasks_spec [of ts "[]" o' rs o2] assms by (simp add: run_pipeline_def)

definition one_agent :: orchestrator where
  "one_agent = register_agent \<lparr>ag_id = ''a'', ag_name = ''count'', ag_capabilities = [''echo''],
     ag_handler = Some (\<lambda>p. Inr (PInt (int (length p))))\<rparr> \<lparr>or_agents = [], or_tasks = []\<rparr>"

theorem pipeline_runs_prefix_witness:
  "map tk_status (fst (run_pipeline [(''1'', ''x'', [], ''echo''), (''2'', ''y'', [], ''fly''), (''3'', ''z'', [], ''echo'')] one_agent)) =
     [''completed'', ''failed''] \<and>
   tk_status (last (fst (run_pipeline [(''1'', ''x'', [], ''echo''), (''2'', ''y'', [], ''fly''), (''3'', ''z'', [], ''echo'')] one_agent))) = ''failed''"
proof -
  let ?r = "run_pipeline [(''1'', ''x'', [], ''echo''), (''2'', ''y'', [], ''fly''), (''3'', ''z'', [], ''echo'')] one_agent"
  have "map tk_status (fst ?r) = [''completed'', ''failed'']" by code_simp
  moreover from this have "length (fst ?r) = 2" by (metis length_map length_Cons list.size(3) numeral_2_eq_2)
  ultimately show ?thesis using pipeline_runs_prefix [OF prod.collapse [symmetric], of "[(''1'', ''x'', [], ''echo''), (''2'', ''y'', [], ''fly''), (''3'', ''z'', [], ''echo'')]" one_agent]
    by simp
qed

end
