(* ===== verification/Doctor.thy ===== *)
theory Doctor
  imports Config Cache Scheduling
begin

text \<open>
  \<^verbatim>\<open>cpip doctor\<close> (\<^verbatim>\<open>client/doctor.py\<close>): eight checks of the installation, the platform,
  the cache, the server and the login. Only the check of the cache has an effect: it runs the integrity
  check, which repairs as it looks. What Python and the network answer is in \<open>doctor_view\<close>; the
  directories are looked up on the disk of the cache. Printing the report is left out.
\<close>

section \<open>The checks\<close>

record check_result =
  ck_name :: string
  ck_passed :: bool
  ck_message :: string
  ck_fix :: string

record doctor_view =
  dv_os :: os_view
  dv_health :: "py_error + int \<times> pyval option"
  dv_has_module :: "string \<Rightarrow> bool"
  dv_str :: "pyval \<Rightarrow> string"
  dv_fixed1 :: "pyfloat \<Rightarrow> string"

text \<open>\<open>>=\<close> as one character, in UTF-8.\<close>

definition at_least_sign :: string where
  "at_least_sign = [CHR 0xE2, CHR 0x89, CHR 0xA5]"

definition check_python :: "doctor_view \<Rightarrow> check_result" where
  "check_python D =
     (case os_python (dv_os D) of (major, minor, micro) \<Rightarrow>
        let ok = major = 3 \<and> minor \<ge> 10
        in \<lparr>ck_name = ''Python Version'', ck_passed = ok,
            ck_message = ''Python '' @ int_str major @ ''.'' @ int_str minor @ ''.'' @ int_str micro @
              (if ok then [] else '' (need '' @ at_least_sign @ ''3.10)''),
            ck_fix = (if ok then [] else ''Install Python 3.10+: pkg install python'')\<rparr>)"

definition check_platform :: "doctor_view \<Rightarrow> check_result" where
  "check_platform D =
     (let info = get_system_info (dv_os D)
      in \<lparr>ck_name = ''Platform'', ck_passed = True,
          ck_message = si_platform_tag info @ '' | '' @ int_str (si_cpu_count info) @ '' CPUs | '' @
            int_str (si_total_memory_mb info) @ ''MB RAM'' @ (if si_is_termux info then '' | Termux'' else []),
          ck_fix = []\<rparr>)"

definition check_directories :: "doctor_view \<Rightarrow> cpip_config \<Rightarrow> cache \<Rightarrow> check_result" where
  "check_directories D cf c =
     (let missing = filter (\<lambda>d. \<not> fs_exists (disk c) (path_parts d))
            [cf_home cf, cf_cache_dir cf, cf_wheels_dir cf, cf_layers_dir cf]
      in if missing \<noteq> []
         then \<lparr>ck_name = ''Directories'', ck_passed = False,
               ck_message = ''Missing: '' @ dv_str D (PList (map PStr missing)), ck_fix = ''Run: cpip config --init''\<rparr>
         else \<lparr>ck_name = ''Directories'', ck_passed = True, ck_message = ''All directories OK'', ck_fix = []\<rparr>)"

definition check_cache :: "(bytes \<Rightarrow> string) \<Rightarrow> doctor_view \<Rightarrow> cache \<Rightarrow> check_result \<times> cache" where
  "check_cache sha D c =
     (case verify_integrity sha c of (issues, c') \<Rightarrow>
        if issues \<noteq> []
        then (\<lparr>ck_name = ''Cache'', ck_passed = False,
               ck_message = int_str (int (length issues)) @ '' integrity issues'', ck_fix = ''Run: cpip cache --repair''\<rparr>, c')
        else (\<lparr>ck_name = ''Cache'', ck_passed = True,
               ck_message = dv_fixed1 D (total_size_mb (stats c)) @ ''/'' @ int_str (stat_max_size_mb (stats c)) @ ''MB | '' @
                 int_str (int (num_wheels (stats c))) @ '' wheels | '' @ int_str (int (num_layers (stats c))) @ '' layers'',
               ck_fix = []\<rparr>, c'))"

text \<open>Any error, also in reading the answer, counts as no answer.\<close>

definition check_cloud :: "doctor_view \<Rightarrow> check_result" where
  "check_cloud D =
     (case dv_health D of
        Inr (code, Some (PDict data)) \<Rightarrow>
          if code = 200
          then \<lparr>ck_name = ''Cloud'', ck_passed = True,
                ck_message = ''Connected | v'' @ fmt (dv_str D) (dget_or data ''version'' (PStr ''?'')), ck_fix = []\<rparr>
          else \<lparr>ck_name = ''Cloud'', ck_passed = False, ck_message = ''Unreachable'',
                ck_fix = ''Check network or set CPIP_API_URL''\<rparr>
      | _ \<Rightarrow> \<lparr>ck_name = ''Cloud'', ck_passed = False, ck_message = ''Unreachable'',
             ck_fix = ''Check network or set CPIP_API_URL''\<rparr>)"

text \<open>\<open>v[:8]\<close>, which values other than sequences do not have.\<close>

fun first_eight :: "pyval \<Rightarrow> py_error + pyval" where
  "first_eight (PStr s) = Inr (PStr (take 8 s))"
| "first_eight (PList vs) = Inr (PList (take 8 vs))"
| "first_eight (PTuple vs) = Inr (PTuple (take 8 vs))"
| "first_eight (PBytes b) = Inr (PBytes (take 8 b))"
| "first_eight v = Inl TypeError"

definition check_auth :: "doctor_view \<Rightarrow> cpip_config \<Rightarrow> py_error + check_result" where
  "check_auth D cf =
     (if truthy (ac_token (cf_auth cf))
      then map_sum id
        (\<lambda>v. \<lparr>ck_name = ''Auth'', ck_passed = True,
              ck_message = ''Authenticated (device: '' @ fmt (dv_str D) v @ ''...)'', ck_fix = []\<rparr>)
        (first_eight (ac_device_id (cf_auth cf)))
      else Inr \<lparr>ck_name = ''Auth'', ck_passed = False, ck_message = ''Not authenticated'', ck_fix = ''Run: cpip login''\<rparr>)"

definition check_dependencies :: "doctor_view \<Rightarrow> check_result" where
  "check_dependencies D =
     (let missing = filter (\<lambda>p. \<not> dv_has_module D p) [''typer'', ''rich'', ''httpx'', ''websockets'', ''pydantic'']
      in if missing \<noteq> []
         then \<lparr>ck_name = ''Dependencies'', ck_passed = False, ck_message = ''Missing: '' @ join '', '' missing,
               ck_fix = ''pip install '' @ join '' '' missing\<rparr>
         else \<lparr>ck_name = ''Dependencies'', ck_passed = True, ck_message = ''All core dependencies OK'', ck_fix = []\<rparr>)"

definition check_disk :: "doctor_view \<Rightarrow> check_result" where
  "check_disk D =
     (let info = get_system_info (dv_os D); ok = si_available_disk_mb info > 500
      in \<lparr>ck_name = ''Disk Space'', ck_passed = ok,
          ck_message = int_str (si_available_disk_mb info) @ ''MB free'' @ (if ok then [] else '' (low!)''),
          ck_fix = (if ok then [] else ''Free up disk space or reduce cache: cpip cache --clear'')\<rparr>)"

section \<open>A run\<close>

text \<open>Every check gives one result; one that raises gives a failed result under the name of its method.\<close>

definition check_outcome :: "string \<Rightarrow> py_error + check_result \<Rightarrow> check_result" where
  "check_outcome method out =
     (case out of
        Inr r \<Rightarrow> r
      | Inl e \<Rightarrow> \<lparr>ck_name = method, ck_passed = False, ck_message = error_text e, ck_fix = []\<rparr>)"

definition run_all ::
    "(bytes \<Rightarrow> string) \<Rightarrow> doctor_view \<Rightarrow> cpip_config \<Rightarrow> cache \<Rightarrow> check_result list \<times> cache" where
  "run_all sha D cf c =
     (case check_cache sha D c of (cache_result, c') \<Rightarrow>
        ([check_python D, check_platform D, check_directories D cf c, cache_result, check_cloud D,
          check_outcome ''_check_auth'' (check_auth D cf), check_dependencies D, check_disk D], c'))"

section \<open>The doctor heals\<close>

lemma cache_result_of_run:
  "run_all sha D cf c = (rs, c') \<Longrightarrow> (rs ! 3, c') = check_cache sha D c \<and> length rs = 8"
  by (auto simp: run_all_def split: prod.splits)


definition phone_view :: doctor_view where
  "phone_view = \<lparr>dv_os = phone, dv_health = Inl TypeError, dv_has_module = (\<lambda>m. True), dv_str = (\<lambda>v. []),
     dv_fixed1 = (\<lambda>x. [])\<rparr>"


end
