(* ===== verification/Lifecycle.thy ===== *)
theory Lifecycle
  imports Daemon
begin

text \<open>
  \<^verbatim>\<open>cpip daemon start|stop|status\<close> (\<^verbatim>\<open>client/cli.py\<close>) and the processes they start and
  signal (\<^verbatim>\<open>CpipDaemon.start\<close>, \<open>stop\<close>, \<open>is_running\<close>), as a transition system:
  between the start of a process and the writing of its pid file, and between the signal and the end of the
  process, other commands may run. A process is its pid; one that is still starting has no signal handler and
  dies of a signal at once. The output files of the daemon are not modelled.
\<close>

section \<open>The commands\<close>

record world =
  pid_file :: "string option"
  starting :: "int list"
  serving :: "int list"
  stopping :: "int list"

definition idle :: world where
  "idle = \<lparr>pid_file = None, starting = [], serving = [], stopping = []\<rparr>"

definition processes :: "world \<Rightarrow> int list" where
  "processes w = starting w @ serving w @ stopping w"

definition alive :: "world \<Rightarrow> int \<Rightarrow> bool" where
  "alive w p \<longleftrightarrow> p \<in> set (processes w)"

text \<open>\<open>p\<close> is the pid of the new process, if one is started; the result says whether it was.\<close>

definition cli_daemon_start :: "int \<Rightarrow> world \<Rightarrow> bool \<times> world" where
  "cli_daemon_start p w =
     (case daemon_is_running (alive w) (pid_file w) of
        (True, f) \<Rightarrow> (False, w\<lparr>pid_file := f\<rparr>)
      | (False, f) \<Rightarrow> (True, w\<lparr>pid_file := f, starting := starting w @ [p]\<rparr>))"

definition signal_stop :: "int \<Rightarrow> world \<Rightarrow> world" where
  "signal_stop p w =
     (if p \<in> set (serving w) then w\<lparr>serving := removeAll p (serving w), stopping := stopping w @ [p]\<rparr>
      else w\<lparr>starting := removeAll p (starting w)\<rparr>)"

definition cli_daemon_stop :: "world \<Rightarrow> (py_error + bool) \<times> world" where
  "cli_daemon_stop w =
     (case pid_file w of
        None \<Rightarrow> (Inr False, w)
      | Some t \<Rightarrow>
          (case py_int (strip t) of
             None \<Rightarrow> (Inl (ValueError t), w)
           | Some p \<Rightarrow> if alive w p then (Inr True, signal_stop p w) else (Inl (OtherError ''ProcessLookupError''), w)))"

definition cli_daemon_status :: "world \<Rightarrow> bool \<times> world" where
  "cli_daemon_status w =
     (let (r, f) = daemon_is_running (alive w) (pid_file w) in (r, w\<lparr>pid_file := f\<rparr>))"

text \<open>A process writes its pid and begins to serve; one that was signalled removes the file and ends.\<close>

definition daemon_boot :: "int \<Rightarrow> world \<Rightarrow> world" where
  "daemon_boot p w =
     w\<lparr>pid_file := Some (int_str p), starting := removeAll p (starting w), serving := serving w @ [p]\<rparr>"

definition daemon_end :: "int \<Rightarrow> world \<Rightarrow> world" where
  "daemon_end p w = w\<lparr>pid_file := None, stopping := removeAll p (stopping w)\<rparr>"

definition daemon_killed :: "int \<Rightarrow> world \<Rightarrow> world" where
  "daemon_killed p w =
     w\<lparr>starting := removeAll p (starting w), serving := removeAll p (serving w), stopping := removeAll p (stopping w)\<rparr>"

section \<open>Runs\<close>

text \<open>
  \<open>patient\<close>: nobody gives the command to start while a process is still starting. A new pid is that of
  no live process.
\<close>

inductive daemon_step :: "bool \<Rightarrow> world \<Rightarrow> world \<Rightarrow> bool" for patient where
  start_cmd: "(patient \<Longrightarrow> starting w = []) \<Longrightarrow> \<not> alive w p \<Longrightarrow> cli_daemon_start p w = (r, w') \<Longrightarrow> daemon_step patient w w'"
| stop_cmd: "cli_daemon_stop w = (out, w') \<Longrightarrow> daemon_step patient w w'"
| status_cmd: "cli_daemon_status w = (r, w') \<Longrightarrow> daemon_step patient w w'"
| boot: "p \<in> set (starting w) \<Longrightarrow> daemon_step patient w (daemon_boot p w)"
| finish: "p \<in> set (stopping w) \<Longrightarrow> daemon_step patient w (daemon_end p w)"
| killed: "alive w p \<Longrightarrow> daemon_step patient w (daemon_killed p w)"

inductive_cases daemon_stepE: "daemon_step patient w w'"

abbreviation daemon_runs :: "bool \<Rightarrow> world \<Rightarrow> world \<Rightarrow> bool" where
  "daemon_runs patient \<equiv> (daemon_step patient)\<^sup>*\<^sup>*"

lemma is_running_own:
  "daemon_is_running alive' (Some (int_str p)) = (if alive' p then (True, Some (int_str p)) else (False, None))"
  by (simp add: daemon_is_running_def py_int_str)

text \<open>At most one process, and once it has written the file, the file names it.\<close>

definition one_daemon :: "world \<Rightarrow> bool" where
  "one_daemon w \<longleftrightarrow>
     length (processes w) \<le> 1 \<and> (\<forall>p \<in> set (serving w) \<union> set (stopping w). pid_file w = Some (int_str p))"

lemma one_daemon_cases:
  assumes "one_daemon w"
  obtains "processes w = []"
  | p where "starting w = [p]" "serving w = []" "stopping w = []"
  | p where "starting w = []" "serving w = [p]" "stopping w = []" "pid_file w = Some (int_str p)"
  | p where "starting w = []" "serving w = []" "stopping w = [p]" "pid_file w = Some (int_str p)"
  using assms
  by (cases "starting w"; cases "serving w"; cases "stopping w")
    (auto simp: one_daemon_def processes_def)

lemma one_daemon_step:
  assumes "daemon_step True w w'" and "one_daemon w"
  shows "one_daemon w'"
  using assms(1)
proof cases
  case (start_cmd p r)
  from assms(2) show ?thesis
  proof (cases rule: one_daemon_cases)
    case 1
    with start_cmd(3) show ?thesis
      by (auto simp: cli_daemon_start_def one_daemon_def processes_def split: prod.splits bool.splits)
  next
    case (2 q)
    with start_cmd(1) show ?thesis by simp
  next
    case (3 q)
    with start_cmd(3) assms(2) show ?thesis
      by (auto simp: cli_daemon_start_def is_running_own alive_def processes_def one_daemon_def)
  next
    case (4 q)
    with start_cmd(3) assms(2) show ?thesis
      by (auto simp: cli_daemon_start_def is_running_own alive_def processes_def one_daemon_def)
  qed
next
  case (stop_cmd out)
  from assms(2) show ?thesis
    by (cases rule: one_daemon_cases; use stop_cmd in
      \<open>auto simp: cli_daemon_stop_def py_int_str signal_stop_def alive_def processes_def one_daemon_def
         split: option.splits if_splits\<close>)
next
  case (status_cmd r)
  from assms(2) show ?thesis
    by (cases rule: one_daemon_cases; use status_cmd in
      \<open>auto simp: cli_daemon_status_def is_running_own alive_def processes_def one_daemon_def split: prod.splits\<close>)
qed (use assms(2) in \<open>cases rule: one_daemon_cases;
      auto simp: daemon_boot_def daemon_end_def daemon_killed_def alive_def processes_def one_daemon_def\<close>)+

section \<open>At most one daemon\<close>

lemma one_daemon_runs: "daemon_runs True idle w \<Longrightarrow> one_daemon w"
proof (induction rule: rtranclp_induct)
  case (step y z)
  from step.hyps(2) step.IH show ?case by (rule one_daemon_step)
qed (simp add: idle_def one_daemon_def processes_def)



text \<open>
  Two commands to start in a row break it: both find no pid file. The second process to write it takes the
  file over, its end removes it, and the first runs on unseen: the status denies it, the command to stop
  does not find it, and a further daemon can be started.
\<close>

theorem hasty_start_orphans_daemon:
  assumes "p \<noteq> q"
  shows "\<exists>w. daemon_runs False idle w \<and> serving w = [p] \<and> cli_daemon_status w = (False, w) \<and>
    cli_daemon_stop w = (Inr False, w) \<and> (\<forall>r. fst (cli_daemon_start r w))"
proof -
  let ?w1 = "idle\<lparr>starting := [p]\<rparr>" and ?w2 = "idle\<lparr>starting := [p, q]\<rparr>"
  let ?w3 = "daemon_boot q (daemon_boot p ?w2)"
  let ?w4 = "idle\<lparr>pid_file := Some (int_str q), serving := [p], stopping := [q]\<rparr>"
  let ?w5 = "idle\<lparr>serving := [p]\<rparr>"
  have "daemon_step False idle ?w1"
    by (rule start_cmd [where p = p and r = True])
      (simp_all add: idle_def alive_def processes_def cli_daemon_start_def daemon_is_running_def)
  moreover have "daemon_step False ?w1 ?w2"
    using assms by (intro start_cmd [where p = q and r = True])
      (simp_all add: idle_def alive_def processes_def cli_daemon_start_def daemon_is_running_def)
  moreover have "daemon_step False ?w2 (daemon_boot p ?w2)" by (rule boot) simp
  moreover have "daemon_step False (daemon_boot p ?w2) ?w3" using assms by (intro boot) (simp add: daemon_boot_def)
  moreover have "daemon_step False ?w3 ?w4"
    using assms by (intro stop_cmd [where out = "Inr True"])
      (simp add: daemon_boot_def idle_def cli_daemon_stop_def py_int_str alive_def processes_def signal_stop_def)
  moreover have "daemon_step False ?w4 ?w5"
    using finish [of q ?w4 False] by (simp add: daemon_end_def idle_def)
  ultimately have "daemon_runs False idle ?w5"
    by (meson converse_rtranclp_into_rtranclp rtranclp.rtrancl_refl)
  then show ?thesis
    by (intro exI [where x = ?w5])
      (simp add: idle_def cli_daemon_status_def cli_daemon_stop_def cli_daemon_start_def daemon_is_running_def)
qed

theorem hasty_start_orphans_daemon_witness:
  "\<exists>w. daemon_runs False idle w \<and> serving w = [7] \<and> cli_daemon_status w = (False, w)"
  using hasty_start_orphans_daemon [of 7 8] by auto

end
