(* ===== verification/Console.thy ===== *)
theory Console
  imports Scheduling
begin

text \<open>
  What the client prints: the messages of \<^verbatim>\<open>client/ui/console.py\<close> and the panels of
  \<^verbatim>\<open>client/ui/panels.py\<close>, as the markup and the data that are handed to Rich. How Rich lays them out
  is not modelled, nor are the widths and paddings. Texts are UTF-8. \<open>str_of\<close> stands for \<^verbatim>\<open>str\<close> on
  values that are no strings.
\<close>

section \<open>Messages\<close>

definition check_sign :: string where "check_sign = [CHR 0xE2, CHR 0x9C, CHR 0x93]"
definition cross_sign :: string where "cross_sign = [CHR 0xE2, CHR 0x9C, CHR 0x97]"
definition warning_sign :: string where "warning_sign = [CHR 0xE2, CHR 0x9A, CHR 0xA0]"
definition info_sign :: string where "info_sign = [CHR 0xE2, CHR 0x84, CHR 0xB9]"
definition cloud_sign :: string where "cloud_sign = [CHR 0xE2, CHR 0x98, CHR 0x81]"
definition bolt_sign :: string where "bolt_sign = [CHR 0xE2, CHR 0x9A, CHR 0xA1]"
definition dot_sign :: string where "dot_sign = [CHR 0xE2, CHR 0x97, CHR 0x8F]"
definition bar_sign :: string where "bar_sign = [CHR 0xE2, CHR 0x94, CHR 0x81]"
definition box_sign :: string where "box_sign = [CHR 0xF0, CHR 0x9F, CHR 0x93, CHR 0xA6]"
definition phone_sign :: string where "phone_sign = [CHR 0xF0, CHR 0x9F, CHR 0x93, CHR 0xB1]"
definition emoji_cloud :: string where "emoji_cloud = cloud_sign @ [CHR 0xEF, CHR 0xB8, CHR 0x8F]"

definition newline :: char where "newline = CHR 0x0A"

definition styled :: "string \<Rightarrow> string \<Rightarrow> string" where
  "styled style s = ''['' @ style @ '']'' @ s @ ''[/'' @ style @ '']''"

definition print_success :: "string \<Rightarrow> string" where
  "print_success message = ''  '' @ styled ''cpip.success'' check_sign @ '' '' @ message"

definition print_error :: "string \<Rightarrow> string" where
  "print_error message = ''  '' @ styled ''cpip.error'' cross_sign @ '' '' @ message"

definition print_warning :: "string \<Rightarrow> string" where
  "print_warning message = ''  '' @ styled ''cpip.warning'' warning_sign @ '' '' @ message"

definition print_info :: "string \<Rightarrow> string" where
  "print_info message = ''  '' @ styled ''cpip.info'' info_sign @ '' '' @ message"

definition print_cloud :: "string \<Rightarrow> string" where
  "print_cloud message = ''  '' @ styled ''cpip.status.cloud'' cloud_sign @ '' '' @ message"

definition print_gpu :: "string \<Rightarrow> string" where
  "print_gpu message = ''  '' @ styled ''cpip.status.gpu'' bolt_sign @ '' '' @ message"

definition print_package :: "string \<Rightarrow> string \<Rightarrow> string \<Rightarrow> string" where
  "print_package name version strategy =
     join '' '' ([''  '' @ styled ''cpip.package'' name] @
       (if version \<noteq> [] then [styled ''cpip.version'' version] else []) @
       (if strategy \<noteq> [] then [styled ''cpip.strategy'' (''('' @ strategy @ '')'')] else []))"

definition print_divider :: "string \<Rightarrow> string" where
  "print_divider title =
     (let bars = (\<lambda>n. concat (replicate n bar_sign))
      in if title \<noteq> [] then newline # ''  '' @ styled ''cpip.header'' (bars 3 @ '' '' @ title @ '' '' @ bars 3)
         else ''  '' @ styled ''cpip.divider'' (bars 50))"

definition print_step :: "int \<Rightarrow> int \<Rightarrow> string \<Rightarrow> string" where
  "print_step step tot message =
     ''  '' @ styled ''cpip.dim'' (''['' @ int_str step @ ''/'' @ int_str tot @ '']'') @ '' '' @ message"

section \<open>The banner\<close>

definition bx_full :: string where "bx_full = [CHR 0xE2, CHR 0x96, CHR 0x88]"
definition bx_dl :: string where "bx_dl = [CHR 0xE2, CHR 0x95, CHR 0x97]"
definition bx_dr :: string where "bx_dr = [CHR 0xE2, CHR 0x95, CHR 0x94]"
definition bx_v :: string where "bx_v = [CHR 0xE2, CHR 0x95, CHR 0x91]"
definition bx_h :: string where "bx_h = [CHR 0xE2, CHR 0x95, CHR 0x90]"
definition bx_ul :: string where "bx_ul = [CHR 0xE2, CHR 0x95, CHR 0x9D]"
definition bx_ur :: string where "bx_ur = [CHR 0xE2, CHR 0x95, CHR 0x9A]"
definition bullet :: string where "bullet = [CHR 0xE2, CHR 0x80, CHR 0xA2]"

text \<open>\<open>PrintBanner\<close> is the printing of this text with the version and its code name filled in.\<close>

definition banner :: "string \<Rightarrow> string \<Rightarrow> string" where
  "banner version codename =
     (let rep = (\<lambda>n s. concat (replicate n s)) in
      join [newline]
       [[],
        ''[bold cyan]'',
        ''   '' @ rep 6 bx_full @ bx_dl @ rep 6 bx_full @ bx_dl @ '' '' @ rep 2 bx_full @ bx_dl @ rep 6 bx_full @ bx_dl,
        ''  '' @ rep 2 bx_full @ bx_dr @ rep 4 bx_h @ bx_ul @ rep 2 bx_full @ bx_dr @ rep 2 bx_h @ rep 2 bx_full @ bx_dl @ rep 2 bx_full @ bx_v @ rep 2 bx_full @ bx_dr @ rep 2 bx_h @ rep 2 bx_full @ bx_dl,
        ''  '' @ rep 2 bx_full @ bx_v @ ''     '' @ rep 6 bx_full @ bx_dr @ bx_ul @ rep 2 bx_full @ bx_v @ rep 6 bx_full @ bx_dr @ bx_ul,
        ''  '' @ rep 2 bx_full @ bx_v @ ''     '' @ rep 2 bx_full @ bx_dr @ rep 3 bx_h @ bx_ul @ '' '' @ rep 2 bx_full @ bx_v @ rep 2 bx_full @ bx_dr @ rep 3 bx_h @ bx_ul,
        ''  '' @ bx_ur @ rep 6 bx_full @ bx_dl @ rep 2 bx_full @ bx_v @ ''     '' @ rep 2 bx_full @ bx_v @ rep 2 bx_full @ bx_v,
        ''   '' @ bx_ur @ rep 5 bx_h @ bx_ul @ bx_ur @ bx_h @ bx_ul @ ''     '' @ bx_ur @ bx_h @ bx_ul @ bx_ur @ bx_h @ bx_ul,
        ''[/bold cyan]'',
        ''[dim]  Cloud-Powered Package Intelligence[/dim]'',
        ''[dim]  v'' @ version @ '' '' @ bullet @ '' '' @ codename @ ''[/dim]'',
        []])"

definition banner_text :: string where
  "banner_text = banner VERSION CODENAME"

section \<open>Panels\<close>

datatype panel_body =
    Rows "(string \<times> pyval) list"
  | Centered string string
  | Grid "string list" "pyval list list"

record panel =
  pn_title :: string
  pn_border :: string
  pn_body :: panel_body

datatype printed =
    Print string
  | PrintBanner
  | PrintPanel panel
  | PrintColumns "panel list"
  | PrintTable string "string list" "pyval list list"

definition status_panel :: "string \<Rightarrow> (string \<times> pyval) list \<Rightarrow> string \<Rightarrow> panel" where
  "status_panel title rows border =
     \<lparr>pn_title = styled ''cpip.header'' title, pn_border = border, pn_body = Rows rows\<rparr>"

definition system_info_panel :: "(pyval \<Rightarrow> string) \<Rightarrow> pydict \<Rightarrow> panel" where
  "system_info_panel str_of info =
     status_panel ''System Information''
       [(''Platform'', PStr (styled ''cpip.primary'' (fmt str_of (dget_or info ''platform_tag'' (PStr ''unknown''))))),
        (''Architecture'', dget_or info ''architecture'' (PStr ''unknown'')),
        (''Python'', dget_or info ''python_version'' (PStr ''unknown'')),
        (''CPU Cores'', PStr (fmt str_of (dget_or info ''cpu_count'' (PInt 0)))),
        (''Memory'', PStr (fmt str_of (dget_or info ''total_memory_mb'' (PInt 0)) @ '' MB'')),
        (''Disk Free'', PStr (fmt str_of (dget_or info ''available_disk_mb'' (PInt 0)) @ '' MB'')),
        (''Termux'', PStr (if truthy (dget_or info ''is_termux'' PNone) then styled ''cpip.success'' ''Yes''
                           else styled ''cpip.dim'' ''No'')),
        (''GPU'', PStr (if truthy (dget_or info ''has_gpu'' PNone)
                        then styled ''cpip.status.gpu'' (bolt_sign @ '' Detected'')
                        else styled ''cpip.dim'' ''None''))]
       ''cyan''"

definition cloud_status_panel :: "(pyval \<Rightarrow> string) \<Rightarrow> bool \<Rightarrow> string \<Rightarrow> pydict \<Rightarrow> panel" where
  "cloud_status_panel str_of online address stats =
     status_panel ''Cloud Status''
       ([(''Status'', PStr (if online then styled ''cpip.success'' (dot_sign @ '' Connected'')
                            else styled ''cpip.error'' (dot_sign @ '' Disconnected''))),
         (''API'', PStr (styled ''cpip.url'' address))] @
        (if stats \<noteq> []
         then [(''Build Queue'', PStr (fmt str_of (dget_or stats ''build_queue_size'' (PInt 0)))),
               (''Active Exec'', PStr (fmt str_of (dget_or stats ''active_executions'' (PInt 0)))),
               (''Devices'', PStr (fmt str_of (dget_or stats ''connected_devices'' (PInt 0))))]
         else []))
       ''bright_magenta''"

definition strategy_colors :: "(string, string) dict" where
  "strategy_colors =
     [(''local_install'', ''cpip.status.local''), (''cloud_wheel'', ''cpip.status.cloud''),
      (''cloud_exec'', ''cpip.status.cloud''), (''cloud_build'', ''cpip.status.cloud''),
      (''hybrid'', ''cpip.status.gpu''), (''termux_pkg'', ''cpip.status.local'')]"

text \<open>The optional details: a size, the dependencies, whether a GPU is required.\<close>

record package_details =
  pd_size :: "pyval option"
  pd_dependencies :: "string list option"
  pd_gpu_required :: "pyval option"

definition package_info_panel :: "string \<Rightarrow> string \<Rightarrow> string \<Rightarrow> package_details option \<Rightarrow> panel" where
  "package_info_panel name version strategy details =
     status_panel (box_sign @ '' '' @ name)
       ([(''Package'', PStr (styled ''cpip.package'' name)), (''Version'', PStr (styled ''cpip.version'' version)),
         (''Strategy'', PStr (styled (dget_or strategy_colors strategy ''cpip.info'') strategy))] @
        (case details of
           None \<Rightarrow> []
         | Some d \<Rightarrow>
             (case pd_size d of None \<Rightarrow> [] | Some v \<Rightarrow> [(''Size'', v)]) @
             (case pd_dependencies d of None \<Rightarrow> [] | Some ds \<Rightarrow> [(''Dependencies'', PStr (join '', '' (take 5 ds)))]) @
             (case pd_gpu_required d of
                None \<Rightarrow> []
              | Some v \<Rightarrow> [(''GPU'', PStr (if truthy v then styled ''cpip.status.gpu'' ''Required'' else ''Not required''))])))
       ''bright_cyan''"

definition gpu_status_panel :: "pydict list \<Rightarrow> panel" where
  "gpu_status_panel gpus =
     (if gpus = []
      then \<lparr>pn_title = styled ''cpip.header'' ''GPU Status'', pn_border = ''bright_red'',
            pn_body = Centered ''cpip.dim'' (''No local GPU detected'' @ [newline] @ ''Cloud GPU available via cpip runtime'')\<rparr>
      else \<lparr>pn_title = styled ''cpip.header'' (bolt_sign @ '' GPU Status''), pn_border = ''bright_red'',
            pn_body = Grid [''GPU'', ''Memory'', ''Status'']
              (map (\<lambda>gpu. [dget_or gpu ''name'' (PStr ''Unknown''), dget_or gpu ''memory'' (PStr ''N/A''),
                           dget_or gpu ''status'' (PStr ''available'')]) gpus)\<rparr>)"

definition strategy_icons :: "(string, string) dict" where
  "strategy_icons =
     [(''local_install'', box_sign @ '' local''), (''cloud_wheel'', emoji_cloud @ ''  wheel''),
      (''cloud_exec'', emoji_cloud @ ''  exec''), (''hybrid'', bolt_sign @ '' hybrid''),
      (''termux_pkg'', phone_sign @ '' termux'')]"

definition package_row :: "pydict \<Rightarrow> pyval list" where
  "package_row pkg =
     (let strategy = dget_or pkg ''strategy'' (PStr ''local_install'')
      in [dget_or pkg ''name'' (PStr ''?''), dget_or pkg ''version'' (PStr ''?''),
          (case strategy of
             PStr s \<Rightarrow> (case dget strategy_icons s of Some icon \<Rightarrow> PStr icon | None \<Rightarrow> strategy)
           | _ \<Rightarrow> strategy),
          dget_or pkg ''size'' (PStr [])])"

definition packages_table :: "pydict list \<Rightarrow> printed" where
  "packages_table packages = PrintTable [] [''Package'', ''Version'', ''Strategy'', ''Size''] (map package_row packages)"

definition dashboard :: "(pyval \<Rightarrow> string) \<Rightarrow> pydict \<Rightarrow> bool \<Rightarrow> string \<Rightarrow> printed list" where
  "dashboard str_of info online address =
     [Print [], PrintColumns [system_info_panel str_of info, cloud_status_panel str_of online address []], Print []]"

end
