(* ===== verification/Cli.thy ===== *)
theory Cli
  imports Console ImportHooks Doctor Lifecycle "HOL-Library.List_Lexorder" "HOL-Library.Char_ord"
begin

text \<open>
  The commands of \<^verbatim>\<open>client/cli.py\<close>, with what they print, how they end, and the exit status of the
  process; and the interactive shell, \<^verbatim>\<open>client/shell.py\<close>. What a command does beside printing is
  the operation of the component it drives; what these print themselves is left out. \<open>loaded\<close> is what
  \<^verbatim>\<open>load_config\<close> gives (\<open>Config\<close>), \<open>opened\<close> what the constructor of the cache gives (\<open>Cache\<close>).
\<close>

section \<open>How a command ends\<close>

text \<open>
  \<^verbatim>\<open>typer.Exit\<close> carries an exit status. It is Click's exception of that name, and a RuntimeError.
\<close>

datatype cli_error = TyperExit int | Raised py_error

fun is_runtime_error :: "cli_error \<Rightarrow> bool" where
  "is_runtime_error (TyperExit n) = True"
| "is_runtime_error (Raised (RuntimeError m)) = True"
| "is_runtime_error _ = False"

text \<open>What \<^verbatim>\<open>asyncio.get_event_loop\<close> finds: no loop, which raises from Python 3.14 on, an idle loop, or a running one.\<close>

datatype event_loop = NoLoop | IdleLoop | RunningLoop

text \<open>\<^verbatim>\<open>asyncio.run\<close> on a coroutine with the outcome \<open>out\<close>: one that has been awaited cannot be run again.\<close>

definition asyncio_run :: "bool \<Rightarrow> bool \<Rightarrow> cli_error + 'a \<Rightarrow> cli_error + 'a" where
  "asyncio_run in_loop awaited out =
     (if in_loop then Inl (Raised (RuntimeError ''asyncio.run() cannot be called from a running event loop''))
      else if awaited then Inl (Raised (RuntimeError ''cannot reuse already awaited coroutine''))
      else out)"

definition run_coro :: "event_loop \<Rightarrow> cli_error + 'a \<Rightarrow> cli_error + 'a" where
  "run_coro lp out =
     (case lp of
        NoLoop \<Rightarrow> asyncio_run False False out
      | _ \<Rightarrow> (case out of
               Inl e \<Rightarrow> if is_runtime_error e then asyncio_run (lp = RunningLoop) True out else Inl e
             | Inr v \<Rightarrow> Inr v))"

text \<open>The process: its exit status, and the error of the traceback it shows, if any.\<close>

definition process_exit :: "cli_error + 'a \<Rightarrow> int \<times> string option" where
  "process_exit out =
     (case out of
        Inr v \<Rightarrow> (0, None)
      | Inl (TyperExit n) \<Rightarrow> (n, None)
      | Inl (Raised e) \<Rightarrow> (1, Some (error_text e)))"

section \<open>Installing\<close>

definition raised :: "py_error + 'a \<Rightarrow> cli_error + 'a" where
  "raised r = (case r of Inl e \<Rightarrow> Inl (Raised e) | Inr v \<Rightarrow> Inr v)"

fun install_each ::
    "host \<Rightarrow> client_config \<Rightarrow> cloud \<Rightarrow> string \<Rightarrow> bool \<Rightarrow> bool \<Rightarrow> string list \<Rightarrow> client_state
     \<Rightarrow> (string \<times> (py_error + bool)) list \<times> client_state" where
  "install_each H cfg C version force cloud_only [] s = ([], s)"
| "install_each H cfg C version force cloud_only (pkg # pkgs) s =
     (let (out, s1) = (if cloud_only then (Inr True, register_cloud_package pkg False s)
                       else install H cfg C pkg version force s);
          (outs, s2) = install_each H cfg C version force cloud_only pkgs s1
      in ((pkg, out) # outs, s2))"

definition package_line :: "bool \<Rightarrow> string \<times> (py_error + bool) \<Rightarrow> printed list" where
  "package_line cloud_only p =
     (case snd p of
        Inl e \<Rightarrow> [Print (print_error (''Failed to install '' @ fst p @ '': '' @ error_text e))]
      | Inr _ \<Rightarrow> if cloud_only then [Print (print_success (fst p @ '' configured for cloud execution''))] else [])"

definition install_summary :: "nat \<Rightarrow> string list \<Rightarrow> printed list" where
  "install_summary n failed =
     (if failed \<noteq> []
      then Print (print_error (newline # ''  '' @ int_str (int (length failed)) @ '' package(s) failed: '' @ join '', '' failed))
           # (if length failed < n
              then [Print (print_success (''  '' @ int_str (int (n - length failed)) @ '' package(s) installed successfully''))]
              else [])
      else [Print (print_success (newline # ''  '' @ int_str (int n) @ '' package(s) installed successfully''))])"

definition failures :: "(string \<times> (py_error + bool)) list \<Rightarrow> string list" where
  "failures outs = map fst (filter (\<lambda>p. \<not> is_ok (snd p)) outs)"

text \<open>The coroutine of the command.\<close>

definition install_coroutine ::
    "host \<Rightarrow> client_config \<Rightarrow> cloud \<Rightarrow> string list \<Rightarrow> string \<Rightarrow> bool \<Rightarrow> bool \<Rightarrow> bool \<Rightarrow> client_state
     \<Rightarrow> (cli_error + unit) \<times> printed list \<times> client_state" where
  "install_coroutine H cfg C packages version force local_only cloud_only s =
     (let cfg = (if local_only then cfg\<lparr>offline_mode := True\<rparr> else cfg);
          (outs, s') = install_each H cfg C version force cloud_only packages s
      in (if failures outs \<noteq> [] then Inl (TyperExit 1) else Inr (),
          Print (print_divider ''Installing Packages'') # concat (map (package_line cloud_only) outs) @
            install_summary (length packages) (failures outs),
          s'))"

definition install_command ::
    "event_loop \<Rightarrow> host \<Rightarrow> client_config \<Rightarrow> cloud \<Rightarrow> string list \<Rightarrow> string \<Rightarrow> bool \<Rightarrow> bool \<Rightarrow> bool \<Rightarrow> client_state
     \<Rightarrow> (cli_error + unit) \<times> printed list \<times> client_state" where
  "install_command lp H cfg C packages version force local_only cloud_only s =
     (let (out, lines, s') = install_coroutine H cfg C packages version force local_only cloud_only s
      in (run_coro lp out, lines, s'))"

section \<open>Looking at things\<close>

definition main_command :: "bool \<Rightarrow> bool \<Rightarrow> (cli_error + unit) \<times> printed list" where
  "main_command version_flag has_subcommand =
     (if version_flag
      then (Inl (TyperExit 0), [Print (''  cpip '' @ styled ''cpip.primary'' (''v'' @ VERSION) @ '' ('' @ CODENAME @ '')'')])
      else (Inr (), if has_subcommand then [] else [PrintBanner]))"

text \<open>The report of the doctor.\<close>

definition result_lines :: "check_result \<Rightarrow> printed list" where
  "result_lines r =
     Print (''  '' @ (if ck_passed r then styled ''cpip.success'' check_sign else styled ''cpip.error'' cross_sign) @ '' '' @
       styled ''bold'' (ck_name r) @ '': '' @ ck_message r) #
     (if \<not> ck_passed r \<and> ck_fix r \<noteq> [] then [Print (''      '' @ styled ''cpip.dim'' (''fix: '' @ ck_fix r))] else [])"

definition print_report :: "check_result list \<Rightarrow> printed list" where
  "print_report rs =
     Print (newline # ''  '' @ styled ''cpip.header'' (''cpip doctor v'' @ VERSION) @ [newline]) #
     concat (map result_lines rs) @
     [Print (newline # ''  '' @ styled ''cpip.dim''
        (int_str (int (length (filter ck_passed rs))) @ ''/'' @ int_str (int (length rs)) @ '' checks passed'') @ [newline])]"

definition doctor_command ::
    "event_loop \<Rightarrow> (bytes \<Rightarrow> string) \<Rightarrow> doctor_view \<Rightarrow> py_error + cpip_config \<Rightarrow> py_error + cache
     \<Rightarrow> (cli_error + unit) \<times> printed list \<times> cache option" where
  "doctor_command lp sha D loaded opened =
     (case (loaded, opened) of
        (Inr cf, Inr c) \<Rightarrow>
          (case run_all sha D cf c of (rs, c') \<Rightarrow> (run_coro lp (Inr ()), print_report rs, Some c'))
      | (Inl e, _) \<Rightarrow> (run_coro lp (Inl (Raised e)), [], None)
      | (Inr cf, Inl e) \<Rightarrow> (run_coro lp (Inl (Raised e)), [], None))"

definition sync_lines :: "(pyval \<Rightarrow> string) \<Rightarrow> pydict \<Rightarrow> printed list" where
  "sync_lines str_of res =
     (case dget_or res ''errors'' (PList []) of
        PList (e # es) \<Rightarrow> [Print (print_warning (''Sync completed with errors: '' @ fmt str_of e))]
      | _ \<Rightarrow> [Print (print_success (''Synced '' @ fmt str_of (dget_or res ''metadata_updated'' (PInt 0)) @ '' package(s)''))])"

definition sync_command ::
    "event_loop \<Rightarrow> (pyval \<Rightarrow> string) \<Rightarrow> pyfloat \<Rightarrow> bool \<Rightarrow> sync_answers \<Rightarrow> py_error + cpip_config \<Rightarrow> py_error + cache
     \<Rightarrow> (cli_error + unit) \<times> printed list \<times> cache option" where
  "sync_command lp str_of now home_ok A loaded opened =
     (case (loaded, opened) of
        (Inr cf, Inr c) \<Rightarrow>
          (case do_sync str_of now home_ok A new_sync c of
             (r, sm, c') \<Rightarrow>
               (run_coro lp (raised (map_sum id (\<lambda>_. ()) r)),
                Print (print_cloud ''Syncing with cloud registry...'') #
                  (case r of Inl e \<Rightarrow> [] | Inr res \<Rightarrow> sync_lines str_of res),
                Some c'))
      | (Inl e, _) \<Rightarrow> (run_coro lp (Inl (Raised e)), [], None)
      | (Inr cf, Inl e) \<Rightarrow> (run_coro lp (Inl (Raised e)), [], None))"

definition gpu_status_command :: "os_view \<Rightarrow> printed list" where
  "gpu_status_command os =
     (let gpus = (if si_has_gpu (get_system_info os)
                  then [[(''name'', PStr ''Detected GPU''), (''memory'', PStr ''N/A''), (''status'', PStr ''available'')]]
                  else [])
      in [Print [], PrintPanel (gpu_status_panel gpus), Print (print_divider ''Cloud GPU''),
          Print (print_cloud ''Cloud GPU runtimes: NVIDIA A100, T4, V100''),
          Print (print_info ''Use `cpip install --cloud torch` for GPU-accelerated packages''), Print []])"

text \<open>The attributes of the system information.\<close>

definition info_dict :: "system_info \<Rightarrow> pydict" where
  "info_dict i =
     [(''is_termux'', PBool (si_is_termux i)), (''is_android'', PBool (si_is_android i)),
      (''architecture'', PStr (si_architecture i)), (''python_version'', PStr (si_python_version i)),
      (''pointer_size'', PInt (si_pointer_size i)), (''cpu_count'', PInt (si_cpu_count i)),
      (''total_memory_mb'', PInt (si_total_memory_mb i)), (''available_disk_mb'', PInt (si_available_disk_mb i)),
      (''termux_prefix'', (case si_termux_prefix i of None \<Rightarrow> PNone | Some p \<Rightarrow> PStr p)),
      (''home_dir'', PStr (si_home_dir i)), (''has_gpu'', PBool (si_has_gpu i)),
      (''has_docker'', PBool (si_has_docker i)), (''platform_tag'', PStr (si_platform_tag i)), (''extra'', PDict [])]"

text \<open>
  The dashboard says that the cloud is connected when the daemon runs. \<open>fixed1\<close> prints a number with one
  decimal.
\<close>

definition runtime_command ::
    "(pyval \<Rightarrow> string) \<Rightarrow> (pyfloat \<Rightarrow> string) \<Rightarrow> os_view \<Rightarrow> cpip_config \<Rightarrow> py_error + cache \<Rightarrow> world
     \<Rightarrow> (cli_error + unit) \<times> printed list \<times> world" where
  "runtime_command str_of fixed1 os cf opened w =
     (let (online, w') = cli_daemon_status w;
          head = PrintBanner # dashboard str_of (info_dict (get_system_info os)) online (fmt str_of (cc_api_url (cf_cloud cf)))
      in case opened of
           Inl e \<Rightarrow> (Inl (Raised e), head, w')
         | Inr c \<Rightarrow>
             (let st = stats c
              in (Inr (), head @ [Print (print_divider ''Cache''),
                   Print (print_info (''Size: '' @ fixed1 (total_size_mb st) @ ''/'' @ int_str (stat_max_size_mb st) @ ''MB ('' @
                     str_of (PFloat (utilization_pct st)) @ ''%)'')),
                   Print (print_info (''Wheels: '' @ int_str (int (num_wheels st)) @ '' | Layers: '' @
                     int_str (int (num_layers st)) @ '' | Metadata: '' @ int_str (int (num_metadata st)))),
                   Print []], w')))"

text \<open>The installed distributions, each with the name and the version its metadata give.\<close>

definition dist_key :: "string option \<times> string option \<Rightarrow> string" where
  "dist_key d = lower (case fst d of None \<Rightarrow> [] | Some n \<Rightarrow> n)"

definition dist_row :: "string option \<times> string option \<Rightarrow> pyval list" where
  "dist_row d = map (\<lambda>f. PStr (case f of None \<Rightarrow> ''Unknown'' | Some s \<Rightarrow> s)) [fst d, snd d]"

definition list_command :: "(string option \<times> string option) list \<Rightarrow> printed list" where
  "list_command dists =
     [Print [], PrintTable ''Installed Packages'' [''Package'', ''Version''] (map dist_row (sort_key dist_key dists)), Print []]"

section \<open>Configuration and login\<close>

definition config_table :: "(pyval \<Rightarrow> string) \<Rightarrow> cpip_config \<Rightarrow> printed list" where
  "config_table str_of c =
     [Print [],
      PrintTable ''cpip Configuration'' [''Setting'', ''Value'']
        [[PStr ''API URL'', cc_api_url (cf_cloud c)], [PStr ''WS URL'', cc_ws_url (cf_cloud c)],
         [PStr ''Cache Max'', PStr (fmt str_of (cc_max_size_mb (cf_cache c)) @ '' MB'')],
         [PStr ''Offline Mode'', PStr (fmt str_of (rc_offline_mode (cf_runtime c)))],
         [PStr ''GPU Offload'', PStr (fmt str_of (rc_gpu_offload (cf_runtime c)))],
         [PStr ''Import Hooks'', PStr (fmt str_of (rc_import_hooks (cf_runtime c)))],
         [PStr ''Auth'', PStr (if truthy (ac_token (cf_auth c)) then check_sign @ '' Authenticated''
                               else cross_sign @ '' Not authenticated'')]],
      Print []]"

text \<open>The effects are those of \<open>config_command\<close>; here is what is printed around them.\<close>

definition config_printed ::
    "(pyval \<Rightarrow> string) \<Rightarrow> environ \<Rightarrow> string \<Rightarrow> bool \<Rightarrow> bool \<Rightarrow> string option \<Rightarrow> bool option \<Rightarrow> home_dir
     \<Rightarrow> (py_error + unit) \<times> printed list \<times> home_dir" where
  "config_printed str_of env home show_it init new_url offline h =
     (case load_config env home h of
        (Inl e, h) \<Rightarrow> (Inl e, [], h)
      | (Inr c, h) \<Rightarrow>
          if init then (case save_config home c h of
                          (Inl e, h) \<Rightarrow> (Inl e, [], h)
                        | (Inr _, h) \<Rightarrow> (Inr (), [Print (print_success ''Configuration initialized'')], h))
          else (let given = (case new_url of Some u \<Rightarrow> u \<noteq> [] | None \<Rightarrow> False);
                    c1 = (case new_url of Some u \<Rightarrow> if u = [] then c else set_api_url (PStr u) c | None \<Rightarrow> c);
                    (r, h) = (if given then save_config home c1 h else (Inr (), h))
                in case r of
                     Inl e \<Rightarrow> (Inl e, [], h)
                   | Inr _ \<Rightarrow>
                       (let said = (if given then [Print (print_success (''API URL set to '' @ the new_url))] else [])
                        in case offline of
                             None \<Rightarrow> (Inr (), said @ (if show_it \<or> \<not> given then config_table str_of c1 else []), h)
                           | Some b \<Rightarrow>
                               (let c2 = set_offline (PBool b) c1
                                in case save_config home c2 h of
                                     (Inl e, h) \<Rightarrow> (Inl e, said, h)
                                   | (Inr _, h) \<Rightarrow>
                                       (Inr (), said @ [Print (print_success (''Offline mode '' @ (if b then ''enabled'' else ''disabled'')))] @
                                          (if show_it then config_table str_of c2 else []), h)))))"

text \<open>
  The effects of a login are those of \<open>login_command\<close>; \<open>body\<close> is the text of the answer, \<open>err\<close> the error
  of a request that raises, and \<open>save\<close> what saving the login gives.
\<close>

definition login_printed ::
    "string \<Rightarrow> string \<Rightarrow> (int \<times> pydict) option \<Rightarrow> string \<Rightarrow> string \<Rightarrow> py_error + unit \<Rightarrow> printed list" where
  "login_printed uuid api_key answer body err save =
     (if api_key = []
      then (case save of
              Inl e \<Rightarrow> []
            | Inr _ \<Rightarrow> [Print (print_success (''Dev mode: Device registered ('' @ take 8 uuid @ ''...)''))])
      else (case answer of
              None \<Rightarrow> [Print (print_error (''Login error: '' @ err))]
            | Some (code, data) \<Rightarrow>
                if code \<noteq> 200 then [Print (print_error (''Login failed: '' @ body))]
                else if dget data ''access_token'' = None
                then [Print (print_error (''Login error: '' @ [CHR 0x27] @ ''access_token'' @ [CHR 0x27]))]
                else (case save of
                        Inl e \<Rightarrow> [Print (print_error (''Login error: '' @ error_text e))]
                      | Inr _ \<Rightarrow> [Print (print_success ''Authenticated successfully'')])))"

section \<open>Scripts, the shell, the daemon\<close>

text \<open>\<open>script\<close> is how the script ends: normally, with an exception, or (None) by leaving the interpreter.\<close>

definition run_printed :: "string \<Rightarrow> (py_error + unit) option \<Rightarrow> (cli_error + unit) option \<times> printed list" where
  "run_printed path script =
     (let start = Print (print_info (''Running '' @ path @ '' with cpip runtime...''))
      in case script of
           Some (Inl e) \<Rightarrow> (Some (Inl (TyperExit 1)), [start, Print (print_error (''Script failed: '' @ error_text e))])
         | Some (Inr _) \<Rightarrow> (Some (Inr ()), [start])
         | None \<Rightarrow> (None, [start]))"

text \<open>
  The shell: a new interpreter with the hooks active, in which what is typed does \<open>es\<close>; leaving the interpreter is a
  normal end.
\<close>

definition shell_start ::
    "(string \<Rightarrow> string \<Rightarrow> bool) \<Rightarrow> finder list \<Rightarrow> hook_event list \<Rightarrow> printed list \<times> interpreter" where
  "shell_start installed fs es =
     ([PrintBanner,
       Print (print_info (''cpip runtime active '' @ [CHR 0xE2, CHR 0x80, CHR 0x94] @ '' cloud packages available transparently'')),
       Print (print_info (''Type '' @ [CHR 0x27] @ ''exit()'' @ [CHR 0x27] @ '' or Ctrl+D to quit'' @ [newline]))],
      run (hook_step installed) (activate_hooks (new_interpreter fs)) es)"

definition daemon_command :: "string \<Rightarrow> int \<Rightarrow> world \<Rightarrow> (cli_error + unit) \<times> printed list \<times> world" where
  "daemon_command action p w =
     (if action = ''start''
      then (case cli_daemon_start p w of
              (True, w') \<Rightarrow> (Inr (), [Print (print_cloud ''Starting cpip daemon...''), Print (print_success ''Daemon started'')], w')
            | (False, w') \<Rightarrow> (Inr (), [Print (print_warning ''Daemon is already running'')], w'))
      else if action = ''stop''
      then (case cli_daemon_stop w of
              (Inl e, w') \<Rightarrow> (Inl (Raised e), [], w')
            | (Inr True, w') \<Rightarrow> (Inr (), [Print (print_success ''Daemon stopped'')], w')
            | (Inr False, w') \<Rightarrow> (Inr (), [Print (print_warning ''Daemon is not running'')], w'))
      else (case cli_daemon_status w of
              (True, w') \<Rightarrow> (Inr (), [Print (print_success ''Daemon is running'')], w')
            | (False, w') \<Rightarrow> (Inr (), [Print (print_warning ''Daemon is not running'')], w')))"

section \<open>Exit statuses\<close>

lemma install_all_each:
  "install_all H cfg C version force cloud_only pkgs s =
     (failures (fst (install_each H cfg C version force cloud_only pkgs s)),
      snd (install_each H cfg C version force cloud_only pkgs s))"
  by (induction pkgs arbitrary: s) (auto simp: Let_def failures_def split: prod.splits)


text \<open>What the command prints and does to the configuration is what \<open>config_command\<close> does.\<close>

lemma config_printed_effects:
  "(fst (config_printed str_of env home show_it init new_url offline h),
    snd (snd (config_printed str_of env home show_it init new_url offline h))) =
   config_command env home init new_url offline h"
  by (auto simp: config_printed_def config_command_def Let_def split: prod.splits sum.splits option.splits if_splits)

lemma shell_is_run: "snd (shell_start installed fs es) = cli_run installed fs es"
  by (simp add: shell_start_def cli_run_def)

end
