(* ===== verification/Heartbeat.thy ===== *)
theory Heartbeat
  imports Hub Daemon
begin

text \<open>
  The heartbeat between the two ends: the rounds of the hub's loop (\<^verbatim>\<open>server/ws/hub.py\<close>), the daemon
  that answers (\<^verbatim>\<open>client/daemon.py\<close>) and the endpoint that notes the answer (\<^verbatim>\<open>server/app.py\<close>),
  over the texts that are sent and whatever else happens at the hub meanwhile.
\<close>

section \<open>One exchange\<close>

record exchange =
  xc_time :: pyfloat
  xc_uuid :: string
  xc_daemon :: daemon_env
  xc_server :: reply_env
  xc_during :: "hub_event list"
  xc_after :: "hub_event list"

text \<open>
  The round of the hub, the daemon that receives the heartbeat, and the server that receives what the daemon has sent last.
  \<open>re_now\<close> of \<open>xc_server\<close> is the time at which the answer arrives. Other events of the hub come before the
  answer and after it.
\<close>

definition heartbeat_exchange ::
    "(nat \<Rightarrow> bool) \<Rightarrow> dispatcher \<Rightarrow> pyval \<times> nat \<Rightarrow> hub \<times> daemon \<Rightarrow> exchange \<Rightarrow> hub \<times> daemon" where
  "heartbeat_exchange reachable disp conn st x =
     (let ping = make_heartbeat (xc_uuid x) (xc_time x);
          h = heartbeat_round reachable 30 (xc_time x) ping (fst st);
          h = run (hub_step reachable disp) h (xc_during x);
          d = receive_one (snd st) (xc_daemon x, to_json (re_str (xc_server x)) ping)
      in (run (hub_step reachable disp)
            (ws_text reachable (xc_server x) disp conn (to_json (de_str (xc_daemon x)) (last (dm_sent d))) h)
            (xc_after x), d))"

text \<open>
  What may happen meanwhile: other devices come and go, everyone is sent and asked things, the device itself too;
  but the device does not connect anew, its handler does not end, and no other heartbeat is sent or answered.
\<close>

fun bystander :: "pyval \<Rightarrow> nat \<Rightarrow> hub_event \<Rightarrow> bool" where
  "bystander dev ws (Open now d) = (d \<noteq> dev)"
| "bystander dev ws (Text env conn raw) =
     (snd conn \<noteq> ws \<or>
      (case from_json (re_uuid env) (re_now env) raw of Inl e \<Rightarrow> True | Inr m \<Rightarrow> m_type m \<noteq> HEARTBEAT_ACK))"
| "bystander dev ws (Finally conn) = (fst conn \<noteq> dev)"
| "bystander dev ws (Heartbeat now ping) = False"
| "bystander dev ws (Broadcast msg) = True"

definition undisturbed :: "pyval \<Rightarrow> nat \<Rightarrow> exchange \<Rightarrow> bool" where
  "undisturbed dev ws x \<longleftrightarrow> list_all (bystander dev ws) (xc_during x @ xc_after x)"

text \<open>Every answer arrives early enough for the next round.\<close>

fun in_time :: "pyfloat \<Rightarrow> exchange list \<Rightarrow> bool" where
  "in_time t [] = True"
| "in_time t (x # xs) = (xc_time x - t \<le> 90 \<and> in_time (re_now (xc_server x)) xs)"

section \<open>What is heard\<close>

lemma from_json_type: "\<exists>m'. from_json u t (to_json str_of m) = Inr m' \<and> m_type m' = m_type m"
  by (simp add: from_json_def to_json_def from_dict_def to_dict_def dget_or_def)

lemma daemon_answers:
  assumes "dm_ws d = Some True"
  shows "\<exists>ack. receive_one d (E, to_json str_of (make_heartbeat u t)) = d\<lparr>dm_sent := dm_sent d @ [ack]\<rparr> \<and>
    m_type ack = HEARTBEAT_ACK"
proof -
  obtain m where "from_json (de_uuid E) (de_now E) (to_json str_of (make_heartbeat u t)) = Inr m" "m_type m = HEARTBEAT"
    using from_json_type [of "de_uuid E" "de_now E" str_of "make_heartbeat u t"] by (auto simp: make_heartbeat_def)
  with assms show ?thesis by (auto simp: receive_one_def handle_message_def send_def make_heartbeat_ack_def)
qed

lemma ack_noted:
  assumes "m_type ack = HEARTBEAT_ACK"
  shows "ws_text reachable env disp (dev, ws) (to_json str_of ack) h =
    h\<lparr>objects := (case dget (objects h) ws of
         None \<Rightarrow> objects h
       | Some c \<Rightarrow> dset ws (c\<lparr>last_heartbeat := re_now env\<rparr>) (objects h))\<rparr>"
proof -
  obtain m where "from_json (re_uuid env) (re_now env) (to_json str_of ack) = Inr m" "m_type m = HEARTBEAT_ACK"
    using from_json_type [of "re_uuid env" "re_now env" str_of ack] assms by auto
  then show ?thesis by (simp add: ws_text_def)
qed

lemma heartbeat_round_objects:
  assumes "hub_inv h"
  shows "objects (heartbeat_round reachable interval now ping h) = objects h"
proof -
  have "hub_inv h \<Longrightarrow> objects (foldl (heartbeat_one reachable interval now ping) h ds) = objects h" for ds
    by (induction ds arbitrary: h) (simp_all add: heartbeat_one_effect heartbeat_one_inv)
  with assms show ?thesis by (simp add: heartbeat_round_def)
qed

text \<open>A device is alive on a socket since a time.\<close>

definition alive_since :: "pyfloat \<Rightarrow> pyval \<Rightarrow> nat \<Rightarrow> hub \<Rightarrow> bool" where
  "alive_since t dev ws h \<longleftrightarrow>
     hub_inv h \<and> get_connection h dev = Some ws \<and> map_option last_heartbeat (dget (objects h) ws) = Some t"

lemma round_keeps_alive:
  assumes "alive_since t dev ws h" and "reachable ws" and "now - t \<le> 90"
  shows "alive_since t dev ws (heartbeat_round reachable 30 now ping h)"
proof -
  have inv: "hub_inv h" using assms(1) by (simp add: alive_since_def)
  have "(dev, ws) \<in> set (connections (heartbeat_round reachable 30 now ping h))"
    using assms heartbeat_keeps_answering [OF inv, of reachable 30 now ping]
    by (auto simp: alive_since_def get_connection_def answers_def dest: dget_in_set)
  moreover have "hub_inv (heartbeat_round reachable 30 now ping h)" using inv by (rule heartbeat_round_inv)
  ultimately show ?thesis
    using assms(1) by (auto simp: alive_since_def get_connection_def hub_inv_def heartbeat_round_objects [OF inv] dget_iff_in_set)
qed

lemma send_keeps_connection:
  assumes "hub_inv h" and "dget (connections h) dev = Some ws" and "reachable ws"
  shows "dget (connections (snd (send_to_device reachable d msg h))) dev = Some ws \<and>
    objects (snd (send_to_device reachable d msg h)) = objects h"
proof -
  have "ws \<notin> set (closed h)" using assms(1,2) by (auto simp: hub_inv_def dest!: dget_in_set)
  with assms(2,3) show ?thesis
    by (auto simp: send_to_device_def send_ws_def connections_disconnect dict_laws split: option.splits)
qed

lemma broadcast_keeps_connection:
  assumes "hub_inv h" and "dget (connections h) dev = Some ws" and "reachable ws"
  shows "dget (connections (snd (broadcast_to reachable msg ds h))) dev = Some ws \<and>
    objects (snd (broadcast_to reachable msg ds h)) = objects h"
  using assms(1,2)
proof (induction ds arbitrary: h)
  case (Cons d ds)
  with Cons.IH [of "snd (send_to_device reachable d msg h)"] send_to_device_inv [OF Cons.prems(1)]
    send_keeps_connection [where reachable = reachable, OF Cons.prems assms(3), of d msg]
  show ?case by (simp add: split_beta)
qed simp

lemma bystander_keeps_alive:
  assumes "alive_since t dev ws h" and "reachable ws" and "bystander dev ws e"
  shows "alive_since t dev ws (hub_step reachable disp h e)"
proof -
  have inv: "hub_inv h" and conn: "dget (connections h) dev = Some ws"
    and beat: "map_option last_heartbeat (dget (objects h) ws) = Some t"
    using assms(1) by (simp_all add: alive_since_def get_connection_def)
  have "dget (connections (hub_step reachable disp h e)) dev = Some ws \<and>
      map_option last_heartbeat (dget (objects (hub_step reachable disp h e)) ws) = Some t"
  proof (cases e)
    case (Open now d)
    obtain new h' where c: "connect now d PNone h = (new, h')" by (rule prod.exhaust)
    have "ws < next_ws h" using inv conn by (auto simp: hub_inv_def dest!: dget_in_set)
    with Open c connect_fields [OF c] assms(3) conn beat show ?thesis by (auto simp: dict_laws)
  next
    case (Text env cn raw)
    with assms(3) conn beat show ?thesis
      by (auto simp: ws_text_def Let_def dict_laws split: sum.splits prod.splits message_type.splits option.splits)
  next
    case (Finally cn)
    with assms(3) conn beat show ?thesis by (simp add: ws_finally_def connections_disconnect dict_laws)
  next
    case (Broadcast msg)
    with broadcast_keeps_connection [where reachable = reachable, OF inv conn assms(2)] beat show ?thesis by (simp add: broadcast_def)
  qed (use assms(3) in simp)
  with hub_step_inv [OF inv] show ?thesis by (simp add: alive_since_def get_connection_def)
qed

lemma bystanders_keep_alive:
  "alive_since t dev ws h \<Longrightarrow> reachable ws \<Longrightarrow> list_all (bystander dev ws) es \<Longrightarrow>
   alive_since t dev ws (run (hub_step reachable disp) h es)"
  by (induction es arbitrary: h) (simp_all add: bystander_keeps_alive)

lemma ack_renews:
  assumes "alive_since t dev ws h" and "m_type ack = HEARTBEAT_ACK"
  shows "alive_since (re_now env) dev ws (ws_text reachable env disp (dev, ws) (to_json str_of ack) h)"
  using assms ws_text_inv [of h reachable env disp "(dev, ws)" "to_json str_of ack"]
  by (auto simp: alive_since_def ack_noted get_connection_def dict_laws split: option.splits)

lemma exchange_keeps_alive:
  assumes "alive_since t dev ws (fst st)" and "reachable ws" and "xc_time x - t \<le> 90" and "dm_ws (snd st) = Some True"
    and "undisturbed dev ws x"
  shows "alive_since (re_now (xc_server x)) dev ws (fst (heartbeat_exchange reachable disp (dev, ws) st x)) \<and>
    dm_ws (snd (heartbeat_exchange reachable disp (dev, ws) st x)) = Some True"
proof -
  let ?ping = "make_heartbeat (xc_uuid x) (xc_time x)"
  let ?h = "heartbeat_round reachable 30 (xc_time x) ?ping (fst st)"
  obtain ack where ack: "receive_one (snd st) (xc_daemon x, to_json (re_str (xc_server x)) ?ping) =
      (snd st)\<lparr>dm_sent := dm_sent (snd st) @ [ack]\<rparr>" "m_type ack = HEARTBEAT_ACK"
    using daemon_answers [OF assms(4)] by blast
  have "alive_since t dev ws ?h" using assms(1-3) by (rule round_keeps_alive)
  with assms(2,5) have "alive_since t dev ws (run (hub_step reachable disp) ?h (xc_during x))"
    by (intro bystanders_keep_alive) (simp_all add: undisturbed_def)
  then have "alive_since (re_now (xc_server x)) dev ws
      (ws_text reachable (xc_server x) disp (dev, ws) (to_json (de_str (xc_daemon x)) ack)
        (run (hub_step reachable disp) ?h (xc_during x)))"
    using ack(2) by (rule ack_renews)
  with assms(2,4,5) ack(1) show ?thesis
    by (simp add: heartbeat_exchange_def Let_def undisturbed_def bystanders_keep_alive)
qed

text \<open>
  C25: A daemon that answers stays connected. As long as the network carries what the server sends and each answer is there
  within 90 seconds of the answer before, the device keeps its connection, on the same open socket, through any number of
  heartbeat rounds, and the daemon has answered once to each, whatever other devices and the device's own calls do
  meanwhile. A round that finds
  the last answer older than that throws the device out.
\<close>

theorem answering_daemon_stays:
  assumes "alive_since t dev ws h" and "reachable ws" and "dm_ws d = Some True"
  shows "(in_time t xs \<and> (\<forall>x \<in> set xs. undisturbed dev ws x) \<longrightarrow>
      (case foldl (heartbeat_exchange reachable disp (dev, ws)) (h, d) xs of (h', d') \<Rightarrow>
         get_connection h' dev = Some ws \<and> ws \<notin> set (closed h') \<and>
         length (dm_sent d') = length (dm_sent d) + length xs)) \<and>
    (now - t > 90 \<longrightarrow> get_connection (heartbeat_round reachable 30 now ping h) dev = None)"
proof (intro conjI impI)
  have "in_time t xs \<Longrightarrow> \<forall>x \<in> set xs. undisturbed dev ws x \<Longrightarrow> alive_since t dev ws h \<Longrightarrow> dm_ws d = Some True \<Longrightarrow>
      (case foldl (heartbeat_exchange reachable disp (dev, ws)) (h, d) xs of (h', d') \<Rightarrow>
        (\<exists>t'. alive_since t' dev ws h') \<and> length (dm_sent d') = length (dm_sent d) + length xs)" for t h d
  proof (induction xs arbitrary: t h d)
    case (Cons x xs)
    obtain h' d' where step: "heartbeat_exchange reachable disp (dev, ws) (h, d) x = (h', d')" by fastforce
    have sent: "length (dm_sent d') = Suc (length (dm_sent d))"
      using step daemon_answers [OF Cons.prems(4), of "xc_daemon x" "re_str (xc_server x)" "xc_uuid x" "xc_time x"]
      by (auto simp: heartbeat_exchange_def Let_def)
    show ?case
      using Cons.IH [of "re_now (xc_server x)" h' d'] Cons.prems assms(2) step sent
        exchange_keeps_alive [of t dev ws "(h, d)" reachable x disp]
      by auto
  qed auto
  moreover assume "in_time t xs \<and> (\<forall>x \<in> set xs. undisturbed dev ws x)"
  ultimately obtain h' d' t' where run: "foldl (heartbeat_exchange reachable disp (dev, ws)) (h, d) xs = (h', d')"
    "alive_since t' dev ws h'" "length (dm_sent d') = length (dm_sent d) + length xs"
    using assms(1,3) by fastforce
  then have "ws \<notin> set (closed h')" by (auto simp: alive_since_def hub_inv_def get_connection_def dest!: dget_in_set)
  with run show "case foldl (heartbeat_exchange reachable disp (dev, ws)) (h, d) xs of (h', d') \<Rightarrow>
      get_connection h' dev = Some ws \<and> ws \<notin> set (closed h') \<and>
      length (dm_sent d') = length (dm_sent d) + length xs"
    by (simp add: alive_since_def)
next
  assume late: "now - t > 90"
  have inv: "hub_inv h" using assms(1) by (simp add: alive_since_def)
  have "(dev, ws') \<notin> set (connections (heartbeat_round reachable 30 now ping h))" for ws'
    using late assms(1) heartbeat_keeps_answering [OF inv, of reachable 30 now ping]
    by (auto simp: alive_since_def get_connection_def answers_def hub_inv_def dget_iff_in_set)
  then show "get_connection (heartbeat_round reachable 30 now ping h) dev = None"
    by (auto simp: get_connection_def dget_None_iff)
qed

definition demo_exchange :: exchange where
  "demo_exchange = \<lparr>xc_time = 30, xc_uuid = ''h1'', xc_daemon = quiet_env, xc_server = Rpc.demo_env,
     xc_during = [Open 31 (PStr ''q''), Broadcast (make_heartbeat ''b'' 31)], xc_after = [Finally (PStr ''q'', 1)]\<rparr>"

definition online_daemon :: daemon where
  "online_daemon = (new_daemon synced_cache)\<lparr>dm_ws := Some True\<rparr>"

theorem answering_daemon_stays_witness:
  "get_connection (fst (foldl (heartbeat_exchange (\<lambda>ws. True) [] (PStr ''p'', 0))
     (snd (connect 0 (PStr ''p'') PNone new_hub), online_daemon) [demo_exchange])) (PStr ''p'') = Some 0 \<and>
   get_connection (heartbeat_round (\<lambda>ws. True) 30 91 (make_heartbeat ''h2'' 91) (snd (connect 0 (PStr ''p'') PNone new_hub)))
     (PStr ''p'') = None"
proof -
  let ?h = "snd (connect 0 (PStr ''p'') PNone new_hub)"
  have "hub_inv ?h" by (rule connect_inv) (simp add: hub_inv_def new_hub_def)
  then have 1: "alive_since 0 (PStr ''p'') 0 ?h"
    by (simp add: alive_since_def connect_def new_hub_def Let_def get_connection_def)
  have 2: "dm_ws online_daemon = Some True" by (simp add: online_daemon_def)
  have 3: "in_time 0 [demo_exchange] \<and> (\<forall>x \<in> set [demo_exchange]. undisturbed (PStr ''p'') 0 x)"
    by (simp add: demo_exchange_def undisturbed_def)
  from answering_daemon_stays [OF 1 TrueI 2, of "[demo_exchange]" "[]" 91 "make_heartbeat ''h2'' 91"] 3
  show ?thesis by (auto split: prod.splits)
qed

end
