(* ===== verification/Theme.thy ===== *)
theory Theme
  imports Console
begin

text \<open>
  The theme and the console of \<^verbatim>\<open>client/ui/console.py\<close> and the progress bars of
  \<^verbatim>\<open>client/ui/progress.py\<close>, as the data handed to Rich. How Rich draws the columns is not modelled.
  The lemmas show that the styles the client names are styles of the theme.
\<close>

section \<open>The theme\<close>

record style =
  sy_color :: string
  sy_bold :: bool
  sy_italic :: bool
  sy_underline :: bool
  sy_dim :: bool

definition color :: "string \<Rightarrow> style" where
  "color c = \<lparr>sy_color = c, sy_bold = False, sy_italic = False, sy_underline = False, sy_dim = False\<rparr>"

definition bold :: "string \<Rightarrow> style" where
  "bold c = (color c)\<lparr>sy_bold := True\<rparr>"

definition cpip_theme :: "(string, style) dict" where
  "cpip_theme =
     [(''cpip.primary'', bold ''#00D4FF''), (''cpip.secondary'', color ''#7B61FF''),
      (''cpip.accent'', color ''#FF6B6B''), (''cpip.success'', bold ''#00E676''),
      (''cpip.warning'', bold ''#FFD600''), (''cpip.error'', bold ''#FF1744''),
      (''cpip.info'', color ''#448AFF''), (''cpip.dim'', color ''#78909C''),
      (''cpip.muted'', (color ''#546E7A'')\<lparr>sy_dim := True\<rparr>),
      (''cpip.package'', bold ''#00D4FF''), (''cpip.version'', color ''#7B61FF''),
      (''cpip.strategy'', (color ''#FF6B6B'')\<lparr>sy_italic := True\<rparr>), (''cpip.path'', color ''#80CBC4''),
      (''cpip.url'', (color ''#448AFF'')\<lparr>sy_underline := True\<rparr>), (''cpip.command'', bold ''#FFD600''),
      (''cpip.status.ok'', color ''#00E676''), (''cpip.status.warn'', color ''#FFD600''),
      (''cpip.status.fail'', color ''#FF1744''), (''cpip.status.cloud'', color ''#7B61FF''),
      (''cpip.status.local'', color ''#00D4FF''), (''cpip.status.gpu'', color ''#FF6B6B''),
      (''cpip.progress.bar'', color ''#00D4FF''), (''cpip.progress.text'', color ''#B0BEC5''),
      (''cpip.progress.speed'', color ''#7B61FF''),
      (''cpip.header'', bold ''#00D4FF''), (''cpip.subheader'', bold ''#B0BEC5''),
      (''cpip.divider'', color ''#37474F''),
      (''cpip.table.header'', bold ''#00D4FF''), (''cpip.table.row'', color ''#ECEFF1''),
      (''cpip.table.row.alt'', color ''#B0BEC5'')]"

text \<open>The console is made at the first use and kept: the state is the module's \<open>_console\<close>.\<close>

record rich_console =
  rc_theme :: "(string, style) dict"
  rc_highlight :: bool

definition get_console :: "rich_console option \<Rightarrow> rich_console \<times> rich_console option" where
  "get_console c =
     (case c of
        None \<Rightarrow> (let new = \<lparr>rc_theme = cpip_theme, rc_highlight = False\<rparr> in (new, Some new))
      | Some old \<Rightarrow> (old, c))"

section \<open>The progress bars\<close>

text \<open>The columns of a bar; a \<open>Bar\<close> has a width and the styles of its rest, its done part and its end.\<close>

datatype bar_column =
    Spinner string string
  | TextColumn string
  | Bar int string string string
  | TaskProgress
  | Download
  | TransferSpeed
  | TimeRemaining
  | TimeElapsed

record progress =
  pg_columns :: "bar_column list"
  pg_console :: rich_console
  pg_expand :: bool

definition progress_of :: "bar_column list \<Rightarrow> rich_console option \<Rightarrow> progress \<times> rich_console option" where
  "progress_of cols c =
     (let (console, c') = get_console c
      in (\<lparr>pg_columns = cols, pg_console = console, pg_expand = False\<rparr>, c'))"

definition package_column :: bar_column where
  "package_column = TextColumn (styled ''cpip.package'' ''{task.fields[package]}'')"

definition download_progress :: "rich_console option \<Rightarrow> progress \<times> rich_console option" where
  "download_progress = progress_of
     [Spinner ''dots'' ''cpip.primary'', package_column,
      Bar 30 ''cpip.divider'' ''cpip.primary'' ''cpip.success'',
      TaskProgress, Download, TransferSpeed, TimeRemaining]"

definition build_progress :: "rich_console option \<Rightarrow> progress \<times> rich_console option" where
  "build_progress = progress_of
     [Spinner ''bouncingBall'' ''cpip.status.cloud'', TextColumn (styled ''cpip.status.cloud'' cloud_sign),
      package_column, TextColumn (styled ''cpip.dim'' ''{task.fields[stage]}''),
      Bar 25 ''cpip.divider'' ''cpip.status.cloud'' ''cpip.success'', TaskProgress, TimeElapsed]"

definition install_progress :: "rich_console option \<Rightarrow> progress \<times> rich_console option" where
  "install_progress = progress_of
     [Spinner ''arc'' ''cpip.primary'', TextColumn (styled ''cpip.primary'' ''installing''), package_column,
      Bar 30 ''cpip.divider'' ''cpip.primary'' ''cpip.success'', TaskProgress, TimeElapsed]"

definition sync_progress :: "rich_console option \<Rightarrow> progress \<times> rich_console option" where
  "sync_progress = progress_of
     [Spinner ''dots12'' ''cpip.info'', TextColumn (styled ''cpip.info'' ''syncing''),
      TextColumn ''{task.description}'', Bar 25 ''cpip.divider'' ''cpip.info'' ''cpip.success'', TaskProgress]"

definition exec_spinner :: "string \<Rightarrow> rich_console option \<Rightarrow> progress \<times> rich_console option" where
  "exec_spinner message = progress_of
     [Spinner ''dots2'' ''cpip.status.gpu'', TextColumn (styled ''cpip.status.gpu'' bolt_sign @ '' '' @ message),
      TimeElapsed]"

definition multi_package_progress :: "rich_console option \<Rightarrow> progress \<times> rich_console option" where
  "multi_package_progress = progress_of
     [Spinner ''dots'' ''cpip.primary'', TextColumn ''{task.description}'',
      Bar 35 ''cpip.divider'' ''cpip.primary'' ''cpip.success'',
      TextColumn (styled ''cpip.dim'' ''{task.fields[status]}''), TaskProgress]"

section \<open>One console, and every style in its theme\<close>

text \<open>However often the console is asked for, it is the first one.\<close>

lemma get_console_kept:
  "get_console (snd (get_console c)) = (fst (get_console c), snd (get_console c))"
  by (cases c) (simp_all add: get_console_def Let_def)

lemma progress_console: "pg_console (fst (progress_of cols c)) = fst (get_console c)"
  by (simp add: progress_of_def split_beta Let_def)

lemma progress_columns: "pg_columns (fst (progress_of cols c)) = cols"
  by (simp add: progress_of_def split_beta Let_def)

text \<open>The styles that a markup text opens: what stands after a bracket, without a slash.\<close>

definition opened_styles :: "string \<Rightarrow> string list" where
  "opened_styles s =
     filter (\<lambda>w. w \<noteq> [] \<and> hd w \<noteq> CHR ''/'') (map (takeWhile (\<lambda>c. c \<noteq> CHR '']'')) (tl (split_on (CHR ''['') s)))"

fun column_styles :: "bar_column \<Rightarrow> string list" where
  "column_styles (Spinner name style) = [style]"
| "column_styles (TextColumn s) = filter (prefix ''cpip.'') (opened_styles s)"
| "column_styles (Bar w s1 s2 s3) = [s1, s2, s3]"
| "column_styles _ = []"

definition styles_known :: "progress \<Rightarrow> bool" where
  "styles_known p \<longleftrightarrow>
     (\<forall>col \<in> set (pg_columns p). set (column_styles col) \<subseteq> set (dkeys (rc_theme (pg_console p))))"

definition all_bars :: "string \<Rightarrow> (rich_console option \<Rightarrow> progress \<times> rich_console option) list" where
  "all_bars message =
     [download_progress, build_progress, install_progress, sync_progress, exec_spinner message,
      multi_package_progress]"

lemma first_console: "rc_theme (fst (get_console None)) = cpip_theme"
  by (simp add: get_console_def Let_def)

lemma styles_known_progress:
  "styles_known (fst (progress_of cols None)) \<longleftrightarrow> set (concat (map column_styles cols)) \<subseteq> set (dkeys cpip_theme)"
  by (auto simp: styles_known_def progress_console progress_columns first_console)

lemma opened_styles_message:
  assumes "CHR ''['' \<notin> set message"
  shows "opened_styles (styled ''cpip.status.gpu'' bolt_sign @ '' '' @ message) = [''cpip.status.gpu'']"
  using assms by (simp add: opened_styles_def styled_def bolt_sign_def split_on_no_sep)

text \<open>Every progress bar uses styles of the theme only, if the message of the spinner has no markup.\<close>

theorem progress_styles_known:
  assumes "bar \<in> set (all_bars message)" and "CHR ''['' \<notin> set message"
  shows "styles_known (fst (bar None))"
proof -
  have fixed: "styles_known (fst (b None))"
    if "b \<in> {download_progress, build_progress, install_progress, sync_progress, multi_package_progress}" for b
  proof -
    have "styles_known (fst (download_progress None))" "styles_known (fst (build_progress None))"
      "styles_known (fst (install_progress None))" "styles_known (fst (sync_progress None))"
      "styles_known (fst (multi_package_progress None))" by code_simp+
    with that show ?thesis by auto
  qed
  have "styles_known (fst (exec_spinner message None))"
    unfolding exec_spinner_def styles_known_progress
    by (simp add: opened_styles_message [OF assms(2), simplified]) (simp add: cpip_theme_def)
  with fixed assms(1) show ?thesis by (auto simp: all_bars_def)
qed

theorem progress_styles_known_witness:
  "styles_known (fst (exec_spinner ''Running...'' None))"
  by (rule progress_styles_known [of _ "''Running...''"]) (simp_all add: all_bars_def)

text \<open>The colours of the strategies in the package panel are styles of the theme, the default too.\<close>

lemma strategy_colors_known: "dget_or strategy_colors strategy ''cpip.info'' \<in> set (dkeys cpip_theme)"
proof -
  have "set (map snd strategy_colors) \<subseteq> set (dkeys cpip_theme)" "''cpip.info'' \<in> set (dkeys cpip_theme)"
    by code_simp+
  then show ?thesis by (force simp: dget_or_def dest: dget_in_set split: option.splits)
qed

end
