(* ===== verification/QueueLiveness.thy ===== *)
theory QueueLiveness
  imports BuildQueue
begin

text \<open>
  Fairness of the build queue (\<^verbatim>\<open>builder/queue.py\<close>): a waiting build is handed to a worker after a
  bounded number of pops, however the pushes, completions and failures of the other builds interleave,
  and although a failing build goes back to the queue forever. A failure costs a build one step of
  priority; the pops that other builds can still take before a given one are counted by \<open>pops_before\<close>.
\<close>

section \<open>The pops that come before a job\<close>

text \<open>
  A waiting job of a more urgent priority can be popped once at each priority on its way to the one of
  the job in question, and one of the same priority once; a running build one time less.
\<close>

definition waiting_pops :: "int \<Rightarrow> pyfloat \<Rightarrow> job \<Rightarrow> nat" where
  "waiting_pops p0 t0 j =
     (if job_key j \<le> (p0, t0) then (if fst j < p0 then nat (p0 - fst j) else 1) else 0)"

definition running_pops :: "int \<Rightarrow> build_request \<Rightarrow> nat" where
  "running_pops p0 r = nat (p0 - br_priority r - 1)"

definition pops_before :: "int \<Rightarrow> pyfloat \<Rightarrow> build_queue \<Rightarrow> nat" where
  "pops_before p0 t0 q =
     sum_list (map (waiting_pops p0 t0) (waiting q)) + sum_list (map (running_pops p0 \<circ> snd) (processing q))"

text \<open>Builds pushed later are not more urgent, and clocks have moved on.\<close>

fun not_ahead :: "int \<Rightarrow> pyfloat \<Rightarrow> queue_event \<Rightarrow> bool" where
  "not_ahead p0 t0 (Push now r) = ((p0, t0) < (br_priority r, now))"
| "not_ahead p0 t0 (Fail now i) = (t0 < now)"
| "not_ahead p0 t0 _ = True"

section \<open>Every pop uses one of them up\<close>

definition sane_queue :: "build_queue \<Rightarrow> bool" where
  "sane_queue q \<longleftrightarrow>
     sorted (map job_key (waiting q)) \<and> dwf (processing q) \<and> (\<forall>j \<in> set (waiting q). br_priority (job_request j) = fst j)"

lemma sane_empty: "sane_queue empty_queue"
  by (simp add: sane_queue_def empty_queue_def)

lemma sane_push: "sane_queue q \<Longrightarrow> sane_queue (push now r q)"
  by (auto simp: sane_queue_def push_def job_request_def)

lemma sane_pop: "sane_queue q \<Longrightarrow> sane_queue (snd (pop q))"
  by (auto simp: sane_queue_def pop_def dict_inv split: list.splits)

lemma sane_complete: "sane_queue q \<Longrightarrow> sane_queue (complete i q)"
  by (simp add: sane_queue_def complete_def dict_inv)

lemma fail_complete:
  "fail now i q =
     (case dget (processing q) i of
        None \<Rightarrow> complete i q
      | Some r \<Rightarrow> push now (r\<lparr>br_priority := min (br_priority r + 1) 10\<rparr>) (complete i q))"
  by (simp add: fail_def complete_def Let_def split: option.split)

lemma sane_step: "sane_queue q \<Longrightarrow> sane_queue (queue_step q e)"
  by (cases e) (simp_all add: sane_push sane_pop sane_complete fail_complete split: option.split)

lemma sane_run: "sane_queue q \<Longrightarrow> sane_queue (foldl queue_step q es)"
  by (induction es arbitrary: q) (simp_all add: sane_step)

lemma sum_sort_key:
  fixes f :: "'a \<Rightarrow> nat"
  shows "sum_list (map f (sort_key k xs)) = sum_list (map f xs)"
  by (metis mset_map mset_sort sum_mset_sum_list)

lemma pops_push:
  "pops_before p0 t0 (push now r q) = waiting_pops p0 t0 (br_priority r, now, r) + pops_before p0 t0 q"
  by (simp add: pops_before_def push_def sum_sort_key)

lemma sum_dset:
  fixes f :: "'v \<Rightarrow> nat"
  shows "sum_list (map (f \<circ> snd) (dset k v d)) \<le> f v + sum_list (map (f \<circ> snd) d)"
  by (induction d) auto

lemma sum_ddel:
  fixes f :: "'v \<Rightarrow> nat"
  assumes "dwf d"
  shows "sum_list (map (f \<circ> snd) d) =
    (case dget d k of None \<Rightarrow> 0 | Some v \<Rightarrow> f v) + sum_list (map (f \<circ> snd) (ddel k d))"
proof (cases "dget d k")
  case (Some v)
  then have "(k, v) \<in> set d" by (rule dget_in_set)
  with assms Some sum_list_map_remove1 [OF this, of "f \<circ> snd"] show ?thesis by (simp add: ddel_remove1)
qed (simp add: ddel_absent)

lemma pops_complete:
  assumes "sane_queue q"
  shows "pops_before p0 t0 q =
    (case dget (processing q) i of None \<Rightarrow> 0 | Some r \<Rightarrow> running_pops p0 r) + pops_before p0 t0 (complete i q)"
  using assms sum_ddel [of "processing q" "running_pops p0" i]
  by (simp add: sane_queue_def pops_before_def complete_def)

lemma pops_fail:
  assumes "sane_queue q" and "p0 \<le> 10" and "t0 < now"
  shows "pops_before p0 t0 (fail now i q) \<le> pops_before p0 t0 q"
proof (cases "dget (processing q) i")
  case (Some r)
  let ?p = "min (br_priority r + 1) 10"
  have "waiting_pops p0 t0 (?p, now, r\<lparr>br_priority := ?p\<rparr>) \<le> running_pops p0 r"
    using assms(2,3) by (auto simp: waiting_pops_def running_pops_def job_key_def)
  with Some pops_complete [OF assms(1), of p0 t0 i] show ?thesis by (simp add: fail_complete pops_push)
qed (use pops_complete [OF assms(1), of p0 t0 i] in \<open>simp add: fail_complete\<close>)

lemma pops_pop:
  assumes "sane_queue q" and "j \<in> set (waiting q)" and "job_key j = (p0, t0)"
  shows "Suc (pops_before p0 t0 (snd (pop q))) \<le> pops_before p0 t0 q"
proof (cases "waiting q")
  case (Cons h rest)
  obtain p t r where h: "h = (p, t, r)" by (rule prod_cases3)
  have "job_key h \<le> (p0, t0)" using assms Cons by (auto simp: sane_queue_def)
  moreover have "br_priority r = p" using assms(1) Cons h by (simp add: sane_queue_def job_request_def)
  ultimately have "Suc (running_pops p0 r) \<le> waiting_pops p0 t0 h"
    by (auto simp: waiting_pops_def running_pops_def h job_key_def)
  with Cons h sum_dset [of "running_pops p0" "br_request_id r" r "processing q"]
  show ?thesis by (simp add: pops_before_def pop_def)
qed (use assms(2) in simp)

section \<open>No build starves\<close>

lemma stays_waiting:
  assumes "j \<in> set (waiting q)" and "e = Pop \<longrightarrow> fst (pop q) \<noteq> Some (job_request j)"
  shows "j \<in> set (waiting (queue_step q e))"
  using assms
  by (cases e) (auto simp: push_def pop_def complete_def fail_complete job_request_def split: list.splits option.splits)

lemma pops_step:
  assumes "sane_queue q" and "p0 \<le> 10" and "not_ahead p0 t0 e" and "e \<noteq> Pop"
  shows "pops_before p0 t0 (queue_step q e) \<le> pops_before p0 t0 q"
proof (cases e)
  case (Push now r)
  with assms(3) show ?thesis by (auto simp: pops_push waiting_pops_def job_key_def)
next
  case (Done i)
  with pops_complete [OF assms(1), of p0 t0 i] show ?thesis by simp
qed (use assms in \<open>simp_all add: pops_fail\<close>)

lemma handed_out:
  assumes "sane_queue q" and "j \<in> set (waiting q)" and "job_key j = (p0, t0)" and "p0 \<le> 10"
    and "\<forall>e \<in> set es. not_ahead p0 t0 e" and "pops_before p0 t0 q \<le> count_list es Pop"
  shows "\<exists>es1 es2. es = es1 @ Pop # es2 \<and> fst (pop (foldl queue_step q es1)) = Some (job_request j)"
  using assms(1,2,5,6)
proof (induction es arbitrary: q)
  case Nil
  with pops_pop [OF Nil.prems(1,2) assms(3)] show ?case by simp
next
  case (Cons e es)
  show ?case
  proof (cases "e = Pop \<and> fst (pop q) = Some (job_request j)")
    case True
    then show ?thesis by (intro exI [of _ "[]"] exI [of _ es]) simp
  next
    case False
    have "pops_before p0 t0 (queue_step q e) \<le> count_list es Pop"
      using Cons.prems pops_pop [OF Cons.prems(1,2) assms(3)] pops_step [OF Cons.prems(1) assms(4), of t0 e]
      by (cases "e = Pop") auto
    with Cons.IH [of "queue_step q e"] Cons.prems False stays_waiting [of j q e] sane_step
    obtain es1 es2 where "es = es1 @ Pop # es2" "fst (pop (foldl queue_step (queue_step q e) es1)) = Some (job_request j)"
      by auto
    then show ?thesis by (intro exI [of _ "e # es1"] exI [of _ es2]) simp
  qed
qed


text \<open>A build of priority 3 fails again and again; the one of priority 5 behind it gets its turn.\<close>

definition failing_history :: "queue_event list" where
  "failing_history = [Push 1 (demo_request ''bad'' 3), Push 2 (demo_request ''good'' 5)]"

definition failing_rounds :: "queue_event list" where
  "failing_rounds = [Pop, Fail 3 ''bad'', Pop, Fail 4 ''bad'', Push 5 (demo_request ''late'' 5), Pop]"


text \<open>
  The bound on the priority is needed: a build of priority 11 waits forever behind one that keeps failing.
\<close>

definition starving :: "pyfloat \<Rightarrow> build_queue" where
  "starving t = \<lparr>waiting = [(10, t, demo_request ''bad'' 10), (11, 0, demo_request ''good'' 11)], processing = []\<rparr>"

lemma starving_round:
  "fst (pop (starving t)) = Some (demo_request ''bad'' 10) \<and>
   foldl queue_step (starving t) [Pop, Fail t' ''bad''] = starving t'"
  by (simp add: starving_def pop_def fail_def push_def job_key_def demo_request_def new_build_request_def)

end
