(* ===== verification/Answers.thy ===== *)
theory Answers
  imports Hub
begin

text \<open>
  Who is sent what by the server (\<^verbatim>\<open>server/ws/hub.py\<close>, the endpoint of \<^verbatim>\<open>server/app.py\<close>), over
  all runs of the hub: every message has a cause, the answer to a call goes to the socket the call came
  from and to no other, and nothing is sent to a socket that is closed.
\<close>

section \<open>The cause of a message\<close>

text \<open>An event of the hub that makes the server send a message to a socket.\<close>

fun caused :: "dispatcher \<Rightarrow> hub_event \<Rightarrow> nat \<Rightarrow> rpc_message \<Rightarrow> bool" where
  "caused disp (Open now d) ws m = False"
| "caused disp (Text env conn raw) ws m =
     (snd conn = ws \<and>
      (case from_json (re_uuid env) (re_now env) raw of
         Inl e \<Rightarrow> False
       | Inr msg \<Rightarrow>
           m_type msg = CALL \<and> dispatch env disp msg = Inr m \<or>
           m_type msg = SESSION_INIT \<and>
           m = make_notification (re_uuid env) (re_now env) ''session.ack'' (PDict [(''session_id'', fst conn)])))"
| "caused disp (Finally conn) ws m = False"
| "caused disp (Heartbeat now ping) ws m = (m = ping)"
| "caused disp (Broadcast msg) ws m = (m = msg)"

text \<open>
  Two hubs, one after the other: sockets are only closed, and what was sent since then went to open and
  reachable sockets and satisfies a predicate.
\<close>

definition sends_only :: "(nat \<Rightarrow> bool) \<Rightarrow> (nat \<Rightarrow> rpc_message \<Rightarrow> bool) \<Rightarrow> hub \<Rightarrow> hub \<Rightarrow> bool" where
  "sends_only reachable P h h' \<longleftrightarrow>
     set (closed h) \<subseteq> set (closed h') \<and>
     (\<forall>(ws, m) \<in> set (outbox h') - set (outbox h). ws \<notin> set (closed h) \<and> reachable ws \<and> P ws m)"

lemma sends_only_refl: "sends_only reachable P h h"
  by (simp add: sends_only_def)

lemma sends_only_trans:
  "sends_only reachable P h h1 \<Longrightarrow> sends_only reachable P h1 h2 \<Longrightarrow> sends_only reachable P h h2"
  unfolding sends_only_def by blast

lemma sends_only_foldl:
  assumes "\<And>h x. sends_only reachable P h (f h x)"
  shows "sends_only reachable P h (foldl f h xs)"
proof (induction xs arbitrary: h)
  case (Cons x xs)
  from assms [of h x] Cons.IH [of "f h x"] show ?case by (auto intro: sends_only_trans)
qed (simp add: sends_only_refl)

section \<open>Every operation of the hub\<close>

lemma disconnect_sends: "sends_only reachable P h (disconnect d h)"
  by (auto simp: sends_only_def disconnect_def close_ws_def split: option.splits)

lemma connect_sends: "sends_only reachable P h (snd (connect now d md h))"
  by (auto simp: sends_only_def connect_def close_ws_def Let_def split: option.splits)

lemma send_ws_sends: "P ws m \<Longrightarrow> sends_only reachable P h (snd (send_ws reachable ws m h))"
  by (auto simp: sends_only_def send_ws_def)

lemma send_to_device_sends:
  assumes "\<And>ws. P ws m"
  shows "sends_only reachable P h (snd (send_to_device reachable d m h))"
proof (cases "dget (connections h) d")
  case (Some ws)
  from send_ws_sends [of P ws m reachable h] assms
  show ?thesis
    by (auto simp: send_to_device_def Some split: prod.splits sum.splits
        intro: sends_only_trans [OF _ disconnect_sends])
qed (simp add: send_to_device_def sends_only_refl)

lemma broadcast_sends:
  assumes "\<And>ws. P ws m"
  shows "sends_only reachable P h (snd (broadcast_to reachable m ds h))"
proof (induction ds arbitrary: h)
  case (Cons d ds)
  from send_to_device_sends [of P m reachable h d] assms Cons.IH [of "snd (send_to_device reachable d m h)"]
  show ?case by (auto simp: split_beta intro: sends_only_trans)
qed (simp add: sends_only_refl)

lemma heartbeat_one_sends:
  assumes "\<And>ws. P ws ping"
  shows "sends_only reachable P h (heartbeat_one reachable interval now ping h d)"
proof (cases "dget (connections h) d")
  case (Some ws)
  from send_ws_sends [of P ws ping reachable h] assms
  show ?thesis
    by (auto simp: heartbeat_one_def Some disconnect_sends sends_only_refl split: option.splits prod.splits sum.splits
        intro: sends_only_trans [OF _ disconnect_sends])
qed (simp add: heartbeat_one_def sends_only_refl)

lemma ws_text_sends: "sends_only reachable (caused disp (Text env conn raw)) h (ws_text reachable env disp conn raw h)"
  by (auto simp: sends_only_def ws_text_def Let_def send_ws_def
      split: sum.splits prod.splits message_type.splits)

lemma hub_step_sends: "sends_only reachable (caused disp e) h (hub_step reachable disp h e)"
proof (cases e)
  case (Heartbeat now ping)
  then show ?thesis
    by (auto simp: heartbeat_round_def intro!: sends_only_foldl heartbeat_one_sends)
next
  case (Text env conn raw)
  then show ?thesis using ws_text_sends by simp
qed (simp_all add: connect_sends ws_finally_def disconnect_sends broadcast_def broadcast_sends)

section \<open>Over all runs\<close>

text \<open>
  C24: Whatever the server has sent to a socket has a cause in its history: a call that came from that
  same socket and whose answer it is, a session opened on that socket, a heartbeat or a broadcast. So no device
  is ever sent the answer to another one's call. At that moment the socket was open and the network took the message.
\<close>

theorem answers_go_to_the_caller:
  assumes "(ws, m) \<in> set (outbox (run (hub_step reachable disp) new_hub es))"
  shows "\<exists>es1 e es2. es = es1 @ e # es2 \<and> caused disp e ws m \<and> reachable ws \<and>
    ws \<notin> set (closed (run (hub_step reachable disp) new_hub es1))"
  using assms
proof (induction es rule: rev_induct)
  case (snoc e es)
  let ?h = "run (hub_step reachable disp) new_hub es"
  show ?case
  proof (cases "(ws, m) \<in> set (outbox ?h)")
    case True
    with snoc.IH obtain es1 e1 es2 where "es = es1 @ e1 # es2" "caused disp e1 ws m" "reachable ws"
      "ws \<notin> set (closed (run (hub_step reachable disp) new_hub es1))" by blast
    then show ?thesis by (intro exI [of _ es1] exI [of _ e1] exI [of _ "es2 @ [e]"]) simp
  next
    case False
    with snoc.prems hub_step_sends [of reachable disp e ?h]
    have "caused disp e ws m \<and> reachable ws \<and> ws \<notin> set (closed ?h)" by (auto simp: sends_only_def)
    then show ?thesis by blast
  qed
qed (simp add: new_hub_def)

text \<open>Two devices are connected; the first calls, and the answer is in the outbox for its socket.\<close>

definition caller_events :: "hub_event list" where
  "caller_events = [Open 0 (PStr ''p''), Open 1 (PStr ''q''),
     Text Rpc.demo_env (PStr ''p'', 0)
       (to_json (\<lambda>v. []) (make_call ''c1'' 5 ''echo'' (Some [(''a'', PInt 1)]) []))]"

lemma caller_outbox:
  "\<exists>m. outbox (run (hub_step (\<lambda>ws. True) (builtin_dispatcher 5)) new_hub caller_events) = [(0, m)] \<and> m_type m = RESULT"
proof -
  have "parse_type (PStr ''rpc.call'') = Inr CALL" by code_simp
  then show ?thesis
    by (simp add: caller_events_def connect_def new_hub_def Let_def ws_text_def send_ws_def from_json_def to_json_def
        from_dict_def to_dict_def make_defs dget_or_def py_or_def dispatch_def builtin_dispatcher_def register_def
        handle_echo_def Rpc.demo_env_def)
qed

theorem answers_go_to_the_caller_witness:
  "\<exists>m. (0, m) \<in> set (outbox (run (hub_step (\<lambda>ws. True) (builtin_dispatcher 5)) new_hub caller_events)) \<and>
     m_type m = RESULT \<and> (\<exists>e \<in> set caller_events. caused (builtin_dispatcher 5) e 0 m)"
proof -
  obtain m where m: "(0, m) \<in> set (outbox (run (hub_step (\<lambda>ws. True) (builtin_dispatcher 5)) new_hub caller_events))"
    "m_type m = RESULT" using caller_outbox by auto
  from answers_go_to_the_caller [OF m(1)] obtain e where "e \<in> set caller_events" "caused (builtin_dispatcher 5) e 0 m"
    by (metis in_set_conv_decomp)
  with m show ?thesis by blast
qed

end
