(* ===== verification/Spec2Isabelle.thy ===== *)
theory Spec2Isabelle
  imports Cache RateLimiter Fallback BuildQueue BuildWorker Auth Services Serialization Protocol Rpc
    Streaming Hub Application ArchiveLinks Layers Installer Fetcher Executors Security Config Daemon ImportHooks Virtual Scheduling Doctor Lifecycle
    Cli Heartbeat Theme QueueLiveness Answers
begin

text \<open>
  cpip is a package manager for Python on Android phones that installs what the phone can build itself and
  sends the rest to a server: as wheels, as builds, or by executing the calls into a package there. This
  development models the client (\<^verbatim>\<open>client/\<close>, \<^verbatim>\<open>runtime/\<close>, \<^verbatim>\<open>virtualization/\<close>,
  \<^verbatim>\<open>agent/\<close>), the server (\<^verbatim>\<open>server/\<close>), its build farm (\<^verbatim>\<open>builder/\<close>) and
  execution farm (\<^verbatim>\<open>executor/\<close>), and what they share (\<^verbatim>\<open>shared/\<close>, \<^verbatim>\<open>security/\<close>),
  one theory per component. This theory holds the properties of client and server together.

  \<^bold>\<open>How the code is represented.\<close> A class is a record of its attributes and every method a function that
  takes and returns it; a raise is the left side of a sum, and an early return a branch. A dictionary is its
  list of items in insertion order (\<open>Prelude\<close>: \<open>dget\<close>, \<open>dset\<close>, \<open>ddel\<close>). Python's
  integers are \<open>int\<close>; floats are rationals, so rounding of arithmetic is not modelled, but
  \<^verbatim>\<open>round\<close> is (\<open>PyValues\<close>). Values are \<open>pyval\<close>; a JSON text is the
  value it is read as (\<open>jsonify\<close> is what \<^verbatim>\<open>json.dumps\<close> does to values that are not JSON). The file system is the
  list of its files and directories (\<open>Files\<close>). Time, random ids, the environment, the network,
  subprocesses, cryptography, pickling and the operating system are parameters: functions and answers that
  the definitions take, with what the code relies on as named hypotheses where a property needs any.
  Concurrency is a list of events, or a permutation of completions, over which a property quantifies.

  \<^bold>\<open>The parts.\<close>
  \<^item> Foundations: \<open>Prelude\<close> (results, dictionaries, strings, runs of steps and invariants),
    \<open>Files\<close>, \<open>PyValues\<close>, \<open>Models\<close> (\<^verbatim>\<open>shared/models.py\<close>, constants), \<open>Errors\<close>
    (\<^verbatim>\<open>shared/exceptions.py\<close>), \<open>Base64\<close>.
  \<^item> Installing: \<open>Cache\<close> (index, eviction, integrity), \<open>Installer\<close> (\<^verbatim>\<open>resolver.py\<close>,
    \<^verbatim>\<open>installer.py\<close>, the install command), \<open>Fetcher\<close> (chunked downloads), \<open>Layers\<close>,
    \<open>ArchiveLinks\<close> and \<open>Virtual\<close> (layer store, symbolic links in its archives, compositions, manifest registry, mounts, linker), \<open>Security\<close> (signatures,
    encryption, container options, audit).
  \<^item> Running on the client: \<open>ImportHooks\<close> (finder, loader, proxies, lazy modules), \<open>Scheduling\<close>
    (platform, scheduler, model router, orchestrator), \<open>Serialization\<close>, \<open>Protocol\<close>, \<open>Rpc\<close>
    (session of the client, dispatcher of the server), \<open>Streaming\<close>, \<open>Fallback\<close> (chain, retries,
    circuit breaker).
  \<^item> Managing the client: \<open>Toml\<close> and \<open>Config\<close>, \<open>Daemon\<close> (connection loop, messages, sync),
    \<open>Lifecycle\<close> (start, stop, status of its process), \<open>Doctor\<close>, \<open>Console\<close> (messages and panels), \<open>Theme\<close> (styles and progress bars), \<open>Cli\<close> (every
    command with its output and exit status, the interactive shell).
  \<^item> The server: \<open>Auth\<close>, \<open>RateLimiter\<close>, \<open>Services\<close> (builds, packages, execution, with their
    endpoints), \<open>Hub\<close> (devices, sessions, the WebSocket endpoint), \<open>Database\<close> (the declared tables),
    \<open>Application\<close> (the state of the whole process, its start and its loops), \<open>Heartbeat\<close> (hub and daemon keep a
    connection alive), \<open>Answers\<close> (who is sent what).
  \<^item> The farms: \<open>BuildQueue\<close>, \<open>QueueLiveness\<close> (no build starves), \<open>BuildWorker\<close> (worker, compiler, scanner, signer), \<open>Executors\<close>
    (sandbox, GPU and browser runtimes, pool of containers).

  \<^bold>\<open>How they interact.\<close> The installer asks the resolver, the cache and the server
  (\<open>this_cloud\<close> below answers as the endpoints of \<open>Services\<close> do) and ends by registering a package for
  the import hooks; the hooks hand proxies to the program, whose calls \<open>Rpc\<close> serializes, sends and settles;
  the daemon keeps the metadata of the cache; the doctor runs the integrity check of the cache; the worker
  serves the build queue through its interface.

  \<^bold>\<open>Interfaces.\<close> \<open>keyed_table\<close> (dictionaries; its laws are collected in \<open>dict_laws\<close>),
  \<open>kept_invariant\<close> (a step that keeps an invariant, interpreted for the cache, the hub, the hooks, the
  proxies, the builds and the results), \<open>job_queue\<close> (what the worker relies on, interpreted for the build
  queue) and \<open>wheel_store\<close> (what the installer relies on, interpreted for the cache).

  \<^bold>\<open>What the lemmas show.\<close> Refinements: the rate limiter decides as a log of all requests, the sorted
  queue serves as a bag of arrivals, eviction keeps what a sorted list by age keeps, the manifest registry is
  a map that survives restarts. Invariants over all runs: one open socket per device, no build lost or
  duplicated, containers never shared, the index on disk equal to that in memory, the breaker open exactly by
  its history, at most one daemon; over all runs of the server process, that nothing of it outlives the process. Round trips: serialized values, messages, configurations, wheels through
  the cache. Safety: layers and wheels stay inside their directories, answers
  go only to the socket that asked. Liveness: every waiting build gets its turn, an answering daemon stays connected. Functional behaviour of installation,
  imports, streams, downloads, heartbeats, builds, pipelines and syncs, errors included. Several properties
  state what the code does against its intention; the manifest lists them as findings.

  \<^bold>\<open>Termination and bounds.\<close> The polling of a build takes 360 rounds at most, which \<open>cloud_build_waits\<close>
  shows to be exactly the waiting time; the eviction loop and the deserializer are functions with measures;
  the plan of a chunked download is a partial function, and is proved to end for every positive chunk size.
  Loops that serve forever (daemon, worker, heartbeat, sync) are functions of the list of their rounds.

  \<^bold>\<open>Not modelled.\<close> How Rich renders what it is given; the messages the installer and the resolver print on
  their way; Python's interactive console; what SQLAlchemy does with the tables; the event loop thread of the
  cloud session and sockets, whose messages are events; the title, documentation addresses and CORS settings of
  the server application.
\<close>

section \<open>The client against this server\<close>

text \<open>
  What the client's requests get from the server of this repository, as \<open>cloud\<close>. The client sends no
  credentials with the requests of \<^verbatim>\<open>client/installer.py\<close>. The build service has changed by the
  events \<open>es k\<close> when the \<open>k\<close>-th status is asked for; the status of a build is the JSON of its record.
  Downloads are the parameter \<open>fetch\<close>. One clock reading and one state of the rate limiter stand for all
  requests of an installation.
\<close>

definition build_json :: "build_result \<Rightarrow> pydict" where
  "build_json b =
     [(''request_id'', PStr (bs_request_id b)), (''status'', PStr (build_status_value (bs_status b))),
      (''package_name'', PStr (bs_package_name b)), (''package_version'', PStr (bs_package_version b)),
      (''wheel_url'', (case bs_wheel_url b of None \<Rightarrow> PNone | Some u \<Rightarrow> PStr u)),
      (''wheel_hash'', (case bs_wheel_hash b of None \<Rightarrow> PNone | Some h \<Rightarrow> PStr h)),
      (''wheel_size'', PInt (bs_wheel_size b)), (''build_log'', PStr (bs_build_log b)),
      (''duration'', PFloat (bs_duration b)),
      (''error'', (case bs_error b of None \<Rightarrow> PNone | Some e \<Rightarrow> PStr e))]"

fun http_status :: "http_error \<Rightarrow> int" where
  "http_status (HTTPException code detail headers) = int code"

text \<open>The server as one device sees it: its peer address, its platform, and the clock of its requests.\<close>

record server_view =
  sv_jwt :: jwt_lib
  sv_config :: server_config
  sv_now :: pyfloat
  sv_peer :: "request option"
  sv_windows :: windows
  sv_builds :: build_service
  sv_arch :: string
  sv_python :: string
  sv_uuid :: string

definition wanted_build :: "server_view \<Rightarrow> string \<Rightarrow> string \<Rightarrow> build_request" where
  "wanted_build S package version =
     (new_build_request (sv_uuid S) (sv_now S) package)\<lparr>br_package_version := version,
        br_target_architecture := ''aarch64''\<rparr>"

definition submit_answer ::
    "server_view \<Rightarrow> string option \<Rightarrow> string \<Rightarrow> string \<Rightarrow> (int \<times> pydict) option \<times> build_service" where
  "submit_answer S token package version =
     (case create_build (sv_jwt S) (sv_config S) (sv_now S) \<lparr>caller = sv_peer S, credentials = token\<rparr>
             (wanted_build S package version) (sv_windows S, sv_builds S) of
        (Inl e, (w, sv)) \<Rightarrow> (Some (http_status e, []), sv)
      | (Inr b, (w, sv)) \<Rightarrow> (Some (201, build_json b), sv))"

definition status_answer :: "build_service \<Rightarrow> pyval \<Rightarrow> (int \<times> pydict) option" where
  "status_answer sv build_id =
     (case build_id of
        PStr i \<Rightarrow> (case get_build_endpoint sv i of
                    Inl e \<Rightarrow> Some (http_status e, [])
                  | Inr b \<Rightarrow> Some (200, build_json b))
      | _ \<Rightarrow> Some (404, []))"

text \<open>
  The endpoints of a package and of its wheel, with the defaults of their parameters. The framework gives a handler the part of the
  path its route names.
\<close>

definition serve_package :: "server_view \<Rightarrow> query \<Rightarrow> py_error + int \<times> (py_error + package_info)" where
  "serve_package S q =
     (let name = drop (length (API_V1_PREFIX @ ''/packages/'')) (fst q)
      in case fst (get_package_endpoint (sv_now S) (sv_peer S) name (dget_or (snd q) ''arch'' ''aarch64'')
                     (dget_or (snd q) ''python'' ''3.11'') (dget_or (snd q) ''version'' ''latest'') (sv_windows S)) of
           Inl e \<Rightarrow> Inr (http_status e, Inl KeyError)
         | Inr info \<Rightarrow> Inr (200, Inr info))"

definition serve_wheel :: "server_view \<Rightarrow> query \<Rightarrow> py_error + int \<times> (py_error + pydict)" where
  "serve_wheel S q =
     (let rest = drop (length (API_V1_PREFIX @ ''/packages/'')) (fst q);
          name = take (length rest - length ''/wheel'') rest
      in case fst (get_wheel_endpoint (sv_now S) (sv_peer S) name (dget_or (snd q) ''arch'' ''aarch64'')
                     (dget_or (snd q) ''python'' ''3.11'') (sv_windows S)) of
           Inl e \<Rightarrow> Inr (http_status e, Inr [])
         | Inr url \<Rightarrow> Inr (200, Inr [(''url'', PStr url), (''package'', PStr name)]))"

definition this_cloud ::
    "server_view \<Rightarrow> string option \<Rightarrow> (nat \<Rightarrow> build_event list) \<Rightarrow> (string \<Rightarrow> (bytes \<times> bool) option) \<Rightarrow> cloud" where
  "this_cloud S token es fetch =
     \<lparr>c_package = query_cloud (serve_package S) (sv_arch S) (sv_python S),
      c_wheel_url = query_wheel_url (serve_wheel S) (sv_arch S) (sv_python S),
      c_submit = (\<lambda>package version. fst (submit_answer S token package version)),
      c_poll = (\<lambda>k build_id. status_answer (run build_step (sv_builds S) (es k)) build_id),
      c_fetch = fetch\<rparr>"

text \<open>The requests of the client reach the endpoints with the arguments it means.\<close>

lemma serve_package_query:
  "serve_package S (package_query arch python package version) =
     (case fst (get_package_endpoint (sv_now S) (sv_peer S) package arch python version (sv_windows S)) of
        Inl e \<Rightarrow> Inr (http_status e, Inl KeyError)
      | Inr info \<Rightarrow> Inr (200, Inr info))"
  by (simp add: serve_package_def package_query_def dget_or_def Let_def)

lemma rate_limit_status: "fst (check_rate_limit r lt now w) = Inl e \<Longrightarrow> http_status e = 429"
  by (auto simp: check_rate_limit_def split: option.splits prod.splits bool.splits)

lemma no_wheel_url: "c_wheel_url (this_cloud S token es fetch) package = None"
  using package_lookup [of package "sv_arch S" "sv_python S" "''latest''" "sv_now S" "sv_peer S" "sv_windows S"]
  by (auto simp: this_cloud_def query_wheel_url_def serve_wheel_def wheel_query_def dget_or_def Let_def
      dest: rate_limit_status split: sum.splits)

lemma anonymous_refused:
  "\<exists>detail. require_auth J cfg now None = Inl (HTTPException 401 detail [])"
  by (simp add: require_auth_def get_current_user_def)

lemma submit_anonymous: "submit_answer S None package version = (Some (401, []), sv_builds S)"
  using anonymous_refused [of "sv_jwt S" "sv_config S" "sv_now S"]
  by (auto simp: submit_answer_def create_build_def)

lemma run_service_inv: "service_inv sv \<Longrightarrow> service_inv (run build_step sv es)"
  by (rule build_machine.run_inv)

lemma status_undecided: "service_inv sv \<Longrightarrow> undecided (status_answer sv build_id)"
  by (auto simp: status_answer_def get_build_endpoint_def get_build_def undecided_def service_inv_def
      build_json_def dget_or_def split: pyval.splits option.splits dest: dget_in_set)

lemma build_strategy_fails:
  assumes "service_inv (sv_builds S)"
  shows "install_cloud_build H cfg (this_cloud S token es fetch) package version s = (Inr False, s)"
proof -
  have "\<forall>j < 360. undecided (c_poll (this_cloud S token es fetch) (0 + j) bid)" for bid
    using status_undecided [OF run_service_inv [OF assms]] by (simp add: this_cloud_def)
  from poll_build_skip [OF this, of H cfg package version _ 0 s] show ?thesis
    by (auto simp: install_cloud_build_def Let_def split: option.splits)
qed

text \<open>
  C18: The cloud build strategy never succeeds against this server. The client sends no credentials, so
  the server refuses every build request with 401, in debug mode too; and if it did send some, no build
  would ever be decided: after 360 status requests the strategy fails. Nothing is installed or cached
  on the way. Nor does the server ever have a wheel to download.
\<close>

theorem cloud_build_never_succeeds:
  assumes "service_inv (sv_builds S)"
  shows "c_submit (this_cloud S None es fetch) package version = Some (401, []) \<and>
    c_wheel_url (this_cloud S token es fetch) package = None \<and>
    install_cloud_build H cfg (this_cloud S token es fetch) package version s = (Inr False, s)"
  using build_strategy_fails [OF assms] no_wheel_url by (simp add: this_cloud_def submit_anonymous)

definition demo_view :: server_view where
  "demo_view = \<lparr>sv_jwt = demo_jwt 0, sv_config = demo_config, sv_now = 5, sv_peer = None, sv_windows = [],
     sv_builds = new_build_service, sv_arch = ''aarch64'', sv_python = ''3.11'', sv_uuid = ''b1''\<rparr>"

theorem cloud_build_never_succeeds_witness:
  "install_cloud_build willing_host demo_client_config (this_cloud demo_view (Some ''a'') (\<lambda>_. []) (\<lambda>_. None))
     ''six'' ''latest'' demo_client = (Inr False, demo_client)"
proof -
  have "service_inv (sv_builds demo_view)" by (simp add: demo_view_def service_inv_def new_build_service_def)
  from cloud_build_never_succeeds [OF this, of "\<lambda>_. []" "\<lambda>_. None"] show ?thesis by simp
qed

lemma this_cloud_package:
  assumes "fst (check_rate_limit (sv_peer S) DEFAULT_LIMIT (sv_now S) (sv_windows S)) = Inr ()"
  shows "c_package (this_cloud S token es fetch) package version =
    get_package package (sv_arch S) (sv_python S) version"
  using assms
  by (auto simp: this_cloud_def query_cloud_def serve_package_query get_package_endpoint_def get_package_def
      split: prod.splits sum.splits option.splits)

lemma install_online:
  assumes "is_installed H package = Inr False"
    and "dget (index (cache_state s)) (cache_key package version ''wheel'') = None"
    and "\<not> offline_mode cfg" and "c_package C package version = Some info"
  shows "install H cfg C package version force s =
    try_strategies H cfg C package version (cloud_resolution H cfg package version info)
      (strategies_of (cloud_resolution H cfg package version info)) s"
  using assms
  by (simp add: install_def resolve_def cached_wheel_miss [OF assms(2)] strategies_of_def
      del: try_strategies.simps)

lemma try_registers_first:
  assumes "\<forall>cmd. run_command H cmd \<noteq> Inr 0"
  shows "\<exists>t. try_strategies H cfg C package version res
      (strategies_of (cloud_resolution H cfg package version info)) s =
    (Inr True, register_cloud_package package (pr_strategy (cloud_resolution H cfg package version info) = Hybrid) t)"
proof (cases "pr_strategy (cloud_resolution H cfg package version info) = Hybrid")
  case True
  then show ?thesis by (auto simp: strategies_of_def execute_strategy_def)
next
  case False
  then have "Hybrid \<notin> set (strategies_of (cloud_resolution H cfg package version info))"
    by (auto simp: strategies_of_def cloud_resolution_def Let_def split: if_splits)
  with try_registers [OF assms, of "strategies_of (cloud_resolution H cfg package version info)"]
    cloud_resolution_strategies [of H cfg package version info] False
  show ?thesis by simp
qed



section \<open>From login to a build\<close>

text \<open>
  C28: A session with the server, outside debug mode: the tokens that \<^verbatim>\<open>login\<close> answers let
  their holder submit a build within the hour, unless the client is over its rate; the build is then found
  under its id as queued, and cancelling it with the same token leaves it there as cancelled.
\<close>

theorem login_then_build:
  assumes "\<not> debug cfg" and "login J cfg now uuid_device hex api_key dev_id = Inr tokens"
    and "dget tokens ''access_token'' = Some (PStr token)"
    and "jwt_law J (jwt_secret cfg)
      (access_claims now (token_data (''user_'' @ take 8 hex) (if dev_id \<noteq> [] then dev_id else uuid_device)) None)"
    and "\<lfloor>later\<rfloor> \<le> \<lfloor>now + 3600\<rfloor>"
    and "fst (check_rate_limit peer BUILD_LIMIT later w) = Inr ()"
  shows "\<exists>b w' sv' sv''. create_build J cfg later \<lparr>caller = peer, credentials = Some token\<rparr> req (w, sv) = (Inr b, w', sv') \<and>
    bs_status b = Queued \<and> bs_package_name b = br_package_name req \<and>
    get_build_endpoint sv' (br_request_id req) = Inr b \<and>
    cancel_build_endpoint J cfg later \<lparr>caller = peer, credentials = Some token\<rparr> (br_request_id req) sv' =
      (Inr ''cancelled'', sv'') \<and>
    get_build_endpoint sv'' (br_request_id req) = Inr (b\<lparr>bs_status := Cancelled\<rparr>)"
proof -
  let ?user = "''user_'' @ take 8 hex" and ?dev = "if dev_id \<noteq> [] then dev_id else uuid_device"
  let ?claims = "access_claims now (token_data ?user ?dev) None"
  have tok: "token = jwt_encode J ?claims (jwt_secret cfg)"
    using assms(2,3) by (auto simp: login_def create_token_pair_def create_access_token_def Let_def dict_laws split: if_splits)
  have "jwt_decode J token (jwt_secret cfg) later = Some ?claims"
    using assms(4,5) by (simp add: tok jwt_law_def)
  moreover have "?user \<noteq> ''anonymous''" by simp
  ultimately have auth: "require_auth J cfg later (Some token) = Inr ?claims"
    using assms(1) by (simp add: require_auth_def get_current_user_def decode_token_def)
  obtain w' where rate: "check_rate_limit peer BUILD_LIMIT later w = (Inr (), w')"
    using pair_sndI [OF assms(6)] by blast
  show ?thesis
    by (simp add: create_build_def cancel_build_endpoint_def auth rate submit_build_def Let_def
        get_build_endpoint_def get_build_def cancel_build_def dict_laws)
qed

theorem login_then_build_witness:
  "\<exists>b w' sv'. create_build (demo_jwt 0) demo_config 60 \<lparr>caller = None, credentials = Some ''a''\<rparr>
     (new_build_request ''b1'' 50 ''six'') ([], new_build_service) = (Inr b, w', sv') \<and> bs_status b = Queued"
proof -
  let ?tokens = "projr (login (demo_jwt 0) demo_config 0 ''u'' ''1'' [] ''phone'')"
  have t: "login (demo_jwt 0) demo_config 0 ''u'' ''1'' [] ''phone'' = Inr ?tokens"
    "dget ?tokens ''access_token'' = Some (PStr ''a'')"
    by (simp_all add: login_def create_token_pair_def create_access_token_def demo_jwt_def Let_def dict_laws)
  have law: "jwt_law (demo_jwt 0) (jwt_secret demo_config)
      (access_claims 0 (token_data (''user_'' @ take 8 ''1'') (if ''phone'' \<noteq> [] then ''phone'' else ''u'')) None)"
    using demo_jwt_law(1) [of 0] by simp
  have "\<lfloor>60 :: pyfloat\<rfloor> \<le> \<lfloor>0 + 3600 :: pyfloat\<rfloor>" "fst (check_rate_limit None BUILD_LIMIT 60 []) = Inr ()"
    by (simp_all add: check_rate_limit_def)
  from login_then_build [OF demo_config_no_debug t law this, of "new_build_request ''b1'' 50 ''six''" new_build_service]
  show ?thesis by blast
qed

section \<open>A call of a proxied function\<close>



section \<open>A sync with this server\<close>

text \<open>
  What the two requests of a sync are answered: the registration of the device always succeeds, and the
  catalog is the list of the service, unless the device has used up its rate.
\<close>

definition listing_json :: "listing \<Rightarrow> pydict" where
  "listing_json l =
     (case l of (name, version, strategy) \<Rightarrow>
        [(''name'', PStr name), (''version'', PStr version), (''strategy'', PStr strategy)])"

definition register_device :: "pydict \<Rightarrow> pydict" where
  "register_device data =
     [(''status'', PStr ''ok''), (''device_id'', dget_or data ''device_id'' (PStr ''unknown''))]"

definition catalog_answers :: "pyfloat \<Rightarrow> request option \<Rightarrow> windows \<Rightarrow> string \<Rightarrow> sync_answers" where
  "catalog_answers now peer w arch =
     \<lparr>sa_register = None,
      sa_catalog = Inr (case fst (get_catalog_endpoint now peer arch w) of
          Inl e \<Rightarrow> (http_status e, Some (PDict []))
        | Inr ls \<Rightarrow> (200, Some (PDict [(''packages'', PList (map (\<lambda>l. PDict (listing_json l)) ls))])))\<rparr>"

text \<open>The answers with status 200 or 429, by the rate limit.\<close>

lemma catalog_answers_cases:
  "sa_catalog (catalog_answers now peer w arch) =
     (if fst (check_rate_limit peer DEFAULT_LIMIT now w) = Inr ()
      then Inr (200, Some (PDict [(''packages'', PList (map (\<lambda>l. PDict (listing_json l)) (map listing_of registry)))]))
      else Inr (429, Some (PDict [])))"
  "sa_register (catalog_answers now peer w arch) = None"
  by (auto simp: catalog_answers_def get_catalog_endpoint_def get_catalog_def check_rate_limit_def
      split: option.splits prod.splits bool.splits)

lemma registry_syncable:
  "\<forall>p \<in> set (map (listing_json \<circ> listing_of) registry). syncable p"
  "distinct (map pkg_name (map (listing_json \<circ> listing_of) registry))"
  "length registry = 6"
  by (simp_all add: registry_def listing_json_def listing_of_def syncable_def pkg_name_def is_component_def)

text \<open>
  C27: A sync against this server. Within the rate limit, all six packages of the catalog are stored and found by
  the metadata lookup for a day, with the version and the strategy of the registry. Over the limit, nothing
  is stored; but the sync still counts: it reports no error and is not repeated within the hour, and the command
  prints that it has synced, 0 packages.
\<close>

theorem sync_with_this_server:
  assumes "fs_is_dir (disk c) (metadata_dir c)"
  shows "\<exists>rep sm' c'. do_sync str_of now True (catalog_answers now peer w arch) sm c = (Inr rep, sm', c') \<and>
    dget rep ''errors'' = Some (PList []) \<and> sm_last_sync sm' = now \<and>
    sync_lines str_of rep = [Print (print_success (''Synced '' @ fmt str_of (the (dget rep ''metadata_updated'')) @ '' package(s)''))] \<and>
    (if fst (check_rate_limit peer DEFAULT_LIMIT now w) = Inr ()
     then dget rep ''metadata_updated'' = Some (PInt 6) \<and>
       (\<forall>(name, info) \<in> set registry. \<forall>t \<le> now + 86400. get_metadata name t c' =
          (Inr (Some [(''name'', PStr name), (''version'', PStr (pi_version info)),
             (''strategy'', PStr (strategy_value (pi_strategy info))), (''_cached_at'', PFloat now)]), c'))
     else dget rep ''metadata_updated'' = Some (PInt 0) \<and> c' = c)"
proof (cases "fst (check_rate_limit peer DEFAULT_LIMIT now w) = Inr ()")
  case True
  let ?A = "catalog_answers now peer w arch" and ?ps = "map (listing_json \<circ> listing_of) registry"
  let ?cat = "[(''packages'', PList (map PDict ?ps @ []))]"
  have A: "sa_register ?A = None" "sa_catalog ?A = Inr (200, Some (PDict ?cat))"
    "dget ?cat ''packages'' = Some (PList (map PDict ?ps @ []))"
    using True by (simp_all add: catalog_answers_cases comp_def)
  from sync_stores_prefix [OF A registry_syncable(1,2) _ assms, of str_of now sm]
  obtain c' where c': "do_sync str_of now True ?A sm c =
      (Inr [(''metadata_updated'', PInt 6), (''errors'', PList []), (''timestamp'', PFloat now)],
       sm\<lparr>sm_last_sync := now, sm_saved := Some [(''metadata_updated'', PInt 6),
          (''errors'', PList []), (''timestamp'', PFloat now)]\<rparr>, c')"
    "\<forall>p \<in> set ?ps. \<forall>t \<le> now + 86400. get_metadata (pkg_name p) t c' = (Inr (Some (dset ''_cached_at'' (PFloat now) p)), c')"
    by (auto simp: registry_syncable(3))
  have "get_metadata name t c' =
      (Inr (Some [(''name'', PStr name), (''version'', PStr (pi_version info)),
        (''strategy'', PStr (strategy_value (pi_strategy info))), (''_cached_at'', PFloat now)]), c')"
    if "(name, info) \<in> set registry" "t \<le> now + 86400" for name info t
    using bspec [OF c'(2), of "listing_json (listing_of (name, info))"] that
    by (simp add: image_iff) (force simp: listing_json_def listing_of_def pkg_name_def)
  with c'(1) True show ?thesis by (auto simp: sync_lines_def dget_or_def)
next
  case False
  then have "sync_catalog str_of now (catalog_answers now peer w arch) c = (None, 0, c)"
    by (simp add: sync_catalog_def catalog_answers_cases)
  with False show ?thesis by (simp add: do_sync_def Let_def sync_lines_def dget_or_def)
qed

theorem sync_with_this_server_witness:
  "\<exists>c'. get_metadata ''torch'' 60 c' =
     (Inr (Some [(''name'', PStr ''torch''), (''version'', PStr ''2.4.0''),
        (''strategy'', PStr ''hybrid''), (''_cached_at'', PFloat 5)]), c') \<and>
     snd (snd (do_sync (\<lambda>v. []) 5 True (catalog_answers 5 None [] ''aarch64'') new_sync synced_cache)) = c'"
proof -
  have 1: "fs_is_dir (disk synced_cache) (metadata_dir synced_cache)"
    by (simp add: synced_cache_def fs_is_dir_def)
  have 2: "fst (check_rate_limit None DEFAULT_LIMIT 5 []) = Inr ()" by (simp add: check_rate_limit_def)
  have 3: "\<exists>info. (''torch'', info) \<in> set registry \<and> pi_version info = ''2.4.0'' \<and> pi_strategy info = Hybrid"
    by (simp add: registry_def seed_package_def new_package_info_def)
  then obtain info where "(''torch'', info) \<in> set registry" "pi_version info = ''2.4.0''" "pi_strategy info = Hybrid"
    by blast
  with sync_with_this_server [OF 1, of "\<lambda>v. []" 5 None "[]" "''aarch64''" new_sync] 2 show ?thesis
    by fastforce
qed

end
